(* ===== verification/Py_Prelude.thy ===== *)
theory Py_Prelude
  imports Main "HOL-Library.Word" "HOL-Library.Sublist" "HOL-Library.AList"
begin

text \<open>
  The part of the Python language that every script of the repository uses: exceptions as values,
  dynamic values and objects, subscripts, truth, \<open>int(\<dots>)\<close>, \<open>str(\<dots>)\<close>, \<open>repr(\<dots>)\<close> and UTF-8.
  A Python \<open>str\<close> is represented by the characters of its UTF-8 encoding (each \<^typ>\<open>char\<close> is a
  byte), and a \<open>bytes\<close> object by a list of 8-bit words.  White space and digits are the ASCII ones.
\<close>

section \<open>Exceptions and results\<close>

text \<open>
  The exceptions the scripts raise or let through.  \<open>LibError\<close> is an exception class of a package or
  of the operating system that the scripts never name; its first component is the class, its second
  the text of \<open>str(e)\<close>.
\<close>

datatype exc =
    KeyError string
  | IndexError
  | TypeError
  | ValueError string
  | AttributeError string
  | NameError string
  | FileExistsError string
  | FileNotFoundError string
  | RuntimeError string
  | NotImplementedError
  | OverflowError
  | AssertionError
  | UnicodeDecodeError
  | PlainException string
  | LibError string string
  | SystemExit int
  | KeyboardInterrupt

text \<open>\<open>except Exception\<close> catches every class but the two that derive from \<open>BaseException\<close> only.\<close>

fun is_Exception :: "exc \<Rightarrow> bool" where
  "is_Exception (SystemExit n) = False"
| "is_Exception KeyboardInterrupt = False"
| "is_Exception e = True"

type_synonym 'a result = "exc + 'a"

fun bindR :: "'a result \<Rightarrow> ('a \<Rightarrow> 'b result) \<Rightarrow> 'b result" where
  "bindR (Inl e) f = Inl e"
| "bindR (Inr x) f = f x"

fun mapR :: "('a \<Rightarrow> 'b result) \<Rightarrow> 'a list \<Rightarrow> 'b list result" where
  "mapR f [] = Inr []"
| "mapR f (x # xs) = bindR (f x) (\<lambda>y. bindR (mapR f xs) (\<lambda>ys. Inr (y # ys)))"

definition of_option :: "exc \<Rightarrow> 'a option \<Rightarrow> 'a result" where
  "of_option e x = (case x of None \<Rightarrow> Inl e | Some y \<Rightarrow> Inr y)"

lemma bindR_cong [fundef_cong]:
  "m = m' \<Longrightarrow> (\<And>x. m' = Inr x \<Longrightarrow> f x = f' x) \<Longrightarrow> bindR m f = bindR m' f'"
  by (cases m') auto

lemma mapR_cong [fundef_cong]:
  "xs = ys \<Longrightarrow> (\<And>x. x \<in> set ys \<Longrightarrow> f x = g x) \<Longrightarrow> mapR f xs = mapR g ys"
proof (induction ys arbitrary: xs)
  case (Cons y ys)
  then show ?case by (auto intro!: bindR_cong)
qed simp

lemma bindR_eq_Inr: "bindR m f = Inr y \<longleftrightarrow> (\<exists>x. m = Inr x \<and> f x = Inr y)"
  by (cases m) auto

lemma bindR_eq_Inl: "bindR m f = Inl e \<longleftrightarrow> m = Inl e \<or> (\<exists>x. m = Inr x \<and> f x = Inl e)"
  by (cases m) auto

lemma bindR_assoc: "bindR (bindR m f) g = bindR m (\<lambda>x. bindR (f x) g)"
  by (cases m) auto

lemma bindR_Inr_right [simp]: "bindR m Inr = m"
  by (cases m) auto

lemma mapR_eq_Inr: "mapR f xs = Inr ys \<longleftrightarrow> list_all2 (\<lambda>x y. f x = Inr y) xs ys"
proof (induction xs arbitrary: ys)
  case (Cons x xs)
  then show ?case by (cases ys) (auto simp: bindR_eq_Inr)
qed auto

lemma mapR_total: "(\<And>x. x \<in> set xs \<Longrightarrow> f x = Inr (g x)) \<Longrightarrow> mapR f xs = Inr (map g xs)"
  by (induction xs) auto

lemma mapR_length: "mapR f xs = Inr ys \<Longrightarrow> length ys = length xs"
  by (auto simp: mapR_eq_Inr dest: list_all2_lengthD)

section \<open>Bytes and UTF-8\<close>

type_synonym byte = "8 word"
type_synonym bytes = "byte list"

definition char_byte :: "char \<Rightarrow> byte" where
  "char_byte c = word_of_nat (of_char c)"

definition byte_char :: "byte \<Rightarrow> char" where
  "byte_char b = char_of (unat b)"

text \<open>\<open>str.encode()\<close>: the UTF-8 bytes, which is what a string is represented by.\<close>

definition str_encode :: "string \<Rightarrow> bytes" where
  "str_encode s = map char_byte s"

text \<open>
  Well-formed UTF-8 (RFC 3629): the lead byte gives the number of continuation bytes and the range
  of the first of them (no overlong forms, no surrogates, nothing above U+10FFFF).
\<close>

definition cont_byte :: "byte \<Rightarrow> bool" where
  "cont_byte b \<longleftrightarrow> 0x80 \<le> unat b \<and> unat b < 0xC0"

fun utf8_valid :: "bytes \<Rightarrow> bool" where
  "utf8_valid [] = True"
| "utf8_valid (b # bs) =
    (if unat b < 0x80 then utf8_valid bs
     else if 0xC2 \<le> unat b \<and> unat b < 0xE0 then
       (case bs of c # r \<Rightarrow> cont_byte c \<and> utf8_valid r | _ \<Rightarrow> False)
     else if 0xE0 \<le> unat b \<and> unat b < 0xF0 then
       (case bs of c # d # r \<Rightarrow> cont_byte c \<and> cont_byte d
            \<and> (unat b = 0xE0 \<longrightarrow> 0xA0 \<le> unat c) \<and> (unat b = 0xED \<longrightarrow> unat c < 0xA0) \<and> utf8_valid r
        | _ \<Rightarrow> False)
     else if 0xF0 \<le> unat b \<and> unat b < 0xF5 then
       (case bs of c # d # e # r \<Rightarrow> cont_byte c \<and> cont_byte d \<and> cont_byte e
            \<and> (unat b = 0xF0 \<longrightarrow> 0x90 \<le> unat c) \<and> (unat b = 0xF4 \<longrightarrow> unat c < 0x90) \<and> utf8_valid r
        | _ \<Rightarrow> False)
     else False)"

text \<open>\<open>bytes.decode()\<close>: strict, so malformed input raises.\<close>

definition bytes_decode :: "bytes \<Rightarrow> string result" where
  "bytes_decode bs = (if utf8_valid bs then Inr (map byte_char bs) else Inl UnicodeDecodeError)"

lemma byte_char_byte [simp]: "byte_char (char_byte c) = c"
proof -
  have "(of_char c :: nat) < 256" by (rule nat_of_char_less_256)
  then have "unat (word_of_nat (of_char c) :: byte) = of_char c"
    by (simp add: unat_of_nat take_bit_nat_eq_self)
  then show ?thesis by (simp add: byte_char_def char_byte_def)
qed

lemma map_byte_char_encode [simp]: "map byte_char (str_encode s) = s"
  by (induction s) (auto simp: str_encode_def)

lemma length_str_encode [simp]: "length (str_encode s) = length s"
  by (simp add: str_encode_def)

lemma str_encode_inject: "str_encode s = str_encode t \<longleftrightarrow> s = t"
  by (metis map_byte_char_encode)

text \<open>A string as the code can hold it: its characters are the UTF-8 form of some text.\<close>

definition is_text :: "string \<Rightarrow> bool" where
  "is_text s \<longleftrightarrow> utf8_valid (str_encode s)"

lemma decode_encode: "is_text s \<Longrightarrow> bytes_decode (str_encode s) = Inr s"
  by (simp add: bytes_decode_def is_text_def)

lemma utf8_valid_ascii: "\<forall>b \<in> set bs. unat b < 0x80 \<Longrightarrow> utf8_valid bs"
  by (induction bs) auto

text \<open>The characters (code points) of a string: a lead byte with its continuation bytes.\<close>

function code_points :: "string \<Rightarrow> string list" where
  "code_points [] = []"
| "code_points (c # cs) =
     (c # takeWhile (\<lambda>d. cont_byte (char_byte d)) cs)
       # code_points (dropWhile (\<lambda>d. cont_byte (char_byte d)) cs)"
  by pat_completeness auto
termination
  by (relation "measure length") (auto simp: le_imp_less_Suc length_dropWhile_le)

section \<open>Decimal numerals: str(int) and int(str)\<close>

definition is_digit :: "char \<Rightarrow> bool" where
  "is_digit c \<longleftrightarrow> 48 \<le> (of_char c :: nat) \<and> (of_char c :: nat) \<le> 57"

definition digit_val :: "char \<Rightarrow> nat" where
  "digit_val c = of_char c - 48"

definition digit_char :: "nat \<Rightarrow> char" where
  "digit_char d = char_of (48 + d)"

fun nat_digits :: "nat \<Rightarrow> string" where
  "nat_digits n = (if n < 10 then [digit_char n] else nat_digits (n div 10) @ [digit_char (n mod 10)])"

declare nat_digits.simps [simp del]

definition str_of_int :: "int \<Rightarrow> string" where
  "str_of_int i = (if i < 0 then CHR ''-'' # nat_digits (nat (- i)) else nat_digits (nat i))"

definition is_space :: "char \<Rightarrow> bool" where
  "is_space c \<longleftrightarrow> (of_char c :: nat) \<in> {9, 10, 11, 12, 13, 28, 29, 30, 31, 32}"

definition str_strip :: "string \<Rightarrow> string" where
  "str_strip s = rev (dropWhile is_space (rev (dropWhile is_space s)))"

text \<open>The digits of a literal, with single underscores allowed between two digits.\<close>

fun digits_val :: "nat \<Rightarrow> string \<Rightarrow> nat option" where
  "digits_val acc [] = Some acc"
| "digits_val acc (c # cs) =
    (if is_digit c then digits_val (10 * acc + digit_val c) cs
     else if c = CHR ''_'' then
       (case cs of d # _ \<Rightarrow> if is_digit d then digits_val acc cs else None | [] \<Rightarrow> None)
     else None)"

definition body_val :: "string \<Rightarrow> nat option" where
  "body_val s = (case s of [] \<Rightarrow> None | c # _ \<Rightarrow> if is_digit c then digits_val 0 s else None)"

definition int_of_str :: "string \<Rightarrow> int result" where
  "int_of_str s =
    (let t = str_strip s; neg = (case t of c # _ \<Rightarrow> c = CHR ''-'' | [] \<Rightarrow> False);
         body = (case t of c # r \<Rightarrow> if c = CHR ''-'' \<or> c = CHR ''+'' then r else t | [] \<Rightarrow> [])
     in case body_val body of
          None \<Rightarrow> Inl (ValueError ''invalid literal for int() with base 10'')
        | Some n \<Rightarrow> Inr (if neg then - int n else int n))"

lemma is_digit_not_special: "is_digit c \<Longrightarrow> \<not> is_space c \<and> c \<noteq> CHR ''-'' \<and> c \<noteq> CHR ''+''"
  by (auto simp: is_digit_def is_space_def)

lemma digit_char_props:
  "d < 10 \<Longrightarrow> is_digit (digit_char d) \<and> digit_val (digit_char d) = d"
proof -
  assume "d < 10"
  then have "d \<in> {0, 1, 2, 3, 4, 5, 6, 7, 8, 9}" by auto
  then show ?thesis
    by (elim insertE emptyE; simp add: digit_char_def is_digit_def digit_val_def)
qed

lemma digits_val_append:
  "\<forall>c \<in> set s. is_digit c \<Longrightarrow> digits_val acc (s @ t) = digits_val (the (digits_val acc s)) t"
  by (induction s arbitrary: acc) auto

lemma nat_digits_digits: "c \<in> set (nat_digits n) \<Longrightarrow> is_digit c"
proof (induction n rule: nat_digits.induct)
  case (1 n)
  then show ?case
    by (subst (asm) (2) nat_digits.simps) (auto split: if_splits simp: digit_char_props)
qed

lemma digits_val_nat_digits: "digits_val 0 (nat_digits n) = Some n"
proof (induction n rule: nat_digits.induct)
  case (1 n)
  show ?case
  proof (cases "n < 10")
    case True
    then show ?thesis by (subst nat_digits.simps) (simp add: digit_char_props)
  next
    case False
    then have "digits_val 0 (nat_digits n)
        = digits_val (the (digits_val 0 (nat_digits (n div 10)))) [digit_char (n mod 10)]"
      by (subst nat_digits.simps) (simp add: digits_val_append nat_digits_digits)
    also have "\<dots> = Some n" using 1 False by (simp add: digit_char_props)
    finally show ?thesis .
  qed
qed

lemma nat_digits_nonempty: "nat_digits n \<noteq> []"
  by (subst nat_digits.simps) simp

lemma nat_digits_Cons: "\<exists>c cs. nat_digits n = c # cs \<and> is_digit c"
  by (metis list.set_intros(1) nat_digits_digits nat_digits_nonempty neq_Nil_conv)

lemma dropWhile_hd: "s = [] \<or> \<not> P (hd s) \<Longrightarrow> dropWhile P s = s"
  by (cases s) auto

lemma str_strip_id:
  assumes "s \<noteq> []" and "\<not> is_space (hd s)" and "\<not> is_space (last s)"
  shows "str_strip s = s"
  using assms by (simp add: str_strip_def dropWhile_hd hd_rev)

lemma body_val_nat_digits: "body_val (nat_digits n) = Some n"
  using nat_digits_Cons [of n] digits_val_nat_digits [of n] by (auto simp: body_val_def)

lemma last_nat_digits: "is_digit (last (nat_digits n))"
  by (rule nat_digits_digits [of _ n]) (simp add: nat_digits_nonempty)

lemma int_of_str_of_int: "int_of_str (str_of_int i) = Inr i"
proof (cases "i < 0")
  case True
  have "str_strip (CHR ''-'' # nat_digits (nat (- i))) = CHR ''-'' # nat_digits (nat (- i))"
    using last_nat_digits [of "nat (- i)"] nat_digits_nonempty [of "nat (- i)"]
    by (intro str_strip_id) (auto dest: is_digit_not_special simp: is_space_def)
  then show ?thesis
    using True by (simp add: int_of_str_def str_of_int_def body_val_nat_digits)
next
  case False
  obtain c cs where c: "nat_digits (nat i) = c # cs" "is_digit c"
    using nat_digits_Cons by blast
  have "str_strip (nat_digits (nat i)) = nat_digits (nat i)"
    using last_nat_digits [of "nat i"] c
    by (intro str_strip_id) (auto dest: is_digit_not_special)
  then show ?thesis
    using False c body_val_nat_digits [of "nat i"]
    by (auto simp: int_of_str_def str_of_int_def Let_def dest: is_digit_not_special)
qed

lemma str_of_int_inject: "str_of_int i = str_of_int j \<longleftrightarrow> i = j"
  by (metis int_of_str_of_int sum.inject(2))

section \<open>Dictionaries\<close>

lemma update_new_key: "k \<notin> fst ` set d \<Longrightarrow> AList.update k u d = d @ [(k, u)]"
  by (induction d) auto

lemma map_of_update_new: "map_of (AList.update k u d) k = Some u"
  by (simp add: update_conv')

section \<open>Ranges\<close>

lemma map_int_split: "k < m \<Longrightarrow> map int [0..<m] = map int [0..<k] @ int k # map int [Suc k..<m]"
proof -
  assume "k < m"
  then have "[0..<m] = [0..<k] @ [k..<m]" using upt_add_eq_append [of 0 k "m - k"] by simp
  then show ?thesis using \<open>k < m\<close> by (simp add: upt_conv_Cons)
qed

end
