(* ===== verification/Py_Values.thy ===== *)
theory Py_Values
  imports Py_Prelude
begin

text \<open>
  Python values as the scripts meet them: decoded JSON, the three payload classes of
  \<open>transaction_payload.py\<close> (one constructor each, its arguments the instance attributes in the order
  \<open>__init__\<close> sets them), and instances of library classes, of which only the class and the attribute
  dictionary are known.
\<close>

section \<open>Values and objects\<close>

text \<open>
  A float reaches the scripts only inside a JSON response, where it can be tested for truth, passed to
  \<open>int\<close> or printed: it is represented by what these three operations observe.
\<close>

record pyfloat =
  fl_truth :: bool
  fl_int :: "int result"
  fl_repr :: string

text \<open>The library classes that the scripts test with \<open>isinstance\<close> or construct.\<close>

datatype pyclass =
    C_EntryFunction
  | C_Script
  | C_AccountAddress
  | C_RawTransaction
  | C_MultiAgentRawTransaction
  | C_PublicKey
  | C_Signature
  | C_Authenticator
  | C_Other string

datatype pyval =
    VNone
  | VBool bool
  | VInt int
  | VFloat pyfloat
  | VStr string
  | VBytes bytes
  | VList "pyval list"
  | VDict "(string \<times> pyval) list"
  | VTransactionPayload int pyval
  | VMultiSigTransactionPayload pyval
  | VMultisig pyval pyval
  | VObj pyclass "(string \<times> pyval) list"

type_synonym attrs = "(string \<times> pyval) list"

text \<open>\<open>obj.__dict__\<close>: the attributes in the order they were set; values of the built-in types have none.\<close>

fun vars_of :: "pyval \<Rightarrow> attrs option" where
  "vars_of (VTransactionPayload variant val) =
     Some [(''variant'', VInt variant), (''value'', val)]"
| "vars_of (VMultiSigTransactionPayload tp) = Some [(''transaction_payload'', tp)]"
| "vars_of (VMultisig addr tp) = Some [(''multisig_address'', addr), (''transaction_payload'', tp)]"
| "vars_of (VObj c fs) = Some fs"
| "vars_of v = None"

definition dunder_dict :: "pyval \<Rightarrow> attrs result" where
  "dunder_dict v = of_option (AttributeError ''__dict__'') (vars_of v)"

definition get_attr :: "pyval \<Rightarrow> string \<Rightarrow> pyval result" where
  "get_attr v a = of_option (AttributeError a)
     (case vars_of v of None \<Rightarrow> None | Some fs \<Rightarrow> map_of fs a)"

fun set_attr :: "pyval \<Rightarrow> string \<Rightarrow> pyval \<Rightarrow> pyval result" where
  "set_attr (VObj c fs) a v = Inr (VObj c (AList.update a v fs))"
| "set_attr u a v = Inl (AttributeError a)"

definition isinstance :: "pyval \<Rightarrow> pyclass \<Rightarrow> bool" where
  "isinstance v c = (case v of VObj c' fs \<Rightarrow> c' = c | _ \<Rightarrow> False)"

section \<open>Truth, equality with a string, subscripts\<close>

text \<open>\<open>bool(v)\<close>; instances of classes without \<open>__bool__\<close> and \<open>__len__\<close> are true.\<close>

fun truth :: "pyval \<Rightarrow> bool" where
  "truth VNone = False"
| "truth (VBool b) = b"
| "truth (VInt i) = (i \<noteq> 0)"
| "truth (VFloat f) = fl_truth f"
| "truth (VStr s) = (s \<noteq> [])"
| "truth (VBytes b) = (b \<noteq> [])"
| "truth (VList xs) = (xs \<noteq> [])"
| "truth (VDict kvs) = (kvs \<noteq> [])"
| "truth v = True"

definition eq_str :: "pyval \<Rightarrow> string \<Rightarrow> bool" where
  "eq_str v s \<longleftrightarrow> (case v of VStr t \<Rightarrow> t = s | _ \<Rightarrow> False)"

text \<open>\<open>v[k]\<close> for a string key: only dictionaries take one.\<close>

fun get_key :: "pyval \<Rightarrow> string \<Rightarrow> pyval result" where
  "get_key (VDict kvs) k = of_option (KeyError k) (map_of kvs k)"
| "get_key v k = Inl TypeError"

definition py_nth :: "'a list \<Rightarrow> int \<Rightarrow> 'a result" where
  "py_nth xs i =
    (if i < - int (length xs) \<or> int (length xs) \<le> i then Inl IndexError
     else Inr (xs ! nat (if 0 \<le> i then i else int (length xs) + i)))"

text \<open>\<open>v[i]\<close> for an integer: sequences; a decoded JSON dictionary has string keys only.\<close>

fun get_idx :: "pyval \<Rightarrow> int \<Rightarrow> pyval result" where
  "get_idx (VList xs) i = py_nth xs i"
| "get_idx (VStr s) i = bindR (py_nth (code_points s) i) (\<lambda>c. Inr (VStr c))"
| "get_idx (VBytes b) i = bindR (py_nth b i) (\<lambda>c. Inr (VInt (uint c)))"
| "get_idx (VDict kvs) i = Inl (KeyError (str_of_int i))"
| "get_idx v i = Inl TypeError"

text \<open>A path of string keys, \<open>v[k1][k2]\<dots>\<close>.\<close>

fun get_path :: "pyval \<Rightarrow> string list \<Rightarrow> pyval result" where
  "get_path v [] = Inr v"
| "get_path v (k # ks) = bindR (get_key v k) (\<lambda>u. get_path u ks)"

text \<open>Iteration: \<open>list(v)\<close> and \<open>for x in v\<close>; numbers, \<open>None\<close> and objects are not iterable.\<close>

fun iterate :: "pyval \<Rightarrow> pyval list result" where
  "iterate (VList xs) = Inr xs"
| "iterate (VStr s) = Inr (map VStr (code_points s))"
| "iterate (VBytes b) = Inr (map (\<lambda>c. VInt (uint c)) b)"
| "iterate (VDict kvs) = Inr (map (\<lambda>kv. VStr (fst kv)) kvs)"
| "iterate v = Inl TypeError"

text \<open>\<open>a, b = v\<close>.\<close>

definition unpack2 :: "pyval \<Rightarrow> (pyval \<times> pyval) result" where
  "unpack2 v = bindR (iterate v)
     (\<lambda>xs. case xs of [a, b] \<Rightarrow> Inr (a, b) | _ \<Rightarrow> Inl (ValueError ''unpack''))"

section \<open>int(v)\<close>

fun py_int :: "pyval \<Rightarrow> int result" where
  "py_int (VInt i) = Inr i"
| "py_int (VBool b) = Inr (if b then 1 else 0)"
| "py_int (VFloat f) = fl_int f"
| "py_int (VStr s) = int_of_str s"
| "py_int (VBytes b) = int_of_str (map byte_char b)"
| "py_int v = Inl TypeError"

lemma py_int_decimal [simp]: "py_int (VStr (str_of_int i)) = Inr i"
  by (simp add: int_of_str_of_int)

section \<open>str(v) and repr(v)\<close>

definition hex_digit :: "nat \<Rightarrow> char" where
  "hex_digit d = (if d < 10 then char_of (48 + d) else char_of (87 + d))"

definition hex_byte :: "nat \<Rightarrow> string" where
  "hex_byte n = [hex_digit (n div 16), hex_digit (n mod 16)]"

text \<open>\<open>bytes.hex()\<close>.\<close>

definition bytes_hex :: "bytes \<Rightarrow> string" where
  "bytes_hex bs = concat (map (\<lambda>b. hex_byte (unat b)) bs)"

text \<open>\<open>bytes.fromhex\<close> on a string of hexadecimal digits without spaces.\<close>

definition hex_val :: "char \<Rightarrow> nat" where
  "hex_val c = (let n = of_char c in if n < 58 then n - 48 else if n < 71 then n - 55 else n - 87)"

fun bytes_fromhex :: "string \<Rightarrow> bytes" where
  "bytes_fromhex (a # b # cs) = word_of_nat (16 * hex_val a + hex_val b) # bytes_fromhex cs"
| "bytes_fromhex cs = []"

text \<open>
  One character of a \<open>repr\<close> in quotes \<open>q\<close>; code points above ASCII are taken as printable and stand for
  themselves in a string, and bytes above ASCII are escaped in a bytes literal.
\<close>

definition repr_char :: "bool \<Rightarrow> char \<Rightarrow> char \<Rightarrow> string" where
  "repr_char raw q c =
    (let n = (of_char c :: nat) in
     if c = q \<or> n = 92 then [CHR 0x5C, c]
     else if n = 9 then [CHR 0x5C, CHR ''t'']
     else if n = 10 then [CHR 0x5C, CHR ''n'']
     else if n = 13 then [CHR 0x5C, CHR ''r'']
     else if n < 32 \<or> n = 127 \<or> raw \<and> 127 < n then [CHR 0x5C, CHR ''x''] @ hex_byte n
     else [c])"

definition quote_of :: "string \<Rightarrow> char" where
  "quote_of s = (if CHR 0x27 \<in> set s \<and> CHR 0x22 \<notin> set s then CHR 0x22 else CHR 0x27)"

definition repr_str :: "bool \<Rightarrow> string \<Rightarrow> string" where
  "repr_str raw s = quote_of s # concat (map (repr_char raw (quote_of s)) s) @ [quote_of s]"

text \<open>\<open>ob\<close> is the \<open>repr\<close> of the objects, which their own classes define.\<close>

fun py_repr :: "(pyval \<Rightarrow> string) \<Rightarrow> pyval \<Rightarrow> string"
  and repr_elems :: "(pyval \<Rightarrow> string) \<Rightarrow> pyval list \<Rightarrow> string"
  and repr_items :: "(pyval \<Rightarrow> string) \<Rightarrow> attrs \<Rightarrow> string" where
  "py_repr ob VNone = ''None''"
| "py_repr ob (VBool b) = (if b then ''True'' else ''False'')"
| "py_repr ob (VInt i) = str_of_int i"
| "py_repr ob (VFloat f) = fl_repr f"
| "py_repr ob (VStr s) = repr_str False s"
| "py_repr ob (VBytes b) = CHR ''b'' # repr_str True (map byte_char b)"
| "py_repr ob (VList xs) = ''['' @ repr_elems ob xs @ '']''"
| "py_repr ob (VDict kvs) = ''{'' @ repr_items ob kvs @ ''}''"
| "py_repr ob v = ob v"
| "repr_elems ob [] = []"
| "repr_elems ob [x] = py_repr ob x"
| "repr_elems ob (x # y # xs) = py_repr ob x @ '', '' @ repr_elems ob (y # xs)"
| "repr_items ob [] = []"
| "repr_items ob [(k, v)] = repr_str False k @ '': '' @ py_repr ob v"
| "repr_items ob ((k, v) # kv # kvs) =
     repr_str False k @ '': '' @ py_repr ob v @ '', '' @ repr_items ob (kv # kvs)"

definition py_str :: "(pyval \<Rightarrow> string) \<Rightarrow> pyval \<Rightarrow> string" where
  "py_str ob v = (case v of VStr s \<Rightarrow> s | _ \<Rightarrow> py_repr ob v)"

section \<open>What json.dumps accepts\<close>

text \<open>
  The values \<open>requests.post(json=\<dots>)\<close> can encode: the JSON types; objects and \<open>bytes\<close> raise a
  \<open>TypeError\<close>.
\<close>

fun json_able :: "pyval \<Rightarrow> bool" where
  "json_able VNone = True"
| "json_able (VBool b) = True"
| "json_able (VInt i) = True"
| "json_able (VFloat f) = True"
| "json_able (VStr s) = True"
| "json_able (VList xs) = (\<forall>x \<in> set xs. json_able x)"
| "json_able (VDict kvs) = (\<forall>(k, v) \<in> set kvs. json_able v)"
| "json_able v = False"

section \<open>Facts about the operations\<close>

lemma get_key_simps [simp]:
  "map_of kvs k = Some v \<Longrightarrow> get_key (VDict kvs) k = Inr v"
  "map_of kvs k = None \<Longrightarrow> get_key (VDict kvs) k = Inl (KeyError k)"
  by (simp_all add: of_option_def)

lemma get_key_eq_Inr: "get_key d k = Inr v \<longleftrightarrow> (\<exists>kvs. d = VDict kvs \<and> map_of kvs k = Some v)"
  by (cases d) (auto simp: of_option_def split: option.splits)

lemma get_key_Inl: "get_key d k = Inl e \<Longrightarrow> e = TypeError \<or> e = KeyError k"
  by (cases d) (auto simp: of_option_def split: option.splits)

lemma get_path_Inl: "get_path d ks = Inl e \<Longrightarrow> e = TypeError \<or> (\<exists>k \<in> set ks. e = KeyError k)"
  by (induction ks arbitrary: d) (auto simp: bindR_eq_Inl dest: get_key_Inl)

lemma get_path_append: "get_path v (ks @ ls) = bindR (get_path v ks) (\<lambda>u. get_path u ls)"
  by (induction ks arbitrary: v) (auto simp: bindR_assoc)

lemma py_nth_Inr: "0 \<le> i \<Longrightarrow> i < int (length xs) \<Longrightarrow> py_nth xs i = Inr (xs ! nat i)"
  by (simp add: py_nth_def)

lemma py_nth_Cons_0 [simp]: "py_nth (x # xs) 0 = Inr x"
  by (simp add: py_nth_def)

lemma py_nth_Nil [simp]: "py_nth [] i = Inl IndexError"
  by (auto simp: py_nth_def)

lemma get_attr_simps [simp]:
  "get_attr (VTransactionPayload n v) ''value'' = Inr v"
  "get_attr (VTransactionPayload n v) ''variant'' = Inr (VInt n)"
  "get_attr (VMultiSigTransactionPayload p) ''transaction_payload'' = Inr p"
  "get_attr (VMultisig a p) ''transaction_payload'' = Inr p"
  "get_attr (VMultisig a p) ''multisig_address'' = Inr a"
  by (simp_all add: get_attr_def of_option_def)

lemma length_bytes_fromhex: "length (bytes_fromhex s) = length s div 2"
  by (induction s rule: bytes_fromhex.induct) auto

lemma length_bytes_hex: "length (bytes_hex bs) = 2 * length bs"
  by (induction bs) (auto simp: bytes_hex_def hex_byte_def)

lemma iterate_Inl: "iterate v = Inl e \<Longrightarrow> e = TypeError"
  by (cases v) auto

end
