(* ===== verification/World.thy ===== *)
theory World
  imports Py_Values
begin

text \<open>
  The world the scripts act on, and programs over it.  A program takes the world and returns a result
  (a value or the exception that left it) with the world after it.  Everything outside the process
  (the RPC server and the chain behind it, the clock, the terminal, the random source) is one state
  \<open>'s\<close> of which the model knows nothing: a \<open>platform\<close> says how each operation changes it and answers.
  Files are modelled, since their contents carry a format of the scripts, and a trace records what the
  process did, in order.
\<close>

section \<open>Worlds and platforms\<close>

datatype event =
    Got string
  | Posted string pyval
  | Slept int
  | Printed string
  | PrintedExc string exc
  | Asked string
  | AskedPassword string
  | Drew nat
  | Drew_key
  | WroteFile string bytes
  | Used_device string

text \<open>
  A response of the \<open>requests\<close> package: \<open>resp.json()\<close> (\<^term>\<open>None\<close> when decoding raises), \<open>resp.text\<close>
  and \<open>str(resp)\<close>.
\<close>

record reply =
  reply_json :: "pyval option"
  reply_text :: string
  reply_shown :: string

text \<open>
  \<open>requests.get\<close> and \<open>requests.post\<close> with the server they reach, \<open>int(time.time())\<close>, \<open>time.sleep\<close>,
  \<open>input\<close>, \<open>getpass.getpass\<close>, \<open>os.urandom\<close>, \<open>PrivateKey.random()\<close> of \<open>aptos_sdk\<close>, the error (if any) of opening a file for reading
  (\<^term>\<open>False\<close>) or writing (\<^term>\<open>True\<close>), and the \<open>repr\<close> of library objects.
\<close>

record 's platform =
  http_get :: "string \<Rightarrow> 's \<Rightarrow> reply result \<times> 's"
  http_post :: "string \<Rightarrow> pyval \<Rightarrow> 's \<Rightarrow> reply result \<times> 's"
  unix_time :: "'s \<Rightarrow> int"
  pass_time :: "int \<Rightarrow> 's \<Rightarrow> unit result \<times> 's"
  read_line :: "string \<Rightarrow> 's \<Rightarrow> string result \<times> 's"
  read_password :: "string \<Rightarrow> 's \<Rightarrow> string result \<times> 's"
  os_random :: "nat \<Rightarrow> 's \<Rightarrow> bytes result \<times> 's"
  random_private_key :: "'s \<Rightarrow> pyval result \<times> 's"
  open_fault :: "string \<Rightarrow> bool \<Rightarrow> 's \<Rightarrow> exc option"
  obj_repr :: "pyval \<Rightarrow> string"

record 's world =
  env :: 's
  files :: "string \<rightharpoonup> bytes"
  trace :: "event list"

type_synonym ('s, 'a) prog = "'s world \<Rightarrow> 'a result \<times> 's world"

section \<open>Control flow\<close>

definition ret :: "'a \<Rightarrow> ('s, 'a) prog" where
  "ret x w = (Inr x, w)"

definition raise :: "exc \<Rightarrow> ('s, 'a) prog" where
  "raise e w = (Inl e, w)"

definition liftR :: "'a result \<Rightarrow> ('s, 'a) prog" where
  "liftR r w = (r, w)"

definition bindP :: "('s, 'a) prog \<Rightarrow> ('a \<Rightarrow> ('s, 'b) prog) \<Rightarrow> ('s, 'b) prog" where
  "bindP m f w = (case m w of (Inl e, u) \<Rightarrow> (Inl e, u) | (Inr x, u) \<Rightarrow> f x u)"

abbreviation thenP :: "('s, 'a) prog \<Rightarrow> ('s, 'b) prog \<Rightarrow> ('s, 'b) prog" where
  "thenP m n \<equiv> bindP m (\<lambda>_. n)"

text \<open>\<open>try: m except: h\<close> (every exception) and \<open>try: m except Exception as e: h e\<close>.\<close>

definition try_except :: "('s, 'a) prog \<Rightarrow> (exc \<Rightarrow> ('s, 'a) prog) \<Rightarrow> ('s, 'a) prog" where
  "try_except m h w = (case m w of (Inl e, u) \<Rightarrow> h e u | (Inr x, u) \<Rightarrow> (Inr x, u))"

definition try_Exception :: "('s, 'a) prog \<Rightarrow> (exc \<Rightarrow> ('s, 'a) prog) \<Rightarrow> ('s, 'a) prog" where
  "try_Exception m h = try_except m (\<lambda>e. if is_Exception e then h e else raise e)"

text \<open>\<open>try: m finally: c\<close>: the exception of \<open>m\<close> goes on after \<open>c\<close>, unless \<open>c\<close> raises its own.\<close>

definition try_finally :: "('s, 'a) prog \<Rightarrow> ('s, unit) prog \<Rightarrow> ('s, 'a) prog" where
  "try_finally m c w =
    (case m w of (r, u) \<Rightarrow> (case c u of (Inl e, v) \<Rightarrow> (Inl e, v) | (Inr _, v) \<Rightarrow> (r, v)))"

text \<open>\<open>for x in xs: body\<close>, where the body says whether it leaves the loop with \<open>break\<close>.\<close>

fun for_each :: "'a list \<Rightarrow> ('a \<Rightarrow> ('s, bool) prog) \<Rightarrow> ('s, unit) prog" where
  "for_each [] body = ret ()"
| "for_each (x # xs) body = bindP (body x) (\<lambda>stop. if stop then ret () else for_each xs body)"

definition repeat_for :: "int \<Rightarrow> (int \<Rightarrow> ('s, bool) prog) \<Rightarrow> ('s, unit) prog" where
  "repeat_for n body = for_each (map int [0..<nat n]) body"

text \<open>Reading a name from the globals of a module.\<close>

definition load_global :: "(string \<rightharpoonup> 'a) \<Rightarrow> string \<Rightarrow> 'a result" where
  "load_global G name = of_option (NameError name) (G name)"

section \<open>Primitive operations\<close>

definition env_op :: "event \<Rightarrow> ('s \<Rightarrow> 'a result \<times> 's) \<Rightarrow> ('s, 'a) prog" where
  "env_op ev f w = (case f (env w) of (r, s) \<Rightarrow> (r, w\<lparr>env := s, trace := trace w @ [ev]\<rparr>))"

definition py_print :: "string \<Rightarrow> ('s, unit) prog" where
  "py_print s w = (Inr (), w\<lparr>trace := trace w @ [Printed s]\<rparr>)"

definition print_exc :: "string \<Rightarrow> exc \<Rightarrow> ('s, unit) prog" where
  "print_exc s e w = (Inr (), w\<lparr>trace := trace w @ [PrintedExc s e]\<rparr>)"

definition requests_get :: "'s platform \<Rightarrow> string \<Rightarrow> ('s, reply) prog" where
  "requests_get P url = env_op (Got url) (http_get P url)"

text \<open>The body is encoded before anything is sent, so an object in it raises without a request.\<close>

definition requests_post :: "'s platform \<Rightarrow> string \<Rightarrow> pyval \<Rightarrow> ('s, reply) prog" where
  "requests_post P url d =
    (if json_able d then env_op (Posted url d) (http_post P url d) else raise TypeError)"

definition time_now :: "'s platform \<Rightarrow> ('s, int) prog" where
  "time_now P w = (Inr (unix_time P (env w)), w)"

definition time_sleep :: "'s platform \<Rightarrow> int \<Rightarrow> ('s, unit) prog" where
  "time_sleep P n =
    (if n < 0 then raise (ValueError ''sleep length must be non-negative'')
     else env_op (Slept n) (pass_time P n))"

definition py_input :: "'s platform \<Rightarrow> string \<Rightarrow> ('s, string) prog" where
  "py_input P s = env_op (Asked s) (read_line P s)"

definition getpass :: "'s platform \<Rightarrow> string \<Rightarrow> ('s, string) prog" where
  "getpass P s = env_op (AskedPassword s) (read_password P s)"

definition urandom :: "'s platform \<Rightarrow> nat \<Rightarrow> ('s, bytes) prog" where
  "urandom P n = env_op (Drew n) (os_random P n)"

definition path_exists :: "string \<Rightarrow> ('s, bool) prog" where
  "path_exists path w = (Inr (files w path \<noteq> None), w)"

text \<open>\<open>with open(path, "rb") as f: f.read()\<close>.\<close>

definition read_file :: "'s platform \<Rightarrow> string \<Rightarrow> ('s, bytes) prog" where
  "read_file P path w =
    (case open_fault P path False (env w) of
       Some e \<Rightarrow> (Inl e, w)
     | None \<Rightarrow> (of_option (FileNotFoundError path) (files w path), w))"

text \<open>\<open>with open(path, "wb") as f: f.write(data)\<close>: creates the file or replaces its contents.\<close>

definition write_file :: "'s platform \<Rightarrow> string \<Rightarrow> bytes \<Rightarrow> ('s, unit) prog" where
  "write_file P path data w =
    (case open_fault P path True (env w) of
       Some e \<Rightarrow> (Inl e, w)
     | None \<Rightarrow> (Inr (), w\<lparr>files := (files w)(path \<mapsto> data), trace := trace w @ [WroteFile path data]\<rparr>))"

section \<open>Running programs\<close>

named_theorems prog_defs \<open>definitions of the control flow and the primitive operations\<close>

lemmas [prog_defs] =
  ret_def raise_def liftR_def bindP_def try_except_def try_Exception_def try_finally_def env_op_def
  py_print_def print_exc_def requests_get_def requests_post_def time_now_def time_sleep_def
  py_input_def getpass_def urandom_def path_exists_def read_file_def write_file_def

lemma bindP_Inr:
  "bindP m f w = (Inr y, w') \<longleftrightarrow> (\<exists>x u. m w = (Inr x, u) \<and> f x u = (Inr y, w'))"
  by (auto simp: bindP_def split: prod.splits sum.splits)

lemma bindP_Inl:
  "bindP m f w = (Inl e, w') \<longleftrightarrow>
     m w = (Inl e, w') \<or> (\<exists>x u. m w = (Inr x, u) \<and> f x u = (Inl e, w'))"
  by (auto simp: bindP_def split: prod.splits sum.splits)

lemma env_op_run:
  "env_op ev f w = (r, w') \<longleftrightarrow> (\<exists>s. f (env w) = (r, s) \<and> w' = w\<lparr>env := s, trace := trace w @ [ev]\<rparr>)"
  by (auto simp: env_op_def split: prod.split)

lemma bindP_run:
  "m w = (Inr x, u) \<Longrightarrow> bindP m f w = f x u"
  "m w = (Inl e, u) \<Longrightarrow> bindP m f w = (Inl e, u)"
  by (simp_all add: bindP_def)

lemma ret_bind [simp]: "bindP (ret x) f = f x"
  by (rule ext) (simp add: bindP_def ret_def)

lemma raise_bind [simp]: "bindP (raise e) f = raise e"
  by (rule ext) (simp add: bindP_def raise_def)

lemma lift_Inr [simp]: "liftR (Inr x) = ret x"
  by (rule ext) (simp add: liftR_def ret_def)

lemma lift_Inl [simp]: "liftR (Inl e) = raise e"
  by (rule ext) (simp add: liftR_def raise_def)

lemma bind_ret [simp]: "bindP m ret = m"
  by (rule ext) (auto simp: bindP_def ret_def split: prod.splits sum.splits)

lemma bindP_assoc: "bindP (bindP m f) g = bindP m (\<lambda>x. bindP (f x) g)"
  by (rule ext) (auto simp: bindP_def split: prod.splits sum.splits)

text \<open>
  How a loop ends: all passes went through, or some pass left it with \<open>break\<close> or an exception after
  the passes before it went through.
\<close>

fun passes :: "('a \<Rightarrow> ('s, bool) prog) \<Rightarrow> 'a list \<Rightarrow> 's world \<Rightarrow> 's world option" where
  "passes body [] w = Some w"
| "passes body (x # xs) w =
    (case body x w of (Inr False, u) \<Rightarrow> passes body xs u | _ \<Rightarrow> None)"

lemma passes_append:
  "passes body (xs @ ys) w = (case passes body xs w of None \<Rightarrow> None | Some u \<Rightarrow> passes body ys u)"
proof (induction xs arbitrary: w)
  case (Cons x xs)
  then show ?case by (auto split: prod.split sum.split bool.split)
qed simp

lemma for_each_passes: "passes body xs w = Some u \<Longrightarrow> for_each (xs @ ys) body w = for_each ys body u"
proof (induction xs arbitrary: w)
  case (Cons x xs)
  then show ?case by (auto simp: bindP_def split: prod.splits sum.splits bool.splits)
qed simp

lemma for_each_break:
  "passes body xs w = Some u \<Longrightarrow> body x u = (Inr True, w') \<Longrightarrow> for_each (xs @ x # ys) body w = (Inr (), w')"
  by (simp add: for_each_passes bindP_run ret_def)

lemma for_each_error:
  "passes body xs w = Some u \<Longrightarrow> body x u = (Inl e, w') \<Longrightarrow> for_each (xs @ x # ys) body w = (Inl e, w')"
  by (simp add: for_each_passes bindP_run)

lemma for_each_through: "passes body xs w = Some u \<Longrightarrow> for_each xs body w = (Inr (), u)"
  using for_each_passes [of body xs w u "[]"] by (simp add: ret_def)

lemma for_each_outcome:
  "for_each xs body w = (r, w') \<Longrightarrow>
     r = Inr () \<and> passes body xs w = Some w'
   \<or> (\<exists>ys x zs u. xs = ys @ x # zs \<and> passes body ys w = Some u
        \<and> (r = Inr () \<and> body x u = (Inr True, w') \<or> (\<exists>e. r = Inl e \<and> body x u = (Inl e, w'))))"
proof (induction xs arbitrary: w)
  case Nil
  then show ?case by (simp add: ret_def)
next
  case (Cons x xs)
  obtain q u where b: "body x w = (q, u)" by fastforce
  consider (err) e where "q = Inl e" | (brk) "q = Inr True" | (go) "q = Inr False"
    by (cases q) auto
  then show ?case
  proof cases
    case err
    then have "r = Inl e \<and> body x w = (Inl e, w')" using Cons.prems b by (auto simp: bindP_def)
    then show ?thesis by (intro disjI2 exI [of _ "[]"]) auto
  next
    case brk
    then have "r = Inr () \<and> body x w = (Inr True, w')" using Cons.prems b by (auto simp: bindP_def ret_def)
    then show ?thesis by (intro disjI2 exI [of _ "[]"]) auto
  next
    case go
    then have "for_each xs body u = (r, w')" using Cons.prems b by (simp add: bindP_def)
    from Cons.IH [OF this] show ?thesis
    proof (elim disjE exE conjE)
      fix ys y zs v
      assume "xs = ys @ y # zs" "passes body ys u = Some v"
        "r = Inr ()" "body y v = (Inr True, w')"
      then show ?thesis using b go by (intro disjI2 exI [of _ "x # ys"]) auto
    next
      fix ys y zs v e
      assume "xs = ys @ y # zs" "passes body ys u = Some v" "r = Inl e" "body y v = (Inl e, w')"
      then show ?thesis using b go by (intro disjI2 exI [of _ "x # ys"]) auto
    qed (use b go in auto)
  qed
qed

section \<open>What a program may do to the world\<close>

text \<open>
  Every operation of a script is built from the same control flow, so a reflexive and transitive
  relation between the worlds before and after that the primitive operations respect is respected by
  every script.  That argument is made once, in the locale.
\<close>

definition keeps :: "('s world \<Rightarrow> 's world \<Rightarrow> bool) \<Rightarrow> ('s, 'a) prog \<Rightarrow> bool" where
  "keeps R m \<longleftrightarrow> (\<forall>w. R w (snd (m w)))"

lemma keepsD: "keeps R m \<Longrightarrow> m w = (r, w') \<Longrightarrow> R w w'"
  by (metis keeps_def snd_conv)

lemma keepsI: "(\<And>w r w'. m w = (r, w') \<Longrightarrow> R w w') \<Longrightarrow> keeps R m"
  by (metis keeps_def prod.collapse)

locale effect_relation =
  fixes R :: "'s world \<Rightarrow> 's world \<Rightarrow> bool"
  assumes refl: "R w w"
    and trans: "R u v \<Longrightarrow> R v w \<Longrightarrow> R u w"
begin

lemma keeps_ret: "keeps R (ret x)"
  by (simp add: keeps_def ret_def refl)

lemma keeps_raise: "keeps R (raise e)"
  by (simp add: keeps_def raise_def refl)

lemma keeps_liftR: "keeps R (liftR r)"
  by (simp add: keeps_def liftR_def refl)

lemma keeps_time_now: "keeps R (time_now P)"
  by (simp add: keeps_def time_now_def refl)

lemma keeps_path_exists: "keeps R (path_exists p)"
  by (simp add: keeps_def path_exists_def refl)

lemma keeps_read_file: "keeps R (read_file P p)"
  by (simp add: keeps_def read_file_def refl split: option.split)

lemma keeps_bindP:
  assumes "keeps R m" and "\<And>x. keeps R (f x)"
  shows "keeps R (bindP m f)"
proof (rule keepsI)
  fix w r w' assume run: "bindP m f w = (r, w')"
  obtain q u where m: "m w = (q, u)" by fastforce
  from assms(1) m have "R w u" by (rule keepsD)
  moreover have "R u w'"
  proof (cases q)
    case (Inl e)
    with run m show ?thesis by (simp add: bindP_def refl)
  next
    case (Inr x)
    with run m have "f x u = (r, w')" by (simp add: bindP_def)
    with assms(2) show ?thesis by (rule keepsD)
  qed
  ultimately show "R w w'" by (rule trans)
qed

lemma keeps_try_except:
  assumes "keeps R m" and "\<And>e. keeps R (h e)"
  shows "keeps R (try_except m h)"
proof (rule keepsI)
  fix w r w' assume run: "try_except m h w = (r, w')"
  obtain q u where m: "m w = (q, u)" by fastforce
  from assms(1) m have "R w u" by (rule keepsD)
  moreover have "R u w'"
  proof (cases q)
    case (Inl e)
    with run m have "h e u = (r, w')" by (simp add: try_except_def)
    with assms(2) show ?thesis by (rule keepsD)
  next
    case (Inr x)
    with run m show ?thesis by (simp add: try_except_def refl)
  qed
  ultimately show "R w w'" by (rule trans)
qed

lemma keeps_try_Exception:
  assumes "keeps R m" and "\<And>e. keeps R (h e)"
  shows "keeps R (try_Exception m h)"
  unfolding try_Exception_def using assms by (intro keeps_try_except) (auto intro: keeps_raise)

lemma keeps_try_finally:
  assumes "keeps R m" and "keeps R c"
  shows "keeps R (try_finally m c)"
proof (rule keepsI)
  fix w r w' assume run: "try_finally m c w = (r, w')"
  obtain q u where m: "m w = (q, u)" by fastforce
  obtain p v where c: "c u = (p, v)" by fastforce
  have "w' = v" using run m c by (auto simp: try_finally_def split: sum.splits)
  with assms m c show "R w w'" by (metis keepsD trans)
qed

lemma keeps_for_each: "(\<And>x. x \<in> set xs \<Longrightarrow> keeps R (body x)) \<Longrightarrow> keeps R (for_each xs body)"
  by (induction xs) (auto intro!: keeps_bindP keeps_ret)

lemma keeps_repeat_for: "(\<And>i. keeps R (body i)) \<Longrightarrow> keeps R (repeat_for n body)"
  unfolding repeat_for_def by (rule keeps_for_each)

lemmas keeps_control =
  keeps_ret keeps_raise keeps_liftR keeps_time_now keeps_path_exists keeps_read_file keeps_bindP
  keeps_try_except keeps_try_Exception keeps_try_finally keeps_for_each keeps_repeat_for

end

subsection \<open>The events a program may add to the trace\<close>

definition emits :: "(event \<Rightarrow> bool) \<Rightarrow> 's world \<Rightarrow> 's world \<Rightarrow> bool" where
  "emits Q w w' \<longleftrightarrow> (\<exists>es. trace w' = trace w @ es \<and> (\<forall>e \<in> set es. Q e))"

interpretation emitting: effect_relation "emits Q" for Q :: "event \<Rightarrow> bool"
proof
  fix u v w :: "'s world"
  show "emits Q w w" by (auto simp: emits_def)
  assume "emits Q u v" and "emits Q v w"
  then obtain es fs where "trace v = trace u @ es" "trace w = trace v @ fs"
      "\<forall>e \<in> set es. Q e" "\<forall>e \<in> set fs. Q e"
    by (auto simp: emits_def)
  then have "trace w = trace u @ (es @ fs)" "\<forall>e \<in> set (es @ fs). Q e" by auto
  then show "emits Q u w" unfolding emits_def by blast
qed

named_theorems emit_rules \<open>which events the operations of the model emit\<close>

lemmas [emit_rules] = emitting.keeps_control

lemma emits_env_op [emit_rules]: "Q ev \<Longrightarrow> keeps (emits Q) (env_op ev f)"
  by (auto simp: keeps_def env_op_def emits_def split: prod.split)

lemma emits_print [emit_rules]: "Q (Printed s) \<Longrightarrow> keeps (emits Q) (py_print s)"
  by (auto simp: keeps_def py_print_def emits_def)

lemma emits_print_exc [emit_rules]: "Q (PrintedExc s e) \<Longrightarrow> keeps (emits Q) (print_exc s e)"
  by (auto simp: keeps_def print_exc_def emits_def)

lemma emits_get [emit_rules]: "Q (Got url) \<Longrightarrow> keeps (emits Q) (requests_get P url)"
  by (simp add: requests_get_def emits_env_op)

lemma emits_post [emit_rules]: "Q (Posted url d) \<Longrightarrow> keeps (emits Q) (requests_post P url d)"
  by (simp add: requests_post_def emits_env_op emitting.keeps_raise)

lemma emits_sleep [emit_rules]: "Q (Slept n) \<Longrightarrow> keeps (emits Q) (time_sleep P n)"
  by (simp add: time_sleep_def emits_env_op emitting.keeps_raise)

lemma emits_input [emit_rules]: "Q (Asked s) \<Longrightarrow> keeps (emits Q) (py_input P s)"
  by (simp add: py_input_def emits_env_op)

lemma emits_getpass [emit_rules]: "Q (AskedPassword s) \<Longrightarrow> keeps (emits Q) (getpass P s)"
  by (simp add: getpass_def emits_env_op)

lemma emits_urandom [emit_rules]: "Q (Drew n) \<Longrightarrow> keeps (emits Q) (urandom P n)"
  by (simp add: urandom_def emits_env_op)

lemma emits_write_file [emit_rules]: "Q (WroteFile p d) \<Longrightarrow> keeps (emits Q) (write_file P p d)"
  by (auto simp: keeps_def write_file_def emits_def split: option.split)

subsection \<open>Programs that leave the files alone\<close>

definition files_kept :: "'s world \<Rightarrow> 's world \<Rightarrow> bool" where
  "files_kept w w' \<longleftrightarrow> files w' = files w"

interpretation keeping: effect_relation files_kept
  by unfold_locales (auto simp: files_kept_def)

named_theorems kept_rules \<open>the operations of the model never change a file\<close>

lemmas [kept_rules] = keeping.keeps_control

lemma kept_env_op: "keeps files_kept (env_op ev f)"
  by (auto simp: keeps_def env_op_def files_kept_def split: prod.split)

lemma kept_primitives [kept_rules]:
  "keeps files_kept (py_print s)" "keeps files_kept (print_exc s e)"
  "keeps files_kept (requests_get P url)" "keeps files_kept (requests_post P url d)"
  "keeps files_kept (time_sleep P n)" "keeps files_kept (py_input P s)"
  "keeps files_kept (getpass P s)" "keeps files_kept (urandom P k)"
  by (auto simp: requests_get_def requests_post_def time_sleep_def py_input_def getpass_def
      urandom_def intro!: kept_env_op keeping.keeps_raise)
    (auto simp: keeps_def files_kept_def py_print_def print_exc_def)

end
