(* ===== verification/Check_Balance.thy ===== *)
theory Check_Balance
  imports World
begin

text \<open>
  \<open>check_balance.py\<close>: the GET request every query goes through, whether an account exists, and the
  Supra coin balance of an account.
\<close>

section \<open>Requests\<close>

definition get_json :: "'s platform \<Rightarrow> string \<Rightarrow> ('s, pyval) prog" where
  "get_json P url =
     bindP (requests_get P url) (\<lambda>resp.
     case reply_json resp of
       Some v \<Rightarrow> ret v
     | None \<Rightarrow> thenP (py_print (''get_json: error decoding JSON '' @ reply_shown resp
                              @ '', with error text: '' @ reply_text resp))
               (ret (VDict [])))"

definition account_url :: "string \<Rightarrow> string \<Rightarrow> string" where
  "account_url base_url account_addr = base_url @ ''/rpc/v1/accounts/'' @ account_addr"

definition get_account :: "'s platform \<Rightarrow> string \<Rightarrow> string \<Rightarrow> ('s, pyval) prog" where
  "get_account P base_url account_addr = get_json P (account_url base_url account_addr)"

definition account_exists :: "'s platform \<Rightarrow> string \<Rightarrow> string \<Rightarrow> ('s, bool) prog" where
  "account_exists P base_url account_addr =
     bindP (get_account P base_url account_addr) (\<lambda>v. ret (v \<noteq> VNone))"

definition resource_url :: "string \<Rightarrow> string \<Rightarrow> string \<Rightarrow> string" where
  "resource_url base_url account_addr resource_type =
     base_url @ ''/rpc/v1/accounts/'' @ account_addr @ ''/resources/'' @ resource_type"

definition get_resource_data :: "'s platform \<Rightarrow> string \<Rightarrow> string \<Rightarrow> string \<Rightarrow> ('s, pyval) prog" where
  "get_resource_data P base_url account_addr resource_type =
     bindP (get_json P (resource_url base_url account_addr resource_type)) (\<lambda>res_data.
     liftR (bindR (get_key res_data ''result'') (\<lambda>l. get_idx l 0)))"

definition coin_store_type :: string where
  "coin_store_type = ''0x1::coin::CoinStore<0x1::supra_coin::SupraCoin>''"

definition get_account_supra_coin_balance :: "'s platform \<Rightarrow> string \<Rightarrow> string \<Rightarrow> ('s, int) prog" where
  "get_account_supra_coin_balance P base_url account_addr =
     bindP (account_exists P base_url account_addr) (\<lambda>ex.
     if \<not> ex then ret 0
     else
       bindP (get_resource_data P base_url account_addr coin_store_type) (\<lambda>res_data.
       liftR (bindR (get_path res_data [''coin'', ''value'']) py_int)))"

definition check_balance_main :: "'s platform \<Rightarrow> ('s, unit) prog" where
  "check_balance_main P =
    (let is_testnet = False;
         base_url = (if is_testnet then ''https://rpc-testnet1.supra.com'' else ''https://rpc-mainnet.supra.com'');
         account_addr = ''e3948c9e3a24c51c4006ef2acc44606055117d021158f320062df099c4a94150''
     in bindP (get_account_supra_coin_balance P base_url account_addr) (\<lambda>balance.
        py_print (''Balance: '' @ str_of_int balance)))"

section \<open>Runs\<close>

text \<open>What \<open>get_json\<close> makes of a response, and what it prints.\<close>

definition decoded :: "reply \<Rightarrow> pyval" where
  "decoded resp = (case reply_json resp of Some v \<Rightarrow> v | None \<Rightarrow> VDict [])"

definition decode_log :: "reply \<Rightarrow> event list" where
  "decode_log resp =
    (case reply_json resp of
       Some v \<Rightarrow> []
     | None \<Rightarrow> [Printed (''get_json: error decoding JSON '' @ reply_shown resp
                         @ '', with error text: '' @ reply_text resp)])"

text \<open>The world after a GET request that was answered.\<close>

definition after_get :: "string \<Rightarrow> reply \<Rightarrow> 's \<Rightarrow> 's world \<Rightarrow> 's world" where
  "after_get url resp s w = w\<lparr>env := s, trace := trace w @ Got url # decode_log resp\<rparr>"

lemma after_get_simps [simp]:
  "env (after_get url resp s w) = s"
  "files (after_get url resp s w) = files w"
  "trace (after_get url resp s w) = trace w @ Got url # decode_log resp"
  by (simp_all add: after_get_def)

lemma get_json_answered:
  "http_get P url (env w) = (Inr resp, s) \<Longrightarrow>
     get_json P url w = (Inr (decoded resp), after_get url resp s w)"
  by (simp add: get_json_def requests_get_def env_op_def bindP_def ret_def py_print_def decoded_def
      decode_log_def after_get_def split: option.split)

lemma get_json_failed:
  "http_get P url (env w) = (Inl e, s) \<Longrightarrow>
     get_json P url w = (Inl e, w\<lparr>env := s, trace := trace w @ [Got url]\<rparr>)"
  by (simp add: get_json_def requests_get_def env_op_def bindP_def)

lemma get_json_cases:
  assumes "get_json P url w = (r, w')"
  obtains (answered) resp s where "http_get P url (env w) = (Inr resp, s)" "r = Inr (decoded resp)"
      "w' = after_get url resp s w"
    | (failed) e s where "http_get P url (env w) = (Inl e, s)" "r = Inl e"
      "w' = w\<lparr>env := s, trace := trace w @ [Got url]\<rparr>"
proof -
  obtain q s where h: "http_get P url (env w) = (q, s)" by fastforce
  show ?thesis
    using assms h answered failed
    by (cases q) (auto simp: get_json_answered get_json_failed)
qed

section \<open>Effects\<close>

text \<open>The events of a query: the GET request itself, and the line printed when decoding fails.\<close>

definition is_print :: "event \<Rightarrow> bool" where
  "is_print ev \<longleftrightarrow> (\<exists>s. ev = Printed s) \<or> (\<exists>s e. ev = PrintedExc s e)"

lemma is_print_simps [simp]: "is_print (Printed s)" "is_print (PrintedExc s e)"
  by (simp_all add: is_print_def)

lemma emits_get_json [emit_rules]:
  "Q (Got url) \<Longrightarrow> (\<And>s. Q (Printed s)) \<Longrightarrow> keeps (emits Q) (get_json P url)"
  unfolding get_json_def by (auto intro!: emit_rules split: option.split)

lemma emits_account_exists [emit_rules]:
  "Q (Got (account_url b a)) \<Longrightarrow> (\<And>s. Q (Printed s)) \<Longrightarrow> keeps (emits Q) (account_exists P b a)"
  unfolding account_exists_def get_account_def by (auto intro!: emit_rules)

lemma emits_balance [emit_rules]:
  "Q (Got (account_url b a)) \<Longrightarrow> Q (Got (resource_url b a coin_store_type)) \<Longrightarrow> (\<And>s. Q (Printed s))
     \<Longrightarrow> keeps (emits Q) (get_account_supra_coin_balance P b a)"
  unfolding get_account_supra_coin_balance_def get_resource_data_def by (auto intro!: emit_rules)

lemma kept_get_json [kept_rules]: "keeps files_kept (get_json P url)"
  unfolding get_json_def by (auto intro!: kept_rules split: option.split)

lemma kept_balance [kept_rules]:
  "keeps files_kept (account_exists P b a)"
  "keeps files_kept (get_account_supra_coin_balance P b a)"
  unfolding account_exists_def get_account_def get_account_supra_coin_balance_def get_resource_data_def
  by (auto intro!: kept_rules)

section \<open>The balance, branch by branch\<close>

text \<open>The value the two responses determine: the account, then its coin store.\<close>

definition coin_value :: "pyval \<Rightarrow> int result" where
  "coin_value d =
     bindR (get_key d ''result'') (\<lambda>l.
     bindR (get_idx l 0) (\<lambda>r.
     bindR (get_path r [''coin'', ''value'']) py_int))"

lemma coin_value_resource:
  "coin_value d =
     bindR (bindR (get_key d ''result'') (\<lambda>l. get_idx l 0)) (\<lambda>r. bindR (get_path r [''coin'', ''value'']) py_int)"
  by (simp add: coin_value_def bindR_assoc)

lemma account_exists_answered:
  "http_get P (account_url b a) (env w) = (Inr resp, s) \<Longrightarrow>
     account_exists P b a w = (Inr (decoded resp \<noteq> VNone), after_get (account_url b a) resp s w)"
  by (simp add: account_exists_def get_account_def bindP_def get_json_answered ret_def)

lemma balance_no_account:
  assumes "http_get P (account_url b a) (env w) = (Inr resp, s)" and "reply_json resp = Some VNone"
  shows "get_account_supra_coin_balance P b a w = (Inr 0, after_get (account_url b a) resp s w)"
  using assms
  by (simp add: get_account_supra_coin_balance_def bindP_def account_exists_answered decoded_def ret_def)

lemma balance_account:
  assumes "http_get P (account_url b a) (env w) = (Inr resp, s)" and "reply_json resp \<noteq> Some VNone"
    and "http_get P (resource_url b a coin_store_type) s = (Inr resp', s')"
  shows "get_account_supra_coin_balance P b a w =
    (coin_value (decoded resp'),
     after_get (resource_url b a coin_store_type) resp' s' (after_get (account_url b a) resp s w))"
proof -
  have "decoded resp \<noteq> VNone"
    using assms(2) by (auto simp: decoded_def split: option.splits)
  then show ?thesis
    using assms(1,3)
    by (simp add: get_account_supra_coin_balance_def get_resource_data_def bindP_def
        account_exists_answered get_json_answered liftR_def coin_value_resource
        del: get_path.simps split: sum.split)
qed

end
