(* ===== verification/Libraries.thy ===== *)
theory Libraries
  imports Py_Values
begin

text \<open>
  The packages the scripts import (\<open>aptos_sdk\<close>, \<open>cryptography\<close>, \<open>bip_utils\<close>, \<open>nacl\<close>, \<open>fido2\<close>) are not
  part of the repository: each is a record of functions, an argument of the definitions that use it.
  What the scripts rely on is stated as named predicates over these records, which the theorems that
  need them take as hypotheses.
\<close>

section \<open>aptos_sdk\<close>

text \<open>The encoders passed with an entry-function argument (methods of \<open>aptos_sdk.bcs.Serializer\<close>).\<close>

datatype encoder =
    Enc_struct
  | Enc_u64
  | Enc_bool
  | Enc_str
  | Enc_to_bytes
  | Enc_sequence encoder

text \<open>
  An argument of an entry function before it is encoded: a value, or a list of addresses, strings or
  byte strings, all as \<^typ>\<open>pyval\<close>; \<open>TransactionArgument(arg, encoder)\<close> is the pair.
\<close>

type_synonym transaction_argument = "pyval \<times> encoder"

text \<open>
  \<^item> \<open>ser_uleb128\<close>, \<open>ser_bool\<close>, \<open>ser_u8\<close>, \<open>ser_u64\<close>: the bytes that the \<open>Serializer\<close> method of that name appends;
    \<open>ser_struct\<close>: \<open>Serializer.struct\<close>, given the \<open>serialize\<close> method of the value; \<open>ser_object\<close>: the
    \<open>serialize\<close> method of the package's own classes.
  \<^item> \<open>des_\<dots>\<close>: the value read from the front of the input and the rest of it (\<open>Deserializer.uleb128\<close>,
    \<open>Deserializer.bool\<close> and the \<open>deserialize\<close> methods of \<open>Script\<close>, \<open>EntryFunction\<close>, \<open>AccountAddress\<close>).
  \<^item> \<open>raw_serialize\<close>: \<open>RawTransaction.serialize\<close>, given the \<open>serialize\<close> method of the payload;
    \<open>raw_keyed\<close>: \<open>RawTransaction.keyed\<close>, given the value of \<open>self.prehash()\<close> and the \<open>serialize\<close>
    method of the payload; \<open>raw_prehash\<close>: the package's own \<open>prehash\<close>.
\<close>

record sdk =
  ser_uleb128 :: "int \<Rightarrow> bytes result"
  ser_bool :: "bool \<Rightarrow> bytes result"
  ser_u8 :: "int \<Rightarrow> bytes result"
  ser_u64 :: "int \<Rightarrow> bytes result"
  ser_struct :: "(pyval \<Rightarrow> bytes result) \<Rightarrow> pyval \<Rightarrow> bytes result"
  ser_object :: "pyval \<Rightarrow> bytes result"
  des_uleb128 :: "bytes \<Rightarrow> (int \<times> bytes) result"
  des_bool :: "bytes \<Rightarrow> (bool \<times> bytes) result"
  des_script :: "bytes \<Rightarrow> (pyval \<times> bytes) result"
  des_entry_function :: "bytes \<Rightarrow> (pyval \<times> bytes) result"
  des_address :: "bytes \<Rightarrow> (pyval \<times> bytes) result"
  obj_eq :: "pyval \<Rightarrow> pyval \<Rightarrow> bool"
  obj_str :: "pyval \<Rightarrow> string"
  addr_from_str_relaxed :: "pyval \<Rightarrow> pyval result"
  addr_from_key :: "pyval \<Rightarrow> pyval"
  addr_for_resource_account :: "pyval \<Rightarrow> bytes \<Rightarrow> pyval"
  module_id_str :: "pyval \<Rightarrow> string \<Rightarrow> string"
  ef_natural :: "string \<Rightarrow> string \<Rightarrow> pyval list \<Rightarrow> transaction_argument list \<Rightarrow> pyval result"
  raw_transaction :: "pyval \<Rightarrow> pyval \<Rightarrow> pyval \<Rightarrow> pyval \<Rightarrow> pyval \<Rightarrow> pyval \<Rightarrow> pyval \<Rightarrow> pyval"
  raw_serialize :: "(pyval \<Rightarrow> bytes result) \<Rightarrow> pyval \<Rightarrow> bytes result"
  raw_keyed :: "bytes \<Rightarrow> (pyval \<Rightarrow> bytes result) \<Rightarrow> pyval \<Rightarrow> bytes result"
  raw_prehash :: "pyval \<Rightarrow> bytes"
  account_load_key :: "string \<Rightarrow> pyval result"
  account_address :: "pyval \<Rightarrow> pyval"
  account_public_key :: "pyval \<Rightarrow> pyval"
  account_sign :: "pyval \<Rightarrow> bytes \<Rightarrow> pyval"
  private_key_sign :: "pyval \<Rightarrow> bytes \<Rightarrow> pyval"
  authenticator_new :: "pyval \<Rightarrow> pyval"
  ed25519_authenticator_new :: "pyval \<Rightarrow> pyval \<Rightarrow> pyval"
  authenticator_ED25519 :: int
  multi_public_key_new :: "pyval list \<Rightarrow> int \<Rightarrow> pyval"
  multi_public_key_bytes :: "pyval \<Rightarrow> bytes result"
  multi_public_key_verify :: "pyval \<Rightarrow> bytes \<Rightarrow> (int \<times> pyval) list \<Rightarrow> bool"
  signature_data :: "pyval \<Rightarrow> bytes"
  bitmap_num_of_bytes :: int

text \<open>BCS, as the package documents it: every decoder undoes its encoder and leaves the rest.\<close>

definition bcs_laws :: "sdk \<Rightarrow> bool" where
  "bcs_laws S \<longleftrightarrow>
     (\<forall>n bs r. ser_uleb128 S n = Inr bs \<longrightarrow> des_uleb128 S (bs @ r) = Inr (n, r))
   \<and> (\<forall>b bs r. ser_bool S b = Inr bs \<longrightarrow> des_bool S (bs @ r) = Inr (b, r))
   \<and> (\<forall>v bs r. isinstance v C_Script \<longrightarrow> ser_object S v = Inr bs \<longrightarrow> des_script S (bs @ r) = Inr (v, r))
   \<and> (\<forall>v bs r. isinstance v C_EntryFunction \<longrightarrow> ser_object S v = Inr bs
        \<longrightarrow> des_entry_function S (bs @ r) = Inr (v, r))
   \<and> (\<forall>v bs r. isinstance v C_AccountAddress \<longrightarrow> ser_object S v = Inr bs
        \<longrightarrow> des_address S (bs @ r) = Inr (v, r))"

lemma bcs_lawsD:
  assumes "bcs_laws S"
  shows "ser_uleb128 S n = Inr bs \<Longrightarrow> des_uleb128 S (bs @ r) = Inr (n, r)"
    and "ser_bool S b = Inr bs \<Longrightarrow> des_bool S (bs @ r) = Inr (b, r)"
    and "isinstance v C_Script \<Longrightarrow> ser_object S v = Inr bs \<Longrightarrow> des_script S (bs @ r) = Inr (v, r)"
    and "isinstance v C_EntryFunction \<Longrightarrow> ser_object S v = Inr bs
      \<Longrightarrow> des_entry_function S (bs @ r) = Inr (v, r)"
    and "isinstance v C_AccountAddress \<Longrightarrow> ser_object S v = Inr bs
      \<Longrightarrow> des_address S (bs @ r) = Inr (v, r)"
  using assms unfolding bcs_laws_def by blast+

text \<open>\<open>Serializer.struct(value)\<close> calls \<open>value.serialize\<close>.\<close>

definition struct_law :: "sdk \<Rightarrow> bool" where
  "struct_law S \<longleftrightarrow> (\<forall>m v. ser_struct S m v = m v)"

text \<open>Integers of fixed width: eight bytes and one byte, different for different numbers.\<close>

definition int_laws :: "sdk \<Rightarrow> bool" where
  "int_laws S \<longleftrightarrow>
     (\<forall>n bs. ser_u64 S n = Inr bs \<longrightarrow> length bs = 8)
   \<and> (\<forall>n m bs. ser_u64 S n = Inr bs \<longrightarrow> ser_u64 S m = Inr bs \<longrightarrow> n = m)
   \<and> (\<forall>n bs. ser_u8 S n = Inr bs \<longrightarrow> length bs = 1)
   \<and> (\<forall>n m bs. ser_u8 S n = Inr bs \<longrightarrow> ser_u8 S m = Inr bs \<longrightarrow> n = m)"

lemma int_lawsD:
  assumes "int_laws S"
  shows "ser_u64 S n = Inr bs \<Longrightarrow> length bs = 8"
    and "ser_u64 S n = Inr bs \<Longrightarrow> ser_u64 S m = Inr bs \<Longrightarrow> n = m"
    and "ser_u8 S n = Inr bs \<Longrightarrow> length bs = 1"
    and "ser_u8 S n = Inr bs \<Longrightarrow> ser_u8 S m = Inr bs \<Longrightarrow> n = m"
  using assms unfolding int_laws_def by blast+

text \<open>\<open>keyed\<close> is the prehash followed by the serialized transaction.\<close>

definition keyed_law :: "sdk \<Rightarrow> bool" where
  "keyed_law S \<longleftrightarrow> (\<forall>h m v. raw_keyed S h m v = bindR (raw_serialize S m v) (\<lambda>body. Inr (h @ body)))"

section \<open>cryptography, bip_utils and nacl\<close>

text \<open>The parameters \<open>Scrypt(salt, length, n, r, p)\<close> is constructed with.\<close>

record scrypt_params =
  scrypt_salt :: bytes
  scrypt_length :: nat
  scrypt_n :: nat
  scrypt_r :: nat
  scrypt_p :: nat

text \<open>The steps of a BIP-44 derivation after \<open>Bip44.FromSeed(seed, Bip44Coins.APTOS)\<close>.\<close>

datatype bip44_step = Purpose | Coin | Account int | Change_CHAIN_EXT | AddressIndex int

text \<open>
  \<open>Scrypt(\<dots>).derive\<close>, the constructor \<open>AESGCM(key)\<close> (which rejects bad key lengths), \<open>encrypt\<close> and
  \<open>decrypt\<close> with no associated data, \<open>Bip39SeedGenerator(mnemonic).Generate()\<close>, the private key at
  the end of a BIP-44 path, and \<open>SigningKey(key).verify_key.encode()\<close>.
\<close>

record crypto =
  scrypt_derive :: "scrypt_params \<Rightarrow> bytes \<Rightarrow> bytes result"
  aesgcm_new :: "bytes \<Rightarrow> unit result"
  aesgcm_encrypt :: "bytes \<Rightarrow> bytes \<Rightarrow> bytes \<Rightarrow> bytes result"
  aesgcm_decrypt :: "bytes \<Rightarrow> bytes \<Rightarrow> bytes \<Rightarrow> bytes result"
  bip39_seed :: "string \<Rightarrow> bytes result"
  bip44_private_key :: "bytes \<Rightarrow> bip44_step list \<Rightarrow> bytes result"
  ed25519_public :: "bytes \<Rightarrow> bytes result"

text \<open>Authenticated encryption: decryption under the same key and nonce gives the plaintext back.\<close>

definition aead_law :: "crypto \<Rightarrow> bool" where
  "aead_law C \<longleftrightarrow>
     (\<forall>k n m ct. aesgcm_encrypt C k n m = Inr ct \<longrightarrow> aesgcm_decrypt C k n ct = Inr m)"

section \<open>fido2\<close>

text \<open>
  \<open>CtapHidDevice.list_devices()\<close>, \<open>make_credential\<close> (the credential id) and \<open>get_assertion\<close> with
  the \<open>hmacGetSecret\<close> extension (\<open>output1\<close> of the result), each acting on the world outside; the
  device is the first of the list.  \<open>user_verified\<close> says whether a request with the requirement
  \<open>PREFERRED\<close> makes the device verify its user: a device may hold a secret for either case.
\<close>

record 's fido =
  user_verified :: "string \<Rightarrow> 's \<Rightarrow> bool"
  list_devices :: "'s \<Rightarrow> string list result \<times> 's"
  make_credential :: "string \<Rightarrow> string \<Rightarrow> string \<Rightarrow> string \<Rightarrow> string \<Rightarrow> bytes \<Rightarrow> 's \<Rightarrow> bytes result \<times> 's"
  hmac_get_secret :: "string \<Rightarrow> string \<Rightarrow> string \<Rightarrow> bytes \<Rightarrow> bytes \<Rightarrow> bytes \<Rightarrow> 's \<Rightarrow> bytes result \<times> 's"

end
