(* ===== verification/Sealed_File.thy ===== *)
theory Sealed_File
  imports World Libraries
begin

text \<open>
  The contract shared by the two mnemonic files (\<open>gen_mnemonic.py\<close> and \<open>gen_mnemonic_fido2.py\<close>): a
  header, from which the key and the nonce are made again, followed by an AES-GCM ciphertext.  If the
  header and the ciphertext can be cut out of the file again, the text that was sealed is recovered.
\<close>

text \<open>\<open>aesgcm.decrypt(nonce, ciphertext, None).decode()\<close>, the body of both \<open>try\<close> blocks.\<close>

definition unseal :: "crypto \<Rightarrow> bytes \<Rightarrow> bytes \<Rightarrow> bytes \<Rightarrow> string result" where
  "unseal C key nonce ciphertext = bindR (aesgcm_decrypt C key nonce ciphertext) bytes_decode"

text \<open>\<open>try: return unseal \<dots> except Exception as e: print(\<dots>, e); return ""\<close>.\<close>

definition unseal_or_empty :: "crypto \<Rightarrow> bytes \<Rightarrow> bytes \<Rightarrow> bytes \<Rightarrow> ('s, string) prog" where
  "unseal_or_empty C key nonce ciphertext =
     try_Exception (liftR (unseal C key nonce ciphertext))
       (\<lambda>e. thenP (print_exc ''Error decrypting mnemonic:'' e) (ret ''''))"

lemma unseal_encrypted:
  assumes "aead_law C" and "is_text m" and "aesgcm_encrypt C key nonce (str_encode m) = Inr ct"
  shows "unseal C key nonce ct = Inr m"
  using assms by (simp add: unseal_def aead_law_def decode_encode)

lemma unseal_or_empty_ok: "unseal C key nonce ct = Inr m \<Longrightarrow> unseal_or_empty C key nonce ct w = (Inr m, w)"
  by (simp add: unseal_or_empty_def try_Exception_def try_except_def ret_def)

lemma unseal_or_empty_error:
  "unseal C key nonce ct = Inl e \<Longrightarrow> is_Exception e \<Longrightarrow>
     unseal_or_empty C key nonce ct w =
       (Inr '''', w\<lparr>trace := trace w @ [PrintedExc ''Error decrypting mnemonic:'' e]\<rparr>)"
  by (simp add: unseal_or_empty_def try_Exception_def try_except_def raise_def bindP_def print_exc_def ret_def)

lemma emits_unseal [emit_rules]:
  "(\<And>s e. Q (PrintedExc s e)) \<Longrightarrow> keeps (emits Q) (unseal_or_empty C k n ct)"
  unfolding unseal_or_empty_def by (auto intro!: emit_rules)

lemma kept_unseal [kept_rules]: "keeps files_kept (unseal_or_empty C k n ct)"
  unfolding unseal_or_empty_def by (auto intro!: kept_rules)

locale sealed_file =
  fixes pack :: "'h \<Rightarrow> bytes \<Rightarrow> bytes"
    and unpack :: "bytes \<Rightarrow> 'h \<times> bytes"
    and nonce_of :: "'h \<Rightarrow> bytes"
    and wf :: "'h \<Rightarrow> bool"
  assumes unpack_pack: "wf h \<Longrightarrow> unpack (pack h ct) = (h, ct)"
begin

lemma pack_inject: "wf h \<Longrightarrow> wf g \<Longrightarrow> pack h ct = pack g dt \<Longrightarrow> h = g \<and> ct = dt"
  using unpack_pack by (metis prod.inject)

lemma recover:
  assumes "wf h" and "aead_law C" and "is_text m"
    and "aesgcm_encrypt C key (nonce_of h) (str_encode m) = Inr ct"
    and "unpack (pack h ct) = (g, dt)"
  shows "g = h \<and> unseal C key (nonce_of g) dt = Inr m"
  using assms by (simp add: unpack_pack unseal_encrypted)

end

text \<open>\<open>os.urandom(n)\<close> returns \<open>n\<close> bytes.\<close>

definition random_law :: "'s platform \<Rightarrow> bool" where
  "random_law P \<longleftrightarrow> (\<forall>n s bs s'. os_random P n s = (Inr bs, s') \<longrightarrow> length bs = n)"

lemma urandom_run:
  "urandom P n w = (r, w') \<longleftrightarrow>
     (\<exists>s. os_random P n (env w) = (r, s) \<and> w' = w\<lparr>env := s, trace := trace w @ [Drew n]\<rparr>)"
  by (simp add: urandom_def env_op_run)

lemma random_lawD: "random_law P \<Longrightarrow> os_random P n s = (Inr bs, s') \<Longrightarrow> length bs = n"
  unfolding random_law_def by blast

lemma urandom_length: "random_law P \<Longrightarrow> urandom P n w = (Inr bs, w') \<Longrightarrow> length bs = n"
  unfolding random_law_def urandom_run by blast

lemma getpass_run:
  "getpass P t w = (r, w') \<longleftrightarrow>
     (\<exists>s. read_password P t (env w) = (r, s) \<and> w' = w\<lparr>env := s, trace := trace w @ [AskedPassword t]\<rparr>)"
  by (simp add: getpass_def env_op_run)

lemma write_file_run:
  "write_file P path d w = (Inr (), w') \<longleftrightarrow>
     open_fault P path True (env w) = None
     \<and> w' = w\<lparr>files := (files w)(path \<mapsto> d), trace := trace w @ [WroteFile path d]\<rparr>"
  by (auto simp: write_file_def split: option.splits)

lemma liftR_run: "liftR r w = (q, w') \<longleftrightarrow> r = q \<and> w' = w"
  by (auto simp: liftR_def)

section \<open>Programs that write one file\<close>

definition adds_at :: "string \<Rightarrow> 's world \<Rightarrow> 's world \<Rightarrow> bool" where
  "adds_at path w w' \<longleftrightarrow> files w' = files w \<or> (\<exists>d. files w' = (files w)(path \<mapsto> d))"

interpretation adding: effect_relation "adds_at path" for path
  by unfold_locales (auto simp: adds_at_def)

named_theorems add_rules \<open>the operations of the model write at most the given file\<close>

lemma adds_of_kept: "keeps files_kept m \<Longrightarrow> keeps (adds_at path) m"
  by (simp add: keeps_def files_kept_def adds_at_def)

lemma adds_write_file [add_rules]: "keeps (adds_at path) (write_file P path d)"
  by (auto simp: keeps_def adds_at_def write_file_def split: option.split)

lemmas [add_rules] =
  adding.keeps_control kept_primitives [THEN adds_of_kept] kept_env_op [THEN adds_of_kept]

end
