(* ===== verification/Gen_Mnemonic.thy ===== *)
theory Gen_Mnemonic
  imports Sealed_File
begin

text \<open>
  \<open>gen_mnemonic.py\<close> and \<open>encrypt_mnemonic.py\<close>: a mnemonic encrypted under a password, in a file that
  holds the 16-byte salt, the 12-byte nonce and the ciphertext.
\<close>

section \<open>The file format\<close>

definition pack_mnemonic :: "bytes \<times> bytes \<Rightarrow> bytes \<Rightarrow> bytes" where
  "pack_mnemonic h ciphertext = (case h of (salt, nonce) \<Rightarrow> salt @ nonce @ ciphertext)"

text \<open>\<open>data[:16], data[16:28], data[28:]\<close>.\<close>

definition unpack_mnemonic :: "bytes \<Rightarrow> (bytes \<times> bytes) \<times> bytes" where
  "unpack_mnemonic data = ((take 16 data, take 12 (drop 16 data)), drop 28 data)"

definition header_ok :: "bytes \<times> bytes \<Rightarrow> bool" where
  "header_ok h \<longleftrightarrow> length (fst h) = 16 \<and> length (snd h) = 12"

interpretation mnemonic_file: sealed_file pack_mnemonic unpack_mnemonic snd header_ok
  by unfold_locales (auto simp: pack_mnemonic_def unpack_mnemonic_def header_ok_def)

section \<open>Storing and loading\<close>

definition kdf :: "bytes \<Rightarrow> scrypt_params" where
  "kdf salt = \<lparr>scrypt_salt = salt, scrypt_length = 32, scrypt_n = 2 ^ 14, scrypt_r = 8, scrypt_p = 1\<rparr>"

definition exists_message :: "string \<Rightarrow> string" where
  "exists_message file_path =
     ''Error: The file '' @ [CHR 0x27] @ file_path @ [CHR 0x27]
       @ '' already exists. Choose a different file path.''"

definition stored_message :: "string \<Rightarrow> string" where
  "stored_message file_path =
     ''Mnemonic encrypted and stored in '' @ [CHR 0x27] @ file_path @ [CHR 0x27] @ ''.''"

definition store_mnemonic :: "crypto \<Rightarrow> 's platform \<Rightarrow> string \<Rightarrow> string \<Rightarrow> ('s, unit) prog" where
  "store_mnemonic C P mnemonic file_path =
     bindP (path_exists file_path) (\<lambda>ex.
     if ex then raise (FileExistsError (exists_message file_path))
     else
       bindP (getpass P ''Enter password to encrypt the mnemonic: '') (\<lambda>password.
       bindP (urandom P 16) (\<lambda>salt.
       bindP (liftR (scrypt_derive C (kdf salt) (str_encode password))) (\<lambda>key.
       thenP (liftR (aesgcm_new C key))
      (bindP (urandom P 12) (\<lambda>nonce.
       bindP (liftR (aesgcm_encrypt C key nonce (str_encode mnemonic))) (\<lambda>ciphertext.
       thenP (write_file P file_path (pack_mnemonic (salt, nonce) ciphertext))
             (py_print (stored_message file_path)))))))))"

definition load_mnemonic :: "crypto \<Rightarrow> 's platform \<Rightarrow> string \<Rightarrow> ('s, string) prog" where
  "load_mnemonic C P file_path =
     bindP (getpass P ''Enter password to decrypt the mnemonic: '') (\<lambda>password.
     bindP (read_file P file_path) (\<lambda>data.
     case unpack_mnemonic data of ((salt, nonce), ciphertext) \<Rightarrow>
       bindP (liftR (scrypt_derive C (kdf salt) (str_encode password))) (\<lambda>key.
       thenP (liftR (aesgcm_new C key))
             (unseal_or_empty C key nonce ciphertext))))"

text \<open>The script; \<open>new_mnemonic\<close> is \<open>Bip39MnemonicGenerator().FromWordsNumber(12).ToStr()\<close>.\<close>

definition gen_mnemonic_main :: "crypto \<Rightarrow> 's platform \<Rightarrow> ('s, string) prog \<Rightarrow> ('s, unit) prog" where
  "gen_mnemonic_main C P new_mnemonic =
    (let mnemonic_file = ''mnemonic_multisig.enc''
     in bindP new_mnemonic (\<lambda>mnemonic.
        thenP (py_print (''Mnemonic: '' @ mnemonic))
       (thenP (store_mnemonic C P mnemonic mnemonic_file)
       (bindP (load_mnemonic C P mnemonic_file) (\<lambda>decrypted_mnemonic.
        py_print (''Decrypted mnemonic: '' @ decrypted_mnemonic))))))"

text \<open>Reading a file opened in text mode: UTF-8, with every line ending turned into a newline.\<close>

fun universal_newlines :: "string \<Rightarrow> string" where
  "universal_newlines (a # b # cs) =
     (if a = CHR 0x0D then CHR 0x0A # universal_newlines (if b = CHR 0x0A then cs else b # cs)
      else a # universal_newlines (b # cs))"
| "universal_newlines [a] = (if a = CHR 0x0D then [CHR 0x0A] else [a])"
| "universal_newlines [] = []"

definition encrypt_mnemonic_main :: "crypto \<Rightarrow> 's platform \<Rightarrow> ('s, unit) prog" where
  "encrypt_mnemonic_main C P =
    (let input_file = ''../secret_recovery_phrase.txt'';
         mnemonic_file = ''mnemonic_new_multisig.enc''
     in bindP (read_file P input_file) (\<lambda>data.
        bindP (liftR (bytes_decode data)) (\<lambda>text.
        let mnemonic = str_strip (universal_newlines text)
        in store_mnemonic C P mnemonic mnemonic_file)))"

section \<open>Effects\<close>

text \<open>Storing writes one file, and only when nothing was there.\<close>

lemma store_existing:
  "files w path \<noteq> None \<Longrightarrow>
     store_mnemonic C P m path w = (Inl (FileExistsError (exists_message path)), w)"
  by (simp add: store_mnemonic_def bindP_def path_exists_def raise_def)

lemma adds_store: "keeps (adds_at path) (store_mnemonic C P m path)"
  unfolding store_mnemonic_def by (intro add_rules) (auto intro!: add_rules)

lemma store_files:
  assumes "store_mnemonic C P m path w = (r, w')"
  shows "files w' = files w \<or> files w path = None \<and> (\<exists>d. files w' = (files w)(path \<mapsto> d))"
  using keepsD [OF adds_store assms] store_existing [of w path C P m] assms
  by (cases "files w path") (auto simp: adds_at_def)

lemma emits_store [emit_rules]:
  assumes "\<And>s. Q (AskedPassword s)" "\<And>n. Q (Drew n)" "\<And>d. Q (WroteFile path d)" "\<And>s. Q (Printed s)"
  shows "keeps (emits Q) (store_mnemonic C P m path)"
  unfolding store_mnemonic_def using assms by (auto intro!: emit_rules)

lemma emits_load [emit_rules]:
  assumes "\<And>s. Q (AskedPassword s)" "\<And>s e. Q (PrintedExc s e)"
  shows "keeps (emits Q) (load_mnemonic C P path)"
  unfolding load_mnemonic_def unpack_mnemonic_def using assms by (auto intro!: emit_rules)

lemma kept_load [kept_rules]: "keeps files_kept (load_mnemonic C P path)"
  unfolding load_mnemonic_def unpack_mnemonic_def by (auto intro!: kept_rules)

text \<open>A successful store, step by step.\<close>

lemma store_success:
  assumes "store_mnemonic C P m path w = (Inr (), w')"
  obtains password salt key nonce ct s1 s2 s3 where
    "files w path = None"
    "read_password P ''Enter password to encrypt the mnemonic: '' (env w) = (Inr password, s1)"
    "os_random P 16 s1 = (Inr salt, s2)"
    "scrypt_derive C (kdf salt) (str_encode password) = Inr key"
    "aesgcm_new C key = Inr ()"
    "os_random P 12 s2 = (Inr nonce, s3)"
    "aesgcm_encrypt C key nonce (str_encode m) = Inr ct"
    "open_fault P path True s3 = None"
    "w' = w\<lparr>env := s3, files := (files w)(path \<mapsto> pack_mnemonic (salt, nonce) ct),
       trace := trace w @ [AskedPassword ''Enter password to encrypt the mnemonic: '', Drew 16, Drew 12,
         WroteFile path (pack_mnemonic (salt, nonce) ct), Printed (stored_message path)]\<rparr>"
proof -
  have ex: "files w path = None"
    using assms store_existing [of w path C P m] by fastforce
  show ?thesis
    using assms ex
    by (auto simp: store_mnemonic_def bindP_Inr path_exists_def getpass_run urandom_run liftR_run
        write_file_run py_print_def) (rule that, assumption+)
qed

lemma load_run:
  assumes "read_password P ''Enter password to decrypt the mnemonic: '' (env w) = (Inr password, s)"
    and "open_fault P path False s = None" and "files w path = Some data"
    and "unpack_mnemonic data = ((salt, nonce), ct)"
    and "scrypt_derive C (kdf salt) (str_encode password) = Inr key" and "aesgcm_new C key = Inr ()"
  shows "load_mnemonic C P path w =
    unseal_or_empty C key nonce ct
      (w\<lparr>env := s, trace := trace w @ [AskedPassword ''Enter password to decrypt the mnemonic: '']\<rparr>)"
  using assms
  by (simp add: load_mnemonic_def bindP_def getpass_def env_op_def read_file_def of_option_def
      liftR_def ret_def)

section \<open>What was stored is loaded again\<close>

lemma store_then_load:
  assumes C: "aead_law C" and R: "random_law P" and m: "is_text m"
    and store: "store_mnemonic C P m path w = (Inr (), w1)"
    and typed: "read_password P ''Enter password to encrypt the mnemonic: '' (env w) = (Inr password, s1)"
    and later: "files w2 path = files w1 path" "open_fault P path False s2 = None"
    and again: "read_password P ''Enter password to decrypt the mnemonic: '' (env w2) = (Inr password, s2)"
  shows "load_mnemonic C P path w2 =
    (Inr m, w2\<lparr>env := s2, trace := trace w2 @ [AskedPassword ''Enter password to decrypt the mnemonic: '']\<rparr>)"
proof -
  obtain salt key nonce ct s2' s3 where
    salt: "os_random P 16 s1 = (Inr salt, s2')"
    and key: "scrypt_derive C (kdf salt) (str_encode password) = Inr key" "aesgcm_new C key = Inr ()"
    and nonce: "os_random P 12 s2' = (Inr nonce, s3)"
    and ct: "aesgcm_encrypt C key nonce (str_encode m) = Inr ct"
    and w1: "files w1 path = Some (pack_mnemonic (salt, nonce) ct)"
    using store typed by (elim store_success) auto
  have wf: "header_ok (salt, nonce)"
    using random_lawD [OF R salt] random_lawD [OF R nonce] by (simp add: header_ok_def)
  have "unseal C key nonce ct = Inr m"
    using C m ct by (rule unseal_encrypted)
  with load_run [OF again later(2), of "pack_mnemonic (salt, nonce) ct" salt nonce ct C key]
  show ?thesis
    using later(1) w1 key mnemonic_file.unpack_pack [OF wf] by (simp add: unseal_or_empty_ok)
qed

end
