(* ===== verification/Hashing.thy ===== *)
theory Hashing
  imports Py_Prelude
begin

text \<open>
  The hash functions of the Python standard library that the scripts use, as computable functions on
  byte lists: \<open>hashlib.sha3_256\<close> (FIPS 202) and \<open>hmac.HMAC(\<dots>, "sha256")\<close> (FIPS 180-4, RFC 2104).
\<close>

unbundle bit_operations_syntax

section \<open>Words and bytes\<close>

type_synonym lane = "64 word"
type_synonym word32 = "32 word"

text \<open>Split a list into chunks of \<open>n\<close> bytes, the last one possibly shorter.\<close>

function chunks :: "nat \<Rightarrow> 'a list \<Rightarrow> 'a list list" where
  "chunks n xs = (if xs = [] \<or> n = 0 then [] else take n xs # chunks n (drop n xs))"
  by pat_completeness auto
termination
  by (relation "measure (\<lambda>(n, xs). length xs)") auto

declare chunks.simps [simp del]

definition le_word :: "bytes \<Rightarrow> 'a::len word" where
  "le_word bs = foldr (\<lambda>b acc. push_bit 8 acc OR ucast b) bs 0"

definition be_word :: "bytes \<Rightarrow> 'a::len word" where
  "be_word bs = foldl (\<lambda>acc b. push_bit 8 acc OR ucast b) 0 bs"

definition le_bytes :: "nat \<Rightarrow> 'a::len word \<Rightarrow> bytes" where
  "le_bytes n w = map (\<lambda>i. ucast (drop_bit (8 * i) w)) [0..<n]"

definition be_bytes :: "nat \<Rightarrow> 'a::len word \<Rightarrow> bytes" where
  "be_bytes n w = rev (le_bytes n w)"

definition rotl :: "nat \<Rightarrow> 'a::len word \<Rightarrow> 'a word" where
  "rotl k w = push_bit k w OR drop_bit (LENGTH('a) - k) w"

definition rotr :: "nat \<Rightarrow> 'a::len word \<Rightarrow> 'a word" where
  "rotr k w = drop_bit k w OR push_bit (LENGTH('a) - k) w"

lemma length_le_bytes [simp]: "length (le_bytes n w) = n"
  by (simp add: le_bytes_def)

lemma length_be_bytes [simp]: "length (be_bytes n w) = n"
  by (simp add: be_bytes_def)

section \<open>SHA3-256\<close>

definition keccak_rc :: "lane list" where
  "keccak_rc =
    [0x0000000000000001, 0x0000000000008082, 0x800000000000808A, 0x8000000080008000,
     0x000000000000808B, 0x0000000080000001, 0x8000000080008081, 0x8000000000008009,
     0x000000000000008A, 0x0000000000000088, 0x0000000080008009, 0x000000008000000A,
     0x000000008000808B, 0x800000000000008B, 0x8000000000008089, 0x8000000000008003,
     0x8000000000008002, 0x8000000000000080, 0x000000000000800A, 0x800000008000000A,
     0x8000000080008081, 0x8000000000008080, 0x0000000080000001, 0x8000000080008008]"

text \<open>The rotation of lane \<open>x + 5 y\<close>.\<close>

definition keccak_rot :: "nat list" where
  "keccak_rot =
    [0, 1, 62, 28, 27, 36, 44, 6, 55, 20, 3, 10, 43, 25, 39, 41, 45, 15, 21, 8, 18, 2, 61, 56, 14]"

definition keccak_theta :: "lane list \<Rightarrow> lane list" where
  "keccak_theta a =
    (let c = map (\<lambda>x. a ! x XOR a ! (x + 5) XOR a ! (x + 10) XOR a ! (x + 15) XOR a ! (x + 20)) [0..<5];
         d = map (\<lambda>x. c ! ((x + 4) mod 5) XOR rotl 1 (c ! ((x + 1) mod 5))) [0..<5]
     in map (\<lambda>i. a ! i XOR d ! (i mod 5)) [0..<25])"

text \<open>\<open>\<rho>\<close> and \<open>\<pi>\<close>: the lane at \<open>(x, y)\<close> comes from \<open>(x + 3 y, x)\<close>, rotated.\<close>

definition keccak_rho_pi :: "lane list \<Rightarrow> lane list" where
  "keccak_rho_pi a =
    map (\<lambda>i. let x = i mod 5; y = i div 5; j = (x + 3 * y) mod 5 + 5 * x
             in rotl (keccak_rot ! j) (a ! j)) [0..<25]"

definition keccak_chi :: "lane list \<Rightarrow> lane list" where
  "keccak_chi b =
    map (\<lambda>i. let r = 5 * (i div 5); x = i mod 5
             in b ! i XOR (NOT (b ! (r + (x + 1) mod 5)) AND b ! (r + (x + 2) mod 5))) [0..<25]"

definition keccak_round :: "lane list \<Rightarrow> lane \<Rightarrow> lane list" where
  "keccak_round a rc =
    (let b = keccak_chi (keccak_rho_pi (keccak_theta a)) in b[0 := b ! 0 XOR rc])"

definition keccak_f :: "lane list \<Rightarrow> lane list" where
  "keccak_f a = foldl keccak_round a keccak_rc"

text \<open>Padding to the rate of 136 bytes: the domain bits \<open>01\<close>, then \<open>pad10*1\<close>.\<close>

definition sha3_pad :: "bytes \<Rightarrow> bytes" where
  "sha3_pad m =
    (let q = 136 - length m mod 136
     in m @ (if q = 1 then [0x86] else 0x06 # replicate (q - 2) 0 @ [0x80]))"

definition sha3_absorb :: "lane list \<Rightarrow> bytes \<Rightarrow> lane list" where
  "sha3_absorb a block =
    (let ls = map le_word (chunks 8 block)
     in keccak_f (map2 (XOR) a (ls @ replicate (25 - length ls) 0)))"

definition sha3_256 :: "bytes \<Rightarrow> bytes" where
  "sha3_256 m =
    (let a = foldl sha3_absorb (replicate 25 0) (chunks 136 (sha3_pad m))
     in concat (map (\<lambda>i. le_bytes 8 (a ! i)) [0..<4]))"

lemma length_sha3_256 [simp]: "length (sha3_256 m) = 32"
  by (simp add: sha3_256_def Let_def length_concat comp_def sum_list_triv)

lemma sha3_pad_length: "length (sha3_pad m) mod 136 = 0"
proof -
  define r where "r = length m mod 136"
  have r: "r < 136" by (simp add: r_def)
  have "length (sha3_pad m) = length m + (136 - r)"
    using r by (auto simp: sha3_pad_def Let_def r_def[symmetric])
  moreover have "(length m + (136 - r)) mod 136 = (r + (136 - r)) mod 136"
    unfolding r_def by (rule mod_add_left_eq [symmetric])
  ultimately show ?thesis using r by simp
qed

section \<open>SHA-256 and HMAC-SHA256\<close>

definition sha256_k :: "word32 list" where
  "sha256_k =
    [1116352408, 1899447441, 3049323471, 3921009573, 961987163, 1508970993, 2453635748, 2870763221,
     3624381080, 310598401, 607225278, 1426881987, 1925078388, 2162078206, 2614888103, 3248222580,
     3835390401, 4022224774, 264347078, 604807628, 770255983, 1249150122, 1555081692, 1996064986,
     2554220882, 2821834349, 2952996808, 3210313671, 3336571891, 3584528711, 113926993, 338241895,
     666307205, 773529912, 1294757372, 1396182291, 1695183700, 1986661051, 2177026350, 2456956037,
     2730485921, 2820302411, 3259730800, 3345764771, 3516065817, 3600352804, 4094571909, 275423344,
     430227734, 506948616, 659060556, 883997877, 958139571, 1322822218, 1537002063, 1747873779,
     1955562222, 2024104815, 2227730452, 2361852424, 2428436474, 2756734187, 3204031479, 3329325298]"

definition sha256_init :: "word32 list" where
  "sha256_init =
    [1779033703, 3144134277, 1013904242, 2773480762, 1359893119, 2600822924, 528734635, 1541459225]"

definition sha256_pad :: "bytes \<Rightarrow> bytes" where
  "sha256_pad m =
    m @ [0x80] @ replicate ((119 - length m mod 64) mod 64) 0
      @ be_bytes 8 (word_of_nat (8 * length m) :: 64 word)"

definition sha256_schedule :: "bytes \<Rightarrow> word32 list" where
  "sha256_schedule block =
    foldl (\<lambda>w t.
        let s0 = (let v = w ! (t - 15) in rotr 7 v XOR rotr 18 v XOR drop_bit 3 v);
            s1 = (let v = w ! (t - 2) in rotr 17 v XOR rotr 19 v XOR drop_bit 10 v)
        in w @ [w ! (t - 16) + s0 + w ! (t - 7) + s1])
      (map be_word (chunks 4 block)) [16..<64]"

fun sha256_round :: "word32 list \<Rightarrow> word32 \<times> word32 \<Rightarrow> word32 list" where
  "sha256_round [a, b, c, d, e, f, g, h] (k, w) =
    (let t1 = h + (rotr 6 e XOR rotr 11 e XOR rotr 25 e) + ((e AND f) XOR (NOT e AND g)) + k + w;
         t2 = (rotr 2 a XOR rotr 13 a XOR rotr 22 a) + ((a AND b) XOR (a AND c) XOR (b AND c))
     in [t1 + t2, a, b, c, d + t1, e, f, g])"
| "sha256_round s kw = s"

definition sha256_block :: "word32 list \<Rightarrow> bytes \<Rightarrow> word32 list" where
  "sha256_block hs block =
    map2 (+) hs (foldl sha256_round hs (zip sha256_k (sha256_schedule block)))"

definition sha256 :: "bytes \<Rightarrow> bytes" where
  "sha256 m =
    concat (map (be_bytes 4) (foldl sha256_block sha256_init (chunks 64 (sha256_pad m))))"

definition hmac_key :: "bytes \<Rightarrow> bytes" where
  "hmac_key k =
    (let k' = (if 64 < length k then sha256 k else k) in k' @ replicate (64 - length k') 0)"

definition hmac_sha256 :: "bytes \<Rightarrow> bytes \<Rightarrow> bytes" where
  "hmac_sha256 k m =
    sha256 (map (\<lambda>b. b XOR 0x5c) (hmac_key k)
            @ sha256 (map (\<lambda>b. b XOR 0x36) (hmac_key k) @ m))"

lemma length_sha256_round: "length s = 8 \<Longrightarrow> length (sha256_round s kw) = 8"
  by (induction s kw rule: sha256_round.induct) (auto simp: Let_def)

lemma length_sha256_rounds: "length s = 8 \<Longrightarrow> length (foldl sha256_round s kws) = 8"
  by (induction kws arbitrary: s) (simp_all add: length_sha256_round)

lemma length_sha256_blocks: "length hs = 8 \<Longrightarrow> length (foldl sha256_block hs bs) = 8"
  by (induction bs arbitrary: hs) (simp_all add: sha256_block_def length_sha256_rounds)

lemma length_sha256 [simp]: "length (sha256 m) = 32"
proof -
  have "length (foldl sha256_block sha256_init (chunks 64 (sha256_pad m))) = 8"
    by (rule length_sha256_blocks) (simp add: sha256_init_def)
  then show ?thesis by (simp add: sha256_def length_concat comp_def sum_list_triv)
qed

lemma length_hmac_sha256 [simp]: "length (hmac_sha256 k m) = 32"
  by (simp add: hmac_sha256_def)

end
