(* ===== verification/Derive_Keys.thy ===== *)
theory Derive_Keys
  imports Gen_Mnemonic Hashing
begin

text \<open>
  \<open>derive_keys.py\<close>: the private keys of the accounts of a mnemonic (BIP-39 seed, BIP-44 path of the
  Aptos coin), and the address of a key.
\<close>

definition generate_bip44_account :: "crypto \<Rightarrow> string \<Rightarrow> int \<Rightarrow> bytes result" where
  "generate_bip44_account C mnemonic account_number =
     bindR (bip39_seed C mnemonic) (\<lambda>seed_bytes.
     bip44_private_key C seed_bytes
       [Purpose, Coin, Account account_number, Change_CHAIN_EXT, AddressIndex 0])"

definition load_private_key :: "crypto \<Rightarrow> 's platform \<Rightarrow> string \<Rightarrow> ('s, bytes) prog" where
  "load_private_key C P file_path =
     bindP (load_mnemonic C P file_path) (\<lambda>mnemonic.
     bindP (py_input P ''Enter account number: '') (\<lambda>line.
     bindP (liftR (int_of_str line)) (\<lambda>account_number.
     liftR (generate_bip44_account C mnemonic account_number))))"

definition load_multiple_private_keys :: "crypto \<Rightarrow> 's platform \<Rightarrow> string \<Rightarrow> int \<Rightarrow> ('s, bytes list) prog" where
  "load_multiple_private_keys C P file_path num_accounts =
     bindP (load_mnemonic C P file_path) (\<lambda>mnemonic.
     liftR (mapR (generate_bip44_account C mnemonic) (map int [0..<nat num_accounts])))"

text \<open>\<open>sha3_256(public_key + b'\x00').hexdigest()\<close>: 0x00 is the single-signature scheme.\<close>

definition address_of_public_key :: "bytes \<Rightarrow> string" where
  "address_of_public_key public_key_bytes = bytes_hex (sha3_256 (public_key_bytes @ [0]))"

definition print_keys :: "crypto \<Rightarrow> bytes \<Rightarrow> ('s, unit) prog" where
  "print_keys C private_key_bytes =
     bindP (liftR (ed25519_public C private_key_bytes)) (\<lambda>public_key_bytes.
     thenP (py_print (''Private Key: '' @ bytes_hex private_key_bytes))
    (thenP (py_print (''Public Key: '' @ bytes_hex public_key_bytes))
           (py_print (''Supra Address: '' @ address_of_public_key public_key_bytes))))"

definition derive_keys_main :: "crypto \<Rightarrow> 's platform \<Rightarrow> ('s, unit) prog" where
  "derive_keys_main C P =
     bindP (load_private_key C P ''mnemonic_mainnet.enc'') (\<lambda>private_key_bytes.
     thenP (print_keys C private_key_bytes)
    (bindP (load_multiple_private_keys C P ''mnemonic_multisig.enc'' 5) (\<lambda>private_keys.
     for_each (enumerate 0 private_keys) (\<lambda>(i, private_key).
       thenP (py_print (CHR 0x0A # ''Account '' @ str_of_int (int i) @ '':''))
      (thenP (print_keys C private_key) (ret False))))))"

section \<open>Facts\<close>

lemma load_multiple_length:
  assumes "load_multiple_private_keys C P path n w = (Inr keys, w')"
  shows "length keys = nat n"
  using assms by (auto simp: load_multiple_private_keys_def bindP_Inr liftR_run dest: mapR_length)

text \<open>The keys of several accounts are those of one mnemonic, by account number.\<close>

lemma load_multiple_nth:
  assumes "load_multiple_private_keys C P path n w = (Inr keys, w')"
  shows "\<exists>m. load_mnemonic C P path w = (Inr m, w')
    \<and> list_all2 (\<lambda>i k. generate_bip44_account C m i = Inr k) (map int [0..<nat n]) keys"
  using assms by (auto simp: load_multiple_private_keys_def bindP_Inr liftR_run mapR_eq_Inr)

lemma length_address_of_public_key: "length (address_of_public_key pk) = 64"
  by (simp add: address_of_public_key_def length_bytes_hex)

lemma emits_load_key [emit_rules]:
  assumes "\<And>s. Q (AskedPassword s)" "\<And>s e. Q (PrintedExc s e)" "\<And>s. Q (Asked s)"
  shows "keeps (emits Q) (load_private_key C P path)"
  unfolding load_private_key_def using assms by (auto intro!: emit_rules)

lemma emits_load_keys [emit_rules]:
  assumes "\<And>s. Q (AskedPassword s)" "\<And>s e. Q (PrintedExc s e)"
  shows "keeps (emits Q) (load_multiple_private_keys C P path n)"
  unfolding load_multiple_private_keys_def using assms by (auto intro!: emit_rules)

lemma kept_load_keys [kept_rules]:
  "keeps files_kept (load_private_key C P path)"
  "keeps files_kept (load_multiple_private_keys C P path n)"
  unfolding load_private_key_def load_multiple_private_keys_def by (auto intro!: kept_rules)

end
