(* ===== verification/Airdrop.thy ===== *)
theory Airdrop
  imports Check_Balance Derive_Keys
begin

text \<open>\<open>airdrop.py\<close>: the testnet faucet, the account of a mnemonic file, and watching a balance.\<close>

definition faucet_url :: "string \<Rightarrow> string \<Rightarrow> string" where
  "faucet_url base_url account_addr = base_url @ ''/rpc/v1/wallet/faucet/'' @ account_addr"

definition fund_account_with_faucet :: "'s platform \<Rightarrow> string \<Rightarrow> string \<Rightarrow> ('s, pyval) prog" where
  "fund_account_with_faucet P base_url account_addr =
     bindP (get_json P (faucet_url base_url account_addr)) (\<lambda>res_data.
     try_Exception (liftR (get_key res_data ''Accepted''))
       (\<lambda>e. thenP (py_print (''Faucet error with message: '' @ py_str (obj_repr P) res_data))
                  (ret (VStr ''''))))"

definition get_account_addr :: "sdk \<Rightarrow> crypto \<Rightarrow> 's platform \<Rightarrow> string \<Rightarrow> ('s, pyval \<times> string) prog" where
  "get_account_addr S C P mnemonic_file =
     bindP (load_private_key C P mnemonic_file) (\<lambda>key.
     bindP (liftR (account_load_key S (bytes_hex key))) (\<lambda>sender_account.
     ret (sender_account, obj_str S (account_address S sender_account))))"

definition print_balance :: "'s platform \<Rightarrow> string \<Rightarrow> string \<Rightarrow> ('s, int) prog" where
  "print_balance P base_url account_addr =
     bindP (account_exists P base_url account_addr) (\<lambda>ex.
     if ex then
       bindP (get_account_supra_coin_balance P base_url account_addr) (\<lambda>balance.
       thenP (py_print (''Current balance for account '' @ account_addr
                        @ '' in Supra quants: '' @ str_of_int balance))
             (ret balance))
     else
       thenP (py_print (''New account '' @ account_addr @ '' with 0 balance.''))
             (ret 0))"

text \<open>One pass of the loop; the \<open>try\<close> has a \<open>finally\<close> and no \<open>except\<close>.\<close>

definition watch_pass :: "'s platform \<Rightarrow> string \<Rightarrow> string \<Rightarrow> int \<Rightarrow> int \<Rightarrow> ('s, bool) prog" where
  "watch_pass P base_url account_addr interval_sec i =
     thenP (time_sleep P interval_sec)
    (thenP (try_finally (print_balance P base_url account_addr) (py_print ''Try again in 5 seconds.''))
           (ret False))"

definition watch_balance :: "'s platform \<Rightarrow> string \<Rightarrow> string \<Rightarrow> int \<Rightarrow> int \<Rightarrow> ('s, unit) prog" where
  "watch_balance P base_url account_addr tries interval_sec =
     repeat_for tries (watch_pass P base_url account_addr interval_sec)"

definition airdrop_main :: "sdk \<Rightarrow> crypto \<Rightarrow> 's platform \<Rightarrow> ('s, unit) prog" where
  "airdrop_main S C P =
    (let base_url = ''https://rpc-wallet-testnet.supra.com/'';
         mnemonic_file = ''mnemonic_multisig.enc''
     in bindP (get_account_addr S C P mnemonic_file) (\<lambda>(_, account_addr).
        bindP (print_balance P base_url account_addr) (\<lambda>balance.
        bindP (fund_account_with_faucet P base_url account_addr) (\<lambda>tx_hash.
        thenP (py_print (''Airdrop transaction hash: '' @ py_str (obj_repr P) tx_hash))
              (watch_balance P base_url account_addr 10 5)))))"

section \<open>Effects\<close>

lemma emits_faucet [emit_rules]:
  "Q (Got (faucet_url b a)) \<Longrightarrow> (\<And>s. Q (Printed s)) \<Longrightarrow> keeps (emits Q) (fund_account_with_faucet P b a)"
  unfolding fund_account_with_faucet_def by (auto intro!: emit_rules)

lemma emits_print_balance [emit_rules]:
  assumes "Q (Got (account_url b a))" "Q (Got (resource_url b a coin_store_type))" "\<And>s. Q (Printed s)"
  shows "keeps (emits Q) (print_balance P b a)"
  unfolding print_balance_def using assms by (auto intro!: emit_rules)

lemma emits_watch [emit_rules]:
  assumes "Q (Got (account_url b a))" "Q (Got (resource_url b a coin_store_type))" "\<And>s. Q (Printed s)"
    "Q (Slept n)"
  shows "keeps (emits Q) (watch_balance P b a k n)"
  unfolding watch_balance_def watch_pass_def using assms by (auto intro!: emit_rules)

lemma emits_account_addr [emit_rules]:
  assumes "\<And>s. Q (AskedPassword s)" "\<And>s e. Q (PrintedExc s e)" "\<And>s. Q (Asked s)"
  shows "keeps (emits Q) (get_account_addr S C P path)"
  unfolding get_account_addr_def using assms by (auto intro!: emit_rules)

lemma kept_airdrop [kept_rules]:
  "keeps files_kept (fund_account_with_faucet P b a)"
  "keeps files_kept (print_balance P b a)"
  "keeps files_kept (watch_balance P b a k n)"
  "keeps files_kept (get_account_addr S C P path)"
  unfolding fund_account_with_faucet_def print_balance_def watch_balance_def watch_pass_def
    get_account_addr_def
  by (auto intro!: kept_rules)

section \<open>The faucet's answer\<close>

lemma faucet_answered:
  assumes "http_get P (faucet_url b a) (env w) = (Inr resp, s)"
  shows "fund_account_with_faucet P b a w =
    (case get_key (decoded resp) ''Accepted'' of
       Inr h \<Rightarrow> (Inr h, after_get (faucet_url b a) resp s w)
     | Inl e \<Rightarrow> (Inr (VStr ''''),
         (after_get (faucet_url b a) resp s w)\<lparr>trace := trace (after_get (faucet_url b a) resp s w)
           @ [Printed (''Faucet error with message: '' @ py_str (obj_repr P) (decoded resp))]\<rparr>))"
  using assms
  by (auto simp: fund_account_with_faucet_def bindP_def get_json_answered try_Exception_def
      try_except_def liftR_def py_print_def ret_def dest!: get_key_Inl split: sum.split)

section \<open>Watching stops at the first exception\<close>

text \<open>
  An exception of \<open>print_balance\<close> leaves the loop after the line that says it would be tried again.
\<close>

lemma watch_pass_error:
  assumes "time_sleep P n w = (Inr (), u)" and "print_balance P b a u = (Inl e, v)"
  shows "watch_pass P b a n i w = (Inl e, v\<lparr>trace := trace v @ [Printed ''Try again in 5 seconds.'']\<rparr>)"
  using assms by (simp add: watch_pass_def bindP_def try_finally_def py_print_def)

lemma watch_balance_error:
  assumes "passes (watch_pass P b a n) (map int [0..<k]) w = Some u0" and "k < nat tries"
    and "time_sleep P n u0 = (Inr (), u)" and "print_balance P b a u = (Inl e, v)"
  shows "watch_balance P b a tries n w = (Inl e, v\<lparr>trace := trace v @ [Printed ''Try again in 5 seconds.'']\<rparr>)"
  using for_each_error [OF assms(1) watch_pass_error [OF assms(3,4)]] map_int_split [OF assms(2)]
  by (simp add: watch_balance_def repeat_for_def)

end
