(* ===== verification/Check_Block.thy ===== *)
theory Check_Block
  imports Check_Balance
begin

text \<open>\<open>check_block.py\<close>: a block by its height and the consensus round it was made in.\<close>

definition block_url :: "string \<Rightarrow> int \<Rightarrow> bool \<Rightarrow> string" where
  "block_url base_url height with_txs =
     base_url @ ''/rpc/v1/block/height/'' @ str_of_int height
       @ ''?with_finalized_transactions='' @ (if with_txs then ''true'' else ''false'')"

definition get_block_by_height :: "'s platform \<Rightarrow> string \<Rightarrow> int \<Rightarrow> bool \<Rightarrow> ('s, pyval) prog" where
  "get_block_by_height P base_url height with_txs = get_json P (block_url base_url height with_txs)"

definition get_block_round_by_height :: "'s platform \<Rightarrow> string \<Rightarrow> int \<Rightarrow> ('s, int) prog" where
  "get_block_round_by_height P base_url height =
     bindP (get_block_by_height P base_url height False) (\<lambda>d.
     liftR (bindR (get_path d [''header'', ''view'', ''round'']) py_int))"

definition check_block_main :: "'s platform \<Rightarrow> ('s, unit) prog" where
  "check_block_main P =
    (let is_testnet = False;
         base_url = (if is_testnet then ''https://rpc-testnet.supra.com'' else ''https://rpc-mainnet.supra.com'');
         block_height = 3296634
     in bindP (get_block_round_by_height P base_url block_height) (\<lambda>rnd.
        py_print (''Block height: '' @ str_of_int block_height @ '', round: '' @ str_of_int rnd)))"

lemma emits_block [emit_rules]:
  "Q (Got (block_url b h t)) \<Longrightarrow> (\<And>s. Q (Printed s)) \<Longrightarrow> keeps (emits Q) (get_block_by_height P b h t)"
  unfolding get_block_by_height_def by (auto intro!: emit_rules)

lemma emits_block_round [emit_rules]:
  "Q (Got (block_url b h False)) \<Longrightarrow> (\<And>s. Q (Printed s)) \<Longrightarrow> keeps (emits Q) (get_block_round_by_height P b h)"
  unfolding get_block_round_by_height_def by (auto intro!: emit_rules)

lemma kept_block [kept_rules]:
  "keeps files_kept (get_block_by_height P b h t)"
  "keeps files_kept (get_block_round_by_height P b h)"
  unfolding get_block_round_by_height_def get_block_by_height_def by (auto intro!: kept_rules)

text \<open>Different heights are asked for under different addresses, and so are the two kinds of answer.\<close>

lemma append_unique_sep:
  assumes "a @ c # x = b @ c # y" and "c \<notin> set a" and "c \<notin> set b"
  shows "a = b \<and> x = y"
  using assms
proof (induction a arbitrary: b)
  case Nil
  then show ?case by (cases b) auto
next
  case (Cons d a)
  then show ?case by (cases b) auto
qed

lemma str_of_int_chars: "c \<in> set (str_of_int i) \<Longrightarrow> is_digit c \<or> c = CHR ''-''"
  by (auto simp: str_of_int_def dest: nat_digits_digits split: if_splits)

lemma no_query_mark: "CHR ''?'' \<notin> set (str_of_int i)"
  by (auto dest: str_of_int_chars simp: is_digit_def)

lemma block_url_inject: "block_url b h t = block_url b h' t' \<longleftrightarrow> h = h' \<and> t = t'"
proof
  assume "block_url b h t = block_url b h' t'"
  then have "str_of_int h @ CHR ''?'' # ''with_finalized_transactions='' @ (if t then ''true'' else ''false'')
      = str_of_int h' @ CHR ''?'' # ''with_finalized_transactions='' @ (if t' then ''true'' else ''false'')"
    by (simp add: block_url_def)
  from append_unique_sep [OF this no_query_mark no_query_mark] show "h = h' \<and> t = t'"
    by (auto simp: str_of_int_inject split: if_splits)
qed simp

end
