(* ===== verification/Check_Transaction.thy ===== *)
theory Check_Transaction
  imports Check_Block
begin

text \<open>
  \<open>check_transaction.py\<close>: the status of a transaction, the block it is in, and the loop that waits for
  it to succeed.
\<close>

section \<open>Queries\<close>

definition tx_url :: "string \<Rightarrow> string \<Rightarrow> string" where
  "tx_url base_url tx_hash = base_url @ ''/rpc/v1/transactions/'' @ tx_hash"

definition get_transaction_info :: "'s platform \<Rightarrow> string \<Rightarrow> string \<Rightarrow> ('s, pyval) prog" where
  "get_transaction_info P base_url tx_hash = get_json P (tx_url base_url tx_hash)"

text \<open>The \<open>try\<close> body of \<open>get_transaction_status\<close>.\<close>

definition status_of :: "pyval \<Rightarrow> pyval result" where
  "status_of res_data =
     bindR (get_key res_data ''status'') (\<lambda>st.
     if eq_str st ''Fail'' then get_path res_data [''output'', ''Move'', ''vm_status'']
     else get_key res_data ''status'')"

definition get_transaction_status :: "'s platform \<Rightarrow> string \<Rightarrow> string \<Rightarrow> ('s, pyval) prog" where
  "get_transaction_status P base_url tx_hash =
     bindP (get_transaction_info P base_url tx_hash) (\<lambda>res_data.
     try_except (liftR (status_of res_data))
       (\<lambda>_. ret (VStr (''Failed to get status of transaction '' @ tx_hash
                        @ '', with response '' @ py_str (obj_repr P) res_data))))"

definition get_transaction_block_time :: "'s platform \<Rightarrow> string \<Rightarrow> string \<Rightarrow> ('s, int) prog" where
  "get_transaction_block_time P base_url tx_hash =
     bindP (get_transaction_info P base_url tx_hash) (\<lambda>d.
     liftR (bindR (get_path d [''block_header'', ''timestamp'', ''microseconds_since_unix_epoch'']) py_int))"

definition get_transaction_block_height :: "'s platform \<Rightarrow> string \<Rightarrow> string \<Rightarrow> ('s, int) prog" where
  "get_transaction_block_height P base_url tx_hash =
     bindP (get_transaction_info P base_url tx_hash) (\<lambda>d.
     liftR (bindR (get_path d [''block_header'', ''height'']) py_int))"

section \<open>Waiting for a transaction\<close>

text \<open>The check before the loop; it says whether the transaction has succeeded.\<close>

definition check_now :: "'s platform \<Rightarrow> string \<Rightarrow> string \<Rightarrow> ('s, bool) prog" where
  "check_now P base_url tx_hash =
     bindP (get_transaction_status P base_url tx_hash) (\<lambda>status.
     thenP (py_print (''Transaction status: '' @ py_str (obj_repr P) status))
     (ret (eq_str status ''Success'')))"

text \<open>One pass of the loop.\<close>

definition poll :: "'s platform \<Rightarrow> string \<Rightarrow> string \<Rightarrow> int \<Rightarrow> int \<Rightarrow> ('s, bool) prog" where
  "poll P base_url tx_hash interval_sec i =
     thenP (time_sleep P interval_sec)
     (bindP (get_transaction_status P base_url tx_hash) (\<lambda>status.
      thenP (py_print (''Transaction status after '' @ str_of_int ((i + 1) * interval_sec)
                       @ '' seconds: '' @ py_str (obj_repr P) status))
      (ret (eq_str status ''Success''))))"

definition wait_for_tx :: "'s platform \<Rightarrow> string \<Rightarrow> string \<Rightarrow> int \<Rightarrow> int \<Rightarrow> bool \<Rightarrow> ('s, unit) prog" where
  "wait_for_tx P base_url tx_hash tries interval_sec check_first =
     bindP (if check_first then check_now P base_url tx_hash else ret False) (\<lambda>done.
     if done then ret ()
     else repeat_for tries (poll P base_url tx_hash interval_sec))"

definition elapsed_text :: "int \<Rightarrow> string" where
  "elapsed_text t =
     ''Elapsed time: '' @ str_of_int (t div 3600) @ ''h '' @ str_of_int (t mod 3600 div 60) @ ''m ''
       @ str_of_int (t mod 60) @ ''s''"

definition check_transaction_main :: "'s platform \<Rightarrow> ('s, unit) prog" where
  "check_transaction_main P =
    (let is_testnet = True;
         base_url = (if is_testnet then ''https://rpc-testnet.supra.com'' else ''https://rpc-mainnet.supra.com'');
         tx_hash = ''0xdf33c5493e5b8cf694b1c59a3f9add67433fbe6cc33983eb4f415e39ba2f0a3b''
     in thenP (wait_for_tx P base_url tx_hash 3 1 True)
       (bindP (get_transaction_block_time P base_url tx_hash) (\<lambda>t.
        let block_time = t div 1000000 in
        bindP (time_now P) (\<lambda>now.
        thenP (py_print (elapsed_text (now - block_time)))
       (bindP (get_transaction_block_height P base_url tx_hash) (\<lambda>block_height.
        bindP (get_block_round_by_height P base_url block_height) (\<lambda>rnd.
        bindP (get_block_round_by_height P base_url (block_height - 1)) (\<lambda>previous_rnd.
        py_print (''timeout rounds: '' @ str_of_int (rnd - previous_rnd - 1))))))))))"

section \<open>Effects\<close>

lemma emits_status [emit_rules]:
  "Q (Got (tx_url b h)) \<Longrightarrow> (\<And>s. Q (Printed s)) \<Longrightarrow> keeps (emits Q) (get_transaction_status P b h)"
  unfolding get_transaction_status_def get_transaction_info_def by (auto intro!: emit_rules)

lemma emits_block_of_tx [emit_rules]:
  assumes "Q (Got (tx_url b h))" and "\<And>s. Q (Printed s)"
  shows "keeps (emits Q) (get_transaction_block_time P b h)"
    and "keeps (emits Q) (get_transaction_block_height P b h)"
  unfolding get_transaction_block_time_def get_transaction_block_height_def get_transaction_info_def
  using assms by (auto intro!: emit_rules)

lemma emits_poll [emit_rules]:
  assumes "Q (Got (tx_url b h))" and "Q (Slept n)" and "\<And>s. Q (Printed s)"
  shows "keeps (emits Q) (poll P b h n i)"
  unfolding poll_def using assms by (auto intro!: emit_rules)

lemma emits_wait [emit_rules]:
  assumes "Q (Got (tx_url b h))" and "Q (Slept n)" and "\<And>s. Q (Printed s)"
  shows "keeps (emits Q) (wait_for_tx P b h k n c)"
  unfolding wait_for_tx_def check_now_def using assms by (auto intro!: emit_rules)

lemma kept_tx [kept_rules]:
  "keeps files_kept (get_transaction_status P b h)"
  "keeps files_kept (get_transaction_block_time P b h)"
  "keeps files_kept (get_transaction_block_height P b h)"
  "keeps files_kept (wait_for_tx P b h k n c)"
  unfolding get_transaction_status_def get_transaction_block_time_def wait_for_tx_def poll_def
    check_now_def get_transaction_block_height_def get_transaction_info_def
  by (auto intro!: kept_rules)

section \<open>The status is always some value\<close>

text \<open>What \<open>get_transaction_status\<close> makes of a decoded response, on every branch.\<close>

definition status_value :: "'s platform \<Rightarrow> string \<Rightarrow> pyval \<Rightarrow> pyval" where
  "status_value P tx_hash d =
    (case status_of d of
       Inr st \<Rightarrow> st
     | Inl e \<Rightarrow> VStr (''Failed to get status of transaction '' @ tx_hash
                     @ '', with response '' @ py_str (obj_repr P) d))"

lemma status_answered:
  "http_get P (tx_url b h) (env w) = (Inr resp, s) \<Longrightarrow>
     get_transaction_status P b h w =
       (Inr (status_value P h (decoded resp)), after_get (tx_url b h) resp s w)"
  by (simp add: get_transaction_status_def get_transaction_info_def bindP_def get_json_answered
      try_except_def liftR_def ret_def status_value_def split: sum.split)

lemma status_failed:
  "http_get P (tx_url b h) (env w) = (Inl e, s) \<Longrightarrow>
     get_transaction_status P b h w = (Inl e, w\<lparr>env := s, trace := trace w @ [Got (tx_url b h)]\<rparr>)"
  by (simp add: get_transaction_status_def get_transaction_info_def bindP_def get_json_failed)

lemma status_raises_transport:
  "get_transaction_status P b h w = (Inl e, w') \<Longrightarrow> \<exists>s. http_get P (tx_url b h) (env w) = (Inl e, s)"
  by (cases "http_get P (tx_url b h) (env w)"; cases "fst (http_get P (tx_url b h) (env w))")
    (auto simp: status_answered status_failed)

section \<open>The loop\<close>

text \<open>The requests and sleeps among the events.\<close>

fun is_request :: "event \<Rightarrow> bool" where
  "is_request (Got u) = True"
| "is_request (Posted u d) = True"
| "is_request (Slept n) = True"
| "is_request ev = False"

definition requests :: "event list \<Rightarrow> event list" where
  "requests es = filter is_request es"

lemma requests_append [simp]: "requests (es @ fs) = requests es @ requests fs"
  by (simp add: requests_def)

lemma requests_simps [simp]:
  "requests [] = []"
  "requests (Got u # es) = Got u # requests es"
  "requests (Posted u d # es) = Posted u d # requests es"
  "requests (Slept n # es) = Slept n # requests es"
  "requests (Printed s # es) = requests es"
  "requests (PrintedExc s e # es) = requests es"
  by (simp_all add: requests_def)

lemma requests_decode_log [simp]: "requests (decode_log resp) = []"
  by (simp add: decode_log_def split: option.split)

lemma poll_requests:
  assumes "poll P b h n i w = (Inr r, w')"
  shows "requests (trace w') = requests (trace w) @ [Slept n, Got (tx_url b h)]"
proof -
  obtain u where sl: "time_sleep P n w = (Inr (), u)"
    and st: "bindP (get_transaction_status P b h) (\<lambda>status.
      thenP (py_print (''Transaction status after '' @ str_of_int ((i + 1) * n)
                       @ '' seconds: '' @ py_str (obj_repr P) status))
      (ret (eq_str status ''Success''))) u = (Inr r, w')"
    using assms unfolding poll_def by (auto simp: bindP_Inr)
  have 1: "trace u = trace w @ [Slept n]"
    using sl by (auto simp: time_sleep_def env_op_def raise_def split: if_splits prod.splits)
  obtain st v where v: "get_transaction_status P b h u = (Inr st, v)"
    and w': "trace w' = trace v @ [Printed (''Transaction status after '' @ str_of_int ((i + 1) * n)
                       @ '' seconds: '' @ py_str (obj_repr P) st)]"
    using st by (auto simp: bindP_Inr py_print_def ret_def)
  obtain resp s where "http_get P (tx_url b h) (env u) = (Inr resp, s)"
    using v by (cases "http_get P (tx_url b h) (env u)"; cases "fst (http_get P (tx_url b h) (env u))")
      (auto simp: status_failed)
  then show ?thesis using v w' 1 by (auto simp: status_answered)
qed

lemma passes_poll_requests:
  "passes (poll P b h n) is w = Some w' \<Longrightarrow>
     requests (trace w') = requests (trace w) @ concat (replicate (length is) [Slept n, Got (tx_url b h)])"
proof (induction "is" arbitrary: w)
  case (Cons i "is")
  then obtain u where p: "poll P b h n i w = (Inr False, u)" and r: "passes (poll P b h n) is u = Some w'"
    by (auto split: prod.splits sum.splits bool.splits)
  show ?case using Cons.IH [OF r] poll_requests [OF p] by simp
qed simp

lemma wait_requests:
  assumes "wait_for_tx P b h tries n False w = (Inr (), w')"
  shows "\<exists>k \<le> nat tries. requests (trace w') =
    requests (trace w) @ concat (replicate k [Slept n, Got (tx_url b h)])"
proof -
  define xs where "xs = map int [0..<nat tries]"
  have "for_each xs (poll P b h n) w = (Inr (), w')"
    using assms by (simp add: wait_for_tx_def repeat_for_def xs_def)
  from for_each_outcome [OF this] show ?thesis
  proof (elim disjE exE conjE)
    assume "passes (poll P b h n) xs w = Some w'"
    then show ?thesis by (intro exI [of _ "nat tries"]) (simp add: passes_poll_requests xs_def)
  next
    fix ys x zs u
    assume xs: "xs = ys @ x # zs" and ys: "passes (poll P b h n) ys w = Some u"
      and x: "poll P b h n x u = (Inr True, w')"
    have "length xs = nat tries" by (simp add: xs_def)
    then have "length ys + 1 \<le> nat tries" using xs by simp
    moreover have "requests (trace w') = requests (trace w)
        @ concat (replicate (length ys) [Slept n, Got (tx_url b h)]) @ [Slept n, Got (tx_url b h)]"
      using passes_poll_requests [OF ys] poll_requests [OF x] by simp
    moreover have "concat (replicate (length ys + 1) [Slept n, Got (tx_url b h)])
        = concat (replicate (length ys) [Slept n, Got (tx_url b h)]) @ [Slept n, Got (tx_url b h)]"
      by (simp add: replicate_append_same [symmetric] del: replicate_append_same)
    ultimately show ?thesis by (intro exI [of _ "length ys + 1"]) simp
  qed simp_all
qed

lemma check_now_requests:
  assumes "check_now P b h w = (Inr r, w')"
  shows "requests (trace w') = requests (trace w) @ [Got (tx_url b h)]"
proof -
  obtain st v where st: "get_transaction_status P b h w = (Inr st, v)"
    and w': "trace w' = trace v @ [Printed (''Transaction status: '' @ py_str (obj_repr P) st)]"
    using assms by (auto simp: check_now_def bindP_Inr py_print_def ret_def)
  obtain resp s where "http_get P (tx_url b h) (env w) = (Inr resp, s)"
    using st by (cases "http_get P (tx_url b h) (env w)"; cases "fst (http_get P (tx_url b h) (env w))")
      (auto simp: status_failed)
  then show ?thesis using st w' by (auto simp: status_answered)
qed

lemma wait_requests_checked:
  assumes "wait_for_tx P b h tries n c w = (Inr (), w')"
  shows "\<exists>k \<le> nat tries. requests (trace w') = requests (trace w)
    @ (if c then [Got (tx_url b h)] else []) @ concat (replicate k [Slept n, Got (tx_url b h)])"
proof (cases c)
  case True
  obtain r u where r: "check_now P b h w = (Inr r, u)"
    and u: "(if r then ret () else repeat_for tries (poll P b h n)) u = (Inr (), w')"
    using assms True by (auto simp: wait_for_tx_def bindP_Inr)
  show ?thesis
  proof (cases r)
    case True
    then have "w' = u" using u by (simp add: ret_def)
    then show ?thesis using check_now_requests [OF r] \<open>c\<close> by (intro exI [of _ 0]) simp
  next
    case False
    then have "wait_for_tx P b h tries n False u = (Inr (), w')" using u by (simp add: wait_for_tx_def)
    from wait_requests [OF this] show ?thesis using check_now_requests [OF r] \<open>c\<close> by auto
  qed
next
  case False
  with assms have "wait_for_tx P b h tries n False w = (Inr (), w')" by simp
  from wait_requests [OF this] show ?thesis using False by simp
qed

text \<open>The loop stops at the first success, and runs to its end when there is none.\<close>

lemma wait_stops:
  assumes "passes (poll P b h n) (map int [0..<k]) w = Some u" and "k < nat tries"
    and "poll P b h n (int k) u = (Inr True, w')"
  shows "wait_for_tx P b h tries n False w = (Inr (), w')"
  using for_each_break [OF assms(1,3)] map_int_split [OF assms(2)]
  by (simp add: wait_for_tx_def repeat_for_def)

lemma wait_gives_up:
  assumes "passes (poll P b h n) (map int [0..<nat tries]) w = Some w'"
  shows "wait_for_tx P b h tries n False w = (Inr (), w')"
  using for_each_through [OF assms] by (simp add: wait_for_tx_def repeat_for_def)

lemma poll_answered:
  assumes "0 \<le> n" and "pass_time P n (env w) = (Inr (), s)"
    and "http_get P (tx_url b h) s = (Inr resp, s')"
  shows "\<exists>w'. poll P b h n i w = (Inr (eq_str (status_value P h (decoded resp)) ''Success''), w') \<and> env w' = s'"
  using assms
  by (simp add: poll_def bindP_def time_sleep_def env_op_def status_answered py_print_def ret_def)

text \<open>When the server can always be reached, the loop returns, whatever the server answers.\<close>

lemma check_now_answered:
  "http_get P (tx_url b h) (env w) = (Inr resp, s) \<Longrightarrow>
     \<exists>w'. check_now P b h w = (Inr (eq_str (status_value P h (decoded resp)) ''Success''), w')"
  by (simp add: check_now_def bindP_def status_answered py_print_def ret_def)

lemma wait_returns:
  assumes "0 \<le> n" and "\<forall>s. \<exists>s'. pass_time P n s = (Inr (), s')"
    and "\<forall>s. \<exists>resp s'. http_get P (tx_url b h) s = (Inr resp, s')"
  shows "\<exists>w'. wait_for_tx P b h tries n c w = (Inr (), w')"
proof -
  have step: "\<exists>r u. poll P b h n i w = (Inr r, u)" for i w
    using poll_answered [OF assms(1)] assms(2,3) by metis
  have loop: "\<exists>u. for_each xs (poll P b h n) w = (Inr (), u)" for xs w
  proof (induction xs arbitrary: w)
    case (Cons x xs)
    obtain r u where "poll P b h n x w = (Inr r, u)" using step by blast
    with Cons.IH [of u] show ?case by (cases r) (auto simp: bindP_def ret_def)
  qed (simp add: ret_def)
  obtain resp s' where "http_get P (tx_url b h) (env w) = (Inr resp, s')" using assms(3) by blast
  from check_now_answered [OF this]
  have first: "\<exists>r u. (if c then check_now P b h else ret False) w = (Inr r, u)"
    by (cases c) (auto simp: ret_def)
  then obtain r u where "(if c then check_now P b h else ret False) w = (Inr r, u)" by blast
  with loop [of "map int [0..<nat tries]" u] show ?thesis
    by (cases r) (auto simp: wait_for_tx_def bindP_def repeat_for_def ret_def)
qed

end
