(* ===== verification/Codec.thy ===== *)
theory Codec
  imports Py_Prelude
begin

text \<open>
  The contract between an encoder and the decoder of the same values: decoding the encoding of a value,
  whatever bytes follow it, gives the value and what follows.  Nothing else is needed for the encodings
  to be injective and free of prefixes, which the locale proves once.
\<close>

locale codec =
  fixes good :: "'a \<Rightarrow> bool"
    and enc :: "'a \<Rightarrow> bytes result"
    and dec :: "bytes \<Rightarrow> ('a \<times> bytes) result"
  assumes dec_enc: "good v \<Longrightarrow> enc v = Inr bs \<Longrightarrow> dec (bs @ r) = Inr (v, r)"
begin

lemma dec_enc_all: "good v \<Longrightarrow> enc v = Inr bs \<Longrightarrow> dec bs = Inr (v, [])"
  using dec_enc [of v bs "[]"] by simp

lemma prefix_free:
  assumes "good v" "good u" and "enc v = Inr a" "enc u = Inr b" and "prefix a b"
  shows "v = u \<and> a = b"
proof -
  from \<open>prefix a b\<close> obtain r where r: "b = a @ r" by (auto simp: prefix_def)
  then have "Inr (v, r) = (Inr (u, []) :: exc + 'a \<times> bytes)"
    using dec_enc [of v a r] dec_enc_all [of u b] assms by simp
  then show ?thesis using r by simp
qed

lemma enc_inject: "good v \<Longrightarrow> good u \<Longrightarrow> enc v = Inr bs \<Longrightarrow> enc u = Inr bs \<Longrightarrow> v = u"
  using prefix_free by blast

lemma decode_two:
  "good v \<Longrightarrow> good u \<Longrightarrow> enc v = Inr a \<Longrightarrow> enc u = Inr b \<Longrightarrow>
     bindR (dec (a @ b @ r)) (\<lambda>(x, s). bindR (dec s) (\<lambda>(y, t). Inr (x, y, t))) = Inr (v, u, r)"
  by (simp add: dec_enc)

end

end
