(* ===== verification/Transaction_Payload.thy ===== *)
theory Transaction_Payload
  imports Libraries Codec
begin

text \<open>
  \<open>transaction_payload.py\<close>: the three payload classes with their BCS encoding and decoding, and
  \<open>payload_to_dict\<close>, which turns a transaction into the JSON dictionary the RPC server takes.
  An encoder returns the bytes it appends; a decoder takes the remaining input and returns the value
  with what is left.
\<close>

section \<open>TransactionPayload\<close>

definition SCRIPT :: int where "SCRIPT = 0"
definition SCRIPT_FUNCTION :: int where "SCRIPT_FUNCTION = 2"
definition MULTISIG :: int where "MULTISIG = 3"

definition is_Multisig :: "pyval \<Rightarrow> bool" where
  "is_Multisig v = (case v of VMultisig a p \<Rightarrow> True | _ \<Rightarrow> False)"

definition TransactionPayload_init :: "pyval \<Rightarrow> pyval result" where
  "TransactionPayload_init payload =
    (if isinstance payload C_Script then Inr (VTransactionPayload SCRIPT payload)
     else if isinstance payload C_EntryFunction then Inr (VTransactionPayload SCRIPT_FUNCTION payload)
     else if is_Multisig payload then Inr (VTransactionPayload MULTISIG payload)
     else Inl (PlainException ''Invalid type''))"

text \<open>The other two constructors; the payload of a \<open>Multisig\<close> is \<^term>\<open>VNone\<close> by default.\<close>

definition MultiSigTransactionPayload_init :: "pyval \<Rightarrow> pyval" where
  "MultiSigTransactionPayload_init transaction_payload = VMultiSigTransactionPayload transaction_payload"

definition Multisig_init :: "pyval \<Rightarrow> pyval \<Rightarrow> pyval" where
  "Multisig_init multisig_address transaction_payload = VMultisig multisig_address transaction_payload"

lemmas constructor_simps [simp] = MultiSigTransactionPayload_init_def Multisig_init_def

definition TransactionPayload_str :: "(pyval \<Rightarrow> string) \<Rightarrow> pyval \<Rightarrow> string result" where
  "TransactionPayload_str dunder_str self =
     bindR (get_attr self ''value'') (\<lambda>v. Inr (dunder_str v))"

section \<open>Serialization\<close>

definition MultiSigTransactionPayload_serialize :: "sdk \<Rightarrow> pyval \<Rightarrow> bytes result" where
  "MultiSigTransactionPayload_serialize S self =
     bindR (ser_uleb128 S 0) (\<lambda>tag.
     bindR (get_attr self ''transaction_payload'') (\<lambda>tp.
     bindR (ser_object S tp) (\<lambda>body.
     Inr (tag @ body))))"

text \<open>\<open>self.transaction_payload.serialize(serializer)\<close>, by the class of the payload.\<close>

definition inner_serialize :: "sdk \<Rightarrow> pyval \<Rightarrow> bytes result" where
  "inner_serialize S tp =
     (case tp of VMultiSigTransactionPayload ef \<Rightarrow> MultiSigTransactionPayload_serialize S tp
      | _ \<Rightarrow> ser_object S tp)"

definition Multisig_serialize :: "sdk \<Rightarrow> pyval \<Rightarrow> bytes result" where
  "Multisig_serialize S self =
     bindR (get_attr self ''multisig_address'') (\<lambda>addr.
     bindR (ser_object S addr) (\<lambda>a.
     bindR (get_attr self ''transaction_payload'') (\<lambda>tp.
     bindR (ser_bool S (tp \<noteq> VNone)) (\<lambda>b.
     if tp = VNone then Inr (a @ b)
     else bindR (inner_serialize S tp) (\<lambda>p. Inr (a @ b @ p))))))"

text \<open>\<open>self.value.serialize(serializer)\<close>: the value is a \<open>Multisig\<close> or of a library class.\<close>

definition value_serialize :: "sdk \<Rightarrow> pyval \<Rightarrow> bytes result" where
  "value_serialize S v = (if is_Multisig v then Multisig_serialize S v else ser_object S v)"

definition TransactionPayload_serialize :: "sdk \<Rightarrow> pyval \<Rightarrow> bytes result" where
  "TransactionPayload_serialize S self =
     (case self of
        VTransactionPayload variant val \<Rightarrow>
          bindR (ser_uleb128 S variant) (\<lambda>tag.
          bindR (value_serialize S val) (\<lambda>body.
          Inr (tag @ body)))
      | _ \<Rightarrow> Inl (AttributeError ''variant''))"

section \<open>Deserialization\<close>

definition MultiSigTransactionPayload_deserialize :: "sdk \<Rightarrow> bytes \<Rightarrow> (pyval \<times> bytes) result" where
  "MultiSigTransactionPayload_deserialize S inp =
     bindR (des_uleb128 S inp) (\<lambda>(tag, r1).
     bindR (des_entry_function S r1) (\<lambda>(tp, r2).
     Inr (MultiSigTransactionPayload_init tp, r2)))"

definition Multisig_deserialize :: "sdk \<Rightarrow> bytes \<Rightarrow> (pyval \<times> bytes) result" where
  "Multisig_deserialize S inp =
     bindR (des_address S inp) (\<lambda>(addr, r1).
     bindR (des_bool S r1) (\<lambda>(present, r2).
     if present then
       bindR (MultiSigTransactionPayload_deserialize S r2) (\<lambda>(tp, r3).
       Inr (Multisig_init addr tp, r3))
     else Inr (Multisig_init addr VNone, r2)))"

definition TransactionPayload_deserialize :: "sdk \<Rightarrow> bytes \<Rightarrow> (pyval \<times> bytes) result" where
  "TransactionPayload_deserialize S inp =
     bindR (des_uleb128 S inp) (\<lambda>(variant, r1).
     bindR (if variant = SCRIPT then des_script S r1
            else if variant = SCRIPT_FUNCTION then des_entry_function S r1
            else if variant = MULTISIG then Multisig_deserialize S r1
            else Inl (PlainException ''Invalid type'')) (\<lambda>(payload, r2).
     bindR (TransactionPayload_init payload) (\<lambda>p. Inr (p, r2))))"

section \<open>payload_to_dict\<close>

definition payload_tag :: "pyval \<Rightarrow> string result" where
  "payload_tag v =
    (if isinstance v C_EntryFunction then Inr ''EntryFunction''
     else if is_Multisig v then Inr ''Multisig''
     else if isinstance v C_Script then Inr ''Script''
     else Inl (PlainException ''Unknown payload type''))"

text \<open>\<open>[list(item) for item in v]\<close>.\<close>

definition lists_of :: "pyval \<Rightarrow> pyval result" where
  "lists_of v =
     bindR (iterate v) (\<lambda>items.
     bindR (mapR (\<lambda>item. bindR (iterate item) (\<lambda>xs. Inr (VList xs))) items) (\<lambda>ls. Inr (VList ls)))"

definition hidden_attr :: "string \<Rightarrow> bool" where
  "hidden_attr k \<longleftrightarrow> prefix ''_'' k \<or> k = ''prehash''"

text \<open>A bound on the nesting of objects, for the termination of the recursion through \<open>__dict__\<close>.\<close>

fun vsize :: "pyval \<Rightarrow> nat" and asize :: "attrs \<Rightarrow> nat" where
  "vsize (VTransactionPayload n v) = 4 + vsize v"
| "vsize (VMultiSigTransactionPayload p) = 2 + vsize p"
| "vsize (VMultisig a p) = 3 + vsize a + vsize p"
| "vsize (VObj c fs) = 1 + asize fs"
| "vsize v = 1"
| "asize [] = 0"
| "asize ((k, v) # fs) = 1 + vsize v + asize fs"

lemma vars_of_size: "vars_of v = Some fs \<Longrightarrow> asize fs < vsize v"
  by (cases v) auto

lemma dunder_dict_size: "dunder_dict v = Inr fs \<Longrightarrow> asize fs < vsize v"
  by (auto simp: dunder_dict_def of_option_def intro: vars_of_size split: option.splits)

text \<open>
  \<open>payload_to_dict\<close> walks \<open>obj.__dict__\<close>; \<open>payload_attrs\<close> is its loop, with the dictionary built so
  far.  The branches are those of the \<open>if\<close> chain in the loop body, in order.
\<close>

function payload_to_dict :: "sdk \<Rightarrow> pyval \<Rightarrow> pyval result"
  and payload_attrs :: "sdk \<Rightarrow> attrs \<Rightarrow> attrs \<Rightarrow> attrs result" where
  "payload_to_dict S obj =
     bindR (dunder_dict obj) (\<lambda>fs. bindR (payload_attrs S fs []) (\<lambda>d. Inr (VDict d)))"
| "payload_attrs S [] d = Inr d"
| "payload_attrs S ((k, v) # rest) d =
    (if hidden_attr k then payload_attrs S rest d
     else case v of
       VTransactionPayload n val \<Rightarrow>
         bindR (payload_tag val) (\<lambda>tag.
         bindR (payload_to_dict S val) (\<lambda>u.
         payload_attrs S rest (AList.update k (VDict [(tag, u)]) d)))
     | VMultiSigTransactionPayload tp \<Rightarrow>
         bindR (payload_to_dict S tp) (\<lambda>u.
         payload_attrs S rest (AList.update k (VDict [(''EntryFunction'', u)]) d))
     | _ \<Rightarrow>
         if isinstance v C_AccountAddress then
           payload_attrs S rest (AList.update k (VStr (obj_str S v)) d)
         else if k = ''args'' then
           bindR (lists_of v) (\<lambda>u. payload_attrs S rest (AList.update k u d))
         else if k = ''expiration_timestamps_secs'' then
           payload_attrs S rest (AList.update ''expiration_timestamp_secs'' v d)
         else if vars_of v \<noteq> None then
           bindR (payload_to_dict S v) (\<lambda>u. payload_attrs S rest (AList.update k u d))
         else payload_attrs S rest (AList.update k v d))"
  by pat_completeness auto
termination
  by (relation "measure (\<lambda>x. case x of Inl (S, obj) \<Rightarrow> vsize obj | Inr (S, fs, d) \<Rightarrow> asize fs)")
    (auto dest: dunder_dict_size)

declare payload_to_dict.simps [simp del]

section \<open>The encoding is a codec\<close>

text \<open>The payloads the constructors' type annotations describe.\<close>

definition mstp_ok :: "pyval \<Rightarrow> bool" where
  "mstp_ok v = (case v of VMultiSigTransactionPayload ef \<Rightarrow> isinstance ef C_EntryFunction | _ \<Rightarrow> False)"

definition multisig_ok :: "pyval \<Rightarrow> bool" where
  "multisig_ok v =
    (case v of VMultisig a p \<Rightarrow> isinstance a C_AccountAddress \<and> (p = VNone \<or> mstp_ok p) | _ \<Rightarrow> False)"

definition payload_ok :: "pyval \<Rightarrow> bool" where
  "payload_ok v =
    (case v of
       VTransactionPayload n val \<Rightarrow>
         TransactionPayload_init val = Inr v \<and> (is_Multisig val \<longrightarrow> multisig_ok val)
     | _ \<Rightarrow> False)"

lemma isinstance_simps [simp]:
  "isinstance (VMultisig a p) c = False"
  "isinstance (VMultiSigTransactionPayload q) c = False"
  "isinstance (VTransactionPayload n v) c = False"
  "isinstance (VObj c' fs) c = (c' = c)"
  "isinstance VNone c = False"
  by (simp_all add: isinstance_def)

lemma is_Multisig_simps [simp]:
  "is_Multisig (VMultisig a p)"
  "\<not> is_Multisig (VObj c fs)"
  by (simp_all add: is_Multisig_def)

lemma isinstance_VObj: "isinstance v c \<longleftrightarrow> (\<exists>fs. v = VObj c fs)"
  by (cases v) (auto simp: isinstance_def)

lemma is_Multisig_iff: "is_Multisig v \<longleftrightarrow> (\<exists>a p. v = VMultisig a p)"
  by (cases v) (auto simp: is_Multisig_def)

lemma isinstance_not_Multisig: "isinstance v c \<Longrightarrow> \<not> is_Multisig v"
  by (auto simp: isinstance_VObj)

text \<open>Construction succeeds for the three payload classes and for nothing else.\<close>

lemma TransactionPayload_init_cases:
  "TransactionPayload_init v = Inr p \<longleftrightarrow>
     isinstance v C_Script \<and> p = VTransactionPayload 0 v
   \<or> isinstance v C_EntryFunction \<and> p = VTransactionPayload 2 v
   \<or> is_Multisig v \<and> p = VTransactionPayload 3 v"
  by (auto simp: TransactionPayload_init_def SCRIPT_def SCRIPT_FUNCTION_def MULTISIG_def
      isinstance_VObj is_Multisig_iff)

lemma mstp_round:
  assumes "bcs_laws S" and "mstp_ok v" and "MultiSigTransactionPayload_serialize S v = Inr bs"
  shows "MultiSigTransactionPayload_deserialize S (bs @ r) = Inr (v, r)"
  using assms
  by (auto simp: mstp_ok_def MultiSigTransactionPayload_serialize_def bindR_eq_Inr
      MultiSigTransactionPayload_deserialize_def bcs_lawsD split: pyval.splits)

interpretation mstp: codec
  "\<lambda>v. bcs_laws S \<and> mstp_ok v"
  "MultiSigTransactionPayload_serialize S" "MultiSigTransactionPayload_deserialize S"
  for S :: sdk
  by unfold_locales (auto intro: mstp_round)

lemma multisig_round:
  assumes "bcs_laws S" and "multisig_ok v" and "Multisig_serialize S v = Inr bs"
  shows "Multisig_deserialize S (bs @ r) = Inr (v, r)"
proof -
  obtain a p where v: "v = VMultisig a p" and a: "isinstance a C_AccountAddress"
    and p: "p = VNone \<or> mstp_ok p"
    using assms(2) by (auto simp: multisig_ok_def split: pyval.splits)
  show ?thesis
  proof (cases "p = VNone")
    case True
    then show ?thesis
      using assms v a
      by (auto simp: Multisig_serialize_def Multisig_deserialize_def bindR_eq_Inr bcs_lawsD)
  next
    case False
    then have "inner_serialize S p = MultiSigTransactionPayload_serialize S p" and "mstp_ok p"
      using p by (auto simp: inner_serialize_def mstp_ok_def split: pyval.splits)
    then show ?thesis
      using assms v a False
      by (auto simp: Multisig_serialize_def Multisig_deserialize_def bindR_eq_Inr bcs_lawsD
          mstp.dec_enc)
  qed
qed

interpretation multisig: codec
  "\<lambda>v. bcs_laws S \<and> multisig_ok v" "Multisig_serialize S" "Multisig_deserialize S"
  for S :: sdk
  by unfold_locales (auto intro: multisig_round)

lemma payload_round:
  assumes "bcs_laws S" and "payload_ok v" and "TransactionPayload_serialize S v = Inr bs"
  shows "TransactionPayload_deserialize S (bs @ r) = Inr (v, r)"
proof -
  obtain n val where v: "v = VTransactionPayload n val"
    and init: "TransactionPayload_init val = Inr v" and ms: "is_Multisig val \<longrightarrow> multisig_ok val"
    using assms(2) by (auto simp: payload_ok_def split: pyval.splits)
  obtain tag body where tag: "ser_uleb128 S n = Inr tag" and body: "value_serialize S val = Inr body"
    and bs: "bs = tag @ body"
    using assms(3) v by (auto simp: TransactionPayload_serialize_def bindR_eq_Inr)
  have kinds: "isinstance val C_Script \<and> n = SCRIPT \<or> isinstance val C_EntryFunction \<and> n = SCRIPT_FUNCTION
      \<or> is_Multisig val \<and> n = MULTISIG"
    using init v by (auto simp: TransactionPayload_init_cases SCRIPT_def SCRIPT_FUNCTION_def MULTISIG_def)
  have "(if n = SCRIPT then des_script S (body @ r)
         else if n = SCRIPT_FUNCTION then des_entry_function S (body @ r)
         else if n = MULTISIG then Multisig_deserialize S (body @ r)
         else Inl (PlainException ''Invalid type'')) = Inr (val, r)"
    using kinds body ms assms(1)
    by (elim disjE conjE)
      (simp_all add: value_serialize_def bcs_lawsD isinstance_not_Multisig multisig.dec_enc
        SCRIPT_def SCRIPT_FUNCTION_def MULTISIG_def)
  then show ?thesis
    using init v tag assms(1) unfolding bs
    by (simp add: TransactionPayload_deserialize_def bcs_lawsD)
qed

interpretation tx_payload: codec
  "\<lambda>v. bcs_laws S \<and> payload_ok v" "TransactionPayload_serialize S" "TransactionPayload_deserialize S"
  for S :: sdk
  by unfold_locales (auto intro: payload_round)

end
