(* ===== verification/Payload_Dict.thy ===== *)
theory Payload_Dict
  imports Transaction_Payload
begin

text \<open>
  What \<open>payload_to_dict\<close> does, as lemmas: its loop is a map over the visible attributes followed by
  dictionary insertions; which keys the result has; when it succeeds with a dictionary that
  \<open>json.dumps\<close> accepts; and the dictionary it makes of a transaction.
\<close>

section \<open>The loop as map and insert\<close>

text \<open>The key and value one visible attribute contributes: the branches of the loop body.\<close>

definition attr_entry :: "sdk \<Rightarrow> string \<times> pyval \<Rightarrow> (string \<times> pyval) result" where
  "attr_entry S a =
    (case a of (k, v) \<Rightarrow>
     case v of
       VTransactionPayload n val \<Rightarrow>
         bindR (payload_tag val) (\<lambda>tag. bindR (payload_to_dict S val) (\<lambda>u. Inr (k, VDict [(tag, u)])))
     | VMultiSigTransactionPayload tp \<Rightarrow>
         bindR (payload_to_dict S tp) (\<lambda>u. Inr (k, VDict [(''EntryFunction'', u)]))
     | _ \<Rightarrow>
         if isinstance v C_AccountAddress then Inr (k, VStr (obj_str S v))
         else if k = ''args'' then bindR (lists_of v) (\<lambda>u. Inr (k, u))
         else if k = ''expiration_timestamps_secs'' then Inr (''expiration_timestamp_secs'', v)
         else if vars_of v \<noteq> None then bindR (payload_to_dict S v) (\<lambda>u. Inr (k, u))
         else Inr (k, v))"

definition insert_all :: "attrs \<Rightarrow> attrs \<Rightarrow> attrs" where
  "insert_all es d = fold (\<lambda>e. AList.update (fst e) (snd e)) es d"

definition visible :: "attrs \<Rightarrow> attrs" where
  "visible fs = filter (\<lambda>a. \<not> hidden_attr (fst a)) fs"

lemma visible_simps [simp]:
  "visible [] = []"
  "visible ((k, v) # fs) = (if hidden_attr k then visible fs else (k, v) # visible fs)"
  by (simp_all add: visible_def)

lemma insert_all_simps [simp]:
  "insert_all [] d = d"
  "insert_all ((k, u) # es) d = insert_all es (AList.update k u d)"
  by (simp_all add: insert_all_def)

lemma payload_attrs_Cons:
  "payload_attrs S ((k, v) # rest) d =
    (if hidden_attr k then payload_attrs S rest d
     else bindR (attr_entry S (k, v)) (\<lambda>(k', u). payload_attrs S rest (AList.update k' u d)))"
  by (cases v) (simp_all add: attr_entry_def bindR_assoc)

lemma payload_attrs_loop:
  "payload_attrs S fs d = bindR (mapR (attr_entry S) (visible fs)) (\<lambda>es. Inr (insert_all es d))"
proof (induction fs arbitrary: d)
  case (Cons a fs)
  obtain k v where a: "a = (k, v)" by fastforce
  show ?case
    by (cases "attr_entry S (k, v)")
      (auto simp: a payload_attrs_Cons Cons.IH bindR_assoc simp del: payload_attrs.simps)
qed simp

lemma payload_to_dict_loop:
  "payload_to_dict S obj =
     bindR (dunder_dict obj) (\<lambda>fs.
     bindR (mapR (attr_entry S) (visible fs)) (\<lambda>es. Inr (VDict (insert_all es []))))"
  by (simp add: payload_to_dict.simps payload_attrs_loop bindR_assoc)

section \<open>The keys of the dictionary\<close>

definition out_key :: "string \<times> pyval \<Rightarrow> string" where
  "out_key a =
    (case a of (k, v) \<Rightarrow>
       if k = ''expiration_timestamps_secs'' \<and> \<not> isinstance v C_AccountAddress
          \<and> (\<forall>n u. v \<noteq> VTransactionPayload n u) \<and> (\<forall>u. v \<noteq> VMultiSigTransactionPayload u)
       then ''expiration_timestamp_secs'' else k)"

lemma attr_entry_key: "attr_entry S a = Inr e \<Longrightarrow> fst e = out_key a"
  by (cases a; cases "snd a")
    (auto simp: attr_entry_def out_key_def bindR_eq_Inr split: if_splits)

lemma attr_entries_keys: "mapR (attr_entry S) as = Inr es \<Longrightarrow> map fst es = map out_key as"
  unfolding mapR_eq_Inr by (induction rule: list_all2_induct) (auto dest: attr_entry_key)

lemma insert_all_keys: "fst ` set (insert_all es d) = fst ` set d \<union> fst ` set es"
proof (induction es arbitrary: d)
  case (Cons e es)
  then show ?case by (cases e) (auto simp: dom_update)
qed simp

lemma insert_all_distinct:
  assumes "distinct (map fst (d @ es))"
  shows "insert_all es d = d @ es"
  using assms
proof (induction es arbitrary: d)
  case (Cons e es)
  obtain k u where e: "e = (k, u)" by fastforce
  have "AList.update k u d = d @ [(k, u)]"
    using Cons.prems e by (intro update_new_key) auto
  then show ?case using Cons e by simp
qed simp

lemma payload_to_dict_keys:
  assumes "payload_to_dict S obj = Inr r" and "vars_of obj = Some fs"
  shows "\<exists>kvs. r = VDict kvs \<and> fst ` set kvs = out_key ` set (visible fs)"
proof -
  obtain es where es: "mapR (attr_entry S) (visible fs) = Inr es" and r: "r = VDict (insert_all es [])"
    using assms by (auto simp: payload_to_dict_loop dunder_dict_def of_option_def bindR_eq_Inr)
  have "fst ` set (insert_all es []) = out_key ` set (visible fs)"
    using attr_entries_keys [OF es] by (metis insert_all_keys list.set_map sup_bot.left_neutral image_empty empty_set)
  then show ?thesis using r by blast
qed

lemma payload_to_dict_order:
  assumes "payload_to_dict S obj = Inr (VDict kvs)" and "vars_of obj = Some fs"
    and "distinct (map out_key (visible fs))"
  shows "map fst kvs = map out_key (visible fs)"
proof -
  obtain es where es: "mapR (attr_entry S) (visible fs) = Inr es" and r: "kvs = insert_all es []"
    using assms(1,2) by (auto simp: payload_to_dict_loop dunder_dict_def of_option_def bindR_eq_Inr)
  have "distinct (map fst es)" using attr_entries_keys [OF es] assms(3) by simp
  then show ?thesis using attr_entries_keys [OF es] r by (simp add: insert_all_distinct)
qed

section \<open>When the dictionary can be sent\<close>

text \<open>
  A type system for objects: the attributes are addresses, payload objects, further objects, lists
  under \<open>args\<close>, or values \<open>json.dumps\<close> accepts.
\<close>

definition json_lists :: "pyval \<Rightarrow> bool" where
  "json_lists v = (case lists_of v of Inr u \<Rightarrow> json_able u | Inl e \<Rightarrow> False)"

function wire_object :: "pyval \<Rightarrow> bool" and wire_attrs :: "attrs \<Rightarrow> bool" where
  "wire_object obj = (case vars_of obj of None \<Rightarrow> False | Some fs \<Rightarrow> wire_attrs fs)"
| "wire_attrs [] = True"
| "wire_attrs ((k, v) # rest) =
    ((hidden_attr k
      \<or> (case v of
           VTransactionPayload n val \<Rightarrow>
             (isinstance val C_EntryFunction \<or> is_Multisig val \<or> isinstance val C_Script) \<and> wire_object val
         | VMultiSigTransactionPayload tp \<Rightarrow> wire_object tp
         | _ \<Rightarrow> isinstance v C_AccountAddress
             \<or> (if k = ''args'' then json_lists v
                else if k \<noteq> ''expiration_timestamps_secs'' \<and> vars_of v \<noteq> None then wire_object v
                else json_able v)))
     \<and> wire_attrs rest)"
  by pat_completeness auto
termination
  by (relation "measure (\<lambda>x. case x of Inl obj \<Rightarrow> vsize obj | Inr fs \<Rightarrow> asize fs)")
    (auto dest: vars_of_size)

declare wire_object.simps [simp del]

definition sendable :: "pyval result \<Rightarrow> bool" where
  "sendable r = (\<exists>kvs. r = Inr (VDict kvs) \<and> json_able (VDict kvs))"

lemma json_able_insert_all:
  "(\<forall>e \<in> set es. json_able (snd e)) \<Longrightarrow> (\<forall>e \<in> set d. json_able (snd e))
     \<Longrightarrow> \<forall>e \<in> set (insert_all es d). json_able (snd e)"
proof (induction es arbitrary: d)
  case (Cons e es)
  obtain k u where e: "e = (k, u)" by fastforce
  have "\<forall>x \<in> set (AList.update k u d). json_able (snd x)"
    using Cons.prems e by (induction d) auto
  then show ?case using Cons e by simp
qed simp

lemma payload_tag_ok:
  "isinstance val C_EntryFunction \<or> is_Multisig val \<or> isinstance val C_Script \<Longrightarrow> \<exists>t. payload_tag val = Inr t"
  by (auto simp: payload_tag_def)

lemma sendable_payload_to_dict:
  assumes "vars_of obj = Some fs"
    and "list_all (\<lambda>a. \<exists>e. attr_entry S a = Inr e \<and> json_able (snd e)) (visible fs)"
  shows "sendable (payload_to_dict S obj)"
proof -
  obtain f where f: "\<And>a. a \<in> set (visible fs) \<Longrightarrow> attr_entry S a = Inr (f a) \<and> json_able (snd (f a))"
    using assms(2) unfolding list_all_iff by metis
  then have "mapR (attr_entry S) (visible fs) = Inr (map f (visible fs))"
    by (intro mapR_total) blast
  moreover have "\<forall>e \<in> set (insert_all (map f (visible fs)) []). json_able (snd e)"
    using f by (intro json_able_insert_all) auto
  ultimately show ?thesis
    using assms(1) by (auto simp: sendable_def payload_to_dict_loop dunder_dict_def of_option_def)
qed

lemma wire_sendable:
  "wire_object obj \<Longrightarrow> sendable (payload_to_dict S obj)"
  "wire_attrs fs \<Longrightarrow> list_all (\<lambda>a. \<exists>e. attr_entry S a = Inr e \<and> json_able (snd e)) (visible fs)"
proof (induction obj and fs rule: wire_object_wire_attrs.induct)
  case (1 obj)
  then obtain fs where "vars_of obj = Some fs" "wire_attrs fs"
    by (auto simp: wire_object.simps split: option.splits)
  then show ?case using 1 by (intro sendable_payload_to_dict) auto
next
  case 2
  then show ?case by simp
next
  case (3 k v rest)
  have "\<exists>e. attr_entry S (k, v) = Inr e \<and> json_able (snd e)" if "\<not> hidden_attr k"
  proof (cases v)
    case (VTransactionPayload n val)
    then have w: "sendable (payload_to_dict S val)"
      and t: "isinstance val C_EntryFunction \<or> is_Multisig val \<or> isinstance val C_Script"
      using 3 that by auto
    obtain t where "payload_tag val = Inr t" using payload_tag_ok [OF t] by blast
    then show ?thesis using w VTransactionPayload by (auto simp: attr_entry_def sendable_def)
  next
    case (VMultiSigTransactionPayload tp)
    then have "sendable (payload_to_dict S tp)" using 3 that by auto
    then show ?thesis using VMultiSigTransactionPayload by (auto simp: attr_entry_def sendable_def)
  qed (use 3 that in \<open>auto simp: attr_entry_def sendable_def json_lists_def split: if_splits sum.splits\<close>)
  then show ?case using 3 by auto
qed

end
