(* ===== verification/Transfer_Supra.thy ===== *)
theory Transfer_Supra
  imports Airdrop Check_Transaction Payload_Dict
begin

text \<open>
  \<open>transfer_supra.py\<close>: building, signing, simulating and submitting a transaction.  Default values of
  keyword arguments are written out where a caller leaves them.
\<close>

section \<open>Requests\<close>

definition get_account_seq_num :: "'s platform \<Rightarrow> string \<Rightarrow> string \<Rightarrow> ('s, int) prog" where
  "get_account_seq_num P base_url account_addr =
     bindP (get_account P base_url account_addr) (\<lambda>a.
     liftR (bindR (get_key a ''sequence_number'') py_int))"

definition post_json :: "'s platform \<Rightarrow> string \<Rightarrow> pyval \<Rightarrow> ('s, pyval) prog" where
  "post_json P url d =
     bindP (requests_post P url d) (\<lambda>resp.
     case reply_json resp of
       Some v \<Rightarrow> ret v
     | None \<Rightarrow> thenP (py_print (''post_json: error decoding JSON '' @ reply_shown resp
                              @ '', with error text: '' @ reply_text resp))
               (ret (VDict [])))"

definition simulate_url :: "string \<Rightarrow> string" where
  "simulate_url base_url = base_url @ ''/rpc/v1/transactions/simulate''"

definition submit_url :: "string \<Rightarrow> string" where
  "submit_url base_url = base_url @ ''/rpc/v1/transactions/submit''"

definition chain_id_url :: "string option \<Rightarrow> string" where
  "chain_id_url base_url =
     (case base_url of None \<Rightarrow> ''None'' | Some b \<Rightarrow> b) @ ''/rpc/v1/transactions/chain_id''"

definition simulate_tx_json :: "'s platform \<Rightarrow> string \<Rightarrow> pyval \<Rightarrow> ('s, unit) prog" where
  "simulate_tx_json P base_url simulate_tx_dict =
     bindP (post_json P (simulate_url base_url) simulate_tx_dict) (\<lambda>res_data.
     bindP (try_except (liftR (get_path res_data [''output'', ''Move'', ''vm_status'']))
              (\<lambda>_. thenP (py_print (py_str (obj_repr P) res_data)) (ret (VStr ''Error'')))) (\<lambda>res.
     py_print (''Simulation result: '' @ py_str (obj_repr P) res)))"

definition submit_tx_json :: "'s platform \<Rightarrow> string \<Rightarrow> pyval \<Rightarrow> ('s, string) prog" where
  "submit_tx_json P base_url send_tx_dict =
     bindP (post_json P (submit_url base_url) send_tx_dict) (\<lambda>r. ret (py_str (obj_repr P) r))"

section \<open>Building transactions\<close>

definition prehash_salt :: "pyval \<Rightarrow> string" where
  "prehash_salt self =
    (if isinstance self C_MultiAgentRawTransaction then ''SUPRA::RawTransactionWithData''
     else ''SUPRA::RawTransaction'')"

definition supra_prehash :: "pyval \<Rightarrow> bytes" where
  "supra_prehash self = sha3_256 (str_encode (prehash_salt self))"

definition create_entry_func ::
  "sdk \<Rightarrow> string \<Rightarrow> string \<Rightarrow> pyval list \<Rightarrow> encoder list \<Rightarrow> pyval \<Rightarrow> pyval list \<Rightarrow> pyval result" where
  "create_entry_func S module_name function_name function_args function_args_encoders module_addr type_args =
     bindR (mapR (\<lambda>(i, arg). bindR (py_nth function_args_encoders (int i)) (\<lambda>enc. Inr (arg, enc)))
                 (enumerate 0 function_args)) (\<lambda>args.
     ef_natural S (module_id_str S module_addr module_name) function_name type_args args)"

text \<open>A call with the default \<open>module_addr\<close> and \<open>type_args\<close>.\<close>

definition create_entry_func_0x1 ::
  "sdk \<Rightarrow> string \<Rightarrow> string \<Rightarrow> pyval list \<Rightarrow> encoder list \<Rightarrow> pyval result" where
  "create_entry_func_0x1 S module_name function_name function_args encs =
     bindR (addr_from_str_relaxed S (VStr ''1'')) (\<lambda>a.
     create_entry_func S module_name function_name function_args encs a [])"

text \<open>The attribute \<open>MethodType(supra_prehash, raw_tx)\<close>.\<close>

definition bound_prehash :: pyval where
  "bound_prehash = VObj (C_Other ''method'') [(''__func__'', VStr ''supra_prehash'')]"

definition create_raw_tx ::
  "sdk \<Rightarrow> 's platform \<Rightarrow> pyval \<Rightarrow> int \<Rightarrow> pyval \<Rightarrow> int \<Rightarrow> int \<Rightarrow> int \<Rightarrow> pyval \<Rightarrow> string option
     \<Rightarrow> ('s, pyval) prog" where
  "create_raw_tx S P sender_addr sender_sequence_number payload_content max_gas gas_unit_price
      tx_expiry_timespan chain_id base_url =
     bindP (time_now P) (\<lambda>now.
     let tx_expiry_time = now + tx_expiry_timespan in
     bindP (if truth chain_id then ret chain_id else get_json P (chain_id_url base_url)) (\<lambda>chain_id'.
     bindP (liftR (TransactionPayload_init payload_content)) (\<lambda>payload.
     let raw_tx = raw_transaction S sender_addr (VInt sender_sequence_number) payload (VInt max_gas)
                    (VInt gas_unit_price) (VInt tx_expiry_time) chain_id' in
     liftR (set_attr raw_tx ''prehash'' bound_prehash))))"

text \<open>\<open>raw_txn.keyed()\<close>: it calls \<open>self.prehash()\<close>, the bound method where one was set.\<close>

definition keyed :: "sdk \<Rightarrow> pyval \<Rightarrow> bytes result" where
  "keyed S raw_txn =
     raw_keyed S (if get_attr raw_txn ''prehash'' = Inr bound_prehash then supra_prehash raw_txn
                  else raw_prehash S raw_txn)
       (TransactionPayload_serialize S) raw_txn"

lemma get_attr_size: "get_attr obj a = Inr v \<Longrightarrow> vsize v < vsize obj"
proof -
  assume "get_attr obj a = Inr v"
  then obtain fs where fs: "vars_of obj = Some fs" and v: "map_of fs a = Some v"
    by (auto simp: get_attr_def of_option_def split: option.splits)
  from v have "vsize v \<le> asize fs"
    by (induction fs) (auto split: if_splits)
  with vars_of_size [OF fs] show ?thesis by simp
qed

text \<open>\<open>auth_attrs\<close> is the loop over \<open>obj.__dict__\<close>, with the dictionary built so far.\<close>

function auth_to_dict :: "sdk \<Rightarrow> pyval \<Rightarrow> pyval result"
  and auth_attrs :: "sdk \<Rightarrow> attrs \<Rightarrow> attrs \<Rightarrow> attrs result" where
  "auth_to_dict S obj =
    (if isinstance obj C_Authenticator then
       bindR (get_attr obj ''variant'') (\<lambda>variant.
       if variant = VInt (authenticator_ED25519 S) then
         bindR (get_attr obj ''authenticator'') (\<lambda>a.
         bindR (auth_to_dict S a) (\<lambda>u. Inr (VDict [(''Ed25519'', u)])))
       else Inl NotImplementedError)
     else bindR (dunder_dict obj) (\<lambda>fs. bindR (auth_attrs S fs []) (\<lambda>d. Inr (VDict d))))"
| "auth_attrs S [] d = Inr d"
| "auth_attrs S ((k, v) # rest) d =
    (if isinstance v C_PublicKey \<or> isinstance v C_Signature then
       auth_attrs S rest (AList.update k (VStr (obj_str S v)) d)
     else if vars_of v \<noteq> None then
       bindR (auth_to_dict S v) (\<lambda>u. auth_attrs S rest (AList.update k u d))
     else auth_attrs S rest (AList.update k v d))"
  by pat_completeness auto
termination
  by (relation "measure (\<lambda>x. case x of Inl (S, obj) \<Rightarrow> vsize obj | Inr (S, fs, d) \<Rightarrow> asize fs)")
    (auto dest: dunder_dict_size get_attr_size)

declare auth_to_dict.simps [simp del]

definition create_tx_dict :: "sdk \<Rightarrow> pyval \<Rightarrow> pyval \<Rightarrow> pyval \<Rightarrow> pyval result" where
  "create_tx_dict S pub_key sig raw_txn =
    (let auth = authenticator_new S (ed25519_authenticator_new S pub_key sig)
     in bindR (payload_to_dict S raw_txn) (\<lambda>raw_dict.
        bindR (auth_to_dict S auth) (\<lambda>auth_dict.
        Inr (VDict [(''Move'', VDict [(''raw_txn'', raw_dict), (''authenticator'', auth_dict)])]))))"

definition create_send_tx_dict :: "sdk \<Rightarrow> pyval \<Rightarrow> pyval \<Rightarrow> pyval result" where
  "create_send_tx_dict S sender_account raw_txn =
     bindR (keyed S raw_txn) (\<lambda>msg.
     create_tx_dict S (account_public_key S sender_account) (account_sign S sender_account msg) raw_txn)"

definition create_simulate_tx_dict :: "sdk \<Rightarrow> 's platform \<Rightarrow> pyval \<Rightarrow> pyval \<Rightarrow> ('s, pyval) prog" where
  "create_simulate_tx_dict S P sender_pub_key raw_txn =
     bindP (env_op Drew_key (random_private_key P)) (\<lambda>private_key.
     liftR (bindR (keyed S raw_txn) (\<lambda>msg.
       create_tx_dict S sender_pub_key (private_key_sign S private_key msg) raw_txn)))"

section \<open>Sending\<close>

definition send_tx :: "sdk \<Rightarrow> 's platform \<Rightarrow> string \<Rightarrow> pyval \<Rightarrow> pyval \<Rightarrow> int \<Rightarrow> int \<Rightarrow> ('s, string) prog" where
  "send_tx S P base_url sender_account payload_content max_gas gas_price =
    (let sender = account_address S sender_account in
     bindP (get_account_seq_num P base_url (obj_str S sender)) (\<lambda>seq_num.
     bindP (create_raw_tx S P sender seq_num payload_content max_gas gas_price 300 VNone (Some base_url)) (\<lambda>raw_txn.
     bindP (create_simulate_tx_dict S P (account_public_key S sender_account) raw_txn) (\<lambda>sim_tx_dict.
     thenP (simulate_tx_json P base_url sim_tx_dict)
    (bindP (liftR (create_send_tx_dict S sender_account raw_txn)) (\<lambda>send_tx_dict.
     submit_tx_json P base_url send_tx_dict))))))"

definition create_transfer_supra_entry_func ::
  "sdk \<Rightarrow> 's platform \<Rightarrow> string \<Rightarrow> string \<Rightarrow> int \<Rightarrow> ('s, pyval \<times> int) prog" where
  "create_transfer_supra_entry_func S P base_url rcpt_account_addr amount =
     bindP (account_exists P base_url rcpt_account_addr) (\<lambda>ex.
     let max_gas = (if ex then 10 else 1020) in
     bindP (liftR (bindR (addr_from_str_relaxed S (VStr rcpt_account_addr)) (\<lambda>rcpt.
              create_entry_func_0x1 S ''supra_account'' ''transfer'' [rcpt, VInt amount] [Enc_struct, Enc_u64])))
       (\<lambda>entry_func. ret (entry_func, max_gas)))"

text \<open>The body of the loop of the script.\<close>

definition transfer_round ::
  "sdk \<Rightarrow> 's platform \<Rightarrow> string \<Rightarrow> pyval \<Rightarrow> string \<Rightarrow> string \<Rightarrow> pyval \<Rightarrow> int \<Rightarrow> ('s, bool) prog" where
  "transfer_round S P base_url sender_account sender_addr recipient_addr entry_func max_gas =
     bindP (get_account_supra_coin_balance P base_url sender_addr) (\<lambda>sender_balance_before.
     bindP (get_account_supra_coin_balance P base_url recipient_addr) (\<lambda>rcpt_balance_before.
     bindP (time_now P) (\<lambda>start_time.
     bindP (send_tx S P base_url sender_account entry_func max_gas 100) (\<lambda>tx_hash.
     bindP (time_now P) (\<lambda>submit_time.
     thenP (py_print (''Transaction submitted with hash: '' @ tx_hash))
    (thenP (wait_for_tx P base_url tx_hash 30 1 False)
    (bindP (get_transaction_block_time P base_url tx_hash) (\<lambda>t.
     let block_time = t div 1000000 in
     bindP (time_now P) (\<lambda>current_time.
     bindP (get_transaction_block_height P base_url tx_hash) (\<lambda>block_height.
     bindP (get_block_round_by_height P base_url block_height) (\<lambda>rnd.
     bindP (get_block_round_by_height P base_url (block_height - 1)) (\<lambda>previous_rnd.
     thenP (py_print (''Submission: '' @ str_of_int (submit_time - start_time)
              @ ''s, Pre-block: '' @ str_of_int (block_time - submit_time)
              @ ''s, Block: '' @ str_of_int (current_time - block_time)
              @ ''s, Timeout rounds: '' @ str_of_int (rnd - previous_rnd - 1)))
    (bindP (get_account_supra_coin_balance P base_url sender_addr) (\<lambda>sender_balance.
     bindP (get_account_supra_coin_balance P base_url recipient_addr) (\<lambda>rcpt_balance.
     thenP (py_print (''Sender: '' @ str_of_int (sender_balance - sender_balance_before)
              @ '', Recipient: '' @ str_of_int (rcpt_balance - rcpt_balance_before)))
     (ret False))))))))))))))))"

definition transfer_supra_main :: "sdk \<Rightarrow> crypto \<Rightarrow> 's platform \<Rightarrow> ('s, unit) prog" where
  "transfer_supra_main S C P =
    (let is_testnet = True;
         base_url = (if is_testnet then ''https://rpc-testnet1.supra.com'' else ''https://rpc-mainnet.supra.com'');
         mnemonic_file = (if is_testnet then ''mnemonic_multisig.enc'' else ''mnemonic_multisig_mainnet.enc'');
         rounds = (if is_testnet then 1000 else 1);
         recipient_addr = ''e3948c9e3a24c51c4006ef2acc44606055117d021158f320062df099c4a94150'';
         amount = 1000000000
     in bindP (get_account_addr S C P mnemonic_file) (\<lambda>(sender_account, sender_addr).
        thenP (py_print (''Transferring '' @ str_of_int amount @ '' quants from '' @ sender_addr
                         @ '' to '' @ recipient_addr @ ''.''))
       (bindP (create_transfer_supra_entry_func S P base_url recipient_addr amount) (\<lambda>(entry_func, max_gas).
        repeat_for rounds (\<lambda>i.
          transfer_round S P base_url sender_account sender_addr recipient_addr entry_func max_gas)))))"

end
