(* ===== verification/Transfer_Facts.thy ===== *)
theory Transfer_Facts
  imports Transfer_Supra
begin

text \<open>
  What \<open>transfer_supra.py\<close> does, as lemmas: the outcome of each request, the transaction that is built,
  the dictionaries that are sent, and the requests of \<open>send_tx\<close> from beginning to end.
\<close>

section \<open>What aptos_sdk's constructors make\<close>

text \<open>The attributes of \<open>RawTransaction\<close>, in the order its constructor sets them.\<close>

definition raw_attrs :: "pyval \<Rightarrow> pyval \<Rightarrow> pyval \<Rightarrow> pyval \<Rightarrow> pyval \<Rightarrow> pyval \<Rightarrow> pyval \<Rightarrow> attrs" where
  "raw_attrs sender seq payload gas price expiry chain =
     [(''sender'', sender), (''sequence_number'', seq), (''payload'', payload), (''max_gas_amount'', gas),
      (''gas_unit_price'', price), (''expiration_timestamps_secs'', expiry), (''chain_id'', chain)]"

definition raw_transaction_law :: "sdk \<Rightarrow> bool" where
  "raw_transaction_law S \<longleftrightarrow>
    (\<forall>a n p g u e c. raw_transaction S a n p g u e c = VObj C_RawTransaction (raw_attrs a n p g u e c))"

text \<open>An authenticator holds its variant and the inner authenticator, and that one the key and signature.\<close>

definition authenticator_law :: "sdk \<Rightarrow> bool" where
  "authenticator_law S \<longleftrightarrow>
    (\<forall>pub sig. authenticator_new S (ed25519_authenticator_new S pub sig) =
       VObj C_Authenticator
         [(''variant'', VInt (authenticator_ED25519 S)),
          (''authenticator'', VObj (C_Other ''Ed25519Authenticator'')
             [(''public_key'', pub), (''signature'', sig)])])"

lemma auth_to_dict_ed25519:
  assumes "authenticator_law S" and "isinstance pub C_PublicKey" and "isinstance sig C_Signature"
  shows "auth_to_dict S (authenticator_new S (ed25519_authenticator_new S pub sig)) =
    Inr (VDict [(''Ed25519'', VDict [(''public_key'', VStr (obj_str S pub)),
                                     (''signature'', VStr (obj_str S sig))])])"
  using assms
  by (simp add: authenticator_law_def auth_to_dict.simps get_attr_def of_option_def dunder_dict_def)

lemma auth_to_dict_other_variant:
  assumes "isinstance obj C_Authenticator" and "get_attr obj ''variant'' = Inr v"
    and "v \<noteq> VInt (authenticator_ED25519 S)"
  shows "auth_to_dict S obj = Inl NotImplementedError"
  using assms by (simp add: auth_to_dict.simps)

section \<open>Answered requests\<close>

definition post_log :: "reply \<Rightarrow> event list" where
  "post_log resp =
    (case reply_json resp of
       Some v \<Rightarrow> []
     | None \<Rightarrow> [Printed (''post_json: error decoding JSON '' @ reply_shown resp
                         @ '', with error text: '' @ reply_text resp)])"

lemma requests_post_log [simp]: "requests (post_log resp) = []"
  by (simp add: post_log_def split: option.split)

lemma post_log_prints: "\<exists>qs. post_log resp = map Printed qs"
  by (cases "reply_json resp") (auto simp: post_log_def Cons_eq_map_conv)

definition after_post :: "string \<Rightarrow> pyval \<Rightarrow> reply \<Rightarrow> 's \<Rightarrow> 's world \<Rightarrow> 's world" where
  "after_post url d resp s w = w\<lparr>env := s, trace := trace w @ Posted url d # post_log resp\<rparr>"

lemma post_json_answered:
  "json_able d \<Longrightarrow> http_post P url d (env w) = (Inr resp, s) \<Longrightarrow>
     post_json P url d w = (Inr (decoded resp), after_post url d resp s w)"
  by (simp add: post_json_def requests_post_def env_op_def bindP_def ret_def py_print_def decoded_def
      post_log_def after_post_def split: option.split)

lemma post_json_unencodable: "\<not> json_able d \<Longrightarrow> post_json P url d w = (Inl TypeError, w)"
  by (simp add: post_json_def requests_post_def raise_def bindP_def)

lemma post_json_success:
  assumes "post_json P url d w = (Inr v, w')"
  obtains resp s where "json_able d" "http_post P url d (env w) = (Inr resp, s)" "v = decoded resp"
    "w' = after_post url d resp s w"
proof -
  have j: "json_able d" using assms post_json_unencodable [of d P url w] by fastforce
  obtain q s where h: "http_post P url d (env w) = (q, s)" by fastforce
  show ?thesis
  proof (cases q)
    case (Inl e)
    then have "post_json P url d w = (Inl e, w\<lparr>env := s, trace := trace w @ [Posted url d]\<rparr>)"
      using h j by (simp add: post_json_def requests_post_def env_op_def bindP_def)
    then show ?thesis using assms by simp
  next
    case (Inr resp)
    then show ?thesis using that h j assms by (auto simp: post_json_answered)
  qed
qed

lemma submit_answered:
  "json_able d \<Longrightarrow> http_post P (submit_url b) d (env w) = (Inr resp, s) \<Longrightarrow>
     submit_tx_json P b d w =
       (Inr (py_str (obj_repr P) (decoded resp)), after_post (submit_url b) d resp s w)"
  by (simp add: submit_tx_json_def bindP_def post_json_answered ret_def)

text \<open>
  A simulation that is answered returns normally, whatever the answer: it changes nothing but the
  trace and the outside world.
\<close>

lemma simulate_answered:
  assumes "json_able d" and "http_post P (simulate_url b) d (env w) = (Inr resp, s)"
  shows "\<exists>ps. simulate_tx_json P b d w =
    (Inr (), w\<lparr>env := s, trace := trace w @ Posted (simulate_url b) d # map Printed ps\<rparr>)"
proof -
  obtain qs where qs: "post_log resp = map Printed qs"
    using post_log_prints by blast
  let ?u = "after_post (simulate_url b) d resp s w"
  have p: "post_json P (simulate_url b) d w = (Inr (decoded resp), ?u)"
    by (rule post_json_answered [OF assms])
  show ?thesis
  proof (cases "get_path (decoded resp) [''output'', ''Move'', ''vm_status'']")
    case (Inl e)
    then show ?thesis
      using p qs
      by (intro exI [of _ "qs @ [py_str (obj_repr P) (decoded resp), ''Simulation result: Error'']"])
        (simp add: simulate_tx_json_def bindP_def try_except_def raise_def py_print_def ret_def
          after_post_def py_str_def del: get_path.simps)
  next
    case (Inr v)
    then show ?thesis
      using p qs
      by (intro exI [of _ "qs @ [''Simulation result: '' @ py_str (obj_repr P) v]"])
        (simp add: simulate_tx_json_def bindP_def try_except_def py_print_def ret_def
          after_post_def del: get_path.simps)
  qed
qed

section \<open>The raw transaction\<close>

lemma create_raw_tx_run:
  assumes "raw_transaction_law S" and "TransactionPayload_init payload = Inr p"
    and "http_get P (chain_id_url b) (env w) = (Inr resp, s)"
  shows "create_raw_tx S P sender seq payload gas price span VNone b w =
    (Inr (VObj C_RawTransaction
       (raw_attrs sender (VInt seq) p (VInt gas) (VInt price) (VInt (unix_time P (env w) + span)) (decoded resp)
        @ [(''prehash'', bound_prehash)])),
     after_get (chain_id_url b) resp s w)"
  using assms
  by (simp add: create_raw_tx_def bindP_def time_now_def get_json_answered raw_transaction_law_def
      raw_attrs_def ret_def Let_def)

text \<open>A chain id given by the caller is used without asking, unless it is 0 or another false value.\<close>

lemma create_raw_tx_given_chain:
  assumes "raw_transaction_law S" and "TransactionPayload_init payload = Inr p" and "truth chain"
  shows "create_raw_tx S P sender seq payload gas price span chain b w =
    (Inr (VObj C_RawTransaction
       (raw_attrs sender (VInt seq) p (VInt gas) (VInt price) (VInt (unix_time P (env w) + span)) chain
        @ [(''prehash'', bound_prehash)])), w)"
  using assms
  by (simp add: create_raw_tx_def bindP_def time_now_def raw_transaction_law_def raw_attrs_def ret_def Let_def)

lemma raw_tx_prehash:
  "get_attr (VObj c (raw_attrs a n p g u e ch @ [(''prehash'', v)])) ''prehash'' = Inr v"
  by (simp add: get_attr_def of_option_def raw_attrs_def)

lemma keyed_raw_tx:
  "keyed S (VObj C_RawTransaction (raw_attrs a n p g u e ch @ [(''prehash'', bound_prehash)])) =
     raw_keyed S (sha3_256 (str_encode ''SUPRA::RawTransaction'')) (TransactionPayload_serialize S)
       (VObj C_RawTransaction (raw_attrs a n p g u e ch @ [(''prehash'', bound_prehash)]))"
  by (simp add: keyed_def raw_tx_prehash supra_prehash_def prehash_salt_def)

section \<open>The message that is signed\<close>

text \<open>The serialized form of \<open>aptos_sdk\<close>'s \<open>RawTransaction\<close>: its fields one after the other.\<close>

definition raw_layout_law :: "sdk \<Rightarrow> bool" where
  "raw_layout_law S \<longleftrightarrow>
    (\<forall>m a n p g u e c rest.
       raw_serialize S m (VObj C_RawTransaction
         (raw_attrs a (VInt n) p (VInt g) (VInt u) (VInt e) (VInt c) @ rest)) =
       bindR (ser_object S a) (\<lambda>a'. bindR (ser_u64 S n) (\<lambda>n'. bindR (m p) (\<lambda>p'.
       bindR (ser_u64 S g) (\<lambda>g'. bindR (ser_u64 S u) (\<lambda>u'. bindR (ser_u64 S e) (\<lambda>e'.
       bindR (ser_u8 S c) (\<lambda>c'. Inr (a' @ n' @ p' @ g' @ u' @ e' @ c')))))))))"

text \<open>A transaction as \<open>create_raw_tx\<close> leaves it.\<close>

definition built_tx :: "pyval \<Rightarrow> int \<Rightarrow> pyval \<Rightarrow> int \<Rightarrow> int \<Rightarrow> int \<Rightarrow> int \<Rightarrow> pyval" where
  "built_tx a n p g u e c = VObj C_RawTransaction
     (raw_attrs a (VInt n) p (VInt g) (VInt u) (VInt e) (VInt c) @ [(''prehash'', bound_prehash)])"

lemma keyed_prefix:
  assumes "keyed_law S" and "keyed S (VObj C_RawTransaction
      (raw_attrs a n p g u e c @ [(''prehash'', bound_prehash)])) = Inr msg"
  obtains body where "raw_serialize S (TransactionPayload_serialize S) (VObj C_RawTransaction
      (raw_attrs a n p g u e c @ [(''prehash'', bound_prehash)])) = Inr body"
    "msg = sha3_256 (str_encode ''SUPRA::RawTransaction'') @ body"
  using assms by (auto simp: keyed_raw_tx keyed_law_def bindR_eq_Inr)

lemma keyed_parts:
  assumes "keyed_law S" and "raw_layout_law S" and "keyed S (built_tx a n p g u e c) = Inr msg"
  obtains a' n' p' g' u' e' c' where
    "ser_object S a = Inr a'" "ser_u64 S n = Inr n'" "TransactionPayload_serialize S p = Inr p'"
    "ser_u64 S g = Inr g'" "ser_u64 S u = Inr u'" "ser_u64 S e = Inr e'" "ser_u8 S c = Inr c'"
    "msg = sha3_256 (str_encode ''SUPRA::RawTransaction'') @ a' @ n' @ p' @ g' @ u' @ e' @ c'"
proof -
  obtain body where ser: "raw_serialize S (TransactionPayload_serialize S) (built_tx a n p g u e c) = Inr body"
    and msg: "msg = sha3_256 (str_encode ''SUPRA::RawTransaction'') @ body"
    using keyed_prefix [OF assms(1) assms(3) [unfolded built_tx_def]] unfolding built_tx_def by blast
  from ser assms(2) show ?thesis
    unfolding built_tx_def raw_layout_law_def by (auto simp: bindR_eq_Inr msg intro: that)
qed

text \<open>The message can be read back field by field, so it determines the transaction.\<close>

lemma keyed_inject:
  assumes laws: "bcs_laws S" "int_laws S" "keyed_law S" "raw_layout_law S"
    and ok: "isinstance a C_AccountAddress" "isinstance b C_AccountAddress" "payload_ok p" "payload_ok q"
    and k1: "keyed S (built_tx a n p g u e c) = Inr msg" and k2: "keyed S (built_tx b m q h v f d) = Inr msg"
  shows "a = b \<and> n = m \<and> p = q \<and> g = h \<and> u = v \<and> e = f \<and> c = d"
proof -
  obtain a' n' p' g' u' e' c' where
    1: "ser_object S a = Inr a'" "ser_u64 S n = Inr n'" "TransactionPayload_serialize S p = Inr p'"
      "ser_u64 S g = Inr g'" "ser_u64 S u = Inr u'" "ser_u64 S e = Inr e'" "ser_u8 S c = Inr c'"
    and m1: "msg = sha3_256 (str_encode ''SUPRA::RawTransaction'') @ a' @ n' @ p' @ g' @ u' @ e' @ c'"
    using laws(3,4) k1 by (rule keyed_parts)
  obtain b' m' q' h' v' f' d' where
    2: "ser_object S b = Inr b'" "ser_u64 S m = Inr m'" "TransactionPayload_serialize S q = Inr q'"
      "ser_u64 S h = Inr h'" "ser_u64 S v = Inr v'" "ser_u64 S f = Inr f'" "ser_u8 S d = Inr d'"
    and m2: "msg = sha3_256 (str_encode ''SUPRA::RawTransaction'') @ b' @ m' @ q' @ h' @ v' @ f' @ d'"
    using laws(3,4) k2 by (rule keyed_parts)
  note len = int_lawsD(1) [OF laws(2)] and u64 = int_lawsD(2) [OF laws(2)] and u8 = int_lawsD(4) [OF laws(2)]
  have "a = b \<and> n' @ p' @ g' @ u' @ e' @ c' = m' @ q' @ h' @ v' @ f' @ d'"
    using bcs_lawsD(5) [OF laws(1) ok(1) 1(1), of "n' @ p' @ g' @ u' @ e' @ c'"]
      bcs_lawsD(5) [OF laws(1) ok(2) 2(1), of "m' @ q' @ h' @ v' @ f' @ d'"] m1 m2
    by simp
  then have ab: "a = b" and nm: "n' = m'" and t1: "p' @ g' @ u' @ e' @ c' = q' @ h' @ v' @ f' @ d'"
    using len [OF 1(2)] len [OF 2(2)] by simp_all
  have "p = q \<and> g' @ u' @ e' @ c' = h' @ v' @ f' @ d'"
    using payload_round [OF laws(1) ok(3) 1(3), of "g' @ u' @ e' @ c'"]
      payload_round [OF laws(1) ok(4) 2(3), of "h' @ v' @ f' @ d'"] t1
    by simp
  then have pq: "p = q" and rest: "g' = h'" "u' = v'" "e' = f'" "c' = d'"
    using len [OF 1(4)] len [OF 2(4)] len [OF 1(5)] len [OF 2(5)] len [OF 1(6)] len [OF 2(6)] by simp_all
  then show ?thesis
    using ab nm u64 [OF 1(2)] u64 [OF 1(4)] u64 [OF 1(5)] u64 [OF 1(6)] u8 [OF 1(7)] 2 by blast
qed

section \<open>The JSON form of a transaction\<close>

text \<open>An entry function as \<open>aptos_sdk\<close> holds it: the module, the name, the type arguments, the encoded arguments.\<close>

definition entry_function_attrs :: "pyval \<Rightarrow> string \<Rightarrow> string \<Rightarrow> pyval list \<Rightarrow> bytes list \<Rightarrow> attrs" where
  "entry_function_attrs addr name f tys args =
     [(''module'', VObj (C_Other ''ModuleId'') [(''address'', addr), (''name'', VStr name)]),
      (''function'', VStr f), (''ty_args'', VList tys), (''args'', VList (map VBytes args))]"

definition ints_of :: "bytes \<Rightarrow> pyval" where
  "ints_of b = VList (map (\<lambda>c. VInt (uint c)) b)"

lemma lists_of_bytes: "lists_of (VList (map VBytes args)) = Inr (VList (map ints_of args))"
proof -
  have "mapR (\<lambda>item. bindR (iterate item) (\<lambda>xs. Inr (VList xs))) (map VBytes args) = Inr (map ints_of args)"
    by (induction args) (simp_all add: ints_of_def)
  then show ?thesis by (simp add: lists_of_def)
qed

lemma entry_function_dict:
  assumes "isinstance addr C_AccountAddress"
  shows "payload_to_dict S (VObj C_EntryFunction (entry_function_attrs addr name f tys args)) =
    Inr (VDict [(''module'', VDict [(''address'', VStr (obj_str S addr)), (''name'', VStr name)]),
                (''function'', VStr f), (''ty_args'', VList tys), (''args'', VList (map ints_of args))])"
  using assms
  by (auto simp: isinstance_VObj entry_function_attrs_def payload_to_dict.simps dunder_dict_def of_option_def
      hidden_attr_def lists_of_bytes)

lemma multisig_dict:
  assumes "isinstance addr C_AccountAddress" and "payload_to_dict S ef = Inr d"
  shows "payload_to_dict S (VMultisig addr (VMultiSigTransactionPayload ef)) =
    Inr (VDict [(''multisig_address'', VStr (obj_str S addr)),
                (''transaction_payload'', VDict [(''EntryFunction'', d)])])"
  using assms
  by (auto simp: isinstance_VObj payload_to_dict.simps [of S "VMultisig a p" for a p] dunder_dict_def
      of_option_def hidden_attr_def)

lemma raw_tx_dict:
  assumes "isinstance sender C_AccountAddress" and "payload_tag val = Inr tag"
    and "payload_to_dict S val = Inr d" and "vars_of chain = None"
  shows "payload_to_dict S (VObj C_RawTransaction
      (raw_attrs sender (VInt n) (VTransactionPayload variant val) (VInt gas) (VInt price) (VInt expiry) chain
        @ [(''prehash'', bound_prehash)])) =
    Inr (VDict [(''sender'', VStr (obj_str S sender)), (''sequence_number'', VInt n),
      (''payload'', VDict [(tag, d)]), (''max_gas_amount'', VInt gas),
      (''gas_unit_price'', VInt price), (''expiration_timestamp_secs'', VInt expiry), (''chain_id'', chain)])"
  using assms
  by (cases chain) (auto simp: isinstance_VObj raw_attrs_def payload_to_dict.simps [of S "VObj C_RawTransaction fs" for fs]
      dunder_dict_def of_option_def hidden_attr_def isinstance_def)

lemma payload_tag_simps [simp]:
  "payload_tag (VObj C_EntryFunction fs) = Inr ''EntryFunction''"
  "payload_tag (VMultisig a p) = Inr ''Multisig''"
  "payload_tag (VObj C_Script fs) = Inr ''Script''"
  by (simp_all add: payload_tag_def)

lemma create_tx_dict_run:
  assumes "payload_to_dict S raw = Inr d" and "authenticator_law S"
    and "isinstance pub C_PublicKey" and "isinstance sig C_Signature"
  shows "create_tx_dict S pub sig raw =
    Inr (VDict [(''Move'', VDict [(''raw_txn'', d), (''authenticator'',
      VDict [(''Ed25519'', VDict [(''public_key'', VStr (obj_str S pub)), (''signature'', VStr (obj_str S sig))])])])])"
  using assms by (simp add: create_tx_dict_def Let_def auth_to_dict_ed25519)

text \<open>These transactions are typed objects whenever their type arguments can be encoded.\<close>

lemma wire_object_VObj: "wire_object (VObj c fs) = wire_attrs fs"
  by (simp add: wire_object.simps)

lemma json_lists_bytes: "json_lists (VList (map VBytes args))"
  by (simp add: json_lists_def lists_of_bytes ints_of_def)

lemma wire_entry_function:
  "isinstance addr C_AccountAddress \<Longrightarrow> list_all json_able tys \<Longrightarrow>
     wire_object (VObj C_EntryFunction (entry_function_attrs addr name f tys args))"
  by (auto simp: isinstance_VObj entry_function_attrs_def wire_object_VObj hidden_attr_def
      json_lists_bytes list_all_iff)

lemma wire_raw_tx:
  assumes "isinstance sender C_AccountAddress" and "vars_of chain = None" and "json_able chain"
    and "isinstance val C_EntryFunction \<or> is_Multisig val \<or> isinstance val C_Script" and "wire_object val"
  shows "wire_object (VObj C_RawTransaction
    (raw_attrs sender (VInt n) (VTransactionPayload variant val) (VInt gas) (VInt price) (VInt expiry) chain
      @ [(''prehash'', bound_prehash)]))"
  using assms by (cases chain) (auto simp: isinstance_VObj raw_attrs_def wire_object_VObj hidden_attr_def)

section \<open>Arguments and encoders\<close>

lemma enumerate_args:
  "mapR (\<lambda>(i, arg). bindR (py_nth encs (int i)) (\<lambda>enc. Inr (arg, enc))) (enumerate k args) =
     (if k + length args \<le> length encs then Inr (zip args (drop k encs))
      else if k \<le> length encs \<or> args \<noteq> [] then Inl IndexError else Inr [])"
proof (induction args arbitrary: k)
  case (Cons arg args)
  show ?case
  proof (cases "k < length encs")
    case True
    then have "py_nth encs (int k) = Inr (encs ! k)" by (simp add: py_nth_def)
    moreover have "drop k encs = encs ! k # drop (Suc k) encs" using True by (rule Cons_nth_drop_Suc [symmetric])
    ultimately show ?thesis using Cons.IH [of "Suc k"] True by auto
  next
    case False
    then have "py_nth encs (int k) = Inl IndexError" by (simp add: py_nth_def)
    then show ?thesis using False by auto
  qed
qed simp

lemma create_entry_func_args:
  "create_entry_func S m f args encs addr tys =
    (if length args \<le> length encs then ef_natural S (module_id_str S addr m) f tys (zip args encs)
     else Inl IndexError)"
  using enumerate_args [of encs 0 args] by (auto simp: create_entry_func_def)

section \<open>Requests of a query\<close>

lemma get_json_requests:
  "get_json P url w = (r, w') \<Longrightarrow> requests (trace w') = requests (trace w) @ [Got url]"
  by (erule get_json_cases) auto

lemma get_account_seq_num_success:
  assumes "get_account_seq_num P b a w = (Inr n, w')"
  obtains resp s where "http_get P (account_url b a) (env w) = (Inr resp, s)"
    "bindR (get_key (decoded resp) ''sequence_number'') py_int = Inr n"
    "w' = after_get (account_url b a) resp s w"
proof -
  obtain v where v: "get_json P (account_url b a) w = (Inr v, w')"
    and n: "bindR (get_key v ''sequence_number'') py_int = Inr n"
    using assms by (auto simp: get_account_seq_num_def get_account_def bindP_Inr liftR_run)
  from v show ?thesis by (rule get_json_cases) (use n in \<open>auto intro: that\<close>)
qed

lemma create_raw_tx_success:
  assumes "create_raw_tx S P sender seq payload gas price span VNone b w = (Inr raw, w')"
  shows "requests (trace w') = requests (trace w) @ [Got (chain_id_url b)]"
  using assms by (auto simp: create_raw_tx_def bindP_Inr time_now_def liftR_run Let_def dest: get_json_requests)

lemma create_simulate_success:
  assumes "create_simulate_tx_dict S P pub raw w = (Inr d, w')"
  obtains key msg where "random_private_key P (env w) = (Inr key, env w')" "keyed S raw = Inr msg"
    "create_tx_dict S pub (private_key_sign S key msg) raw = Inr d"
    "requests (trace w') = requests (trace w)"
proof -
  obtain key s where key: "random_private_key P (env w) = (Inr key, s)"
    and w': "w' = w\<lparr>env := s, trace := trace w @ [Drew_key]\<rparr>"
    and d: "bindR (keyed S raw) (\<lambda>msg. create_tx_dict S pub (private_key_sign S key msg) raw) = Inr d"
    using assms by (auto simp: create_simulate_tx_dict_def bindP_Inr env_op_run liftR_run)
  have "requests (trace w') = requests (trace w)" by (simp add: w' requests_def)
  with d key w' show ?thesis by (auto simp: bindR_eq_Inr intro: that)
qed

lemma simulate_success:
  assumes "simulate_tx_json P b d w = (Inr (), w')"
  shows "json_able d \<and> requests (trace w') = requests (trace w) @ [Posted (simulate_url b) d]
    \<and> (\<exists>resp. http_post P (simulate_url b) d (env w) = (Inr resp, env w'))"
proof -
  obtain v u where p: "post_json P (simulate_url b) d w = (Inr v, u)"
    using assms by (auto simp: simulate_tx_json_def bindP_Inr)
  then obtain resp s where j: "json_able d" and h: "http_post P (simulate_url b) d (env w) = (Inr resp, s)"
    by (rule post_json_success)
  obtain ps where "simulate_tx_json P b d w =
      (Inr (), w\<lparr>env := s, trace := trace w @ Posted (simulate_url b) d # map Printed ps\<rparr>)"
    using simulate_answered [OF j h] by blast
  moreover have "requests (map Printed ps) = []" by (induction ps) simp_all
  ultimately show ?thesis using assms j h by auto
qed

lemma create_raw_tx_Inr:
  assumes "raw_transaction_law S" and "create_raw_tx S P sender seq payload gas price span chain b w = (Inr raw, w')"
  shows "\<exists>p u ch. TransactionPayload_init payload = Inr p \<and> raw = VObj C_RawTransaction
    (raw_attrs sender (VInt seq) p (VInt gas) (VInt price) u ch @ [(''prehash'', bound_prehash)])"
  using assms
  by (auto simp: create_raw_tx_def bindP_Inr liftR_run Let_def raw_transaction_law_def raw_attrs_def ret_def)

section \<open>The requests of send_tx\<close>

lemma send_tx_success:
  assumes "send_tx S P b acc payload gas price w = (Inr h, w')"
  obtains n w1 raw w2 key s msg d1 d2 r1 s' r2 where
    "get_account_seq_num P b (obj_str S (account_address S acc)) w = (Inr n, w1)"
    "create_raw_tx S P (account_address S acc) n payload gas price 300 VNone (Some b) w1 = (Inr raw, w2)"
    "random_private_key P (env w2) = (Inr key, s)"
    "keyed S raw = Inr msg"
    "create_tx_dict S (account_public_key S acc) (private_key_sign S key msg) raw = Inr d1"
    "create_tx_dict S (account_public_key S acc) (account_sign S acc msg) raw = Inr d2"
    "http_post P (simulate_url b) d1 s = (Inr r1, s')"
    "http_post P (submit_url b) d2 s' = (Inr r2, env w')" "h = py_str (obj_repr P) (decoded r2)"
    "requests (trace w') = requests (trace w) @
       [Got (account_url b (obj_str S (account_address S acc))), Got (chain_id_url (Some b)),
        Posted (simulate_url b) d1, Posted (submit_url b) d2]"
proof -
  let ?sender = "account_address S acc"
  obtain n w1 raw w2 d1 w3 w4 d2 where
    1: "get_account_seq_num P b (obj_str S ?sender) w = (Inr n, w1)"
    and 2: "create_raw_tx S P ?sender n payload gas price 300 VNone (Some b) w1 = (Inr raw, w2)"
    and 3: "create_simulate_tx_dict S P (account_public_key S acc) raw w2 = (Inr d1, w3)"
    and 4: "simulate_tx_json P b d1 w3 = (Inr (), w4)"
    and 5: "create_send_tx_dict S acc raw = Inr d2"
    and 6: "submit_tx_json P b d2 w4 = (Inr h, w')"
    using assms unfolding send_tx_def Let_def by (auto simp: bindP_Inr liftR_run)
  obtain key msg where key: "random_private_key P (env w2) = (Inr key, env w3)" and k: "keyed S raw = Inr msg"
    and d1: "create_tx_dict S (account_public_key S acc) (private_key_sign S key msg) raw = Inr d1"
    and r3: "requests (trace w3) = requests (trace w2)"
    using 3 by (rule create_simulate_success)
  have d2: "create_tx_dict S (account_public_key S acc) (account_sign S acc msg) raw = Inr d2"
    using 5 k by (simp add: create_send_tx_dict_def)
  have r1: "requests (trace w1) = requests (trace w) @ [Got (account_url b (obj_str S ?sender))]"
    using 1 by (rule get_account_seq_num_success) simp
  have r2: "requests (trace w2) = requests (trace w1) @ [Got (chain_id_url (Some b))]"
    using 2 by (rule create_raw_tx_success)
  obtain a1 where a1: "http_post P (simulate_url b) d1 (env w3) = (Inr a1, env w4)"
    and r4: "requests (trace w4) = requests (trace w3) @ [Posted (simulate_url b) d1]"
    using simulate_success [OF 4] by blast
  obtain v where "post_json P (submit_url b) d2 w4 = (Inr v, w')" and h: "h = py_str (obj_repr P) v"
    using 6 by (auto simp: submit_tx_json_def bindP_Inr ret_def)
  then obtain a2 s where a2: "http_post P (submit_url b) d2 (env w4) = (Inr a2, s)" and v: "v = decoded a2"
    and w': "w' = after_post (submit_url b) d2 a2 s w4"
    by (auto elim: post_json_success)
  have s: "s = env w'" and r6: "requests (trace w') = requests (trace w4) @ [Posted (submit_url b) d2]"
    by (simp_all add: w' after_post_def)
  show ?thesis
    by (rule that [OF 1 2 key k d1 d2 a1 a2 [unfolded s] h [unfolded v]]) (simp add: r1 r2 r3 r4 r6)
qed

text \<open>The transaction is submitted whatever the simulation answers.\<close>

lemma send_tx_submits:
  assumes laws: "raw_transaction_law S" and init: "TransactionPayload_init payload = Inr p"
    and acct: "http_get P (account_url b (obj_str S (account_address S acc))) (env w) = (Inr r1, s1)"
    and seq: "bindR (get_key (decoded r1) ''sequence_number'') py_int = Inr n"
    and chain: "http_get P (chain_id_url (Some b)) s1 = (Inr r2, s2)"
    and key: "random_private_key P s2 = (Inr key, s3)"
    and raw: "raw = VObj C_RawTransaction
       (raw_attrs (account_address S acc) (VInt n) p (VInt gas) (VInt price)
          (VInt (unix_time P s1 + 300)) (decoded r2) @ [(''prehash'', bound_prehash)])"
    and msg: "keyed S raw = Inr msg"
    and d1: "create_tx_dict S (account_public_key S acc) (private_key_sign S key msg) raw = Inr d1"
      "json_able d1"
    and d2: "create_tx_dict S (account_public_key S acc) (account_sign S acc msg) raw = Inr d2"
      "json_able d2"
    and sim: "http_post P (simulate_url b) d1 s3 = (Inr r3, s4)"
    and sub: "http_post P (submit_url b) d2 s4 = (Inr r4, s5)"
  shows "\<exists>w'. send_tx S P b acc payload gas price w = (Inr (py_str (obj_repr P) (decoded r4)), w')
    \<and> env w' = s5 \<and> (\<exists>ps. trace w' = trace w @ ps @ Posted (submit_url b) d2 # post_log r4)"
proof -
  let ?u1 = "after_get (account_url b (obj_str S (account_address S acc))) r1 s1 w"
  let ?u2 = "after_get (chain_id_url (Some b)) r2 s2 ?u1"
  let ?u3 = "?u2\<lparr>env := s3, trace := trace ?u2 @ [Drew_key]\<rparr>"
  have 1: "get_account_seq_num P b (obj_str S (account_address S acc)) w = (Inr n, ?u1)"
    using acct seq
    by (simp add: get_account_seq_num_def get_account_def bindP_def get_json_answered ret_def)
  have 2: "create_raw_tx S P (account_address S acc) n payload gas price 300 VNone (Some b) ?u1 = (Inr raw, ?u2)"
    unfolding raw by (subst create_raw_tx_run [OF laws init]) (use chain in simp_all)
  have 3: "create_simulate_tx_dict S P (account_public_key S acc) raw ?u2 = (Inr d1, ?u3)"
    using key msg d1 by (simp add: create_simulate_tx_dict_def bindP_def env_op_def ret_def)
  obtain ps where 4: "simulate_tx_json P b d1 ?u3 =
      (Inr (), ?u3\<lparr>env := s4, trace := trace ?u3 @ Posted (simulate_url b) d1 # map Printed ps\<rparr>)"
    using simulate_answered [OF d1(2), of P b ?u3 r3 s4] sim by auto
  have 5: "create_send_tx_dict S acc raw = Inr d2"
    using msg d2 by (simp add: create_send_tx_dict_def)
  show ?thesis
    using 1 2 3 4 sub d2
    by (simp add: send_tx_def Let_def bindP_def 5 submit_answered after_post_def)
qed

section \<open>Effects\<close>

lemma emits_seq_num [emit_rules]:
  "Q (Got (account_url b a)) \<Longrightarrow> (\<And>s. Q (Printed s)) \<Longrightarrow> keeps (emits Q) (get_account_seq_num P b a)"
  unfolding get_account_seq_num_def get_account_def by (auto intro!: emit_rules)

lemma emits_post_json [emit_rules]:
  "Q (Posted url d) \<Longrightarrow> (\<And>s. Q (Printed s)) \<Longrightarrow> keeps (emits Q) (post_json P url d)"
  unfolding post_json_def by (auto intro!: emit_rules split: option.split)

lemma kept_post_json [kept_rules]: "keeps files_kept (post_json P url d)"
  unfolding post_json_def by (auto intro!: kept_rules split: option.split)

lemma kept_env_op_key [kept_rules]: "keeps files_kept (env_op Drew_key f)"
  by (rule kept_env_op)

lemma kept_send [kept_rules]:
  "keeps files_kept (send_tx S P b acc payload gas price)"
  "keeps files_kept (create_transfer_supra_entry_func S P b a n)"
  "keeps files_kept (create_raw_tx S P x n c g u t k bo)"
  "keeps files_kept (submit_tx_json P b d)"
  "keeps files_kept (get_account_seq_num P b a)"
  unfolding send_tx_def get_account_seq_num_def get_account_def create_raw_tx_def submit_tx_json_def
    simulate_tx_json_def create_simulate_tx_dict_def create_transfer_supra_entry_func_def Let_def
  by (auto intro!: kept_rules)

end
