(* ===== verification/View_Multisig_Tx.thy ===== *)
theory View_Multisig_Tx
  imports Transfer_Facts
begin

text \<open>\<open>view_multisig_tx.py\<close>: the view functions of the on-chain multisig accounts.\<close>

section \<open>View functions\<close>

definition view_url :: "string \<Rightarrow> string" where
  "view_url base_url = base_url @ ''/rpc/v1/view''"

definition view_request :: "string \<Rightarrow> string list \<Rightarrow> string list \<Rightarrow> pyval" where
  "view_request full_function_name args type_args =
     VDict [(''function'', VStr full_function_name),
            (''type_arguments'', VList (map VStr type_args)),
            (''arguments'', VList (map VStr args))]"

definition invoke_module_view_function ::
  "'s platform \<Rightarrow> string \<Rightarrow> string \<Rightarrow> string list \<Rightarrow> string list \<Rightarrow> ('s, pyval) prog" where
  "invoke_module_view_function P base_url full_function_name args type_args =
     bindP (post_json P (view_url base_url) (view_request full_function_name args type_args)) (\<lambda>res.
     try_except (liftR (get_key res ''result''))
       (\<lambda>_. thenP (py_print (''Error in invoke_module_view_function: '' @ py_str (obj_repr P) res))
                  (ret (VDict []))))"

definition get_multisig_account_owners :: "sdk \<Rightarrow> 's platform \<Rightarrow> string \<Rightarrow> pyval \<Rightarrow> ('s, pyval) prog" where
  "get_multisig_account_owners S P base_url account_addr =
     bindP (invoke_module_view_function P base_url ''0x1::multisig_account::owners''
              [obj_str S account_addr] []) (\<lambda>res_data.
     liftR (get_idx res_data 0))"

definition get_multisig_account_last_resolved_seq :: "sdk \<Rightarrow> 's platform \<Rightarrow> string \<Rightarrow> pyval \<Rightarrow> ('s, int) prog" where
  "get_multisig_account_last_resolved_seq S P base_url account_addr =
     bindP (invoke_module_view_function P base_url ''0x1::multisig_account::last_resolved_sequence_number''
              [obj_str S account_addr] []) (\<lambda>res_data.
     liftR (bindR (get_idx res_data 0) py_int))"

definition get_multisig_account_next_sequence_number :: "sdk \<Rightarrow> 's platform \<Rightarrow> string \<Rightarrow> pyval \<Rightarrow> ('s, int) prog" where
  "get_multisig_account_next_sequence_number S P base_url account_addr =
     bindP (invoke_module_view_function P base_url ''0x1::multisig_account::next_sequence_number''
              [obj_str S account_addr] []) (\<lambda>res_data.
     liftR (bindR (get_idx res_data 0) py_int))"

definition get_multisig_num_signatures_required :: "sdk \<Rightarrow> 's platform \<Rightarrow> string \<Rightarrow> pyval \<Rightarrow> ('s, int) prog" where
  "get_multisig_num_signatures_required S P base_url account_addr =
     bindP (invoke_module_view_function P base_url ''0x1::multisig_account::num_signatures_required''
              [obj_str S account_addr] []) (\<lambda>res_data.
     liftR (bindR (get_idx res_data 0) py_int))"

definition get_multisig_tx_can_be_executed :: "sdk \<Rightarrow> 's platform \<Rightarrow> string \<Rightarrow> pyval \<Rightarrow> int \<Rightarrow> ('s, bool) prog" where
  "get_multisig_tx_can_be_executed S P base_url account_addr seq_num =
     bindP (invoke_module_view_function P base_url ''0x1::multisig_account::can_be_executed''
              [obj_str S account_addr, str_of_int seq_num] []) (\<lambda>res_data.
     liftR (bindR (get_idx res_data 0) (\<lambda>v. Inr (truth v))))"

definition get_multisig_tx_vote :: "sdk \<Rightarrow> 's platform \<Rightarrow> string \<Rightarrow> pyval \<Rightarrow> int \<Rightarrow> pyval \<Rightarrow> ('s, pyval) prog" where
  "get_multisig_tx_vote S P base_url account_addr seq_num voter_addr =
     invoke_module_view_function P base_url ''0x1::multisig_account::vote''
       [obj_str S account_addr, str_of_int seq_num, obj_str S voter_addr] []"

text \<open>One pass of the loop over the owners in the scripts; \<open>line\<close> is the text that is printed.\<close>

definition show_vote ::
  "sdk \<Rightarrow> 's platform \<Rightarrow> string \<Rightarrow> pyval \<Rightarrow> int \<Rightarrow> (string \<Rightarrow> string \<Rightarrow> string \<Rightarrow> string) \<Rightarrow> pyval
     \<Rightarrow> ('s, bool) prog" where
  "show_vote S P base_url multisig_addr seq_num line addr =
     bindP (liftR (addr_from_str_relaxed S addr)) (\<lambda>voter.
     bindP (get_multisig_tx_vote S P base_url multisig_addr seq_num voter) (\<lambda>v.
     bindP (liftR (unpack2 v)) (\<lambda>(voted, vote).
     thenP (py_print (line (py_str (obj_repr P) addr) (py_str (obj_repr P) voted) (py_str (obj_repr P) vote)))
           (ret False))))"

definition view_multisig_tx_main :: "sdk \<Rightarrow> 's platform \<Rightarrow> ('s, unit) prog" where
  "view_multisig_tx_main S P =
    (let is_testnet = False;
         base_url = (if is_testnet then ''https://rpc-testnet1.supra.com/'' else ''https://rpc-mainnet.supra.com'')
     in bindP (liftR (addr_from_str_relaxed S
           (VStr ''0xadf39402c164a372a788358b7c8e695ae794d8f787ad36464708c8eb1f3a64a9''))) (\<lambda>multisig_addr.
        bindP (get_multisig_account_owners S P base_url multisig_addr) (\<lambda>multisig_owners.
        bindP (get_multisig_account_owners S P base_url multisig_addr) (\<lambda>owners_again.
        thenP (py_print (''Multisig account owners: '' @ py_str (obj_repr P) owners_again))
       (bindP (get_multisig_account_last_resolved_seq S P base_url multisig_addr) (\<lambda>last_resolved_seq.
        thenP (py_print (''Multisig last resolved seq: '' @ str_of_int last_resolved_seq))
       (bindP (get_multisig_account_next_sequence_number S P base_url multisig_addr) (\<lambda>next_seq.
        thenP (py_print (''Multisig current sequence number: '' @ str_of_int (next_seq - 1)))
       (bindP (get_multisig_num_signatures_required S P base_url multisig_addr) (\<lambda>threshold.
        thenP (py_print (''Multisig threshold: '' @ str_of_int threshold))
       (bindP (liftR (iterate multisig_owners)) (\<lambda>owners.
        thenP (for_each owners (show_vote S P base_url multisig_addr 2
                 (\<lambda>addr voted vote. addr @ '' voted: '' @ voted @ '', vote: '' @ vote)))
       (bindP (get_multisig_tx_can_be_executed S P base_url multisig_addr 2) (\<lambda>can.
        py_print (''Multisig tx can be executed: '' @ (if can then ''True'' else ''False''))))))))))))))))"

section \<open>Outcomes\<close>

lemma json_able_view_request: "json_able (view_request f args tys)"
  by (simp add: view_request_def)

text \<open>What a view call returns and prints, by the decoded response.\<close>

definition view_value :: "pyval \<Rightarrow> pyval" where
  "view_value d = (case get_key d ''result'' of Inr v \<Rightarrow> v | Inl e \<Rightarrow> VDict [])"

lemma view_answered:
  assumes "http_post P (view_url b) (view_request f args tys) (env w) = (Inr resp, s)"
  shows "\<exists>ps. invoke_module_view_function P b f args tys w =
    (Inr (view_value (decoded resp)),
     w\<lparr>env := s, trace := trace w @ Posted (view_url b) (view_request f args tys) # map Printed ps\<rparr>)"
proof -
  obtain qs where qs: "post_log resp = map Printed qs" using post_log_prints by blast
  note p = post_json_answered [OF json_able_view_request assms]
  show ?thesis
  proof (cases "get_key (decoded resp) ''result''")
    case (Inl e)
    then show ?thesis
      by (intro exI [of _ "qs @ [''Error in invoke_module_view_function: '' @ py_str (obj_repr P) (decoded resp)]"])
        (simp add: invoke_module_view_function_def bindP_def p try_except_def raise_def py_print_def
          ret_def view_value_def after_post_def qs)
  next
    case (Inr v)
    then show ?thesis
      by (intro exI [of _ qs])
        (simp add: invoke_module_view_function_def bindP_def p try_except_def ret_def view_value_def
          after_post_def qs)
  qed
qed

section \<open>Effects\<close>

lemma emits_view [emit_rules]:
  "(\<And>d. Q (Posted (view_url b) d)) \<Longrightarrow> (\<And>s. Q (Printed s)) \<Longrightarrow>
     keeps (emits Q) (invoke_module_view_function P b f args tys)"
  unfolding invoke_module_view_function_def by (auto intro!: emit_rules)

lemma emits_views [emit_rules]:
  assumes "\<And>d. Q (Posted (view_url b) d)" and "\<And>s. Q (Printed s)"
  shows "keeps (emits Q) (get_multisig_account_owners S P b a)"
    and "keeps (emits Q) (get_multisig_account_last_resolved_seq S P b a)"
    and "keeps (emits Q) (get_multisig_account_next_sequence_number S P b a)"
    and "keeps (emits Q) (get_multisig_num_signatures_required S P b a)"
    and "keeps (emits Q) (get_multisig_tx_can_be_executed S P b a n)"
    and "keeps (emits Q) (get_multisig_tx_vote S P b a n v)"
    and "keeps (emits Q) (show_vote S P b a n line x)"
  unfolding get_multisig_account_owners_def get_multisig_account_last_resolved_seq_def
    get_multisig_account_next_sequence_number_def get_multisig_num_signatures_required_def
    get_multisig_tx_can_be_executed_def get_multisig_tx_vote_def show_vote_def
  using assms by (auto intro!: emit_rules split: prod.split)

lemma kept_views [kept_rules]:
  "keeps files_kept (invoke_module_view_function P b f args tys)"
  "keeps files_kept (get_multisig_account_owners S P b a)"
  "keeps files_kept (get_multisig_account_last_resolved_seq S P b a)"
  "keeps files_kept (get_multisig_account_next_sequence_number S P b a)"
  "keeps files_kept (get_multisig_num_signatures_required S P b a)"
  "keeps files_kept (get_multisig_tx_can_be_executed S P b a n)"
  "keeps files_kept (show_vote S P b a n line x)"
  unfolding get_multisig_account_owners_def get_multisig_account_last_resolved_seq_def
    get_multisig_account_next_sequence_number_def get_multisig_num_signatures_required_def
    get_multisig_tx_can_be_executed_def get_multisig_tx_vote_def show_vote_def
    invoke_module_view_function_def
  by (auto intro!: kept_rules split: prod.split)

end
