(* ===== verification/Multisig_Onchain.thy ===== *)
theory Multisig_Onchain
  imports View_Multisig_Tx
begin

text \<open>
  The life of an on-chain multisig transaction: \<open>create_multisig_account.py\<close>,
  \<open>propose_multisig_tx.py\<close>, \<open>vote_multisig_tx.py\<close> and \<open>execute_multisig_tx.py\<close>.
\<close>

section \<open>create_multisig_account.py\<close>

definition create_create_multisig_account_entry_func ::
  "sdk \<Rightarrow> pyval list \<Rightarrow> int \<Rightarrow> string list \<Rightarrow> bytes list \<Rightarrow> int \<Rightarrow> pyval result" where
  "create_create_multisig_account_entry_func S additional_owners num_signatures_required metadata_keys
      metadata_values timeout_duration =
     create_entry_func_0x1 S ''multisig_account'' ''create_with_owners''
       [VList additional_owners, VInt num_signatures_required, VList (map VStr metadata_keys),
        VList (map VBytes metadata_values), VInt timeout_duration]
       [Enc_sequence Enc_struct, Enc_u64, Enc_sequence Enc_str, Enc_sequence Enc_to_bytes, Enc_u64]"

definition create_multisig_account_main :: "sdk \<Rightarrow> crypto \<Rightarrow> 's platform \<Rightarrow> ('s, unit) prog" where
  "create_multisig_account_main S C P =
    (let is_testnet = True;
         base_url = (if is_testnet then ''https://rpc-testnet.supra.com/'' else ''https://rpc-mainnet.supra.com'');
         mnemonic_file = ''mnemonic_multisig.enc'';
         num_signers = 5;
         threshold = 3
     in bindP (load_multiple_private_keys C P mnemonic_file num_signers) (\<lambda>private_keys.
        bindP (liftR (bindR (py_nth private_keys 0) (\<lambda>k. account_load_key S (bytes_hex k)))) (\<lambda>sender_account.
        let sender_addr = obj_str S (account_address S sender_account) in
        bindP (liftR (mapR (\<lambda>i. bindR (py_nth private_keys i) (\<lambda>k.
                 bindR (account_load_key S (bytes_hex k)) (\<lambda>a. Inr (account_address S a))))
                 (map int [1..<length private_keys]))) (\<lambda>other_owners.
        bindP (get_account_supra_coin_balance P base_url sender_addr) (\<lambda>balance.
        thenP (py_print (''Sender balance: '' @ str_of_int balance))
       (bindP (liftR (create_create_multisig_account_entry_func S other_owners threshold [] [] 600)) (\<lambda>entry_func.
        bindP (send_tx S P base_url sender_account entry_func 500000 100) (\<lambda>tx_hash.
        thenP (py_print (''Transaction submitted with hash: '' @ tx_hash))
              (wait_for_tx P base_url tx_hash 3 5 False)))))))))"

section \<open>propose_multisig_tx.py\<close>

definition multisig_seed :: "sdk \<Rightarrow> int \<Rightarrow> bytes result" where
  "multisig_seed S sequence_number =
     bindR (ser_u64 S sequence_number) (\<lambda>u64.
     Inr (str_encode ''supra_framework::multisig_account'' @ u64))"

definition compute_multisig_account_addr :: "sdk \<Rightarrow> string \<Rightarrow> int \<Rightarrow> pyval result" where
  "compute_multisig_account_addr S account_owner_addr sequence_number =
     bindR (multisig_seed S sequence_number) (\<lambda>multisig_account_seed.
     bindR (addr_from_str_relaxed S (VStr account_owner_addr)) (\<lambda>owner_account.
     Inr (addr_for_resource_account S owner_account multisig_account_seed)))"

definition compute_multisig_tx_payload_hash :: "sdk \<Rightarrow> pyval \<Rightarrow> bytes result" where
  "compute_multisig_tx_payload_hash S entry_func =
    (let payload = MultiSigTransactionPayload_init entry_func
     in bindR (ser_struct S (MultiSigTransactionPayload_serialize S) payload) (\<lambda>serialized_payload.
        Inr (sha3_256 serialized_payload)))"

definition create_propose_multisig_tx_entry_func :: "sdk \<Rightarrow> pyval \<Rightarrow> bytes \<Rightarrow> pyval result" where
  "create_propose_multisig_tx_entry_func S multisig_account_address multisig_transaction_payload_hash =
     create_entry_func_0x1 S ''multisig_account'' ''create_transaction_with_hash''
       [multisig_account_address, VBytes multisig_transaction_payload_hash]
       [Enc_struct, Enc_to_bytes]"

text \<open>
  The first \<open>CreateTransactionEvent\<close> of a list of events.  The function reads the global \<open>base_url\<close>:
  \<open>G\<close> is the module's dictionary of globals, here of those bound to a string literal.  The module binds
  them under the guard \<open>if __name__ == "__main__"\<close>, so only when it is run and not when it is imported.
\<close>

definition propose_globals :: "bool \<Rightarrow> (string \<rightharpoonup> string)" where
  "propose_globals is_main =
    (if is_main then
       [''base_url'' \<mapsto> ''https://rpc-testnet.supra.com/'', ''mnemonic_file'' \<mapsto> ''mnemonic_multisig.enc'',
        ''recipient_addr'' \<mapsto> ''0xb8922417130785087f9c7926e76542531b703693fdc74c9386b65cf4427f4e80'']
     else Map.empty)"

fun find_create_event :: "pyval list \<Rightarrow> int result" where
  "find_create_event [] = Inl (PlainException ''something went wrong'')"
| "find_create_event (event # events) =
     bindR (get_key event ''type'') (\<lambda>t.
     if eq_str t ''0x1::multisig_account::CreateTransactionEvent'' then
       bindR (get_path event [''data'', ''sequence_number'']) py_int
     else find_create_event events)"

definition get_multisig_tx_sequence_from_tx_hash :: "(string \<rightharpoonup> string) \<Rightarrow> 's platform \<Rightarrow> string \<Rightarrow> ('s, int) prog" where
  "get_multisig_tx_sequence_from_tx_hash G P tx_hash =
     bindP (liftR (load_global G ''base_url'')) (\<lambda>base_url.
     bindP (get_json P (tx_url base_url tx_hash)) (\<lambda>tx_data.
     liftR (bindR (get_key tx_data ''status'') (\<lambda>st.
       if \<not> eq_str st ''Success'' then Inl (PlainException ''transaction is not successfully executed'')
       else bindR (get_path tx_data [''output'', ''Move'', ''events'']) (\<lambda>evs.
            bindR (iterate evs) find_create_event)))))"

definition propose_multisig_tx_main :: "sdk \<Rightarrow> crypto \<Rightarrow> 's platform \<Rightarrow> ('s, unit) prog" where
  "propose_multisig_tx_main S C P =
    (let base_url = ''https://rpc-testnet.supra.com/'';
         mnemonic_file = ''mnemonic_multisig.enc'';
         recipient_addr = ''0xb8922417130785087f9c7926e76542531b703693fdc74c9386b65cf4427f4e80'';
         amount = 20
     in bindP (get_account_addr S C P mnemonic_file) (\<lambda>(sender_account, sender_addr).
        bindP (liftR (compute_multisig_account_addr S sender_addr 1)) (\<lambda>multisig_addr.
        thenP (py_print (''Multisig address: '' @ obj_str S multisig_addr))
       (bindP (create_transfer_supra_entry_func S P base_url recipient_addr amount) (\<lambda>(entry_func, max_gas).
        bindP (print_balance P base_url (obj_str S multisig_addr)) (\<lambda>balance.
        thenP (if balance < amount + max_gas then
                 bindP (fund_account_with_faucet P base_url (obj_str S multisig_addr)) (\<lambda>tx_hash.
                 thenP (py_print (''Airdrop transaction hash: '' @ py_str (obj_repr P) tx_hash))
                       (watch_balance P base_url (obj_str S multisig_addr) 10 5))
               else ret ())
       (bindP (liftR (compute_multisig_tx_payload_hash S entry_func)) (\<lambda>entry_func_hash.
        bindP (liftR (create_propose_multisig_tx_entry_func S multisig_addr entry_func_hash)) (\<lambda>propose_func.
        bindP (send_tx S P base_url sender_account propose_func 500000 100) (\<lambda>tx_hash.
        thenP (py_print (''Transaction submitted with hash: '' @ tx_hash))
       (thenP (wait_for_tx P base_url tx_hash 3 5 False)
       (thenP (time_sleep P 5)
       (bindP (get_multisig_tx_sequence_from_tx_hash (propose_globals True) P tx_hash) (\<lambda>seq_num.
        py_print (''Multisig sequence number: '' @ str_of_int seq_num)))))))))))))))"

section \<open>vote_multisig_tx.py\<close>

definition create_vote_multisig_tx_entry_func :: "sdk \<Rightarrow> pyval \<Rightarrow> int \<Rightarrow> bool \<Rightarrow> pyval result" where
  "create_vote_multisig_tx_entry_func S multisig_account_addr multisig_seq_num approved =
     create_entry_func_0x1 S ''multisig_account'' ''vote_transanction''
       [multisig_account_addr, VInt multisig_seq_num, VBool approved]
       [Enc_struct, Enc_u64, Enc_bool]"

definition vote_multisig_tx_main :: "sdk \<Rightarrow> crypto \<Rightarrow> 's platform \<Rightarrow> ('s, unit) prog" where
  "vote_multisig_tx_main S C P =
    (let is_testnet = False;
         base_url = (if is_testnet then ''https://rpc-testnet1.supra.com/'' else ''https://rpc-mainnet.supra.com'');
         mnemonic_file = (if is_testnet then ''mnemonic_multisig.enc'' else ''mnemonic_multisig_mainnet.enc'');
         multisig_tx_seq = 2
     in bindP (get_account_addr S C P mnemonic_file) (\<lambda>(sender_account, sender_addr).
        bindP (liftR (addr_from_str_relaxed S
           (VStr ''0xadf39402c164a372a788358b7c8e695ae794d8f787ad36464708c8eb1f3a64a9''))) (\<lambda>multisig_addr.
        bindP (liftR (create_vote_multisig_tx_entry_func S multisig_addr multisig_tx_seq True)) (\<lambda>entry_func.
        bindP (send_tx S P base_url sender_account entry_func 500000 100) (\<lambda>tx_hash.
        thenP (py_print (''Transaction submitted with hash: '' @ tx_hash))
              (wait_for_tx P base_url tx_hash 3 5 False))))))"

section \<open>execute_multisig_tx.py\<close>

definition create_multisig :: "pyval \<Rightarrow> pyval \<Rightarrow> pyval" where
  "create_multisig multisig_addr entry_func =
     Multisig_init multisig_addr (MultiSigTransactionPayload_init entry_func)"

definition create_remove_multisig_tx_entry_func :: "sdk \<Rightarrow> pyval \<Rightarrow> pyval result" where
  "create_remove_multisig_tx_entry_func S multisig_account_addr =
     create_entry_func_0x1 S ''multisig_account'' ''execute_rejected_transaction''
       [multisig_account_addr] [Enc_struct]"

definition repr_strings :: "string list \<Rightarrow> string" where
  "repr_strings xs = py_repr (\<lambda>_. []) (VList (map VStr xs))"

definition execute_multisig_tx_main :: "sdk \<Rightarrow> crypto \<Rightarrow> 's platform \<Rightarrow> ('s, unit) prog" where
  "execute_multisig_tx_main S C P =
    (let is_testnet = True;
         base_url = (if is_testnet then ''https://rpc-testnet1.supra.com/'' else ''https://rpc-mainnet.supra.com'');
         mnemonic_file = (if is_testnet then ''mnemonic_multisig.enc'' else ''mnemonic_multisig_mainnet.enc'');
         recipient_addr = ''0xb8922417130785087f9c7926e76542531b703693fdc74c9386b65cf4427f4e80'';
         amount = 20
     in bindP (load_multiple_private_keys C P mnemonic_file 5) (\<lambda>private_keys.
        bindP (liftR (mapR (\<lambda>k. account_load_key S (bytes_hex k)) private_keys)) (\<lambda>owners.
        let owner_addrs = map (\<lambda>owner. obj_str S (account_address S owner)) owners in
        bindP (liftR (bindR (py_nth owners 0) (\<lambda>a. bindR (py_nth owner_addrs 0) (\<lambda>s. Inr (a, s)))))
          (\<lambda>(sender_account, sender_addr).
        bindP (liftR (compute_multisig_account_addr S sender_addr 1)) (\<lambda>multisig_addr.
        thenP (py_print (''Multisig address: '' @ obj_str S multisig_addr))
       (bindP (get_multisig_account_owners S P base_url multisig_addr) (\<lambda>multisig_owners.
        thenP (py_print (''Multisig account owners: '' @ py_str (obj_repr P) multisig_owners))
       (thenP (py_print (''Owners: '' @ repr_strings owner_addrs))
       (bindP (get_multisig_account_last_resolved_seq S P base_url multisig_addr) (\<lambda>last_resolved_seq.
        thenP (py_print (''Multisig last resolved seq: '' @ str_of_int last_resolved_seq))
       (bindP (get_multisig_account_next_sequence_number S P base_url multisig_addr) (\<lambda>next_seq.
        thenP (py_print (''Multisig current sequence number: '' @ str_of_int (next_seq - 1)))
       (bindP (get_multisig_num_signatures_required S P base_url multisig_addr) (\<lambda>threshold.
        thenP (py_print (''Multisig threshold: '' @ str_of_int threshold))
       (bindP (get_multisig_tx_can_be_executed S P base_url multisig_addr (last_resolved_seq + 1)) (\<lambda>can.
        thenP (py_print (''Multisig tx can be executed: '' @ (if can then ''True'' else ''False'')))
       (bindP (liftR (iterate multisig_owners)) (\<lambda>addrs.
        thenP (for_each addrs (show_vote S P base_url multisig_addr (last_resolved_seq + 1)
                 (\<lambda>addr voted vote. ''Voted: '' @ voted @ '', vote: '' @ vote)))
       (bindP (create_transfer_supra_entry_func S P base_url recipient_addr amount) (\<lambda>(entry_func, _).
        let multisig = create_multisig multisig_addr entry_func in
        bindP (get_account_supra_coin_balance P base_url (obj_str S multisig_addr)) (\<lambda>mb.
        thenP (py_print (''Multisig balance before transfer: '' @ str_of_int mb))
       (bindP (get_account_supra_coin_balance P base_url recipient_addr) (\<lambda>rb.
        thenP (py_print (''Recipient balance before transfer: '' @ str_of_int rb))
       (bindP (send_tx S P base_url sender_account multisig 500000 100) (\<lambda>tx_hash.
        thenP (py_print (''Transaction submitted with hash: '' @ tx_hash))
       (thenP (wait_for_tx P base_url tx_hash 3 5 False)
       (bindP (get_account_supra_coin_balance P base_url (obj_str S multisig_addr)) (\<lambda>mb'.
        thenP (py_print (''Multisig balance after transfer: '' @ str_of_int mb'))
       (bindP (get_account_supra_coin_balance P base_url recipient_addr) (\<lambda>rb'.
        py_print (''Recipient balance after transfer: '' @ str_of_int rb')))))))))))))))))))))))))))))))"

section \<open>The hash that is voted on\<close>

lemma payload_hash_bytes:
  assumes "struct_law S" and "compute_multisig_tx_payload_hash S ef = Inr h"
  shows "\<exists>tp. MultiSigTransactionPayload_serialize S (VMultiSigTransactionPayload ef) = Inr tp \<and> h = sha3_256 tp"
  using assms by (auto simp: compute_multisig_tx_payload_hash_def struct_law_def bindR_eq_Inr)

lemma executed_payload_bytes:
  assumes "TransactionPayload_serialize S (VTransactionPayload 3 (create_multisig addr ef)) = Inr bs"
    and "MultiSigTransactionPayload_serialize S (VMultiSigTransactionPayload ef) = Inr tp"
  obtains tag a flag where "ser_uleb128 S 3 = Inr tag" "ser_object S addr = Inr a" "ser_bool S True = Inr flag"
    "bs = tag @ a @ flag @ tp"
  using assms
  by (auto simp: TransactionPayload_serialize_def value_serialize_def create_multisig_def Multisig_serialize_def
      inner_serialize_def bindR_eq_Inr)

text \<open>
  The payload is hashed as it stands in the message that is signed when it is executed: after the
  multisig address and the flag.
\<close>

lemma hash_of_signed_payload:
  assumes laws: "bcs_laws S" "struct_law S" "keyed_law S" "raw_layout_law S" and ef: "isinstance ef C_EntryFunction"
    and h: "compute_multisig_tx_payload_hash S ef = Inr h"
    and msg: "keyed S (built_tx sender n (VTransactionPayload 3 (create_multisig addr ef)) gas price expiry chain) = Inr msg"
  shows "\<exists>sender' n' tag a flag tp rest.
      msg = sha3_256 (str_encode ''SUPRA::RawTransaction'') @ sender' @ n' @ tag @ a @ flag @ tp @ rest
    \<and> ser_object S sender = Inr sender' \<and> ser_u64 S n = Inr n' \<and> ser_uleb128 S 3 = Inr tag
    \<and> ser_object S addr = Inr a \<and> ser_bool S True = Inr flag
    \<and> MultiSigTransactionPayload_serialize S (VMultiSigTransactionPayload ef) = Inr tp
    \<and> MultiSigTransactionPayload_deserialize S (tp @ rest) = Inr (VMultiSigTransactionPayload ef, rest)
    \<and> h = sha3_256 tp"
proof -
  obtain tp where tp: "MultiSigTransactionPayload_serialize S (VMultiSigTransactionPayload ef) = Inr tp"
    and hash: "h = sha3_256 tp"
    using payload_hash_bytes [OF laws(2) h] by blast
  obtain sender' n' p' g' u' e' c' where
    parts: "ser_object S sender = Inr sender'" "ser_u64 S n = Inr n'"
      "TransactionPayload_serialize S (VTransactionPayload 3 (create_multisig addr ef)) = Inr p'"
    and m: "msg = sha3_256 (str_encode ''SUPRA::RawTransaction'') @ sender' @ n' @ p' @ g' @ u' @ e' @ c'"
    using laws(3,4) msg by (rule keyed_parts)
  obtain tag a flag where p': "ser_uleb128 S 3 = Inr tag" "ser_object S addr = Inr a" "ser_bool S True = Inr flag"
    "p' = tag @ a @ flag @ tp"
    using parts(3) tp by (rule executed_payload_bytes)
  have "mstp_ok (VMultiSigTransactionPayload ef)" using ef by (simp add: mstp_ok_def)
  then have "MultiSigTransactionPayload_deserialize S (tp @ g' @ u' @ e' @ c')
      = Inr (VMultiSigTransactionPayload ef, g' @ u' @ e' @ c')"
    using mstp.dec_enc [of S, OF _ tp] laws(1) by blast
  then show ?thesis using m parts(1,2) p' hash tp by auto
qed

section \<open>The event that carries the sequence number\<close>

definition creates :: "pyval \<Rightarrow> bool" where
  "creates ev \<longleftrightarrow> get_key ev ''type'' = Inr (VStr ''0x1::multisig_account::CreateTransactionEvent'')"

definition other_event :: "pyval \<Rightarrow> bool" where
  "other_event ev \<longleftrightarrow> (\<exists>t. get_key ev ''type'' = Inr t
     \<and> \<not> eq_str t ''0x1::multisig_account::CreateTransactionEvent'')"

lemma eq_str_VStr: "eq_str v s \<longleftrightarrow> v = VStr s"
  by (cases v) (auto simp: eq_str_def)

lemma find_create_event_skip: "other_event ev \<Longrightarrow> find_create_event (ev # evs) = find_create_event evs"
  by (auto simp: other_event_def)

lemma find_create_event_here:
  "creates ev \<Longrightarrow> find_create_event (ev # evs) = bindR (get_path ev [''data'', ''sequence_number'']) py_int"
  by (simp add: creates_def eq_str_VStr)

lemma find_create_event_first:
  assumes "\<forall>ev \<in> set pre. other_event ev" and "creates ev"
  shows "find_create_event (pre @ ev # evs) = bindR (get_path ev [''data'', ''sequence_number'']) py_int"
  using assms by (induction pre) (simp_all add: find_create_event_skip find_create_event_here del: find_create_event.simps(2))

lemma find_create_event_malformed:
  assumes "\<forall>ev \<in> set pre. other_event ev" and "get_key ev ''type'' = Inl e"
  shows "find_create_event (pre @ ev # evs) = Inl e"
  using assms
proof (induction pre)
  case (Cons x pre)
  then show ?case using find_create_event_skip [of x "pre @ ev # evs"] by simp
qed simp

lemma find_create_event_none:
  "\<forall>ev \<in> set evs. other_event ev \<Longrightarrow> find_create_event evs = Inl (PlainException ''something went wrong'')"
  by (induction evs) (simp_all add: find_create_event_skip del: find_create_event.simps(2))

lemma find_create_event_Inr:
  "find_create_event evs = Inr n \<Longrightarrow> \<exists>pre ev post. evs = pre @ ev # post \<and> (\<forall>e \<in> set pre. other_event e)
     \<and> creates ev \<and> bindR (get_path ev [''data'', ''sequence_number'']) py_int = Inr n"
proof (induction evs)
  case (Cons ev evs)
  then obtain t where t: "get_key ev ''type'' = Inr t" by (auto simp: bindR_eq_Inr)
  show ?case
  proof (cases "creates ev")
    case True
    then show ?thesis
      using Cons.prems find_create_event_here [OF True]
      by (intro exI [of _ "[]"] exI [of _ ev] exI [of _ evs]) auto
  next
    case False
    then have o: "other_event ev" using t by (auto simp: other_event_def creates_def eq_str_VStr)
    with Cons obtain pre e post where
      "evs = pre @ e # post" "\<forall>e \<in> set pre. other_event e" "creates e"
      "bindR (get_path e [''data'', ''sequence_number'']) py_int = Inr n"
      using find_create_event_skip [OF o] by metis
    then show ?thesis using o by (intro exI [of _ "ev # pre"]) auto
  qed
qed simp

lemma propose_base_url:
  "load_global (propose_globals True) ''base_url'' = Inr ''https://rpc-testnet.supra.com/''"
  by (simp add: load_global_def of_option_def propose_globals_def)

lemma sequence_unbound:
  "get_multisig_tx_sequence_from_tx_hash (propose_globals False) P h w = (Inl (NameError ''base_url''), w)"
  by (simp add: get_multisig_tx_sequence_from_tx_hash_def bindP_def load_global_def of_option_def raise_def
      propose_globals_def)

lemma sequence_answered:
  assumes "G ''base_url'' = Some b" and "http_get P (tx_url b h) (env w) = (Inr resp, s)"
    and "get_key (decoded resp) ''status'' = Inr st"
  shows "get_multisig_tx_sequence_from_tx_hash G P h w =
    (if st = VStr ''Success''
     then bindR (get_path (decoded resp) [''output'', ''Move'', ''events''])
            (\<lambda>evs. bindR (iterate evs) find_create_event)
     else Inl (PlainException ''transaction is not successfully executed''),
     after_get (tx_url b h) resp s w)"
  using assms
  by (simp add: get_multisig_tx_sequence_from_tx_hash_def bindP_def load_global_def of_option_def
      get_json_answered liftR_def ret_def eq_str_VStr)

section \<open>The entry functions that are called\<close>

definition multisig_function :: "sdk \<Rightarrow> string \<Rightarrow> (pyval \<times> encoder) list \<Rightarrow> pyval result" where
  "multisig_function S f args =
     bindR (addr_from_str_relaxed S (VStr ''1'')) (\<lambda>a. ef_natural S (module_id_str S a ''multisig_account'') f [] args)"

lemma create_entry_func_0x1_multisig:
  "length args = length encs \<Longrightarrow>
     create_entry_func_0x1 S ''multisig_account'' f args encs = multisig_function S f (zip args encs)"
  by (simp add: create_entry_func_0x1_def multisig_function_def create_entry_func_args)

lemmas multisig_entry_functions =
  create_create_multisig_account_entry_func_def create_propose_multisig_tx_entry_func_def
  create_vote_multisig_tx_entry_func_def create_remove_multisig_tx_entry_func_def

section \<open>Effects\<close>

lemma kept_sequence [kept_rules]: "keeps files_kept (get_multisig_tx_sequence_from_tx_hash G P h)"
  unfolding get_multisig_tx_sequence_from_tx_hash_def by (auto intro!: kept_rules)

end
