(* ===== verification/Multisig_Auth.thy ===== *)
theory Multisig_Auth
  imports View_Multisig_Tx Transfer_Facts
begin

text \<open>
  \<open>multisig_auth.py\<close>: a transfer from an account whose key is a k-of-n Ed25519 key.  Its signature is
  the signatures of the signers, followed by a bitmap of who signed.
\<close>

unbundle bit_operations_syntax

section \<open>The bytes of a multi-signature\<close>

text \<open>\<open>1 << n\<close> and \<open>n.to_bytes(length, "big")\<close> on Python's unbounded integers.\<close>

definition shift_one :: "int \<Rightarrow> int result" where
  "shift_one n = (if n < 0 then Inl (ValueError ''negative shift count'') else Inr (push_bit (nat n) 1))"

definition be_bytes_int :: "nat \<Rightarrow> int \<Rightarrow> bytes" where
  "be_bytes_int len n = map (\<lambda>j. word_of_int (n div 256 ^ (len - 1 - j))) [0..<len]"

definition int_to_bytes :: "int \<Rightarrow> int \<Rightarrow> bytes result" where
  "int_to_bytes n len =
    (if len < 0 then Inl (ValueError ''length argument must be non-negative'')
     else if n < 0 \<or> 256 ^ nat len \<le> n then Inl OverflowError
     else Inr (be_bytes_int (nat len) n))"

text \<open>The loop over \<open>self.signatures\<close>, with the bitmap and the bytes built so far.\<close>

fun signatures_loop ::
  "sdk \<Rightarrow> (int \<times> pyval) list \<Rightarrow> int \<Rightarrow> bytes \<Rightarrow> (int \<times> bytes) result" where
  "signatures_loop S [] bitmap signature_bytes = Inr (bitmap, signature_bytes)"
| "signatures_loop S ((i, sig) # rest) bitmap signature_bytes =
     bindR (shift_one (31 - i)) (\<lambda>b.
     signatures_loop S rest (bitmap OR b) (signature_bytes @ signature_data S sig))"

definition multisig_to_crypto_bytes :: "sdk \<Rightarrow> (int \<times> pyval) list \<Rightarrow> bytes result" where
  "multisig_to_crypto_bytes S signatures =
     bindR (signatures_loop S signatures 0 []) (\<lambda>(bitmap, signature_bytes).
     bindR (int_to_bytes bitmap (bitmap_num_of_bytes S)) (\<lambda>bs.
     Inr (signature_bytes @ bs)))"

section \<open>The script\<close>

definition create_multisig_tx_dict :: "sdk \<Rightarrow> pyval \<Rightarrow> (int \<times> pyval) list \<Rightarrow> pyval \<Rightarrow> pyval result" where
  "create_multisig_tx_dict S multisig_public_key multisig_signature raw_tx =
     bindR (payload_to_dict S raw_tx) (\<lambda>raw_dict.
     bindR (multi_public_key_bytes S multisig_public_key) (\<lambda>pk.
     bindR (multisig_to_crypto_bytes S multisig_signature) (\<lambda>sig.
     Inr (VDict [(''Move'', VDict
       [(''raw_txn'', raw_dict),
        (''authenticator'', VDict [(''MultiEd25519'', VDict
          [(''public_key'', VStr (bytes_hex pk)), (''signature'', VStr (bytes_hex sig))])])])]))))"

definition multisig_auth_main :: "sdk \<Rightarrow> crypto \<Rightarrow> 's platform \<Rightarrow> ('s, unit) prog" where
  "multisig_auth_main S C P =
    (let is_testnet = True;
         base_url = (if is_testnet then ''https://rpc-testnet.supra.com/'' else ''https://rpc-mainnet.supra.com'');
         mnemonic_file = ''mnemonic_multisig.enc'';
         num_signers = 3;
         threshold = 2
     in bindP (load_multiple_private_keys C P mnemonic_file num_signers) (\<lambda>private_keys.
        bindP (liftR (mapR (\<lambda>key. account_load_key S (bytes_hex key)) private_keys)) (\<lambda>accounts.
        bindP (liftR (case accounts of [a, b, c] \<Rightarrow> Inr (a, b, c) | _ \<Rightarrow> Inl (ValueError ''unpack'')))
          (\<lambda>(alice, bob, carol).
        let multisig_public_key = multi_public_key_new S
              [account_public_key S alice, account_public_key S bob, account_public_key S carol] threshold;
            multisig_addr = addr_from_key S multisig_public_key;
            addr = obj_str S multisig_addr;
            recipient_addr = ''0xb8922417130785087f9c7926e76542531b703693fdc74c9386b65cf4427f4e80'';
            amount = 10
        in thenP (py_print (''Multisig account address: '' @ addr))
       (bindP (create_transfer_supra_entry_func S P base_url recipient_addr amount) (\<lambda>(entry_func, max_gas).
        bindP (get_account_supra_coin_balance P base_url addr) (\<lambda>balance.
        thenP (py_print (''Sender balance before transfer: '' @ str_of_int balance))
       (bindP (get_account_supra_coin_balance P base_url recipient_addr) (\<lambda>rb.
        thenP (py_print (''Recipient balance before transfer: '' @ str_of_int rb))
       (thenP (if balance < amount + max_gas then
                 bindP (fund_account_with_faucet P base_url addr) (\<lambda>tx_hash.
                 thenP (py_print (''Airdrop transaction hash: '' @ py_str (obj_repr P) tx_hash))
                       (watch_balance P base_url addr 10 5))
               else ret ())
       (bindP (get_account_seq_num P base_url addr) (\<lambda>seq_num.
        bindP (create_raw_tx S P multisig_addr seq_num entry_func max_gas 100 300 VNone (Some base_url)) (\<lambda>raw_tx.
        bindP (liftR (keyed S raw_tx)) (\<lambda>message.
        let alice_sig = account_sign S alice message;
            bob_sig = account_sign S bob message;
            carol_sig = account_sign S carol message;
            multisig_signature = [(0, alice_sig), (2, carol_sig)]
        in thenP (if multi_public_key_verify S multisig_public_key message multisig_signature then ret ()
                  else raise AssertionError)
       (bindP (liftR (create_multisig_tx_dict S multisig_public_key multisig_signature raw_tx)) (\<lambda>tx_dict.
        bindP (submit_tx_json P base_url tx_dict) (\<lambda>tx_hash.
        thenP (py_print (''Transaction submitted with hash: '' @ tx_hash))
       (thenP (wait_for_tx P base_url tx_hash 3 5 False)
       (bindP (get_account_supra_coin_balance P base_url addr) (\<lambda>sb'.
        thenP (py_print (''Sender balance after transfer: '' @ str_of_int sb'))
       (bindP (get_account_supra_coin_balance P base_url recipient_addr) (\<lambda>rb'.
        py_print (''Recipient balance after transfer: '' @ str_of_int rb')))))))))))))))))))))))"

section \<open>Facts about the encoding\<close>

lemma shift_one_Inr: "shift_one n = Inr b \<longleftrightarrow> 0 \<le> n \<and> b = 2 ^ nat n"
  by (auto simp: shift_one_def)

definition bitmap_of :: "int list \<Rightarrow> int" where
  "bitmap_of is = foldl (\<lambda>m i. m OR 2 ^ nat (31 - i)) 0 is"

lemma bit_foldl_or:
  "bit (foldl (\<lambda>m i. m OR 2 ^ nat (f i)) m0 is) n \<longleftrightarrow>
     bit (m0 :: int) n \<or> (\<exists>i \<in> set is. nat (f i) = n)"
  by (induction "is" arbitrary: m0) (auto simp: bit_or_iff bit_exp_iff)

lemma bit_bitmap_of: "bit (bitmap_of is) n \<longleftrightarrow> (\<exists>i \<in> set is. nat (31 - i) = n)"
  by (simp add: bitmap_of_def bit_foldl_or)

lemma bitmap_of_nonneg: "0 \<le> bitmap_of is"
proof -
  have "0 \<le> foldl (\<lambda>m i. m OR 2 ^ nat (31 - i)) m0 is" if "0 \<le> (m0 :: int)" for m0
    using that by (induction "is" arbitrary: m0) auto
  then show ?thesis by (simp add: bitmap_of_def)
qed

lemma signatures_loop_run:
  "(\<forall>(i, s) \<in> set sigs. i \<le> 31) \<Longrightarrow>
     signatures_loop S sigs m out =
       Inr (foldl (\<lambda>m i. m OR 2 ^ nat (31 - i)) m (map fst sigs),
            out @ concat (map (\<lambda>(i, s). signature_data S s) sigs))"
  by (induction sigs arbitrary: m out) (auto simp: shift_one_def)

lemma signatures_loop_stops:
  "\<exists>(i, s) \<in> set sigs. 31 < i \<Longrightarrow>
     signatures_loop S sigs m out = Inl (ValueError ''negative shift count'')"
proof (induction sigs arbitrary: m out)
  case (Cons p sigs)
  obtain i s where p: "p = (i, s)" by fastforce
  show ?case
  proof (cases "31 < i")
    case False
    with Cons.prems p have "\<exists>(i, s) \<in> set sigs. 31 < i" by auto
    from Cons.IH [OF this] p False show ?thesis by (simp add: shift_one_def)
  qed (simp add: p shift_one_def)
qed simp

lemma bit_bound_int:
  assumes "0 \<le> (n :: int)" and "\<And>k. bit n k \<Longrightarrow> k < w"
  shows "n < 2 ^ w"
proof -
  have "take_bit w n = n"
    by (rule bit_eqI) (use assms(2) in \<open>auto simp: bit_take_bit_iff\<close>)
  then show ?thesis using take_bit_int_less_exp [of w n] by simp
qed

lemma bit_be_bytes_int:
  assumes "j < len" and "r < 8"
  shows "bit (be_bytes_int len n ! j) (7 - r) \<longleftrightarrow> bit n (8 * (len - 1 - j) + (7 - r))"
proof -
  have "(256 :: int) ^ (len - 1 - j) = 2 ^ (8 * (len - 1 - j))"
    by (simp add: power_mult)
  then have "n div 256 ^ (len - 1 - j) = drop_bit (8 * (len - 1 - j)) n"
    by (simp add: drop_bit_eq_div)
  then show ?thesis
    using assms by (auto simp: be_bytes_int_def bit_word_of_int_iff bit_drop_bit_eq)
qed

text \<open>The bytes determine the number.\<close>

lemma be_bytes_int_inject:
  assumes eq: "be_bytes_int len n = be_bytes_int len m" and "0 \<le> n" "n < 2 ^ (8 * len)" "0 \<le> m" "m < 2 ^ (8 * len)"
  shows "n = m"
proof -
  have "bit n i \<longleftrightarrow> bit m i" if "i < 8 * len" for i
  proof -
    have j: "len - 1 - i div 8 < len" "7 - i mod 8 < 8" "8 * (len - 1 - (len - 1 - i div 8)) + (7 - (7 - i mod 8)) = i"
      using that by auto
    show ?thesis
      using bit_be_bytes_int [OF j(1,2), of n] bit_be_bytes_int [OF j(1,2), of m] eq j(3) by simp
  qed
  then have "take_bit (8 * len) n = take_bit (8 * len) m" by (auto simp: bit_eq_iff bit_take_bit_iff)
  then show ?thesis using assms(2-) by (simp add: take_bit_int_eq_self)
qed

lemma length_be_bytes_int [simp]: "length (be_bytes_int len n) = len"
  by (simp add: be_bytes_int_def)

text \<open>
  How a verifier reads the encoding: signer \<open>i\<close> is bit \<open>i\<close> of the bitmap, counted from the most
  significant bit of its first byte; the bitmap is what follows the signatures.
\<close>

definition bitmap_signers :: "bytes \<Rightarrow> nat list" where
  "bitmap_signers bs = filter (\<lambda>i. bit (bs ! (i div 8)) (7 - i mod 8)) [0..<8 * length bs]"

lemma bitmap_signers_encoded:
  assumes "\<And>i. i \<in> set is \<Longrightarrow> 0 \<le> i \<and> i \<le> 31"
  shows "bitmap_signers (be_bytes_int 4 (bitmap_of is)) = filter (\<lambda>i. int i \<in> set is) [0..<32]"
proof -
  have "bit (be_bytes_int 4 (bitmap_of is) ! (i div 8)) (7 - i mod 8) \<longleftrightarrow> int i \<in> set is"
    if i: "i < 32" for i
  proof -
    have "8 * (4 - 1 - i div 8) + (7 - i mod 8) = 31 - i"
      using i by presburger
    then have "bit (be_bytes_int 4 (bitmap_of is) ! (i div 8)) (7 - i mod 8) \<longleftrightarrow> bit (bitmap_of is) (31 - i)"
      using i bit_be_bytes_int [of "i div 8" 4 "i mod 8"] by simp
    also have "\<dots> \<longleftrightarrow> int i \<in> set is"
      unfolding bit_bitmap_of
    proof
      assume "\<exists>k \<in> set is. nat (31 - k) = 31 - i"
      then obtain k where k: "k \<in> set is" "nat (31 - k) = 31 - i" by blast
      with assms [of k] i have "k = int i" by linarith
      with k show "int i \<in> set is" by simp
    qed (use i in \<open>auto intro!: bexI [of _ "int i"]\<close>)
    finally show ?thesis .
  qed
  then show ?thesis
    by (auto simp: bitmap_signers_def intro!: filter_cong)
qed

lemma bitmap_of_bound:
  assumes "\<And>i. i \<in> set is \<Longrightarrow> 0 \<le> i"
  shows "bitmap_of is < 2 ^ 32"
proof (rule bit_bound_int [OF bitmap_of_nonneg])
  fix k assume "bit (bitmap_of is) k"
  then obtain i where "i \<in> set is" "nat (31 - i) = k" by (auto simp: bit_bitmap_of)
  with assms [of i] show "k < 32" by linarith
qed

lemma bitmap_of_overflow:
  assumes "i \<in> set is" and "i < 0"
  shows "2 ^ 32 \<le> bitmap_of is"
proof (rule ccontr)
  assume "\<not> 2 ^ 32 \<le> bitmap_of is"
  then have "take_bit 32 (bitmap_of is) = bitmap_of is"
    using bitmap_of_nonneg [of "is"] by (simp add: take_bit_int_eq_self_iff)
  moreover have "bit (bitmap_of is) (nat (31 - i))"
    using assms(1) by (auto simp: bit_bitmap_of)
  ultimately have "nat (31 - i) < 32"
    by (metis bit_take_bit_iff)
  with assms(2) show False by linarith
qed

lemma multisig_to_crypto_bytes_run:
  assumes "\<forall>(i, s) \<in> set sigs. 0 \<le> i \<and> i \<le> 31" and "bitmap_num_of_bytes S = 4"
  shows "multisig_to_crypto_bytes S sigs =
    Inr (concat (map (\<lambda>(i, s). signature_data S s) sigs) @ be_bytes_int 4 (bitmap_of (map fst sigs)))"
proof -
  have "bitmap_of (map fst sigs) < 2 ^ 32"
    using assms(1) by (intro bitmap_of_bound) auto
  then have "int_to_bytes (bitmap_of (map fst sigs)) 4 = Inr (be_bytes_int 4 (bitmap_of (map fst sigs)))"
    using bitmap_of_nonneg [of "map fst sigs"] by (simp add: int_to_bytes_def)
  moreover have "signatures_loop S sigs 0 [] =
      Inr (bitmap_of (map fst sigs), concat (map (\<lambda>(i, s). signature_data S s) sigs))"
    using assms(1) by (subst signatures_loop_run) (auto simp: bitmap_of_def)
  ultimately show ?thesis using assms(2) by (simp add: multisig_to_crypto_bytes_def)
qed

lemma multisig_to_crypto_bytes_large:
  assumes "(i, s) \<in> set sigs" and "31 < i"
  shows "multisig_to_crypto_bytes S sigs = Inl (ValueError ''negative shift count'')"
  using assms by (subst multisig_to_crypto_bytes_def, subst signatures_loop_stops) auto

lemma multisig_to_crypto_bytes_negative:
  assumes "\<forall>(i, s) \<in> set sigs. i \<le> 31" and "(i, s) \<in> set sigs" and "i < 0"
    and "bitmap_num_of_bytes S = 4"
  shows "multisig_to_crypto_bytes S sigs = Inl OverflowError"
proof -
  have "2 ^ 32 \<le> bitmap_of (map fst sigs)"
    using assms(2,3) by (intro bitmap_of_overflow [of i]) force+
  then have "int_to_bytes (bitmap_of (map fst sigs)) 4 = Inl OverflowError"
    by (simp add: int_to_bytes_def)
  moreover have "signatures_loop S sigs 0 [] =
      Inr (bitmap_of (map fst sigs), concat (map (\<lambda>(i, s). signature_data S s) sigs))"
    using assms(1) by (subst signatures_loop_run) (auto simp: bitmap_of_def)
  ultimately show ?thesis using assms(4) by (simp add: multisig_to_crypto_bytes_def)
qed

end
