(* ===== verification/Scan_Blocks.thy ===== *)
theory Scan_Blocks
  imports Check_Transaction
begin

text \<open>
  \<open>scan_blocks.py\<close>: a scan of consecutive blocks for a transaction, which ends the process as soon as
  it is found.  The two nested loops of the script are \<open>scan_block\<close> (the body of the outer one) and
  \<open>scan_tx\<close> (the body of the inner one).
\<close>

definition get_block_txs :: "'s platform \<Rightarrow> string \<Rightarrow> int \<Rightarrow> ('s, pyval) prog" where
  "get_block_txs P base_url height =
     bindP (get_block_by_height P base_url height True) (\<lambda>d. liftR (get_key d ''transactions''))"

definition scan_tx :: "'s platform \<Rightarrow> string \<Rightarrow> pyval \<Rightarrow> ('s, bool) prog" where
  "scan_tx P target_tx_hash tx =
     bindP (liftR (get_key tx ''hash'')) (\<lambda>tx_hash.
     if eq_str tx_hash target_tx_hash then
       thenP (py_print ''Found target!'') (raise (SystemExit 0))
     else thenP (py_print (py_str (obj_repr P) tx_hash)) (ret False))"

definition scan_block :: "'s platform \<Rightarrow> string \<Rightarrow> string \<Rightarrow> int \<Rightarrow> ('s, bool) prog" where
  "scan_block P base_url target_tx_hash h =
     bindP (get_block_txs P base_url h) (\<lambda>txs.
     thenP (py_print (''Block height: '' @ str_of_int h @ '':''))
     (bindP (liftR (iterate txs)) (\<lambda>l.
      thenP (for_each l (scan_tx P target_tx_hash)) (ret False))))"

definition scan_loop :: "'s platform \<Rightarrow> string \<Rightarrow> string \<Rightarrow> int \<Rightarrow> int \<Rightarrow> ('s, unit) prog" where
  "scan_loop P base_url target_tx_hash from_height to_height =
     for_each [from_height..to_height] (scan_block P base_url target_tx_hash)"

definition scan_blocks_main :: "'s platform \<Rightarrow> ('s, unit) prog" where
  "scan_blocks_main P =
    (let is_testnet = True;
         base_url = (if is_testnet then ''https://rpc-testnet1.supra.com'' else ''https://rpc-mainnet.supra.com'');
         start_tx_hash = ''0x1af2f5ee78f4f7708c7915c8d9f7929b98de68652af2f75c6e92ef4ac9b6bcf9'';
         end_tx_hash = ''0x4658eb4afb7dcb3fb04e826e30c8e71d63c1f74fb6dd867600fb3b0b3fb7cb0b'';
         target_tx_hash = ''0xdf33c5493e5b8cf694b1c59a3f9add67433fbe6cc33983eb4f415e39ba2f0a3b''
     in bindP (get_transaction_block_height P base_url start_tx_hash) (\<lambda>start_block_height.
        bindP (get_transaction_block_height P base_url end_tx_hash) (\<lambda>end_block_height.
        thenP (py_print (''Start block height: '' @ str_of_int start_block_height
                 @ '', end block height: '' @ str_of_int end_block_height
                 @ '', number of blocks: '' @ str_of_int (end_block_height - start_block_height)))
        (scan_loop P base_url target_tx_hash 637230 end_block_height))))"

section \<open>Effects\<close>

lemma emits_scan_block [emit_rules]:
  "Q (Got (block_url b h True)) \<Longrightarrow> (\<And>s. Q (Printed s)) \<Longrightarrow> keeps (emits Q) (scan_block P b t h)"
  unfolding scan_block_def get_block_txs_def scan_tx_def by (auto intro!: emit_rules)

lemma emits_scan_loop [emit_rules]:
  "(\<And>h. lo \<le> h \<Longrightarrow> h \<le> hi \<Longrightarrow> Q (Got (block_url b h True))) \<Longrightarrow> (\<And>s. Q (Printed s))
     \<Longrightarrow> keeps (emits Q) (scan_loop P b t lo hi)"
  unfolding scan_loop_def by (auto intro!: emit_rules)

section \<open>One block\<close>

text \<open>The hash a transaction of a block carries.\<close>

definition carries :: "pyval \<Rightarrow> string \<Rightarrow> bool" where
  "carries tx h = (get_key tx ''hash'' = Inr (VStr h))"

definition has_other_hash :: "string \<Rightarrow> pyval \<Rightarrow> bool" where
  "has_other_hash target tx = (\<exists>v. get_key tx ''hash'' = Inr v \<and> \<not> eq_str v target)"

lemma eq_str_iff: "eq_str v s \<longleftrightarrow> v = VStr s"
  by (cases v) (auto simp: eq_str_def)

lemma scan_tx_found:
  "carries tx target \<Longrightarrow>
     scan_tx P target tx w = (Inl (SystemExit 0), w\<lparr>trace := trace w @ [Printed ''Found target!'']\<rparr>)"
  by (simp add: scan_tx_def carries_def eq_str_iff bindP_def py_print_def raise_def)

lemma scan_tx_other:
  "has_other_hash target tx \<Longrightarrow> \<exists>s. scan_tx P target tx w = (Inr False, w\<lparr>trace := trace w @ [Printed s]\<rparr>)"
  by (auto simp: scan_tx_def has_other_hash_def bindP_def py_print_def ret_def)

lemma scan_txs_other:
  "list_all (has_other_hash target) txs \<Longrightarrow>
     \<exists>ps. passes (scan_tx P target) txs w = Some (w\<lparr>trace := trace w @ map Printed ps\<rparr>)"
proof (induction txs arbitrary: w)
  case Nil
  then show ?case by (intro exI [of _ "[]"]) simp
next
  case (Cons tx txs)
  then obtain s where s: "scan_tx P target tx w = (Inr False, w\<lparr>trace := trace w @ [Printed s]\<rparr>)"
    using scan_tx_other [of target tx P w] by auto
  obtain ps where "passes (scan_tx P target) txs (w\<lparr>trace := trace w @ [Printed s]\<rparr>)
      = Some (w\<lparr>trace := trace w @ [Printed s] @ map Printed ps\<rparr>)"
    using Cons.IH [of "w\<lparr>trace := trace w @ [Printed s]\<rparr>"] Cons.prems by auto
  then show ?case using s by (intro exI [of _ "s # ps"]) simp
qed

text \<open>The world of a block scan after the response and the heading.\<close>

definition at_block :: "string \<Rightarrow> int \<Rightarrow> reply \<Rightarrow> 's \<Rightarrow> 's world \<Rightarrow> 's world" where
  "at_block b h resp s w =
     (let u = after_get (block_url b h True) resp s w
      in u\<lparr>trace := trace u @ [Printed (''Block height: '' @ str_of_int h @ '':'')]\<rparr>)"

lemma scan_block_answered:
  assumes "http_get P (block_url b h True) (env w) = (Inr resp, s)"
    and "get_key (decoded resp) ''transactions'' = Inr (VList txs)"
  shows "scan_block P b target h w =
    bindP (for_each txs (scan_tx P target)) (\<lambda>_. ret False) (at_block b h resp s w)"
  using assms
  by (simp add: scan_block_def get_block_txs_def get_block_by_height_def bindP_def get_json_answered
      py_print_def ret_def at_block_def Let_def)

lemma scan_block_hit:
  assumes "http_get P (block_url b h True) (env w) = (Inr resp, s)"
    and "get_key (decoded resp) ''transactions'' = Inr (VList (pre @ tx # post))"
    and "list_all (has_other_hash target) pre" and "carries tx target"
  shows "\<exists>w'. scan_block P b target h w = (Inl (SystemExit 0), w')
    \<and> last (trace w') = Printed ''Found target!''"
proof -
  obtain ps where ps: "passes (scan_tx P target) pre (at_block b h resp s w)
      = Some ((at_block b h resp s w)\<lparr>trace := trace (at_block b h resp s w) @ map Printed ps\<rparr>)"
    using scan_txs_other [OF assms(3)] by blast
  note for_each_error [OF ps scan_tx_found [OF assms(4)], of post]
  then show ?thesis
    by (simp add: scan_block_answered [OF assms(1,2)] bindP_run)
qed

lemma scan_block_miss:
  assumes "http_get P (block_url b h True) (env w) = (Inr resp, s)"
    and "get_key (decoded resp) ''transactions'' = Inr (VList txs)"
    and "list_all (has_other_hash target) txs"
  shows "\<exists>ps. scan_block P b target h w =
    (Inr False, (at_block b h resp s w)\<lparr>trace := trace (at_block b h resp s w) @ map Printed ps\<rparr>)"
proof -
  obtain ps where "passes (scan_tx P target) txs (at_block b h resp s w)
      = Some ((at_block b h resp s w)\<lparr>trace := trace (at_block b h resp s w) @ map Printed ps\<rparr>)"
    using scan_txs_other [OF assms(3)] by blast
  then show ?thesis
    by (auto simp: scan_block_answered [OF assms(1,2)] bindP_def for_each_through ret_def)
qed

section \<open>The scan\<close>

lemma scan_loop_hit:
  assumes "passes (scan_block P b target) [lo..h - 1] w = Some u" and "lo \<le> h" and "h \<le> hi"
    and "scan_block P b target h u = (Inl e, w')"
  shows "scan_loop P b target lo hi w = (Inl e, w')"
proof -
  have "[lo..hi] = [lo..h - 1] @ h # [h + 1..hi]"
    using upto_split2 [of lo h hi] upto_rec1 [of h hi] assms(2,3)
    by (metis upto_split3)
  then show ?thesis
    unfolding scan_loop_def using for_each_error [OF assms(1,4)] by simp
qed

text \<open>The process ends with status 0 only if a scanned block has the transaction.\<close>

lemma scan_tx_outcome:
  "scan_tx P target tx w = (Inl (SystemExit n), w') \<Longrightarrow> carries tx target"
  by (auto simp: scan_tx_def carries_def eq_str_iff bindP_def py_print_def raise_def ret_def liftR_def
      dest: get_key_Inl split: prod.splits sum.splits if_splits)

lemma scan_txs_outcome:
  "for_each txs (scan_tx P target) w = (Inl (SystemExit n), w') \<Longrightarrow> \<exists>tx \<in> set txs. carries tx target"
  using for_each_outcome [of txs "scan_tx P target" w "Inl (SystemExit n)" w']
  by (auto dest: scan_tx_outcome)

lemma scan_block_exit:
  assumes "scan_block P b target h w = (Inl (SystemExit n), w')"
    and "\<forall>u s n s'. http_get P u s \<noteq> (Inl (SystemExit n), s')"
  shows "\<exists>s resp s' v txs tx. http_get P (block_url b h True) s = (Inr resp, s')
    \<and> get_key (decoded resp) ''transactions'' = Inr v \<and> iterate v = Inr txs \<and> tx \<in> set txs \<and> carries tx target"
proof -
  let ?g = "get_json P (block_url b h True) w"
  have run: "bindP (get_block_txs P b h) (\<lambda>txs.
     thenP (py_print (''Block height: '' @ str_of_int h @ '':''))
     (bindP (liftR (iterate txs)) (\<lambda>l. thenP (for_each l (scan_tx P target)) (ret False)))) w = (Inl (SystemExit n), w')"
    using assms(1) by (simp add: scan_block_def)
  show ?thesis
  proof (cases "http_get P (block_url b h True) (env w)")
    case (Pair q s)
    show ?thesis
    proof (cases q)
      case (Inl e)
      then have "e = SystemExit n"
        using run get_json_failed [of P "block_url b h True" w e s] Pair
        by (simp add: get_block_txs_def get_block_by_height_def bindP_def)
      with Pair Inl assms(2) show ?thesis by blast
    next
      case (Inr resp)
      note g = get_json_answered [OF Pair [unfolded Inr]]
      obtain v where v: "get_key (decoded resp) ''transactions'' = Inr v"
        using run g by (cases "get_key (decoded resp) ''transactions''")
          (auto simp: get_block_txs_def get_block_by_height_def bindP_def raise_def dest: get_key_Inl)
      obtain txs where txs: "iterate v = Inr txs"
        using run g v by (cases "iterate v")
          (auto simp: get_block_txs_def get_block_by_height_def bindP_def raise_def ret_def py_print_def dest: iterate_Inl)
      obtain u where "for_each txs (scan_tx P target) u = (Inl (SystemExit n), w')"
        using run g v txs
        by (auto simp: get_block_txs_def get_block_by_height_def bindP_def raise_def ret_def py_print_def
            split: prod.splits sum.splits)
      then obtain tx where "tx \<in> set txs" "carries tx target" using scan_txs_outcome by blast
      with Pair Inr v txs show ?thesis by blast
    qed
  qed
qed

lemma scan_loop_exit:
  assumes "scan_loop P b target lo hi w = (Inl (SystemExit n), w')"
    and "\<forall>u s n s'. http_get P u s \<noteq> (Inl (SystemExit n), s')"
  shows "\<exists>h s resp s' v txs tx. lo \<le> h \<and> h \<le> hi \<and> http_get P (block_url b h True) s = (Inr resp, s')
    \<and> get_key (decoded resp) ''transactions'' = Inr v \<and> iterate v = Inr txs \<and> tx \<in> set txs \<and> carries tx target"
proof -
  obtain ys h zs u where h: "[lo..hi] = ys @ h # zs"
    and run: "scan_block P b target h u = (Inl (SystemExit n), w')"
    using for_each_outcome [OF assms(1) [unfolded scan_loop_def]] by auto
  have "h \<in> set [lo..hi]" unfolding h by simp
  then have "lo \<le> h \<and> h \<le> hi" by simp
  with scan_block_exit [OF run assms(2)] show ?thesis by blast
qed

lemma block_url_not_tx: "block_url b h t \<noteq> tx_url b x"
  by (simp add: block_url_def tx_url_def)

end
