(* ===== verification/Gen_Mnemonic_Fido2.thy ===== *)
theory Gen_Mnemonic_Fido2
  imports Sealed_File Hashing
begin

text \<open>
  \<open>gen_mnemonic_fido2.py\<close>: the mnemonic file whose key needs both a password and a FIDO2 device.  The
  body of \<open>store_mnemonic_fido2\<close> refers to the name \<open>credential_id\<close>, which is not its parameter
  (\<open>crediential_id\<close>) but a global of the module, so the dictionary of globals (here, of those that hold
  bytes) is an argument \<open>G\<close>.  The module binds that name under the guard \<open>if __name__ == "__main__"\<close>:
  when it is run, not when it is imported.
\<close>

section \<open>The file format\<close>

text \<open>Credential id, FIDO2 salt, password salt, nonce, ciphertext.\<close>

type_synonym fido_header = "bytes \<times> bytes \<times> bytes \<times> bytes"

definition pack_fido2 :: "fido_header \<Rightarrow> bytes \<Rightarrow> bytes" where
  "pack_fido2 h ciphertext =
    (case h of (cred, fido2_salt, password_salt, nonce) \<Rightarrow>
       cred @ fido2_salt @ password_salt @ nonce @ ciphertext)"

text \<open>\<open>f.read(57)\<close>, \<open>f.read(32)\<close>, \<open>f.read(16)\<close>, \<open>f.read(12)\<close>, \<open>f.read()\<close>.\<close>

definition unpack_fido2 :: "bytes \<Rightarrow> fido_header \<times> bytes" where
  "unpack_fido2 data =
    (let d1 = drop 57 data; d2 = drop 32 d1; d3 = drop 16 d2
     in ((take 57 data, take 32 d1, take 16 d2, take 12 d3), drop 12 d3))"

definition fido_header_ok :: "fido_header \<Rightarrow> bool" where
  "fido_header_ok h =
    (case h of (cred, fido2_salt, password_salt, nonce) \<Rightarrow>
       length cred = 57 \<and> length fido2_salt = 32 \<and> length password_salt = 16 \<and> length nonce = 12)"

definition fido_nonce :: "fido_header \<Rightarrow> bytes" where
  "fido_nonce h = (case h of (cred, fido2_salt, password_salt, nonce) \<Rightarrow> nonce)"

interpretation fido2_file: sealed_file pack_fido2 unpack_fido2 fido_nonce fido_header_ok
  by unfold_locales (auto simp: pack_fido2_def unpack_fido2_def fido_header_ok_def Let_def)

section \<open>Devices and credentials\<close>

text \<open>The callback by which a client asks for the PIN of the device.\<close>

definition request_pin :: "'s platform \<Rightarrow> ('s, string) prog" where
  "request_pin P = getpass P ''Enter PIN: ''"

text \<open>A client: the device and the origin.\<close>

definition create_client :: "'s fido \<Rightarrow> string \<Rightarrow> ('s, string \<times> string) prog" where
  "create_client F origin =
     bindP (env_op (Used_device ''list_devices'') (list_devices F)) (\<lambda>devices.
     case devices of
       [] \<Rightarrow> raise (RuntimeError ''No FIDO2 device found'')
     | dev # _ \<Rightarrow> ret (dev, origin))"

definition create_credential_fido2 ::
  "'s fido \<Rightarrow> 's platform \<Rightarrow> string \<times> string \<Rightarrow> string \<Rightarrow> string \<Rightarrow> string \<Rightarrow> ('s, bytes) prog" where
  "create_credential_fido2 F P client rp_id user_name user_display_name =
     bindP (urandom P 32) (\<lambda>challenge.
     env_op (Used_device (fst client))
       (make_credential F (fst client) (snd client) rp_id user_name user_display_name challenge))"

text \<open>\<open>client.get_assertion(\<dots>)\<close> with the \<open>hmacGetSecret\<close> extension, and \<open>output1\<close> of its result.\<close>

definition get_hmac_secret ::
  "'s fido \<Rightarrow> 's platform \<Rightarrow> string \<times> string \<Rightarrow> bytes \<Rightarrow> bytes \<Rightarrow> ('s, bytes) prog" where
  "get_hmac_secret F P client credential_id fido2_salt =
     bindP (urandom P 32) (\<lambda>challenge.
     env_op (Used_device (fst client))
       (hmac_get_secret F (fst client) (snd client) ''supra.com'' challenge credential_id fido2_salt))"

section \<open>Storing and loading\<close>

definition script_credential_id :: bytes where
  "script_credential_id = bytes_fromhex
     (''024368f377dd3bfd22ccfb6d71fb98a60674b436acceeacf1e9e8c5907bd04d1a97415b2a34b698d''
      @ ''3dde8b4f1436867c104e2a65593a23945f'')"

definition fido2_globals :: "bool \<Rightarrow> (string \<rightharpoonup> bytes)" where
  "fido2_globals is_main = (if is_main then [''credential_id'' \<mapsto> script_credential_id] else Map.empty)"

definition kdf2 :: "bytes \<Rightarrow> scrypt_params" where
  "kdf2 password_salt =
     \<lparr>scrypt_salt = password_salt, scrypt_length = 32, scrypt_n = 2 ^ 14, scrypt_r = 8, scrypt_p = 1\<rparr>"

definition already_exists :: "string \<Rightarrow> string" where
  "already_exists file_path =
     ''Error: The file '' @ [CHR 0x27] @ file_path @ [CHR 0x27]
       @ '' already exists. Choose a different file path.''"

definition stored_in :: "string \<Rightarrow> string" where
  "stored_in file_path =
     ''Mnemonic encrypted and stored in '' @ [CHR 0x27] @ file_path @ [CHR 0x27] @ ''.''"

definition store_mnemonic_fido2 ::
  "(string \<rightharpoonup> bytes) \<Rightarrow> crypto \<Rightarrow> 's fido \<Rightarrow> 's platform \<Rightarrow> string \<Rightarrow> string \<Rightarrow> bytes \<Rightarrow> ('s, unit) prog" where
  "store_mnemonic_fido2 G C F P mnemonic file_path crediential_id =
     bindP (path_exists file_path) (\<lambda>ex.
     if ex then raise (FileExistsError (already_exists file_path))
     else
       bindP (create_client F ''https://supra.com'') (\<lambda>client.
       bindP (liftR (load_global G ''credential_id'')) (\<lambda>credential_id.
       bindP (urandom P 32) (\<lambda>fido2_salt.
       bindP (get_hmac_secret F P client credential_id fido2_salt) (\<lambda>hmac_secret.
       bindP (getpass P ''Enter password to encrypt the mnemonic: '') (\<lambda>password.
       bindP (urandom P 16) (\<lambda>password_salt.
       bindP (liftR (scrypt_derive C (kdf2 password_salt) (str_encode password))) (\<lambda>password_key.
       let final_key = hmac_sha256 hmac_secret password_key in
       bindP (urandom P 12) (\<lambda>nonce.
       thenP (liftR (aesgcm_new C final_key))
      (bindP (liftR (aesgcm_encrypt C final_key nonce (str_encode mnemonic))) (\<lambda>ciphertext.
       thenP (write_file P file_path (pack_fido2 (credential_id, fido2_salt, password_salt, nonce) ciphertext))
             (py_print (stored_in file_path)))))))))))))"

definition load_mnemonic_fido2 :: "crypto \<Rightarrow> 's fido \<Rightarrow> 's platform \<Rightarrow> string \<Rightarrow> ('s, string) prog" where
  "load_mnemonic_fido2 C F P file_path =
     bindP (getpass P ''Enter password to decrypt the mnemonic: '') (\<lambda>password.
     bindP (read_file P file_path) (\<lambda>data.
     case unpack_fido2 data of ((credential_id, fido2_salt, password_salt, nonce), ciphertext) \<Rightarrow>
       bindP (liftR (scrypt_derive C (kdf2 password_salt) (str_encode password))) (\<lambda>password_key.
       bindP (create_client F ''https://supra.com'') (\<lambda>client.
       bindP (get_hmac_secret F P client credential_id fido2_salt) (\<lambda>hmac_secret.
       let final_key = hmac_sha256 hmac_secret password_key in
       thenP (liftR (aesgcm_new C final_key))
             (unseal_or_empty C final_key nonce ciphertext))))))"

text \<open>The script passes the value of the global as the argument.\<close>

definition gen_mnemonic_fido2_main ::
  "crypto \<Rightarrow> 's fido \<Rightarrow> 's platform \<Rightarrow> ('s, string) prog \<Rightarrow> ('s, unit) prog" where
  "gen_mnemonic_fido2_main C F P new_mnemonic =
    (let credential_id = script_credential_id;
         mnemonic_file = ''mnemonic_new_multisig_fido2.enc''
     in bindP new_mnemonic (\<lambda>mnemonic.
        thenP (py_print (''Mnemonic: '' @ mnemonic))
       (thenP (store_mnemonic_fido2 (fido2_globals True) C F P mnemonic mnemonic_file credential_id)
       (bindP (load_mnemonic_fido2 C F P mnemonic_file) (\<lambda>decrypted_mnemonic.
        py_print (''Decrypted mnemonic: '' @ decrypted_mnemonic))))))"

lemma length_script_credential_id: "length script_credential_id = 57"
  by (simp add: script_credential_id_def length_bytes_fromhex)

section \<open>Runs\<close>

lemma fido2_store_existing:
  "files w path \<noteq> None \<Longrightarrow>
     store_mnemonic_fido2 G C F P m path cid w = (Inl (FileExistsError (already_exists path)), w)"
  by (simp add: store_mnemonic_fido2_def bindP_def path_exists_def raise_def)

lemma create_client_run:
  "list_devices F (env w) = (Inr (dev # devs), s) \<Longrightarrow>
     create_client F origin w =
       (Inr (dev, origin), w\<lparr>env := s, trace := trace w @ [Used_device ''list_devices'']\<rparr>)"
  by (simp add: create_client_def bindP_def env_op_def ret_def)

lemma create_client_none:
  "list_devices F (env w) = (Inr [], s) \<Longrightarrow>
     create_client F origin w =
       (Inl (RuntimeError ''No FIDO2 device found''),
        w\<lparr>env := s, trace := trace w @ [Used_device ''list_devices'']\<rparr>)"
  by (simp add: create_client_def bindP_def env_op_def raise_def)

text \<open>Without the global, nothing is stored, whatever credential id is passed.\<close>

lemma fido2_store_unbound:
  assumes "G ''credential_id'' = None" and "files w path = None"
    and "list_devices F (env w) = (Inr (dev # devs), s)"
  shows "store_mnemonic_fido2 G C F P m path cid w =
    (Inl (NameError ''credential_id''), w\<lparr>env := s, trace := trace w @ [Used_device ''list_devices'']\<rparr>)"
  using assms
  by (simp add: store_mnemonic_fido2_def bindP_def path_exists_def create_client_run load_global_def
      of_option_def raise_def)

lemma fido2_unbound_fails:
  assumes "G ''credential_id'' = None" and "store_mnemonic_fido2 G C F P m path cid w = (r, w')"
  shows "\<exists>e. r = Inl e"
proof (cases r)
  case (Inr x)
  then show ?thesis
    using assms by (auto simp: store_mnemonic_fido2_def bindP_Inr path_exists_def raise_def liftR_def
        load_global_def of_option_def split: if_splits)
qed simp

lemma fido2_unbound_files:
  assumes "G ''credential_id'' = None"
  shows "keeps files_kept (store_mnemonic_fido2 G C F (P :: 's platform) m path cid)"
proof -
  have "bindP (liftR (load_global G ''credential_id'')) k = raise (NameError ''credential_id'')"
    for k :: "bytes \<Rightarrow> ('s, unit) prog"
    using assms by (auto simp: load_global_def of_option_def bindP_def liftR_def raise_def fun_eq_iff)
  then have "store_mnemonic_fido2 G C F P m path cid = bindP (path_exists path) (\<lambda>ex.
      if ex then raise (FileExistsError (already_exists path))
      else bindP (create_client F ''https://supra.com'') (\<lambda>client. raise (NameError ''credential_id'')))"
    by (simp add: store_mnemonic_fido2_def cong: if_cong)
  then show ?thesis
    by (auto simp: create_client_def intro!: kept_rules kept_env_op split: list.split)
qed

lemma get_hmac_secret_run:
  "get_hmac_secret F P client cid salt w = (Inr sec, w') \<longleftrightarrow>
     (\<exists>ch s s'. os_random P 32 (env w) = (Inr ch, s)
        \<and> hmac_get_secret F (fst client) (snd client) ''supra.com'' ch cid salt s = (Inr sec, s')
        \<and> w' = w\<lparr>env := s', trace := trace w @ [Drew 32, Used_device (fst client)]\<rparr>)"
  by (fastforce simp: get_hmac_secret_def bindP_Inr urandom_run env_op_run)

lemma create_client_Inr:
  "create_client F origin w = (Inr client, w') \<longleftrightarrow>
     (\<exists>dev devs s. list_devices F (env w) = (Inr (dev # devs), s) \<and> client = (dev, origin)
        \<and> w' = w\<lparr>env := s, trace := trace w @ [Used_device ''list_devices'']\<rparr>)"
proof -
  have "(case devices of [] \<Rightarrow> raise (RuntimeError ''No FIDO2 device found'') | dev # devs \<Rightarrow> ret (dev, origin)) u
      = (Inr client, w') \<longleftrightarrow> (\<exists>dev devs. devices = dev # devs \<and> client = (dev, origin) \<and> w' = u)"
    for devices :: "string list" and u :: "'a world"
    by (cases devices) (auto simp: raise_def ret_def)
  then show ?thesis by (auto simp: create_client_def bindP_Inr env_op_run)
qed

lemma fido2_store_success:
  assumes "G ''credential_id'' = Some cid" and "store_mnemonic_fido2 G C F P m path cid' w = (Inr (), w')"
  obtains dev devs fsalt sec password psalt pkey nonce ct ch s1 s2 s3 s4 s5 s6 s7 where
    "list_devices F (env w) = (Inr (dev # devs), s1)"
    "os_random P 32 s1 = (Inr fsalt, s2)"
    "os_random P 32 s2 = (Inr ch, s3)"
    "hmac_get_secret F dev ''https://supra.com'' ''supra.com'' ch cid fsalt s3 = (Inr sec, s4)"
    "read_password P ''Enter password to encrypt the mnemonic: '' s4 = (Inr password, s5)"
    "os_random P 16 s5 = (Inr psalt, s6)"
    "scrypt_derive C (kdf2 psalt) (str_encode password) = Inr pkey"
    "os_random P 12 s6 = (Inr nonce, s7)"
    "aesgcm_new C (hmac_sha256 sec pkey) = Inr ()"
    "aesgcm_encrypt C (hmac_sha256 sec pkey) nonce (str_encode m) = Inr ct"
    "files w path = None"
    "files w' path = Some (pack_fido2 (cid, fsalt, psalt, nonce) ct)"
proof -
  have ex: "files w path = None"
    using assms fido2_store_existing [of w path G C F P m cid'] by fastforce
  show ?thesis
    using assms ex
    by (auto simp: store_mnemonic_fido2_def bindP_Inr path_exists_def getpass_run urandom_run liftR_run
        write_file_run py_print_def create_client_Inr load_global_def of_option_def get_hmac_secret_run Let_def)
      (rule that, assumption+, simp_all)
qed

text \<open>
  The secret a device derives from a credential and a salt does not depend on the challenge or on when
  it is asked for (the \<open>hmac-secret\<close> extension of CTAP2), as long as its user is verified both times or
  neither time: the scripts ask for verification with \<open>PREFERRED\<close>, and a device may keep two secrets.
\<close>

definition hmac_secret_law :: "'s fido \<Rightarrow> bool" where
  "hmac_secret_law F \<longleftrightarrow>
    (\<forall>dev origin rp ch ch' cid salt s s' x y t t'.
       user_verified F dev s = user_verified F dev s' \<longrightarrow>
       hmac_get_secret F dev origin rp ch cid salt s = (Inr x, t) \<longrightarrow>
       hmac_get_secret F dev origin rp ch' cid salt s' = (Inr y, t') \<longrightarrow> x = y)"

lemma hmac_secret_lawD:
  "hmac_secret_law F \<Longrightarrow> user_verified F dev s = user_verified F dev s' \<Longrightarrow>
     hmac_get_secret F dev og rp ch cid salt s = (Inr x, t) \<Longrightarrow>
     hmac_get_secret F dev og rp ch' cid salt s' = (Inr y, t') \<Longrightarrow> x = y"
  unfolding hmac_secret_law_def by blast

lemma fido2_load_run:
  assumes "read_password P ''Enter password to decrypt the mnemonic: '' (env w) = (Inr password, s1)"
    and "open_fault P path False s1 = None" and "files w path = Some data"
    and "unpack_fido2 data = ((cid, fsalt, psalt, nonce), ct)"
    and "scrypt_derive C (kdf2 psalt) (str_encode password) = Inr pkey"
    and "list_devices F s1 = (Inr (dev # devs), s2)" and "os_random P 32 s2 = (Inr ch, s3)"
    and "hmac_get_secret F dev ''https://supra.com'' ''supra.com'' ch cid fsalt s3 = (Inr sec, s4)"
    and "aesgcm_new C (hmac_sha256 sec pkey) = Inr ()"
  shows "load_mnemonic_fido2 C F P path w =
    unseal_or_empty C (hmac_sha256 sec pkey) nonce ct
      (w\<lparr>env := s4, trace := trace w @ [AskedPassword ''Enter password to decrypt the mnemonic: '',
          Used_device ''list_devices'', Drew 32, Used_device dev]\<rparr>)"
  using assms
  by (simp add: load_mnemonic_fido2_def bindP_def getpass_def env_op_def read_file_def of_option_def
      ret_def create_client_def get_hmac_secret_def urandom_def Let_def)

lemma emits_client [emit_rules]:
  "(\<And>d. Q (Used_device d)) \<Longrightarrow> keeps (emits Q) (create_client F og)"
  unfolding create_client_def by (auto intro!: emit_rules split: list.split)

lemma emits_secret [emit_rules]:
  "(\<And>n. Q (Drew n)) \<Longrightarrow> (\<And>d. Q (Used_device d)) \<Longrightarrow> keeps (emits Q) (get_hmac_secret F P cl cid sa)"
  unfolding get_hmac_secret_def by (auto intro!: emit_rules)

lemma emits_load_fido2 [emit_rules]:
  assumes "\<And>s. Q (AskedPassword s)" "\<And>s e. Q (PrintedExc s e)" "\<And>n. Q (Drew n)" "\<And>d. Q (Used_device d)"
  shows "keeps (emits Q) (load_mnemonic_fido2 C F P path)"
  unfolding load_mnemonic_fido2_def unpack_fido2_def Let_def using assms by (auto intro!: emit_rules)

lemma adds_store_fido2: "keeps (adds_at path) (store_mnemonic_fido2 G C F P m path cid)"
  unfolding store_mnemonic_fido2_def create_client_def get_hmac_secret_def Let_def
  by (intro add_rules) (auto intro!: add_rules split: list.split)

lemma fido2_store_files:
  assumes "store_mnemonic_fido2 G C F P m path cid w = (r, w')"
  shows "files w' = files w \<or> files w path = None \<and> (\<exists>d. files w' = (files w)(path \<mapsto> d))"
  using keepsD [OF adds_store_fido2 assms] fido2_store_existing [of w path G C F P m cid] assms
  by (cases "files w path") (auto simp: adds_at_def)

text \<open>The file holds the 57-byte credential ids it was written for, and no others.\<close>

lemma unpack_other_length:
  assumes "length cred \<noteq> 57" and "length fsalt = 32" and "length psalt = 16" and "length nonce = 12"
  shows "unpack_fido2 (pack_fido2 (cred, fsalt, psalt, nonce) ct) \<noteq> ((cred, fsalt, psalt, nonce), ct)"
proof
  assume "unpack_fido2 (pack_fido2 (cred, fsalt, psalt, nonce) ct) = ((cred, fsalt, psalt, nonce), ct)"
  then have "take 57 (pack_fido2 (cred, fsalt, psalt, nonce) ct) = cred"
    by (simp add: unpack_fido2_def Let_def)
  moreover have "57 \<le> length (pack_fido2 (cred, fsalt, psalt, nonce) ct)"
    using assms(2-4) by (simp add: pack_fido2_def)
  ultimately have "length cred = 57" by (metis length_take min.absorb2)
  with assms(1) show False by simp
qed

section \<open>What was stored is loaded again\<close>

lemma fido2_store_then_load:
  assumes C: "aead_law C" and R: "random_law P" and H: "hmac_secret_law F" and m: "is_text m"
    and cid: "G ''credential_id'' = Some cid" "length cid = 57" and uv: "\<forall>s. user_verified F dev s = verified"
    and store: "store_mnemonic_fido2 G C F P m path cid' w = (Inr (), w1)"
    and typed: "\<And>s p s'. read_password P ''Enter password to encrypt the mnemonic: '' s = (Inr p, s')
        \<Longrightarrow> p = password"
    and later: "files w2 path = files w1 path" "open_fault P path False s1 = None"
    and again: "read_password P ''Enter password to decrypt the mnemonic: '' (env w2) = (Inr password, s1)"
    and dev: "list_devices F (env w) = (Inr (dev # devs), s0)"
      "list_devices F s1 = (Inr (dev # devs'), s2)"
    and ch: "os_random P 32 s2 = (Inr ch, s3)"
    and ans: "\<And>fsalt. \<exists>sec s4. hmac_get_secret F dev ''https://supra.com'' ''supra.com'' ch cid fsalt s3 = (Inr sec, s4)"
  shows "\<exists>w3. load_mnemonic_fido2 C F P path w2 = (Inr m, w3) \<and> files w3 = files w2"
proof -
  obtain dev' devs2 fsalt sec p psalt pkey nonce ct ch0 t1 t2 t3 t4 t5 t6 t7 where
    d: "list_devices F (env w) = (Inr (dev' # devs2), t1)"
    and fs: "os_random P 32 t1 = (Inr fsalt, t2)"
    and sec: "hmac_get_secret F dev' ''https://supra.com'' ''supra.com'' ch0 cid fsalt t3 = (Inr sec, t4)"
    and p: "read_password P ''Enter password to encrypt the mnemonic: '' t4 = (Inr p, t5)"
    and ps: "os_random P 16 t5 = (Inr psalt, t6)"
    and pk: "scrypt_derive C (kdf2 psalt) (str_encode p) = Inr pkey"
    and no: "os_random P 12 t6 = (Inr nonce, t7)"
    and key: "aesgcm_new C (hmac_sha256 sec pkey) = Inr ()"
    and ct: "aesgcm_encrypt C (hmac_sha256 sec pkey) nonce (str_encode m) = Inr ct"
    and w1: "files w1 path = Some (pack_fido2 (cid, fsalt, psalt, nonce) ct)"
    using cid(1) store by (rule fido2_store_success)
  have dev': "dev' = dev" using d dev(1) by simp
  have p': "p = password" using typed [OF p] .
  obtain sec' s4 where sec': "hmac_get_secret F dev ''https://supra.com'' ''supra.com'' ch cid fsalt s3 = (Inr sec', s4)"
    using ans by blast
  have sec_eq: "sec' = sec" using hmac_secret_lawD [OF H _ sec' sec [unfolded dev']] uv by simp
  have wf: "fido_header_ok (cid, fsalt, psalt, nonce)"
    using cid(2) random_lawD [OF R fs] random_lawD [OF R ps] random_lawD [OF R no] by (simp add: fido_header_ok_def)
  have "files w2 path = Some (pack_fido2 (cid, fsalt, psalt, nonce) ct)"
    using later(1) w1 by simp
  note run = fido2_load_run [OF again later(2) this fido2_file.unpack_pack [OF wf] pk [unfolded p'] dev(2) ch
      sec' key [folded sec_eq]]
  show ?thesis
    unfolding run sec_eq using unseal_encrypted [OF C m ct] by (simp add: unseal_or_empty_ok)
qed

end
