(* ===== verification/Confinement.thy ===== *)
theory Confinement
  imports Multisig_Onchain Multisig_Auth Scan_Blocks Gen_Mnemonic_Fido2
begin

text \<open>
  What the scripts as a whole may do to the world: the scripts that talk to the RPC server send their
  requests to one host and write no file, and the scripts that handle mnemonics make no request.
\<close>

section \<open>The host of a request\<close>

definition stays_on :: "string \<Rightarrow> event \<Rightarrow> bool" where
  "stays_on b ev =
    (case ev of Got u \<Rightarrow> prefix b u | Posted u d \<Rightarrow> prefix b u | _ \<Rightarrow> True)"

lemma stays_on_simps [simp]:
  "stays_on b (Got u) = prefix b u"
  "stays_on b (Posted u d) = prefix b u"
  "stays_on b (Printed s)" "stays_on b (PrintedExc s e)" "stays_on b (Slept n)" "stays_on b (Asked s)"
  "stays_on b (AskedPassword s)" "stays_on b (Drew k)" "stays_on b Drew_key" "stays_on b (WroteFile s data)"
  "stays_on b (Used_device s)"
  by (simp_all add: stays_on_def)

lemma urls_on_host [simp]:
  "prefix b (account_url b a)" "prefix b (resource_url b a t)" "prefix b (tx_url b h)"
  "prefix b (block_url b n c)" "prefix b (faucet_url b a)" "prefix b (simulate_url b)"
  "prefix b (submit_url b)" "prefix b (chain_id_url (Some b))" "prefix b (view_url b)"
  by (simp_all add: account_url_def resource_url_def tx_url_def block_url_def faucet_url_def
      simulate_url_def submit_url_def chain_id_url_def view_url_def)

lemma emits_send [emit_rules]:
  fixes Q :: "event \<Rightarrow> bool"
  assumes "\<And>u. prefix b u \<Longrightarrow> Q (Got u)" "\<And>u d. prefix b u \<Longrightarrow> Q (Posted u d)" "Q Drew_key"
    "\<And>s. Q (Printed s)"
  shows "keeps (emits Q) (create_raw_tx S P x n c g u t k (Some b))"
    and "keeps (emits Q) (submit_tx_json P b d)"
    and "keeps (emits Q) (simulate_tx_json P b d)"
    and "keeps (emits Q) (create_simulate_tx_dict S P pk raw)"
    and "keeps (emits Q) (create_transfer_supra_entry_func S P b a m)"
    and "keeps (emits Q) (send_tx S P b acc payload gas price)"
  unfolding send_tx_def create_raw_tx_def submit_tx_json_def simulate_tx_json_def
    create_simulate_tx_dict_def create_transfer_supra_entry_func_def Let_def
  using assms by (auto intro!: emit_rules)


lemma emits_seq [emit_rules]:
  "(\<And>u. prefix b u \<Longrightarrow> Q (Got u)) \<Longrightarrow> (\<And>s. Q (Printed s)) \<Longrightarrow>
     load_global G ''base_url'' = Inr b \<Longrightarrow> keeps (emits Q) (get_multisig_tx_sequence_from_tx_hash G P h)"
  unfolding get_multisig_tx_sequence_from_tx_hash_def by (auto intro!: emit_rules)

section \<open>The scripts\<close>

lemma host_round:
  "keeps (emits (stays_on b)) (transfer_round S P b acc sender rcpt ef gas)"
  unfolding transfer_round_def Let_def
  by (intro emit_rules emits_send [where b = b]) auto

lemma host_transfer: "keeps (emits (stays_on ''https://rpc-testnet1.supra.com'')) (transfer_supra_main S C P)"
  unfolding transfer_supra_main_def Let_def if_True split_beta
  by (intro emit_rules host_round emits_send [where b = "''https://rpc-testnet1.supra.com''"]) auto

lemma host_propose: "keeps (emits (stays_on ''https://rpc-testnet.supra.com/'')) (propose_multisig_tx_main S C P)"
  unfolding propose_multisig_tx_main_def Let_def split_beta
  by (intro emit_rules emits_send [where b = "''https://rpc-testnet.supra.com/''"]) (auto intro!: emit_rules simp: propose_base_url)

lemmas script_defs =
  check_balance_main_def check_block_main_def check_transaction_main_def scan_blocks_main_def
  airdrop_main_def transfer_supra_main_def create_multisig_account_main_def propose_multisig_tx_main_def
  vote_multisig_tx_main_def execute_multisig_tx_main_def view_multisig_tx_main_def multisig_auth_main_def

lemma host_queries:
  "keeps (emits (stays_on ''https://rpc-mainnet.supra.com'')) (check_balance_main P)"
  "keeps (emits (stays_on ''https://rpc-mainnet.supra.com'')) (check_block_main P)"
  "keeps (emits (stays_on ''https://rpc-testnet.supra.com'')) (check_transaction_main P)"
  "keeps (emits (stays_on ''https://rpc-testnet1.supra.com'')) (scan_blocks_main P)"
  unfolding script_defs scan_loop_def scan_block_def scan_tx_def get_block_txs_def Let_def
  by (auto intro!: emit_rules)

lemma host_airdrop: "keeps (emits (stays_on ''https://rpc-wallet-testnet.supra.com/'')) (airdrop_main S C P)"
  unfolding script_defs Let_def split_beta by (auto intro!: emit_rules)

lemma host_create:
  "keeps (emits (stays_on ''https://rpc-testnet.supra.com/'')) (create_multisig_account_main S C P)"
  unfolding script_defs Let_def if_True
  by (intro emit_rules emits_send [where b = "''https://rpc-testnet.supra.com/''"]) auto

lemma host_vote: "keeps (emits (stays_on ''https://rpc-mainnet.supra.com'')) (vote_multisig_tx_main S C P)"
  unfolding script_defs Let_def if_False split_beta
  by (intro emit_rules emits_send [where b = "''https://rpc-mainnet.supra.com''"]) auto

lemma host_view: "keeps (emits (stays_on ''https://rpc-mainnet.supra.com'')) (view_multisig_tx_main S P)"
  unfolding script_defs Let_def if_False
  by (intro emit_rules) auto

lemma host_execute: "keeps (emits (stays_on ''https://rpc-testnet1.supra.com/'')) (execute_multisig_tx_main S C P)"
  unfolding script_defs Let_def if_True split_beta
  by (intro emit_rules emits_send [where b = "''https://rpc-testnet1.supra.com/''"]) auto

lemma host_multisig: "keeps (emits (stays_on ''https://rpc-testnet.supra.com/'')) (multisig_auth_main S C P)"
  unfolding script_defs Let_def if_True split_beta
  by (intro emit_rules emits_send [where b = "''https://rpc-testnet.supra.com/''"]) (auto intro!: emit_rules split: list.split)

lemma kept_round [kept_rules]: "keeps files_kept (transfer_round S P b acc sender rcpt ef gas)"
  unfolding transfer_round_def Let_def by (intro kept_rules)

lemma kept_scripts1:
  "keeps files_kept (check_balance_main P)" "keeps files_kept (check_block_main P)"
  "keeps files_kept (check_transaction_main P)" "keeps files_kept (scan_blocks_main P)"
  "keeps files_kept (airdrop_main S C P)" 
  unfolding script_defs scan_loop_def scan_block_def scan_tx_def get_block_txs_def Let_def split_beta
  by (auto intro!: kept_rules)

lemma kept_scripts:
  "keeps files_kept (transfer_supra_main S C P)"
  "keeps files_kept (create_multisig_account_main S C P)"
  "keeps files_kept (vote_multisig_tx_main S C P)"
  "keeps files_kept (view_multisig_tx_main S P)"
  "keeps files_kept (execute_multisig_tx_main S C P)"
  unfolding script_defs Let_def split_beta
  by (intro kept_rules)+

lemma kept_scripts2:
  "keeps files_kept (propose_multisig_tx_main S C P)"
  "keeps files_kept (multisig_auth_main S C P)"
  unfolding script_defs Let_def split_beta
  by (auto intro!: kept_rules)

text \<open>Both together, in the terms of the world.\<close>

definition confined :: "string \<Rightarrow> ('s, 'a) prog \<Rightarrow> bool" where
  "confined b m \<longleftrightarrow> (\<forall>w r w'. m w = (r, w') \<longrightarrow>
     files w' = files w
     \<and> (\<exists>es. trace w' = trace w @ es
          \<and> (\<forall>u. Got u \<in> set es \<longrightarrow> prefix b u) \<and> (\<forall>u d. Posted u d \<in> set es \<longrightarrow> prefix b u)))"

lemma confinedI:
  assumes "keeps (emits (stays_on b)) m" and "keeps files_kept m"
  shows "confined b m"
  unfolding confined_def
proof (intro allI impI conjI)
  fix w r w' assume run: "m w = (r, w')"
  show "files w' = files w" using keepsD [OF assms(2) run] by (simp add: files_kept_def)
  obtain es where "trace w' = trace w @ es" "\<forall>e \<in> set es. stays_on b e"
    using keepsD [OF assms(1) run] by (auto simp: emits_def)
  then show "\<exists>es. trace w' = trace w @ es \<and> (\<forall>u. Got u \<in> set es \<longrightarrow> prefix b u)
      \<and> (\<forall>u d. Posted u d \<in> set es \<longrightarrow> prefix b u)"
    by (intro exI [of _ es]) force
qed

section \<open>The scripts that handle mnemonics\<close>

definition offline :: "event \<Rightarrow> bool" where
  "offline ev = (case ev of Got u \<Rightarrow> False | Posted u d \<Rightarrow> False | _ \<Rightarrow> True)"

lemma offline_simps [simp]:
  "offline (Printed s)" "offline (PrintedExc s e)" "offline (Asked s)"
  "offline (AskedPassword s)" "offline (Drew k)" "offline (WroteFile s data)" "offline (Used_device s)"
  by (simp_all add: offline_def)

lemma offline_scripts:
  "keeps (emits offline) (derive_keys_main C P)"
  "keeps (emits offline) (encrypt_mnemonic_main C P)"
  "keeps (emits offline) new \<Longrightarrow> keeps (emits offline) (gen_mnemonic_main C P new)"
  "keeps (emits offline) new \<Longrightarrow> keeps (emits offline) (gen_mnemonic_fido2_main C F P new)"
  unfolding derive_keys_main_def encrypt_mnemonic_main_def gen_mnemonic_main_def print_keys_def
    gen_mnemonic_fido2_main_def store_mnemonic_fido2_def Let_def split_beta
  by (auto intro!: emit_rules)

end
