(* ===== verification/Sample_Instances.thy ===== *)
theory Sample_Instances
  imports Multisig_Onchain Multisig_Auth Gen_Mnemonic_Fido2 Scan_Blocks
begin

text \<open>
  Concrete instances of the parameters of the model, on which the hypotheses of the properties hold:
  a small encoding of library objects, an authenticated cipher that is not secret, a device, and a
  server that answers with a given list of responses.  They serve the witnesses only.
\<close>

section \<open>aptos_sdk\<close>

definition sample_object :: "pyclass \<Rightarrow> string \<Rightarrow> pyval" where
  "sample_object c s = VObj c [(''s'', VStr s)]"

text \<open>
  An object of one string is its length and its characters; one entry function with its full set of
  attributes has a code of its own.
\<close>

definition sample_transfer :: pyval where
  "sample_transfer = VObj C_EntryFunction
     (entry_function_attrs (sample_object C_AccountAddress ''0x1'') ''supra_account'' ''transfer'' [] [[1, 2], [3]])"

definition sample_ser :: "pyval \<Rightarrow> bytes result" where
  "sample_ser v =
    (if v = sample_transfer then Inr [255]
     else case v of
       VObj c [(a, VStr s)] \<Rightarrow>
         if a = ''s'' \<and> length s < 255 then Inr (word_of_nat (length s) # str_encode s) else Inl TypeError
     | _ \<Rightarrow> Inl TypeError)"

fun sample_des :: "pyclass \<Rightarrow> bytes \<Rightarrow> (pyval \<times> bytes) result" where
  "sample_des c [] = Inl (PlainException ''end of input'')"
| "sample_des c (n # r) =
     (if n = 255 then Inr (sample_transfer, r)
      else Inr (sample_object c (map byte_char (take (unat n) r)), drop (unat n) r))"

definition sample_u64 :: "int \<Rightarrow> bytes result" where
  "sample_u64 n = (if 0 \<le> n \<and> n < 2 ^ 64 then Inr (rev (be_bytes_int 8 n)) else Inl OverflowError)"

definition sample_u8 :: "int \<Rightarrow> bytes result" where
  "sample_u8 n = (if 0 \<le> n \<and> n < 256 then Inr [word_of_int n] else Inl OverflowError)"

definition sample_raw_serialize :: "(pyval \<Rightarrow> bytes result) \<Rightarrow> pyval \<Rightarrow> bytes result" where
  "sample_raw_serialize m v =
    (case v of
       VObj _ ((_, a) # (_, VInt n) # (_, p) # (_, VInt g) # (_, VInt u) # (_, VInt e) # (_, VInt c) # _) \<Rightarrow>
         bindR (sample_ser a) (\<lambda>a'. bindR (sample_u64 n) (\<lambda>n'. bindR (m p) (\<lambda>p'.
         bindR (sample_u64 g) (\<lambda>g'. bindR (sample_u64 u) (\<lambda>u'. bindR (sample_u64 e) (\<lambda>e'.
         bindR (sample_u8 c) (\<lambda>c'. Inr (a' @ n' @ p' @ g' @ u' @ e' @ c'))))))))
     | _ \<Rightarrow> Inl TypeError)"

definition sample_str :: "pyval \<Rightarrow> string" where
  "sample_str v = (case v of VObj c ((a, VStr s) # fs) \<Rightarrow> s | _ \<Rightarrow> ''<object>'')"

definition sample_ef :: "string \<Rightarrow> string \<Rightarrow> pyval list \<Rightarrow> transaction_argument list \<Rightarrow> pyval" where
  "sample_ef m f tys args =
     VObj C_EntryFunction (entry_function_attrs (sample_object C_AccountAddress (take 3 m)) (drop 5 m) f tys
       (map (\<lambda>a. str_encode (sample_str (fst a))) args))"

definition sample_raw :: "pyval \<Rightarrow> pyval \<Rightarrow> pyval \<Rightarrow> pyval \<Rightarrow> pyval \<Rightarrow> pyval \<Rightarrow> pyval \<Rightarrow> pyval" where
  "sample_raw a n p g u e c = VObj C_RawTransaction (raw_attrs a n p g u e c)"

definition sample_auth :: "pyval \<Rightarrow> pyval" where
  "sample_auth a = VObj C_Authenticator [(''variant'', VInt 0), (''authenticator'', a)]"

definition sample_sdk :: sdk where
  "sample_sdk = \<lparr>
     ser_uleb128 = (\<lambda>n. if 0 \<le> n \<and> n < 128 then Inr [word_of_int n] else Inl OverflowError),
     ser_bool = (\<lambda>b. Inr [if b then 1 else 0]),
     ser_u8 = sample_u8,
     ser_u64 = sample_u64,
     ser_struct = (\<lambda>m v. m v),
     ser_object = sample_ser,
     des_uleb128 = (\<lambda>bs. case bs of [] \<Rightarrow> Inl (PlainException ''end of input'') | b # r \<Rightarrow> Inr (uint b, r)),
     des_bool = (\<lambda>bs. case bs of [] \<Rightarrow> Inl (PlainException ''end of input'') | b # r \<Rightarrow> Inr (b \<noteq> 0, r)),
     des_script = sample_des C_Script,
     des_entry_function = sample_des C_EntryFunction,
     des_address = sample_des C_AccountAddress,
     obj_eq = (=),
     obj_str = sample_str,
     addr_from_str_relaxed = (\<lambda>v. case v of VStr s \<Rightarrow> Inr (sample_object C_AccountAddress s) | _ \<Rightarrow> Inl TypeError),
     addr_from_key = (\<lambda>k. sample_object C_AccountAddress (sample_str k)),
     addr_for_resource_account = (\<lambda>a seed. sample_object C_AccountAddress (sample_str a)),
     module_id_str = (\<lambda>a m. ''0x'' @ sample_str a @ ''::'' @ m),
     ef_natural = (\<lambda>m f tys args. Inr (sample_ef m f tys args)),
     raw_transaction = sample_raw,
     raw_serialize = sample_raw_serialize,
     raw_keyed = (\<lambda>h m v. bindR (sample_raw_serialize m v) (\<lambda>body. Inr (h @ body))),
     raw_prehash = (\<lambda>v. []),
     account_load_key = (\<lambda>h. Inr (sample_object (C_Other ''Account'') h)),
     account_address = (\<lambda>a. sample_object C_AccountAddress (sample_str a)),
     account_public_key = (\<lambda>a. sample_object C_PublicKey (sample_str a)),
     account_sign = (\<lambda>a msg. sample_object C_Signature (sample_str a)),
     private_key_sign = (\<lambda>k msg. sample_object C_Signature (sample_str k)),
     authenticator_new = sample_auth,
     ed25519_authenticator_new = (\<lambda>k sig. VObj (C_Other ''Ed25519Authenticator'')
        [(''public_key'', k), (''signature'', sig)]),
     authenticator_ED25519 = 0,
     multi_public_key_new = (\<lambda>ks t. VObj (C_Other ''MultiPublicKey'') [(''s'', VStr ''keys'')]),
     multi_public_key_bytes = (\<lambda>k. Inr []),
     multi_public_key_verify = (\<lambda>k msg sigs. True),
     signature_data = (\<lambda>sig. str_encode (sample_str sig)),
     bitmap_num_of_bytes = 4\<rparr>"

lemma sample_ser_cases:
  assumes "sample_ser v = Inr bs"
  obtains (transfer) "v = sample_transfer" "bs = [255]"
  | (str) c s where "v = sample_object c s" "length s < 255" "bs = word_of_nat (length s) # str_encode s"
  using assms by (auto simp: sample_ser_def sample_object_def split: list.splits pyval.splits if_splits)

lemma sample_ser_des:
  assumes "isinstance v c" and "sample_ser v = Inr bs"
  shows "sample_des c (bs @ r) = Inr (v, r)"
  using assms(2)
proof (cases rule: sample_ser_cases)
  case (str d s)
  have n: "unat (word_of_nat (length s) :: byte) = length s"
    using str(2) by (simp add: unat_of_nat)
  then have "(word_of_nat (length s) :: byte) \<noteq> 255" using str(2) by auto
  then show ?thesis using assms(1) n str by (simp add: sample_object_def isinstance_VObj)
qed simp

lemma sample_bcs: "bcs_laws sample_sdk"
proof -
  have "uint (word_of_int n :: byte) = n" if "0 \<le> n" "n < 128" for n :: int
    using that by (simp add: uint_word_of_int)
  then show ?thesis
    by (auto simp: bcs_laws_def sample_sdk_def sample_ser_des split: if_splits)
qed

lemma sample_struct: "struct_law sample_sdk"
  by (simp add: struct_law_def sample_sdk_def)

lemma sample_u64_Inr:
  "sample_u64 n = Inr bs \<longleftrightarrow> 0 \<le> n \<and> n < 2 ^ 64 \<and> bs = rev (be_bytes_int 8 n)"
  by (auto simp: sample_u64_def)

lemma sample_int: "int_laws sample_sdk"
proof -
  have "n = m" if "be_bytes_int 8 n = be_bytes_int 8 m" "0 \<le> n" "n < 2 ^ 64" "0 \<le> m" "m < 2 ^ 64" for n m :: int
    using be_bytes_int_inject [of 8 n m] that by simp
  moreover have "n = m" if "(word_of_int n :: byte) = word_of_int m" "0 \<le> n" "n < 256" "0 \<le> m" "m < 256" for n m :: int
    using arg_cong [OF that(1), of uint] that(2-) by (simp add: uint_word_of_int)
  ultimately show ?thesis
    by (auto simp: int_laws_def sample_sdk_def sample_u64_Inr sample_u8_def split: if_splits)
qed

lemma sample_keyed_law: "keyed_law sample_sdk"
  by (simp add: keyed_law_def sample_sdk_def)

lemma sample_raw_layout: "raw_layout_law sample_sdk"
  by (simp add: raw_layout_law_def sample_sdk_def sample_raw_serialize_def raw_attrs_def)

lemma sample_raw_law: "raw_transaction_law sample_sdk"
  by (simp add: raw_transaction_law_def sample_sdk_def sample_raw_def)

lemma sample_authenticator_law: "authenticator_law sample_sdk"
  by (simp add: authenticator_law_def sample_sdk_def sample_auth_def)

section \<open>cryptography and fido2\<close>

definition sample_crypto :: crypto where
  "sample_crypto = \<lparr>
     scrypt_derive = (\<lambda>p pw. Inr pw),
     aesgcm_new = (\<lambda>k. Inr ()),
     aesgcm_encrypt = (\<lambda>k n m. Inr (k @ m)),
     aesgcm_decrypt = (\<lambda>k n ct. if take (length k) ct = k then Inr (drop (length k) ct)
                                 else Inl (LibError ''InvalidTag'' '''')),
     bip39_seed = (\<lambda>m. Inr (str_encode m)),
     bip44_private_key = (\<lambda>seed path. case path ! 2 of Account i \<Rightarrow> Inr (word_of_int i # seed)
                                       | _ \<Rightarrow> Inl TypeError),
     ed25519_public = (\<lambda>k. Inr k)\<rparr>"

lemma sample_aead: "aead_law sample_crypto"
  by (simp add: aead_law_def sample_crypto_def)

definition sample_fido :: "'s fido" where
  "sample_fido = \<lparr>
     user_verified = (\<lambda>dev s. True),
     list_devices = (\<lambda>s. (Inr [''key''], s)),
     make_credential = (\<lambda>dev og rp u d ch s. (Inr (replicate 57 1), s)),
     hmac_get_secret = (\<lambda>dev og rp ch cid salt s. (Inr (take 32 (cid @ salt)), s))\<rparr>"

lemma sample_hmac_law: "hmac_secret_law sample_fido"
  by (simp add: hmac_secret_law_def sample_fido_def)

section \<open>The outside world\<close>

text \<open>The state is the list of responses still to be sent; with none left the connection fails.\<close>

definition next_reply :: "reply list \<Rightarrow> reply result \<times> reply list" where
  "next_reply rs = (case rs of [] \<Rightarrow> (Inl (LibError ''ConnectionError'' ''''), []) | r # s \<Rightarrow> (Inr r, s))"

definition sample_platform :: "string \<Rightarrow> reply list platform" where
  "sample_platform password = \<lparr>
     http_get = (\<lambda>url s. next_reply s),
     http_post = (\<lambda>url d s. next_reply s),
     unix_time = (\<lambda>s. 1000),
     pass_time = (\<lambda>n s. (Inr (), s)),
     read_line = (\<lambda>p s. (Inr ''0'', s)),
     read_password = (\<lambda>p s. (Inr password, s)),
     os_random = (\<lambda>n s. (Inr (replicate n 7), s)),
     random_private_key = (\<lambda>s. (Inr (sample_object (C_Other ''PrivateKey'') ''random''), s)),
     open_fault = (\<lambda>p wr s. None),
     obj_repr = (\<lambda>v. ''<object>'')\<rparr>"

definition json_reply :: "pyval \<Rightarrow> reply" where
  "json_reply v = \<lparr>reply_json = Some v, reply_text = [], reply_shown = ''<Response [200]>''\<rparr>"

definition bad_reply :: reply where
  "bad_reply = \<lparr>reply_json = None, reply_text = ''502'', reply_shown = ''<Response [502]>''\<rparr>"

definition sample_world :: "reply list \<Rightarrow> reply list world" where
  "sample_world rs = \<lparr>env = rs, files = Map.empty, trace = []\<rparr>"

lemma sample_random: "random_law (sample_platform pw)"
  by (auto simp: random_law_def sample_platform_def)

lemma sample_platform_simps [simp]:
  "http_get (sample_platform pw) url s = next_reply s"
  "http_post (sample_platform pw) url d s = next_reply s"
  "unix_time (sample_platform pw) s = 1000"
  "pass_time (sample_platform pw) n s = (Inr (), s)"
  "read_line (sample_platform pw) p s = (Inr ''0'', s)"
  "read_password (sample_platform pw) p s = (Inr pw, s)"
  "os_random (sample_platform pw) k s = (Inr (replicate k 7), s)"
  "random_private_key (sample_platform pw) s = (Inr (sample_object (C_Other ''PrivateKey'') ''random''), s)"
  "open_fault (sample_platform pw) p wr s = None"
  by (simp_all add: sample_platform_def)

lemma next_reply_simps [simp]:
  "next_reply (r # s) = (Inr r, s)"
  "next_reply [] = (Inl (LibError ''ConnectionError'' ''''), [])"
  by (simp_all add: next_reply_def)

lemma sample_world_simps [simp]:
  "env (sample_world rs) = rs"
  "files (sample_world rs) = Map.empty"
  "trace (sample_world rs) = []"
  by (simp_all add: sample_world_def)

lemma decoded_replies [simp]:
  "decoded (json_reply v) = v" "decoded bad_reply = VDict []"
  "decode_log (json_reply v) = []" "post_log (json_reply v) = []"
  "reply_json (json_reply v) = Some v" "reply_json bad_reply = None"
  by (simp_all add: json_reply_def bad_reply_def decoded_def decode_log_def post_log_def)

section \<open>Values\<close>

definition sample_raw_tx :: "pyval \<Rightarrow> pyval" where
  "sample_raw_tx ef = VObj C_RawTransaction
     (raw_attrs (sample_object C_AccountAddress ''0xa'') (VInt 4) (VTransactionPayload 2 ef)
        (VInt 10) (VInt 100) (VInt 1300) (VInt 6) @ [(''prehash'', bound_prehash)])"

definition sample_multisig :: pyval where
  "sample_multisig = VMultisig (sample_object C_AccountAddress ''0xa'')
     (VMultiSigTransactionPayload (sample_object C_EntryFunction ''f''))"

lemma sample_multisig_ok: "multisig_ok sample_multisig"
  by (simp add: sample_multisig_def multisig_ok_def mstp_ok_def sample_object_def)

lemma sample_multisig_ser:
  "TransactionPayload_serialize sample_sdk (VTransactionPayload 3 sample_multisig) =
     Inr [3, 3, 48, 120, 97, 1, 0, 1, 102]"
  by code_simp

lemma sample_payload_ok: "payload_ok (VTransactionPayload 3 sample_multisig)"
  using sample_multisig_ok
  by (simp add: payload_ok_def TransactionPayload_init_cases) (simp add: sample_multisig_def)

lemma sample_isinstance [simp]: "isinstance (sample_object c s) d \<longleftrightarrow> c = d"
  by (simp add: sample_object_def)

lemma sample_sdk_simps [simp]:
  "obj_str sample_sdk (sample_object c s) = s"
  "account_address sample_sdk (sample_object c s) = sample_object C_AccountAddress s"
  "account_public_key sample_sdk (sample_object c s) = sample_object C_PublicKey s"
  "account_sign sample_sdk (sample_object c s) msg = sample_object C_Signature s"
  "private_key_sign sample_sdk (sample_object c s) msg = sample_object C_Signature s"
  "signature_data sample_sdk (sample_object c s) = str_encode s"
  "bitmap_num_of_bytes sample_sdk = 4"
  "addr_from_str_relaxed sample_sdk (VStr s) = Inr (sample_object C_AccountAddress s)"
  by (simp_all add: sample_sdk_def sample_object_def sample_str_def)

section \<open>A transaction, sent\<close>

lemma sample_transfer_dict:
  "payload_to_dict sample_sdk sample_transfer =
    Inr (VDict [(''module'', VDict [(''address'', VStr ''0x1''), (''name'', VStr ''supra_account'')]),
      (''function'', VStr ''transfer''), (''ty_args'', VList []),
      (''args'', VList [ints_of [1, 2], ints_of [3]])])"
  unfolding sample_transfer_def by (subst entry_function_dict) simp_all

definition sample_raw_json :: pyval where
  "sample_raw_json = VDict [(''sender'', VStr ''0xa''), (''sequence_number'', VInt 4),
      (''payload'', VDict [(''EntryFunction'', VDict
        [(''module'', VDict [(''address'', VStr ''0x1''), (''name'', VStr ''supra_account'')]),
         (''function'', VStr ''transfer''), (''ty_args'', VList []),
         (''args'', VList [ints_of [1, 2], ints_of [3]])])]),
      (''max_gas_amount'', VInt 10), (''gas_unit_price'', VInt 100),
      (''expiration_timestamp_secs'', VInt 1300), (''chain_id'', VInt 6)]"

lemma sample_raw_tx_dict: "payload_to_dict sample_sdk (sample_raw_tx sample_transfer) = Inr sample_raw_json"
  unfolding sample_raw_tx_def sample_raw_json_def
  by (subst raw_tx_dict [OF _ _ sample_transfer_dict]) (simp_all add: sample_transfer_def)

definition sample_tx_json :: "string \<Rightarrow> string \<Rightarrow> pyval" where
  "sample_tx_json pub sig = VDict [(''Move'', VDict [(''raw_txn'', sample_raw_json), (''authenticator'',
      VDict [(''Ed25519'', VDict [(''public_key'', VStr pub), (''signature'', VStr sig)])])])]"

lemma sample_tx_dict:
  "create_tx_dict sample_sdk (sample_object C_PublicKey pub) (sample_object C_Signature sig)
     (sample_raw_tx sample_transfer) = Inr (sample_tx_json pub sig)"
  by (simp add: create_tx_dict_run [OF sample_raw_tx_dict sample_authenticator_law] sample_tx_json_def)

lemma sample_tx_encodable: "json_able (sample_tx_json pub sig)"
  by (simp add: sample_tx_json_def sample_raw_json_def ints_of_def)

text \<open>Sender, sequence number, payload, gas, gas price, expiry and chain id.\<close>

definition sample_body :: bytes where
  "sample_body = [3, 48, 120, 97] @ [4, 0, 0, 0, 0, 0, 0, 0] @ [2, 255] @ [10, 0, 0, 0, 0, 0, 0, 0]
     @ [100, 0, 0, 0, 0, 0, 0, 0] @ [20, 5, 0, 0, 0, 0, 0, 0] @ [6]"

lemma sample_raw_ser:
  "raw_serialize sample_sdk (TransactionPayload_serialize sample_sdk) (sample_raw_tx sample_transfer) = Inr sample_body"
  by code_simp

lemma sample_keyed:
  "keyed sample_sdk (sample_raw_tx sample_transfer) =
     Inr (sha3_256 (str_encode ''SUPRA::RawTransaction'') @ sample_body)"
  using sample_keyed_law sample_raw_ser unfolding sample_raw_tx_def keyed_raw_tx by (simp add: keyed_law_def)

definition sample_account :: pyval where
  "sample_account = sample_object (C_Other ''Account'') ''0xa''"

text \<open>The responses to the four requests of \<open>send_tx\<close>.\<close>

definition send_replies :: "reply list" where
  "send_replies = [json_reply (VDict [(''sequence_number'', VStr ''4'')]), json_reply (VInt 6),
     json_reply (VDict []), json_reply (VStr ''0xhash'')]"

lemma sample_send_run:
  "\<exists>w'. send_tx sample_sdk (sample_platform ''pw'') ''b'' sample_account sample_transfer 10 100
      (sample_world send_replies) = (Inr ''0xhash'', w')"
proof -
  have init: "TransactionPayload_init sample_transfer = Inr (VTransactionPayload 2 sample_transfer)"
    by (simp add: TransactionPayload_init_cases sample_transfer_def)
  have seq: "bindR (get_key (decoded (json_reply (VDict [(''sequence_number'', VStr ''4'')]))) ''sequence_number'') py_int
      = Inr 4"
    by code_simp
  have "\<exists>w'. send_tx sample_sdk (sample_platform ''pw'') ''b'' sample_account sample_transfer 10 100
      (sample_world send_replies) = (Inr (py_str (obj_repr (sample_platform ''pw'')) (decoded (json_reply (VStr ''0xhash'')))), w')
      \<and> env w' = [] \<and> (\<exists>ps. trace w' = trace (sample_world send_replies) @ ps
         @ Posted (submit_url ''b'') (sample_tx_json ''0xa'' ''0xa'') # post_log (json_reply (VStr ''0xhash'')))"
    by (rule send_tx_submits [OF sample_raw_law init _ seq _ _ refl _ _ sample_tx_encodable _ sample_tx_encodable])
      (auto simp: send_replies_def sample_account_def sample_raw_tx_def [symmetric] sample_keyed sample_tx_dict)
  then show ?thesis by (auto simp: py_str_def)
qed

lemma sample_seq_num:
  assumes "get_account_seq_num (sample_platform pw) b a (sample_world send_replies) = (Inr n, w1)"
  shows "n = 4 \<and> env w1 = tl send_replies"
proof -
  let ?w = "sample_world send_replies" and ?r = "json_reply (VDict [(''sequence_number'', VStr ''4'')])"
  have seq: "bindR (get_key (decoded ?r) ''sequence_number'') py_int = Inr 4" by code_simp
  have "http_get (sample_platform pw) (account_url b a) (env ?w) = (Inr ?r, tl send_replies)"
    by (simp add: send_replies_def)
  then have "get_account_seq_num (sample_platform pw) b a ?w = (Inr 4, after_get (account_url b a) ?r (tl send_replies) ?w)"
    using seq by (simp add: get_account_seq_num_def get_account_def bindP_def get_json_answered ret_def)
  then show ?thesis using assms by simp
qed

lemma sample_raw_built:
  assumes "env w1 = tl send_replies" and "create_raw_tx sample_sdk (sample_platform pw)
      (sample_object C_AccountAddress ''0xa'') 4 sample_transfer 10 100 300 VNone b w1 = (Inr raw, w2)"
  shows "raw = sample_raw_tx sample_transfer \<and> env w2 = drop 2 send_replies"
proof -
  have init: "TransactionPayload_init sample_transfer = Inr (VTransactionPayload 2 sample_transfer)"
    by (simp add: TransactionPayload_init_cases sample_transfer_def)
  have get: "http_get (sample_platform pw) (chain_id_url b) (env w1) = (Inr (json_reply (VInt 6)), drop 2 send_replies)"
    using assms(1) by (simp add: send_replies_def)
  show ?thesis
    using assms(2) unfolding create_raw_tx_run [OF sample_raw_law init get] by (auto simp: sample_raw_tx_def)
qed

lemma sample_given_chain:
  "create_raw_tx sample_sdk (sample_platform pw) (sample_object C_AccountAddress ''0xa'') 4 sample_transfer
     10 100 300 (VInt 6) b (sample_world rs) = (Inr (sample_raw_tx sample_transfer), sample_world rs)"
proof -
  have init: "TransactionPayload_init sample_transfer = Inr (VTransactionPayload 2 sample_transfer)"
    by (simp add: TransactionPayload_init_cases sample_transfer_def)
  show ?thesis by (subst create_raw_tx_given_chain [OF sample_raw_law init]) (simp_all add: sample_raw_tx_def)
qed

section \<open>Responses\<close>

definition pending :: reply where
  "pending = json_reply (VDict [(''status'', VStr ''Pending'')])"

definition succeeded :: reply where
  "succeeded = json_reply (VDict [(''status'', VStr ''Success'')])"

text \<open>A server whose transactions stay pending.\<close>

definition busy_platform :: "reply list platform" where
  "busy_platform = (sample_platform ''pw'')\<lparr>http_get := \<lambda>url s. (Inr pending, s)\<rparr>"

definition coin_reply :: "int \<Rightarrow> reply" where
  "coin_reply n = json_reply (VDict [(''result'', VList [VDict [(''coin'', VDict [(''value'', VStr (str_of_int n))])]])])"

definition block_reply :: "string list \<Rightarrow> reply" where
  "block_reply hs = json_reply (VDict [(''transactions'', VList (map (\<lambda>h. VDict [(''hash'', VStr h)]) hs))])"

definition create_event :: "int \<Rightarrow> pyval" where
  "create_event n = VDict [(''type'', VStr ''0x1::multisig_account::CreateTransactionEvent''),
     (''data'', VDict [(''sequence_number'', VStr (str_of_int n))])]"

definition vote_event :: pyval where
  "vote_event = VDict [(''type'', VStr ''0x1::multisig_account::VoteEvent'')]"

definition event_reply :: "pyval list \<Rightarrow> reply" where
  "event_reply evs = json_reply (VDict [(''status'', VStr ''Success''),
     (''output'', VDict [(''Move'', VDict [(''events'', VList evs)])])])"

section \<open>A mnemonic stored under the password \<open>pw\<close>\<close>

definition sample_stored :: "reply list world" where
  "sample_stored = snd (store_mnemonic sample_crypto (sample_platform ''pw'') ''word'' ''f'' (sample_world []))"

lemma sample_store_run:
  "store_mnemonic sample_crypto (sample_platform ''pw'') ''word'' ''f'' (sample_world []) = (Inr (), sample_stored)"
  by (simp add: sample_stored_def store_mnemonic_def prog_defs sample_crypto_def)

lemma sample_stored_file:
  "files sample_stored ''f'' = Some (pack_mnemonic (replicate 16 7, replicate 12 7) (str_encode ''pw'' @ str_encode ''word''))"
  by (simp add: sample_stored_def store_mnemonic_def prog_defs sample_crypto_def)

lemma sample_load_run:
  "\<exists>w'. load_mnemonic sample_crypto (sample_platform ''pw'') ''f'' sample_stored = (Inr ''word'', w')"
proof -
  have t: "is_text ''word''" by code_simp
  show ?thesis
    by (subst store_then_load [OF sample_aead sample_random t sample_store_run,
          where password = "''pw''" and ?s1.0 = "[]" and ?s2.0 = "env sample_stored"]) simp_all
qed

lemma sample_fido_store:
  "\<exists>w1. store_mnemonic_fido2 [''credential_id'' \<mapsto> replicate 57 1] sample_crypto sample_fido (sample_platform ''pw'') ''word'' ''f'' [] (sample_world [])
     = (Inr (), w1)"
  by (simp add: store_mnemonic_fido2_def create_client_def get_hmac_secret_def prog_defs sample_crypto_def
      sample_fido_def load_global_def of_option_def Let_def)

section \<open>A scan of two blocks\<close>

definition scan_world :: "reply list world" where
  "scan_world = sample_world [block_reply [''x''], block_reply [''y'', ''t'']]"

lemma sample_scan_first:
  "\<exists>u. passes (scan_block (sample_platform pw) b ''t'') [3..4 - 1] scan_world = Some u
     \<and> env u = [block_reply [''y'', ''t'']]"
proof -
  let ?P = "sample_platform pw"
  have "\<exists>ps. scan_block ?P b ''t'' 3 scan_world = (Inr False,
      (at_block b 3 (block_reply [''x'']) [block_reply [''y'', ''t'']] scan_world)\<lparr>trace :=
        trace (at_block b 3 (block_reply [''x'']) [block_reply [''y'', ''t'']] scan_world) @ map Printed ps\<rparr>)"
    by (rule scan_block_miss [where txs = "[VDict [(''hash'', VStr ''x'')]]"])
      (simp_all add: scan_world_def block_reply_def has_other_hash_def eq_str_iff of_option_def)
  then show ?thesis by (auto simp: at_block_def Let_def)
qed

lemma sample_scan_run:
  "\<exists>w'. scan_loop (sample_platform pw) b ''t'' 3 9 scan_world = (Inl (SystemExit 0), w')"
proof -
  obtain u where u: "passes (scan_block (sample_platform pw) b ''t'') [3..4 - 1] scan_world = Some u"
      "env u = [block_reply [''y'', ''t'']]"
    using sample_scan_first by blast
  have "\<exists>w'. scan_block (sample_platform pw) b ''t'' 4 u = (Inl (SystemExit 0), w') \<and> last (trace w') = Printed ''Found target!''"
    by (rule scan_block_hit [where resp = "block_reply [''y'', ''t'']" and s = "[]" and post = "[]"
          and pre = "[VDict [(''hash'', VStr ''y'')]]" and tx = "VDict [(''hash'', VStr ''t'')]"])
      (simp_all add: u block_reply_def has_other_hash_def eq_str_iff of_option_def carries_def)
  then show ?thesis using scan_loop_hit [OF u(1)] by fastforce
qed

end
