(* ===== verification/Payload_Identity.thy ===== *)
theory Payload_Identity
  imports Transaction_Payload
begin

text \<open>
  \<open>TransactionPayload.__eq__\<close>.  It compares the values of two payloads with \<open>==\<close>, which for the
  library's classes compares contents, and for \<open>Multisig\<close>, which defines no \<open>__eq__\<close>, asks whether the
  two are one object.  So the objects are kept in a store here, as in Python, and a payload refers to
  its value: constructing an object takes the next reference, and two objects are one when their
  references are equal.
\<close>

record objects =
  next_ref :: nat
  object_at :: "nat \<rightharpoonup> pyval"

definition new_object :: "pyval \<Rightarrow> objects \<Rightarrow> nat \<times> objects" where
  "new_object v H = (next_ref H, H\<lparr>next_ref := next_ref H + 1, object_at := (object_at H)(next_ref H \<mapsto> v)\<rparr>)"

text \<open>The attributes \<open>variant\<close> and \<open>value\<close> of a payload.\<close>

record payload_object =
  variant_of :: int
  value_ref :: nat

text \<open>\<open>TransactionPayload.deserialize\<close>, with the object it makes for the value.\<close>

definition deserialize_object :: "sdk \<Rightarrow> bytes \<Rightarrow> objects \<Rightarrow> (payload_object \<times> bytes \<times> objects) result" where
  "deserialize_object S inp H =
     bindR (TransactionPayload_deserialize S inp) (\<lambda>(p, rest).
     case p of
       VTransactionPayload n v \<Rightarrow>
         (case new_object v H of (r, H') \<Rightarrow> Inr (\<lparr>variant_of = n, value_ref = r\<rparr>, rest, H'))
     | _ \<Rightarrow> Inl TypeError)"

text \<open>\<open>self.value == other.value\<close>, on values of one class: they are compared only if the variants agree.\<close>

definition value_eq :: "sdk \<Rightarrow> objects \<Rightarrow> nat \<Rightarrow> nat \<Rightarrow> bool" where
  "value_eq S H r q =
    (case (object_at H r, object_at H q) of
       (Some u, Some v) \<Rightarrow> if is_Multisig u then r = q else obj_eq S u v
     | _ \<Rightarrow> False)"

text \<open>
  \<open>__eq__\<close>.  An \<open>other\<close> that is no \<open>TransactionPayload\<close> is \<^term>\<open>None\<close>, and so is the answer
  \<open>NotImplemented\<close>.
\<close>

definition TransactionPayload_eq :: "sdk \<Rightarrow> objects \<Rightarrow> payload_object \<Rightarrow> payload_object option \<Rightarrow> bool option" where
  "TransactionPayload_eq S H self other =
    (case other of
       None \<Rightarrow> None
     | Some p \<Rightarrow> Some (variant_of self = variant_of p \<and> value_eq S H (value_ref self) (value_ref p)))"

section \<open>Decoded payloads\<close>

lemma deserialize_init:
  "TransactionPayload_deserialize S inp = Inr (p, rest) \<Longrightarrow> \<exists>v. TransactionPayload_init v = Inr p"
  by (auto simp: TransactionPayload_deserialize_def bindR_eq_Inr)

lemma deserialize_object_Inr:
  "deserialize_object S inp H = Inr (p, rest, H') \<longleftrightarrow>
     (\<exists>v. TransactionPayload_deserialize S inp = Inr (VTransactionPayload (variant_of p) v, rest)
        \<and> value_ref p = next_ref H
        \<and> H' = H\<lparr>next_ref := next_ref H + 1, object_at := (object_at H)(next_ref H \<mapsto> v)\<rparr>)"
proof (cases "TransactionPayload_deserialize S inp")
  case (Inr x)
  obtain a b where "x = (a, b)" by fastforce
  with Inr show ?thesis by (cases p; cases a) (auto simp: deserialize_object_def new_object_def)
qed (simp add: deserialize_object_def)

text \<open>The variant of a decoded payload is that of its value's class.\<close>

lemma decoded_Multisig:
  assumes "TransactionPayload_deserialize S inp = Inr (VTransactionPayload n v, rest)"
  shows "is_Multisig v \<longleftrightarrow> n = MULTISIG"
  using deserialize_init [OF assms]
  by (auto simp: TransactionPayload_init_cases isinstance_not_Multisig MULTISIG_def)

text \<open>Two decoded payloads are two objects, and the second does not disturb the first.\<close>

lemma deserialize_twice:
  assumes "deserialize_object S inp H = Inr (p, rest, H1)" and "deserialize_object S inp' H1 = Inr (q, rest', H2)"
  obtains u v where
    "TransactionPayload_deserialize S inp = Inr (VTransactionPayload (variant_of p) u, rest)"
    "TransactionPayload_deserialize S inp' = Inr (VTransactionPayload (variant_of q) v, rest')"
    "object_at H2 (value_ref p) = Some u" "object_at H2 (value_ref q) = Some v" "value_ref p \<noteq> value_ref q"
  using assms by (auto simp: deserialize_object_Inr)

end
