(* ===== verification/Spec2Isabelle.thy ===== *)
theory Spec2Isabelle
  imports Confinement Sample_Instances Payload_Identity
begin

text \<open>
  Verification of the Python scripts of supra-from-scratch: a client of the Supra blockchain written
  without an SDK of its own.  It keeps mnemonics in encrypted files, derives keys and addresses, builds
  and signs transactions with classes borrowed from \<open>aptos_sdk\<close>, turns them into JSON, sends them to an
  RPC server and reads answers back; a second group of scripts runs multisig accounts.

  \<^bold>\<open>How the program is modelled.\<close>  A script is a function of type \<open>('s, 'a) prog\<close>: it takes the world
  and returns a value or the exception that left it, with the world after (\<open>World\<close>).  The world is the
  state of everything outside the process, of an unknown type \<open>'s\<close>, the files, and the trace of what the
  process did.  A \<open>platform\<close> gives the outside its behaviour: what the server answers, the clock, the
  terminal, the random source, which files cannot be opened.  No property assumes a particular server.
  Python values are \<open>pyval\<close> (\<open>Py_Values\<close>): decoded JSON, the three payload classes of the program, and
  objects of library classes with their attribute dictionaries.  Exceptions are \<open>exc\<close>, and each
  operation of Python that can raise (subscripts, \<open>int\<close>, unpacking, attributes, decoding) does so
  in the model.  Strings are lists of bytes, their UTF-8 encodings.

  \<^bold>\<open>What is a parameter.\<close>  \<open>aptos_sdk\<close>, \<open>cryptography\<close>, \<open>bip_utils\<close>, \<open>nacl\<close> and \<open>fido2\<close> are not in
  the repository: they are the records \<open>sdk\<close>, \<open>crypto\<close> and \<open>fido\<close> of \<open>Libraries\<close>.  What the program
  relies on is stated in named predicates: \<open>bcs_laws\<close> (decoders undo encoders), \<open>int_laws\<close> (integers of
  fixed width), \<open>struct_law\<close>, \<open>raw_transaction_law\<close> and \<open>authenticator_law\<close> (the attributes the
  constructors set), \<open>keyed_law\<close> and \<open>raw_layout_law\<close> (the message that is signed is the prehash and the
  fields of the transaction in order), \<open>aead_law\<close> (decryption undoes encryption), \<open>random_law\<close> (as many
  bytes as asked for) and \<open>hmac_secret_law\<close> (a device derives the same secret again as long as it verifies
  its user both times or neither time).  \<open>Sample_Instances\<close> has instances that satisfy all of them,
  for the witnesses.  The hashes of Python's standard library are defined in \<open>Hashing\<close>.

  \<^bold>\<open>The parts.\<close>
  \<^item> \<open>Py_Prelude\<close>, \<open>Py_Values\<close>: results, UTF-8, decimal numbers (\<open>int(str(n)) = n\<close>), values, \<open>repr\<close>, and
    which values \<open>json.dumps\<close> accepts.  \<open>Hashing\<close>: SHA3-256, SHA-256 and HMAC on words of 64 and 32
    bits, with the lengths of their results.
  \<^item> \<open>World\<close>: sequencing, \<open>try\<close>, \<open>finally\<close> and loops; how a loop ends (\<open>for_each_outcome\<close>); and the
    locale \<open>effect_relation\<close>, which carries a relation on worlds from the primitive operations to all
    programs, interpreted for the events a program may cause (\<open>emits\<close>) and for unchanged files
    (\<open>files_kept\<close>), and in \<open>Sealed_File\<close> for writing one file only (\<open>adds_at\<close>).
  \<^item> \<open>Codec\<close>, \<open>Transaction_Payload\<close>, \<open>Payload_Dict\<close>: \<open>transaction_payload.py\<close>.  The locale \<open>codec\<close> is
    interpreted for the three payload classes; \<open>payload_to_dict\<close> is shown to be a map over the visible
    attributes followed by insertions, with its keys, their order and when the result can be sent.
    \<open>Payload_Identity\<close>: \<open>__eq__\<close>, for which the identity of objects matters, over a store of objects.
  \<^item> \<open>Check_Balance\<close>, \<open>Check_Block\<close>, \<open>Check_Transaction\<close>, \<open>Scan_Blocks\<close>: the query scripts of those
    names; what each query returns by the server's answer, and the two loops.
  \<^item> \<open>Sealed_File\<close>, \<open>Gen_Mnemonic\<close>, \<open>Gen_Mnemonic_Fido2\<close>: \<open>gen_mnemonic.py\<close>, \<open>encrypt_mnemonic.py\<close> and
    \<open>gen_mnemonic_fido2.py\<close>; the locale \<open>sealed_file\<close> is what the two file formats share.
  \<^item> \<open>Derive_Keys\<close>, \<open>Airdrop\<close>, \<open>Transfer_Supra\<close> with \<open>Transfer_Facts\<close>: \<open>derive_keys.py\<close>, \<open>airdrop.py\<close>
    and \<open>transfer_supra.py\<close>, from keys to a submitted transaction; the message that is signed, and that it
    determines the transaction (\<open>keyed_inject\<close>).
  \<^item> \<open>View_Multisig_Tx\<close>, \<open>Multisig_Onchain\<close>, \<open>Multisig_Auth\<close>: \<open>view_multisig_tx.py\<close>; the scripts that
    create an account, propose, vote and execute; and \<open>multisig_auth.py\<close> with its signature bitmap.
  \<^item> \<open>Confinement\<close>: what whole scripts may do to the world.

  Each function of the source is a definition of the same name; the code under
  \<open>if __name__ == "__main__"\<close> is a definition \<open><script>_main\<close>; loop bodies have their own definitions.  A
  function that reads a global name of its module which only the script binds takes the dictionary of
  globals as an argument \<open>G\<close>; \<open>fido2_globals\<close> and \<open>propose_globals\<close> are those dictionaries for a module that
  is run and for one that is imported, and the lookup raises \<open>NameError\<close>.

  \<^bold>\<open>Bounds.\<close>  No definition needs fuel: the loops of the source run over finite ranges or lists, and the
  recursion through \<open>__dict__\<close> is shown to terminate by the size of the value.

  \<^bold>\<open>What is not modelled.\<close>  Objects are trees (except in \<open>Payload_Identity\<close>), so an attribute that refers
  back to its owner (the bound method stored as \<open>prehash\<close>) is represented by a marker, which is all the
  code tests.  What the chain does with a transaction is outside the repository and not modelled.  Digits, white space
  and printable characters are those of ASCII; the limit on the number of digits \<open>int\<close> accepts is absent.
  Another process that changes a file between the test for its existence and the write is not
  represented.  The Rust server (\<open>rpc_server\<close>), a local stand-in for the RPC server, is not modelled yet.
\<close>

section \<open>Properties\<close>

text \<open>
  C1: Decoding the encoding of any well-formed TransactionPayload (script, entry function or multisig), whatever bytes follow it, gives the payload back and leaves those bytes.
\<close>

theorem payload_roundtrip:
  assumes "bcs_laws S" and "payload_ok v" and "TransactionPayload_serialize S v = Inr bs"
  shows "TransactionPayload_deserialize S (bs @ rest) = Inr (v, rest)"
  by (rule tx_payload.dec_enc) (use assms in auto)

theorem payload_roundtrip_witness:
  "TransactionPayload_deserialize sample_sdk ([3, 3, 48, 120, 97, 1, 0, 1, 102] @ [9]) =
     Inr (VTransactionPayload 3 sample_multisig, [9])"
  using payload_roundtrip [OF sample_bcs sample_payload_ok sample_multisig_ser] .

text \<open>
  C2: A send_tx that returns has made exactly four requests, in order: the account, the chain id, a simulation and a submission. Both dictionaries hold the same raw transaction, of the account's address and current sequence number, the payload and the gas given, over the same message; the simulated one is signed with the key that PrivateKey.random() drew after the transaction was built, the submitted one with the account's. The submission is made at the state the simulation left, and the value returned is the server's answer to it.
\<close>

theorem send_tx_requests:
  assumes "raw_transaction_law S" and "send_tx S P b acc payload gas price w = (Inr h, w')"
  shows "\<exists>n w1 p u ch raw w2 key s msg d1 d2 r1 s' r2.
      get_account_seq_num P b (obj_str S (account_address S acc)) w = (Inr n, w1)
    \<and> TransactionPayload_init payload = Inr p
    \<and> create_raw_tx S P (account_address S acc) n payload gas price 300 VNone (Some b) w1 = (Inr raw, w2)
    \<and> raw = VObj C_RawTransaction
        (raw_attrs (account_address S acc) (VInt n) p (VInt gas) (VInt price) u ch @ [(''prehash'', bound_prehash)])
    \<and> random_private_key P (env w2) = (Inr key, s)
    \<and> keyed S raw = Inr msg
    \<and> create_tx_dict S (account_public_key S acc) (private_key_sign S key msg) raw = Inr d1
    \<and> create_tx_dict S (account_public_key S acc) (account_sign S acc msg) raw = Inr d2
    \<and> http_post P (simulate_url b) d1 s = (Inr r1, s')
    \<and> http_post P (submit_url b) d2 s' = (Inr r2, env w') \<and> h = py_str (obj_repr P) (decoded r2)
    \<and> requests (trace w') = requests (trace w) @
        [Got (account_url b (obj_str S (account_address S acc))), Got (chain_id_url (Some b)),
         Posted (simulate_url b) d1, Posted (submit_url b) d2]"
  using assms(2)
proof (rule send_tx_success, goal_cases)
  case (1 n w1 raw w2 key s msg d1 d2 r1 s' r2)
  then show ?case using create_raw_tx_Inr [OF assms(1) 1(2)] by blast
qed

theorem send_tx_requests_witness:
  "\<exists>w'. send_tx sample_sdk (sample_platform ''pw'') ''b'' sample_account sample_transfer 10 100
       (sample_world send_replies) = (Inr ''0xhash'', w')
   \<and> requests (trace w') = [Got (account_url ''b'' ''0xa''), Got (chain_id_url (Some ''b'')),
       Posted (simulate_url ''b'') (sample_tx_json ''0xa'' ''random''),
       Posted (submit_url ''b'') (sample_tx_json ''0xa'' ''0xa'')]"
proof -
  let ?P = "sample_platform ''pw''" and ?w = "sample_world send_replies"
  obtain w' where run: "send_tx sample_sdk ?P ''b'' sample_account sample_transfer 10 100 ?w = (Inr ''0xhash'', w')"
    using sample_send_run by blast
  have a: "account_address sample_sdk sample_account = sample_object C_AccountAddress ''0xa''"
    "account_public_key sample_sdk sample_account = sample_object C_PublicKey ''0xa''"
    "obj_str sample_sdk (sample_object C_AccountAddress ''0xa'') = ''0xa''"
    "\<And>msg. account_sign sample_sdk sample_account msg = sample_object C_Signature ''0xa''"
    by (simp_all add: sample_account_def)
  from send_tx_requests [OF sample_raw_law run] obtain n w1 raw w2 key s msg d1 d2 where
    seq: "get_account_seq_num ?P ''b'' ''0xa'' ?w = (Inr n, w1)"
    and raw: "create_raw_tx sample_sdk ?P (sample_object C_AccountAddress ''0xa'') n sample_transfer 10 100 300 VNone
        (Some ''b'') w1 = (Inr raw, w2)"
    and key: "random_private_key ?P (env w2) = (Inr key, s)"
    and d1: "create_tx_dict sample_sdk (sample_object C_PublicKey ''0xa'') (private_key_sign sample_sdk key msg) raw = Inr d1"
    and d2: "create_tx_dict sample_sdk (sample_object C_PublicKey ''0xa'') (sample_object C_Signature ''0xa'') raw = Inr d2"
    and q: "requests (trace w') = [Got (account_url ''b'' ''0xa''), Got (chain_id_url (Some ''b'')),
       Posted (simulate_url ''b'') d1, Posted (submit_url ''b'') d2]"
    unfolding a by auto
  have "raw = sample_raw_tx sample_transfer"
    using sample_seq_num [OF seq] raw sample_raw_built by blast
  with key d1 d2 q run show ?thesis by (auto simp: sample_tx_dict)
qed

text \<open>
  C3: If the requests are answered and the two dictionaries can be encoded, send_tx submits the signed transaction and returns the server's answer, whatever the simulation answered.
\<close>

theorem send_tx_submits_anyway:
  assumes "raw_transaction_law S" and "TransactionPayload_init payload = Inr p"
    and "http_get P (account_url b (obj_str S (account_address S acc))) (env w) = (Inr r1, s1)"
    and "bindR (get_key (decoded r1) ''sequence_number'') py_int = Inr n"
    and "http_get P (chain_id_url (Some b)) s1 = (Inr r2, s2)"
    and "random_private_key P s2 = (Inr key, s3)"
    and "raw = VObj C_RawTransaction
       (raw_attrs (account_address S acc) (VInt n) p (VInt gas) (VInt price)
          (VInt (unix_time P s1 + 300)) (decoded r2) @ [(''prehash'', bound_prehash)])"
    and "keyed S raw = Inr msg"
    and "create_tx_dict S (account_public_key S acc) (private_key_sign S key msg) raw = Inr d1" and "json_able d1"
    and "create_tx_dict S (account_public_key S acc) (account_sign S acc msg) raw = Inr d2" and "json_able d2"
    and "http_post P (simulate_url b) d1 s3 = (Inr r3, s4)"
    and "http_post P (submit_url b) d2 s4 = (Inr r4, s5)"
  shows "\<exists>w'. send_tx S P b acc payload gas price w = (Inr (py_str (obj_repr P) (decoded r4)), w')
    \<and> env w' = s5 \<and> (\<exists>ps. trace w' = trace w @ ps @ Posted (submit_url b) d2 # post_log r4)"
  using assms by (rule send_tx_submits)

theorem send_tx_submits_anyway_witness:
  "\<exists>w'. send_tx sample_sdk (sample_platform ''pw'') ''b'' sample_account sample_transfer 10 100
      (sample_world send_replies) = (Inr ''0xhash'', w') \<and> env w' = []
     \<and> (\<exists>ps. trace w' = ps @ [Posted (submit_url ''b'') (sample_tx_json ''0xa'' ''0xa'')])"
proof -
  have init: "TransactionPayload_init sample_transfer = Inr (VTransactionPayload 2 sample_transfer)"
    by (simp add: TransactionPayload_init_cases sample_transfer_def)
  have seq: "bindR (get_key (decoded (json_reply (VDict [(''sequence_number'', VStr ''4'')]))) ''sequence_number'') py_int
      = Inr 4"
    by code_simp
  have "\<exists>w'. send_tx sample_sdk (sample_platform ''pw'') ''b'' sample_account sample_transfer 10 100
      (sample_world send_replies) = (Inr (py_str (obj_repr (sample_platform ''pw'')) (decoded (json_reply (VStr ''0xhash'')))), w')
      \<and> env w' = [] \<and> (\<exists>ps. trace w' = trace (sample_world send_replies) @ ps
         @ Posted (submit_url ''b'') (sample_tx_json ''0xa'' ''0xa'') # post_log (json_reply (VStr ''0xhash'')))"
    by (rule send_tx_submits_anyway [OF sample_raw_law init _ seq _ _ refl _ _ sample_tx_encodable _ sample_tx_encodable])
      (auto simp: send_replies_def sample_account_def sample_raw_tx_def [symmetric] sample_keyed sample_tx_dict)
  then show ?thesis by (simp add: py_str_def)
qed

text \<open>
  C4: The complete JSON form of a signed entry-function transaction: addresses as strings, each encoded argument as a list of its bytes, the renamed expiration field, no prehash, and the Ed25519 authenticator.
\<close>

theorem entry_function_tx_json:
  assumes "authenticator_law S" and "isinstance sender C_AccountAddress" and "isinstance addr C_AccountAddress"
    and "isinstance pub C_PublicKey" and "isinstance sig C_Signature" and "vars_of chain = None"
  shows "create_tx_dict S pub sig (VObj C_RawTransaction
      (raw_attrs sender (VInt n)
         (VTransactionPayload SCRIPT_FUNCTION (VObj C_EntryFunction (entry_function_attrs addr name f tys args)))
         (VInt gas) (VInt price) (VInt expiry) chain @ [(''prehash'', bound_prehash)])) =
    Inr (VDict [(''Move'', VDict
      [(''raw_txn'', VDict
         [(''sender'', VStr (obj_str S sender)), (''sequence_number'', VInt n),
          (''payload'', VDict [(''EntryFunction'', VDict
             [(''module'', VDict [(''address'', VStr (obj_str S addr)), (''name'', VStr name)]),
              (''function'', VStr f), (''ty_args'', VList tys), (''args'', VList (map ints_of args))])]),
          (''max_gas_amount'', VInt gas), (''gas_unit_price'', VInt price),
          (''expiration_timestamp_secs'', VInt expiry), (''chain_id'', chain)]),
       (''authenticator'', VDict [(''Ed25519'', VDict
         [(''public_key'', VStr (obj_str S pub)), (''signature'', VStr (obj_str S sig))])])])])"
  using assms by (subst create_tx_dict_run [OF raw_tx_dict [OF _ _ entry_function_dict]]) simp_all

theorem entry_function_tx_json_witness:
  "\<exists>d. create_tx_dict sample_sdk (sample_object C_PublicKey ''pk'') (sample_object C_Signature ''sg'')
       (sample_raw_tx sample_transfer) = Inr d \<and> json_able d"
  unfolding sample_raw_tx_def sample_transfer_def
  using entry_function_tx_json [OF sample_authenticator_law, of "sample_object C_AccountAddress ''0xa''"
      "sample_object C_AccountAddress ''0x1''" "sample_object C_PublicKey ''pk''" "sample_object C_Signature ''sg''"
      "VInt 6" 4 "''supra_account''" "''transfer''" "[]" "[[1, 2], [3]]" 10 100 1300]
  by (simp add: SCRIPT_FUNCTION_def ints_of_def)

text \<open>
  C5: The complete JSON form of a signed transaction that executes a multisig payload: the multisig address and the entry function are nested under Multisig and transaction_payload.
\<close>

theorem multisig_tx_json:
  assumes "authenticator_law S" and "isinstance sender C_AccountAddress" and "isinstance multisig_addr C_AccountAddress"
    and "isinstance addr C_AccountAddress"
    and "isinstance pub C_PublicKey" and "isinstance sig C_Signature" and "vars_of chain = None"
  shows "create_tx_dict S pub sig (VObj C_RawTransaction
      (raw_attrs sender (VInt n)
         (VTransactionPayload MULTISIG
            (create_multisig multisig_addr (VObj C_EntryFunction (entry_function_attrs addr name f tys args))))
         (VInt gas) (VInt price) (VInt expiry) chain @ [(''prehash'', bound_prehash)])) =
    Inr (VDict [(''Move'', VDict
      [(''raw_txn'', VDict
         [(''sender'', VStr (obj_str S sender)), (''sequence_number'', VInt n),
          (''payload'', VDict [(''Multisig'', VDict
             [(''multisig_address'', VStr (obj_str S multisig_addr)),
              (''transaction_payload'', VDict [(''EntryFunction'', VDict
                 [(''module'', VDict [(''address'', VStr (obj_str S addr)), (''name'', VStr name)]),
                  (''function'', VStr f), (''ty_args'', VList tys), (''args'', VList (map ints_of args))])])])]),
          (''max_gas_amount'', VInt gas), (''gas_unit_price'', VInt price),
          (''expiration_timestamp_secs'', VInt expiry), (''chain_id'', chain)]),
       (''authenticator'', VDict [(''Ed25519'', VDict
         [(''public_key'', VStr (obj_str S pub)), (''signature'', VStr (obj_str S sig))])])])])"
  unfolding create_multisig_def constructor_simps
  using assms by (subst create_tx_dict_run [OF raw_tx_dict [OF _ _ multisig_dict [OF _ entry_function_dict]]]) simp_all

theorem multisig_tx_json_witness:
  "\<exists>d. create_tx_dict sample_sdk (sample_object C_PublicKey ''pk'') (sample_object C_Signature ''sg'')
     (VObj C_RawTransaction
        (raw_attrs (sample_object C_AccountAddress ''0xa'') (VInt 4)
          (VTransactionPayload MULTISIG (create_multisig (sample_object C_AccountAddress ''0xb'') sample_transfer))
          (VInt 10) (VInt 100) (VInt 1300) (VInt 6) @ [(''prehash'', bound_prehash)])) = Inr d \<and> json_able d"
  unfolding sample_transfer_def
  using multisig_tx_json [OF sample_authenticator_law, of "sample_object C_AccountAddress ''0xa''"
      "sample_object C_AccountAddress ''0xb''"
      "sample_object C_AccountAddress ''0x1''" "sample_object C_PublicKey ''pk''" "sample_object C_Signature ''sg''"
      "VInt 6" 4 "''supra_account''" "''transfer''" "[]" "[[1, 2], [3]]" 10 100 1300]
  by (simp add: ints_of_def)

text \<open>
  C6: The keys payload_to_dict gives an object are exactly those of its visible attributes, with the expiration field renamed: no private attribute and no prehash is sent. Without collisions they stand in the order the attributes were set.
\<close>

theorem payload_dict_keys:
  assumes "payload_to_dict S obj = Inr r" and "vars_of obj = Some fs"
  shows "\<exists>kvs. r = VDict kvs \<and> fst ` set kvs = out_key ` set (visible fs)
    \<and> (\<forall>k \<in> fst ` set kvs. \<not> hidden_attr k)
    \<and> (distinct (map out_key (visible fs)) \<longrightarrow> map fst kvs = map out_key (visible fs))"
proof -
  obtain kvs where r: "r = VDict kvs" and keys: "fst ` set kvs = out_key ` set (visible fs)"
    using payload_to_dict_keys [OF assms] by blast
  have "\<not> hidden_attr (out_key a)" if "a \<in> set (visible fs)" for a
    using that by (auto simp: visible_def out_key_def hidden_attr_def split: prod.splits)
  then have "\<forall>k \<in> fst ` set kvs. \<not> hidden_attr k" unfolding keys by blast
  then show ?thesis using r keys payload_to_dict_order [OF assms(1) [unfolded r] assms(2)] by blast
qed

theorem payload_dict_keys_witness:
  "\<exists>kvs. payload_to_dict sample_sdk (sample_raw_tx sample_transfer) = Inr (VDict kvs)
    \<and> ''prehash'' \<notin> fst ` set kvs
    \<and> map fst kvs = [''sender'', ''sequence_number'', ''payload'', ''max_gas_amount'', ''gas_unit_price'',
        ''expiration_timestamp_secs'', ''chain_id'']"
proof -
  define fs where "fs = raw_attrs (sample_object C_AccountAddress ''0xa'') (VInt 4)
    (VTransactionPayload 2 sample_transfer) (VInt 10) (VInt 100) (VInt 1300) (VInt 6) @ [(''prehash'', bound_prehash)]"
  have fs: "vars_of (sample_raw_tx sample_transfer) = Some fs"
    by (simp add: fs_def sample_raw_tx_def)
  have ks: "map out_key (visible fs) = [''sender'', ''sequence_number'', ''payload'', ''max_gas_amount'',
      ''gas_unit_price'', ''expiration_timestamp_secs'', ''chain_id'']"
    by (simp add: fs_def raw_attrs_def hidden_attr_def out_key_def isinstance_def)
  obtain d where d: "payload_to_dict sample_sdk (sample_raw_tx sample_transfer) = Inr d"
    using sample_raw_tx_dict by blast
  obtain kvs where kvs: "d = VDict kvs" "\<forall>k \<in> fst ` set kvs. \<not> hidden_attr k"
      "distinct (map out_key (visible fs)) \<longrightarrow> map fst kvs = map out_key (visible fs)"
    using payload_dict_keys [OF d fs] by blast
  have hidden: "hidden_attr ''prehash''" by (simp add: hidden_attr_def)
  then have "''prehash'' \<notin> fst ` set kvs" using kvs(2) by blast
  moreover have "map fst kvs = map out_key (visible fs)"
    by (rule mp [OF kvs(3)]) (simp add: ks)
  ultimately show ?thesis using d by (intro exI [of _ kvs] conjI) (simp_all only: kvs(1) ks not_False_eq_True)
qed

text \<open>
  C7: On an object whose attributes are addresses, payloads, typed objects, lists under args, or JSON values, payload_to_dict succeeds with a dictionary that json.dumps accepts.
\<close>

theorem wire_object_encodable:
  assumes "wire_object obj"
  shows "\<exists>kvs. payload_to_dict S obj = Inr (VDict kvs) \<and> json_able (VDict kvs)"
  using wire_sendable(1) [OF assms, of S] by (simp add: sendable_def)

theorem wire_object_encodable_witness:
  "\<exists>kvs. payload_to_dict sample_sdk (sample_raw_tx sample_transfer) = Inr (VDict kvs) \<and> json_able (VDict kvs)"
proof -
  have "wire_object (sample_raw_tx sample_transfer)"
    unfolding sample_raw_tx_def sample_transfer_def
    by (intro wire_raw_tx wire_entry_function) simp_all
  then show ?thesis by (rule wire_object_encodable)
qed

text \<open>
  C8: A mnemonic that store_mnemonic stored is what load_mnemonic returns under the same password, as long as the file is unchanged and readable, and loading changes nothing but the trace.
\<close>

theorem mnemonic_stored_is_loaded:
  assumes "aead_law C" and "random_law P" and "is_text m"
    and "store_mnemonic C P m path w = (Inr (), w1)"
    and "read_password P ''Enter password to encrypt the mnemonic: '' (env w) = (Inr password, s1)"
    and "files w2 path = files w1 path" and "open_fault P path False s2 = None"
    and "read_password P ''Enter password to decrypt the mnemonic: '' (env w2) = (Inr password, s2)"
  shows "load_mnemonic C P path w2 =
    (Inr m, w2\<lparr>env := s2, trace := trace w2 @ [AskedPassword ''Enter password to decrypt the mnemonic: '']\<rparr>)"
  by (rule store_then_load [OF assms])

theorem mnemonic_stored_is_loaded_witness:
  "fst (load_mnemonic sample_crypto (sample_platform ''pw'') ''f'' sample_stored) = Inr ''word''"
proof -
  have t: "is_text ''word''" by code_simp
  show ?thesis
    by (subst mnemonic_stored_is_loaded [OF sample_aead sample_random t sample_store_run,
          where password = "''pw''" and ?s1.0 = "[]" and ?s2.0 = "env sample_stored"]) simp_all
qed

text \<open>
  C9: A mnemonic stored with a password and a FIDO2 credential of 57 bytes is loaded again with the same password and device, and no file changes, provided the device verifies its user at all times or at none.
\<close>

theorem fido2_stored_is_loaded:
  assumes "aead_law C" and "random_law P" and "hmac_secret_law F" and "is_text m"
    and "G ''credential_id'' = Some cid" and "length cid = 57" and "\<forall>s. user_verified F dev s = verified"
    and "store_mnemonic_fido2 G C F P m path cid' w = (Inr (), w1)"
    and "\<And>s p s'. read_password P ''Enter password to encrypt the mnemonic: '' s = (Inr p, s') \<Longrightarrow> p = password"
    and "files w2 path = files w1 path" and "open_fault P path False s1 = None"
    and "read_password P ''Enter password to decrypt the mnemonic: '' (env w2) = (Inr password, s1)"
    and "list_devices F (env w) = (Inr (dev # devs), s0)" and "list_devices F s1 = (Inr (dev # devs'), s2)"
    and "os_random P 32 s2 = (Inr ch, s3)"
    and "\<And>fsalt. \<exists>sec s4. hmac_get_secret F dev ''https://supra.com'' ''supra.com'' ch cid fsalt s3 = (Inr sec, s4)"
  shows "\<exists>w3. load_mnemonic_fido2 C F P path w2 = (Inr m, w3) \<and> files w3 = files w2"
  using fido2_store_then_load [OF assms] .

theorem fido2_stored_is_loaded_witness:
  "\<exists>w1 w3. store_mnemonic_fido2 [''credential_id'' \<mapsto> replicate 57 1] sample_crypto sample_fido (sample_platform ''pw'') ''word'' ''f'' [] (sample_world [])
     = (Inr (), w1) \<and> load_mnemonic_fido2 sample_crypto sample_fido (sample_platform ''pw'') ''f'' w1 = (Inr ''word'', w3)"
proof -
  have t: "is_text ''word''" by code_simp
  obtain w1 where run: "store_mnemonic_fido2 [''credential_id'' \<mapsto> replicate 57 1] sample_crypto sample_fido (sample_platform ''pw'')
      ''word'' ''f'' [] (sample_world []) = (Inr (), w1)"
    using sample_fido_store by blast
  have "\<exists>w3. load_mnemonic_fido2 sample_crypto sample_fido (sample_platform ''pw'') ''f'' w1 = (Inr ''word'', w3) \<and> files w3 = files w1"
    by (rule fido2_stored_is_loaded [OF sample_aead sample_random sample_hmac_law t _ _ _ run, where password = "''pw''"
          and verified = True])
      (auto simp: sample_fido_def)
  with run show ?thesis by blast
qed

text \<open>
  C10: The hash that propose_multisig_tx.py computes for an entry function is the hash of the bytes that stand for the same function in the message execute_multisig_tx.py signs: after the prehash, the sender, the sequence number, the variant, the multisig address and the flag. Read from there, the message decodes to that function and leaves the rest.
\<close>

theorem proposed_hash_of_signed_payload:
  assumes "bcs_laws S" and "struct_law S" and "keyed_law S" and "raw_layout_law S" and "isinstance ef C_EntryFunction"
    and "compute_multisig_tx_payload_hash S ef = Inr h"
    and "keyed S (built_tx sender n (VTransactionPayload 3 (create_multisig addr ef)) gas price expiry chain) = Inr msg"
  shows "\<exists>sender' n' tag a flag tp rest.
      msg = sha3_256 (str_encode ''SUPRA::RawTransaction'') @ sender' @ n' @ tag @ a @ flag @ tp @ rest
    \<and> ser_object S sender = Inr sender' \<and> ser_u64 S n = Inr n' \<and> ser_uleb128 S 3 = Inr tag
    \<and> ser_object S addr = Inr a \<and> ser_bool S True = Inr flag
    \<and> MultiSigTransactionPayload_serialize S (VMultiSigTransactionPayload ef) = Inr tp
    \<and> MultiSigTransactionPayload_deserialize S (tp @ rest) = Inr (VMultiSigTransactionPayload ef, rest)
    \<and> h = sha3_256 tp"
  by (rule hash_of_signed_payload [OF assms])

theorem proposed_hash_of_signed_payload_witness:
  "compute_multisig_tx_payload_hash sample_sdk sample_transfer = Inr (sha3_256 [0, 255])
   \<and> (\<exists>rest. keyed sample_sdk (built_tx (sample_object C_AccountAddress ''0xa'') 4
        (VTransactionPayload 3 (create_multisig (sample_object C_AccountAddress ''0xb'') sample_transfer)) 10 100 1300 6) =
      Inr (sha3_256 (str_encode ''SUPRA::RawTransaction'') @ [3, 48, 120, 97] @ [4, 0, 0, 0, 0, 0, 0, 0] @ [3]
        @ [3, 48, 120, 98] @ [1] @ [0, 255] @ rest))"
proof -
  have ef: "isinstance sample_transfer C_EntryFunction" by (simp add: sample_transfer_def)
  have tp: "MultiSigTransactionPayload_serialize sample_sdk (VMultiSigTransactionPayload sample_transfer) = Inr [0, 255]"
    by code_simp
  have parts: "ser_object sample_sdk (sample_object C_AccountAddress ''0xa'') = Inr [3, 48, 120, 97]"
    "ser_object sample_sdk (sample_object C_AccountAddress ''0xb'') = Inr [3, 48, 120, 98]"
    "ser_u64 sample_sdk 4 = Inr [4, 0, 0, 0, 0, 0, 0, 0]" "ser_uleb128 sample_sdk 3 = Inr [3]"
    "ser_bool sample_sdk True = Inr [1]"
    by code_simp+
  have h: "compute_multisig_tx_payload_hash sample_sdk sample_transfer = Inr (sha3_256 [0, 255])"
    using tp sample_struct by (simp add: compute_multisig_tx_payload_hash_def struct_law_def)
  have ser: "\<exists>bs. raw_serialize sample_sdk (TransactionPayload_serialize sample_sdk) (built_tx (sample_object C_AccountAddress ''0xa'') 4
        (VTransactionPayload 3 (create_multisig (sample_object C_AccountAddress ''0xb'') sample_transfer)) 10 100 1300 6) = Inr bs"
    by (rule exI [of _ "[3, 48, 120, 97] @ [4, 0, 0, 0, 0, 0, 0, 0] @ [3, 3, 48, 120, 98, 1, 0, 255]
        @ [10, 0, 0, 0, 0, 0, 0, 0] @ [100, 0, 0, 0, 0, 0, 0, 0] @ [20, 5, 0, 0, 0, 0, 0, 0] @ [6]"]) code_simp
  then obtain msg where msg: "keyed sample_sdk (built_tx (sample_object C_AccountAddress ''0xa'') 4
        (VTransactionPayload 3 (create_multisig (sample_object C_AccountAddress ''0xb'') sample_transfer)) 10 100 1300 6) = Inr msg"
    using sample_keyed_law by (auto simp: built_tx_def keyed_raw_tx keyed_law_def)
  from proposed_hash_of_signed_payload [OF sample_bcs sample_struct sample_keyed_law sample_raw_layout ef h msg]
  obtain x1 x2 x3 x4 x5 x6 rest where
    m: "msg = sha3_256 (str_encode ''SUPRA::RawTransaction'') @ x1 @ x2 @ x3 @ x4 @ x5 @ x6 @ rest"
    and x: "Inr x1 = ser_object sample_sdk (sample_object C_AccountAddress ''0xa'')" "Inr x2 = ser_u64 sample_sdk 4"
      "Inr x3 = ser_uleb128 sample_sdk 3" "Inr x4 = ser_object sample_sdk (sample_object C_AccountAddress ''0xb'')"
      "Inr x5 = ser_bool sample_sdk True"
      "Inr x6 = MultiSigTransactionPayload_serialize sample_sdk (VMultiSigTransactionPayload sample_transfer)"
    by metis
  from x have "x1 = [3, 48, 120, 97]" "x2 = [4, 0, 0, 0, 0, 0, 0, 0]" "x3 = [3]" "x4 = [3, 48, 120, 98]" "x5 = [1]"
    "x6 = [0, 255]"
    unfolding parts tp by blast+
  with m have m': "msg = sha3_256 (str_encode ''SUPRA::RawTransaction'') @ [3, 48, 120, 97] @ [4, 0, 0, 0, 0, 0, 0, 0] @ [3]
        @ [3, 48, 120, 98] @ [1] @ [0, 255] @ rest" by (simp only:)
  show ?thesis by (intro conjI exI [of _ rest]) (simp_all only: h msg m')
qed

text \<open>
  C11: For signer indices 0 to 31 the encoding is the signatures in order followed by a bitmap of four bytes, from which a reader recovers exactly the set of signers.
\<close>

theorem multisignature_names_its_signers:
  assumes "\<forall>(i, s) \<in> set sigs. 0 \<le> i \<and> i \<le> 31" and "bitmap_num_of_bytes S = 4"
  shows "\<exists>bitmap. multisig_to_crypto_bytes S sigs =
      Inr (concat (map (\<lambda>(i, s). signature_data S s) sigs) @ bitmap)
    \<and> length bitmap = 4 \<and> bitmap_signers bitmap = filter (\<lambda>i. int i \<in> fst ` set sigs) [0..<32]"
proof -
  have "bitmap_signers (be_bytes_int 4 (bitmap_of (map fst sigs))) =
      filter (\<lambda>i. int i \<in> set (map fst sigs)) [0..<32]"
    by (rule bitmap_signers_encoded) (use assms(1) in auto)
  then show ?thesis
    using multisig_to_crypto_bytes_run [OF assms]
    by (intro exI [of _ "be_bytes_int 4 (bitmap_of (map fst sigs))"]) simp
qed

theorem multisignature_names_its_signers_witness:
  "\<exists>bitmap. multisig_to_crypto_bytes sample_sdk
      [(0, sample_object C_Signature ''alice''), (2, sample_object C_Signature ''carol'')] =
      Inr (str_encode ''alicecarol'' @ bitmap)
    \<and> length bitmap = 4 \<and> bitmap_signers bitmap = [0, 2]"
proof -
  have n: "bitmap_num_of_bytes sample_sdk = 4" by simp
  have "filter (\<lambda>i. int i \<in> {0, 2}) [0..<32] = [0, 2]" by code_simp
  then show ?thesis
    using multisignature_names_its_signers [OF _ n, of "[(0, sample_object C_Signature ''alice''),
        (2, sample_object C_Signature ''carol'')]"]
    by (simp add: str_encode_def)
qed

text \<open>
  C12: When the clock and the connection work, wait_for_tx returns normally, whatever the server answers.
\<close>

theorem waiting_returns:
  assumes "0 \<le> n" and "\<forall>s. \<exists>s'. pass_time P n s = (Inr (), s')"
    and "\<forall>s. \<exists>resp s'. http_get P (tx_url b h) s = (Inr resp, s')"
  shows "\<exists>w'. wait_for_tx P b h tries n c w = (Inr (), w')"
  by (rule wait_returns [OF assms])

theorem waiting_returns_witness:
  "\<exists>w'. wait_for_tx busy_platform ''b'' ''h'' 30 1 True (sample_world []) = (Inr (), w')"
  by (rule waiting_returns) (simp_all add: busy_platform_def sample_platform_def)

text \<open>
  C13: If pass k is the first to see the status Success, wait_for_tx returns after exactly k + 1 sleeps and requests and asks no more.
\<close>

theorem waiting_stops_at_success:
  assumes "passes (poll P b h n) (map int [0..<k]) w = Some u" and "k < nat tries"
    and "0 \<le> n" and "pass_time P n (env u) = (Inr (), s)"
    and "http_get P (tx_url b h) s = (Inr resp, s')"
    and "reply_json resp = Some d" and "get_key d ''status'' = Inr (VStr ''Success'')"
  shows "\<exists>w'. wait_for_tx P b h tries n False w = (Inr (), w') \<and> env w' = s'
    \<and> requests (trace w') = requests (trace w) @ concat (replicate (k + 1) [Slept n, Got (tx_url b h)])"
proof -
  have "status_value P h (decoded resp) = VStr ''Success''"
    using assms(6,7) by (simp add: decoded_def status_value_def status_of_def eq_str_def)
  then obtain w' where w': "poll P b h n (int k) u = (Inr True, w')" "env w' = s'"
    using poll_answered [OF assms(3-5), of "int k"] by (auto simp: eq_str_def)
  have "requests (trace w') = requests (trace w) @ concat (replicate k [Slept n, Got (tx_url b h)])
      @ [Slept n, Got (tx_url b h)]"
    using passes_poll_requests [OF assms(1)] poll_requests [OF w'(1)] by simp
  moreover have "concat (replicate (k + 1) [Slept n, Got (tx_url b h)])
      = concat (replicate k [Slept n, Got (tx_url b h)]) @ [Slept n, Got (tx_url b h)]"
    by (simp add: replicate_append_same [symmetric] del: replicate_append_same)
  ultimately show ?thesis using wait_stops [OF assms(1,2) w'(1)] w'(2) by auto
qed

theorem waiting_stops_at_success_witness:
  "\<exists>w'. wait_for_tx (sample_platform ''pw'') ''b'' ''h'' 30 1 False (sample_world [pending, succeeded, pending])
      = (Inr (), w') \<and> env w' = [pending]
    \<and> requests (trace w') = [Slept 1, Got (tx_url ''b'' ''h''), Slept 1, Got (tx_url ''b'' ''h'')]"
proof -
  obtain u where u: "poll (sample_platform ''pw'') ''b'' ''h'' 1 0 (sample_world [pending, succeeded, pending]) = (Inr False, u)"
      "env u = [succeeded, pending]"
    using poll_answered [of 1 "sample_platform ''pw''" "sample_world [pending, succeeded, pending]" "[pending, succeeded, pending]"
        "''b''" "''h''" pending "[succeeded, pending]" 0]
    by (auto simp: pending_def status_value_def status_of_def eq_str_def of_option_def)
  then have "passes (poll (sample_platform ''pw'') ''b'' ''h'' 1) (map int [0..<1]) (sample_world [pending, succeeded, pending]) = Some u"
    by simp
  from waiting_stops_at_success [OF this, where tries = 30 and resp = succeeded and s = "[succeeded, pending]"
      and s' = "[pending]"]
  show ?thesis by (simp add: u succeeded_def of_option_def numeral_2_eq_2)
qed

text \<open>
  C14: A wait_for_tx that returns has asked for the status once if told to check first, then alternated at most repeat sleeps and requests for the status, and made no other request.
\<close>

theorem waiting_is_bounded:
  assumes "wait_for_tx P b h tries n c w = (Inr (), w')"
  shows "\<exists>k \<le> nat tries. requests (trace w') = requests (trace w)
    @ (if c then [Got (tx_url b h)] else []) @ concat (replicate k [Slept n, Got (tx_url b h)])"
  by (rule wait_requests_checked [OF assms])

theorem waiting_is_bounded_witness:
  "\<exists>w' k. wait_for_tx busy_platform ''b'' ''h'' 3 5 True (sample_world []) = (Inr (), w') \<and> k \<le> 3
    \<and> requests (trace w') = Got (tx_url ''b'' ''h'') # concat (replicate k [Slept 5, Got (tx_url ''b'' ''h'')])"
proof -
  obtain w' where run: "wait_for_tx busy_platform ''b'' ''h'' 3 5 True (sample_world []) = (Inr (), w')"
    using wait_returns [of 5 busy_platform "''b''" "''h''" 3 True "sample_world []"]
    by (auto simp: busy_platform_def sample_platform_def)
  then show ?thesis using waiting_is_bounded [OF run] by auto
qed

text \<open>
  C15: Storing a mnemonic leaves every existing file as it was, whatever exception ends it: at most the given path is created. If it exists, FileExistsError is raised before anything is asked, drawn or written.
\<close>

theorem storing_never_overwrites:
  assumes "store_mnemonic C P m path w = (r, w') \<or> store_mnemonic_fido2 G C F P m path cid w = (r, w')"
  shows "(files w' = files w \<or> files w path = None \<and> (\<exists>d. files w' = (files w)(path \<mapsto> d)))
    \<and> (files w path \<noteq> None \<longrightarrow> r = Inl (FileExistsError (exists_message path)) \<and> w' = w)"
  using assms
proof
  assume s: "store_mnemonic C P m path w = (r, w')"
  show ?thesis using store_files [OF s] store_existing [of w path C P m] s by auto
next
  assume s: "store_mnemonic_fido2 G C F P m path cid w = (r, w')"
  show ?thesis using fido2_store_files [OF s] fido2_store_existing [of w path G C F P m cid] s
    by (auto simp: already_exists_def exists_message_def)
qed

theorem storing_never_overwrites_witness:
  "\<exists>w'. store_mnemonic sample_crypto (sample_platform ''pw'') ''other'' ''f'' sample_stored = (Inl (FileExistsError (exists_message ''f'')), w')
     \<and> w' = sample_stored"
proof -
  obtain r w' where run: "store_mnemonic sample_crypto (sample_platform ''pw'') ''other'' ''f'' sample_stored = (r, w')"
    by fastforce
  then show ?thesis
    using storing_never_overwrites [OF disjI1 [OF run]] sample_stored_file by simp
qed

text \<open>
  C16: Each script that talks to the network sends every request to its own base URL and changes no file, on every path including exceptions.
\<close>

theorem scripts_are_confined:
  "confined ''https://rpc-mainnet.supra.com'' (check_balance_main P)
   \<and> confined ''https://rpc-mainnet.supra.com'' (check_block_main P)
   \<and> confined ''https://rpc-testnet.supra.com'' (check_transaction_main P)
   \<and> confined ''https://rpc-testnet1.supra.com'' (scan_blocks_main P)
   \<and> confined ''https://rpc-wallet-testnet.supra.com/'' (airdrop_main S C P)
   \<and> confined ''https://rpc-testnet1.supra.com'' (transfer_supra_main S C P)
   \<and> confined ''https://rpc-testnet.supra.com/'' (create_multisig_account_main S C P)
   \<and> confined ''https://rpc-testnet.supra.com/'' (propose_multisig_tx_main S C P)
   \<and> confined ''https://rpc-mainnet.supra.com'' (vote_multisig_tx_main S C P)
   \<and> confined ''https://rpc-testnet1.supra.com/'' (execute_multisig_tx_main S C P)
   \<and> confined ''https://rpc-mainnet.supra.com'' (view_multisig_tx_main S P)
   \<and> confined ''https://rpc-testnet.supra.com/'' (multisig_auth_main S C P)"
  by (intro conjI confinedI host_queries host_airdrop host_transfer host_create host_propose host_vote host_execute
      host_view host_multisig kept_scripts1 kept_scripts kept_scripts2)

text \<open>
  C17: Two transactions as create_raw_tx leaves them have the same signing message exactly when sender, sequence number, payload, gas, gas price, expiry and chain id agree: a signature is for one transaction only. This rests on the layout of aptos_sdk's RawTransaction and on every field being decodable or of fixed width.
\<close>

theorem signing_message_determines_tx:
  assumes "bcs_laws S" and "int_laws S" and "keyed_law S" and "raw_layout_law S"
    and "isinstance a C_AccountAddress" and "isinstance b C_AccountAddress" and "payload_ok p" and "payload_ok q"
    and "keyed S (built_tx a n p gas price expiry chain) = Inr msg"
    and "keyed S (built_tx b m q gas' price' expiry' chain') = Inr msg'"
  shows "msg = msg' \<longleftrightarrow>
    a = b \<and> n = m \<and> p = q \<and> gas = gas' \<and> price = price' \<and> expiry = expiry' \<and> chain = chain'"
proof
  assume "msg = msg'"
  with assms(10) have "keyed S (built_tx b m q gas' price' expiry' chain') = Inr msg" by simp
  then show "a = b \<and> n = m \<and> p = q \<and> gas = gas' \<and> price = price' \<and> expiry = expiry' \<and> chain = chain'"
    by (rule keyed_inject [OF assms(1-9)])
next
  assume "a = b \<and> n = m \<and> p = q \<and> gas = gas' \<and> price = price' \<and> expiry = expiry' \<and> chain = chain'"
  with assms(9,10) show "msg = msg'" by (simp)
qed

theorem signing_message_determines_tx_witness:
  "\<exists>msg msg'. keyed sample_sdk (built_tx (sample_object C_AccountAddress ''0xa'') 4
       (VTransactionPayload 3 sample_multisig) 10 100 1300 6) = Inr msg
   \<and> keyed sample_sdk (built_tx (sample_object C_AccountAddress ''0xa'') 4
       (VTransactionPayload 2 sample_transfer) 10 100 1300 6) = Inr msg'
   \<and> msg \<noteq> msg'"
proof -
  let ?a = "sample_object C_AccountAddress ''0xa''"
  have ok: "isinstance ?a C_AccountAddress" "payload_ok (VTransactionPayload 2 sample_transfer)"
    by (simp_all add: payload_ok_def TransactionPayload_init_cases) (simp_all add: sample_transfer_def)
  have ser: "\<exists>bs. raw_serialize sample_sdk (TransactionPayload_serialize sample_sdk)
      (built_tx ?a 4 (VTransactionPayload 3 sample_multisig) 10 100 1300 6) = Inr bs"
    by (rule exI [of _ "[3, 48, 120, 97] @ [4, 0, 0, 0, 0, 0, 0, 0] @ [3, 3, 48, 120, 97, 1, 0, 1, 102]
        @ [10, 0, 0, 0, 0, 0, 0, 0] @ [100, 0, 0, 0, 0, 0, 0, 0] @ [20, 5, 0, 0, 0, 0, 0, 0] @ [6]"]) code_simp
  then obtain msg where msg: "keyed sample_sdk (built_tx ?a 4 (VTransactionPayload 3 sample_multisig) 10 100 1300 6) = Inr msg"
    using sample_keyed_law by (auto simp: built_tx_def keyed_raw_tx keyed_law_def)
  have msg': "keyed sample_sdk (built_tx ?a 4 (VTransactionPayload 2 sample_transfer) 10 100 1300 6) =
      Inr (sha3_256 (str_encode ''SUPRA::RawTransaction'') @ sample_body)"
    using sample_keyed by (simp add: sample_raw_tx_def built_tx_def)
  show ?thesis
    using signing_message_determines_tx [OF sample_bcs sample_int sample_keyed_law sample_raw_layout ok(1) ok(1)
        sample_payload_ok ok(2) msg msg'] msg msg' by auto
qed

text \<open>
  C18: create_raw_tx puts the sender, the sequence number, the wrapped payload and the gas into the transaction, makes it expire the given time after now, and asks the server for the chain id only when the caller gives none (or a false value such as 0).
\<close>

theorem transaction_built:
  assumes "raw_transaction_law S" and "TransactionPayload_init payload = Inr p"
    and "http_get P (chain_id_url b) (env w) = (Inr resp, s)"
  shows "create_raw_tx S P sender seq payload gas price span chain b w =
      (Inr (VObj C_RawTransaction
         (raw_attrs sender (VInt seq) p (VInt gas) (VInt price) (VInt (unix_time P (env w) + span))
            (if truth chain then chain else decoded resp) @ [(''prehash'', bound_prehash)])),
       (if truth chain then w else after_get (chain_id_url b) resp s w))"
  using create_raw_tx_given_chain [OF assms(1,2)] create_raw_tx_run [OF assms] assms
  by (simp add: create_raw_tx_def bindP_def time_now_def get_json_answered raw_transaction_law_def
      raw_attrs_def ret_def Let_def)

theorem transaction_built_witness:
  "create_raw_tx sample_sdk (sample_platform ''pw'') (sample_object C_AccountAddress ''0xa'') 4 sample_transfer 10 100
     300 (VInt 0) (Some ''b'') (sample_world [json_reply (VInt 6)]) =
   (Inr (sample_raw_tx sample_transfer),
    after_get (chain_id_url (Some ''b'')) (json_reply (VInt 6)) [] (sample_world [json_reply (VInt 6)]))"
proof -
  have init: "TransactionPayload_init sample_transfer = Inr (VTransactionPayload 2 sample_transfer)"
    by (simp add: TransactionPayload_init_cases sample_transfer_def)
  show ?thesis
    using transaction_built [OF sample_raw_law init, of "sample_platform ''pw''" "Some ''b''"
        "sample_world [json_reply (VInt 6)]" "json_reply (VInt 6)" "[]"
        "sample_object C_AccountAddress ''0xa''" 4 10 100 300 "VInt 0"]
    by (simp add: sample_raw_tx_def)
qed

text \<open>
  C19: The message signed for a transaction that create_raw_tx built is the hash of Supra's own salt followed by the serialized transaction; the prehash of aptos_sdk is not used.
\<close>

theorem signing_message:
  assumes "raw_transaction_law S" and "keyed_law S"
    and "create_raw_tx S P sender seq payload gas price span chain b w = (Inr raw, w')"
    and "keyed S raw = Inr msg"
  shows "\<exists>body. raw_serialize S (TransactionPayload_serialize S) raw = Inr body
    \<and> msg = sha3_256 (str_encode ''SUPRA::RawTransaction'') @ body"
  using create_raw_tx_Inr [OF assms(1,3)] keyed_prefix [OF assms(2)] assms(4) by blast

theorem signing_message_witness:
  "\<exists>raw w'. create_raw_tx sample_sdk (sample_platform ''pw'') (sample_object C_AccountAddress ''0xa'') 4 sample_transfer
       10 100 300 (VInt 6) None (sample_world []) = (Inr raw, w')
     \<and> keyed sample_sdk raw = Inr (sha3_256 (str_encode ''SUPRA::RawTransaction'') @ sample_body)"
proof -
  obtain msg where msg: "keyed sample_sdk (sample_raw_tx sample_transfer) = Inr msg"
    using sample_keyed by blast
  from signing_message [OF sample_raw_law sample_keyed_law sample_given_chain msg] msg sample_raw_ser sample_given_chain
  show ?thesis by auto
qed

text \<open>
  C20: An Ed25519 authenticator becomes the dictionary of its key and signature as strings; any other variant raises NotImplementedError.
\<close>

theorem authenticator_dict:
  assumes "authenticator_law S" and "isinstance pub C_PublicKey" and "isinstance sig C_Signature"
  shows "auth_to_dict S (authenticator_new S (ed25519_authenticator_new S pub sig)) =
      Inr (VDict [(''Ed25519'', VDict [(''public_key'', VStr (obj_str S pub)),
                                       (''signature'', VStr (obj_str S sig))])])
    \<and> (\<forall>n inner. n \<noteq> authenticator_ED25519 S \<longrightarrow>
        auth_to_dict S (VObj C_Authenticator [(''variant'', VInt n), (''authenticator'', inner)]) = Inl NotImplementedError)"
proof -
  have "auth_to_dict S (VObj C_Authenticator [(''variant'', VInt n), (''authenticator'', inner)]) = Inl NotImplementedError"
    if "n \<noteq> authenticator_ED25519 S" for n inner
    using that by (intro auth_to_dict_other_variant [of _ "VInt n"]) (simp_all add: get_attr_def of_option_def)
  then show ?thesis using auth_to_dict_ed25519 [OF assms] by simp
qed

theorem authenticator_dict_witness:
  "auth_to_dict sample_sdk (authenticator_new sample_sdk (ed25519_authenticator_new sample_sdk
       (sample_object C_PublicKey ''pk'') (sample_object C_Signature ''sg''))) =
     Inr (VDict [(''Ed25519'', VDict [(''public_key'', VStr ''pk''), (''signature'', VStr ''sg'')])])
   \<and> auth_to_dict sample_sdk (VObj C_Authenticator [(''variant'', VInt 1), (''authenticator'', VNone)])
      = Inl NotImplementedError"
proof -
  have "authenticator_ED25519 sample_sdk = 0" by (simp add: sample_sdk_def)
  then show ?thesis
    using authenticator_dict [OF sample_authenticator_law, of "sample_object C_PublicKey ''pk''"
        "sample_object C_Signature ''sg''"]
    by simp
qed

text \<open>
  C21: The entry functions of the multisig scripts are those of 0x1::multisig_account with every argument paired with the encoder of its type, in order.
\<close>

theorem multisig_calls:
  "create_create_multisig_account_entry_func S owners k ks vs t =
     multisig_function S ''create_with_owners''
       [(VList owners, Enc_sequence Enc_struct), (VInt k, Enc_u64), (VList (map VStr ks), Enc_sequence Enc_str),
        (VList (map VBytes vs), Enc_sequence Enc_to_bytes), (VInt t, Enc_u64)]
   \<and> create_propose_multisig_tx_entry_func S addr h =
     multisig_function S ''create_transaction_with_hash'' [(addr, Enc_struct), (VBytes h, Enc_to_bytes)]
   \<and> create_vote_multisig_tx_entry_func S addr n approved =
     multisig_function S ''vote_transanction'' [(addr, Enc_struct), (VInt n, Enc_u64), (VBool approved, Enc_bool)]
   \<and> create_remove_multisig_tx_entry_func S addr =
     multisig_function S ''execute_rejected_transaction'' [(addr, Enc_struct)]"
  by (simp add: multisig_entry_functions create_entry_func_0x1_multisig)

text \<open>
  C22: For a successful transaction the multisig sequence number is read from its first CreateTransactionEvent, at whatever place that stands and whatever follows it, errors of reading included; an event without a type before it raises that error, and without a CreateTransactionEvent an exception is raised. A number is returned in no other case.
\<close>

theorem sequence_of_first_create_event:
  assumes "G ''base_url'' = Some b" and "http_get P (tx_url b h) (env w) = (Inr resp, s)"
    and "get_key (decoded resp) ''status'' = Inr (VStr ''Success'')"
    and "get_path (decoded resp) [''output'', ''Move'', ''events''] = Inr (VList evs)"
  shows "(\<forall>pre ev post. evs = pre @ ev # post \<longrightarrow> (\<forall>e \<in> set pre. other_event e) \<longrightarrow> creates ev \<longrightarrow>
       get_multisig_tx_sequence_from_tx_hash G P h w =
         (bindR (get_path ev [''data'', ''sequence_number'']) py_int, after_get (tx_url b h) resp s w))
    \<and> (\<forall>pre ev post x. evs = pre @ ev # post \<longrightarrow> (\<forall>e \<in> set pre. other_event e) \<longrightarrow> get_key ev ''type'' = Inl x \<longrightarrow>
       get_multisig_tx_sequence_from_tx_hash G P h w = (Inl x, after_get (tx_url b h) resp s w))
    \<and> ((\<forall>e \<in> set evs. other_event e) \<longrightarrow>
       get_multisig_tx_sequence_from_tx_hash G P h w =
         (Inl (PlainException ''something went wrong''), after_get (tx_url b h) resp s w))
    \<and> (\<forall>n. fst (get_multisig_tx_sequence_from_tx_hash G P h w) = Inr n \<longrightarrow>
       (\<exists>pre ev post. evs = pre @ ev # post \<and> (\<forall>e \<in> set pre. other_event e) \<and> creates ev
          \<and> bindR (get_path ev [''data'', ''sequence_number'']) py_int = Inr n))"
proof -
  have run: "get_multisig_tx_sequence_from_tx_hash G P h w = (find_create_event evs, after_get (tx_url b h) resp s w)"
    by (subst sequence_answered [where G = G and b = b and st = "VStr ''Success''", OF assms(1) assms(2) assms(3)])
      (simp add: assms(4) del: get_path.simps find_create_event.simps)
  show ?thesis
    unfolding run fst_conv
    using find_create_event_first find_create_event_malformed find_create_event_none find_create_event_Inr by blast
qed

theorem sequence_of_first_create_event_witness:
  "fst (get_multisig_tx_sequence_from_tx_hash (propose_globals True) (sample_platform ''pw'') ''h''
      (sample_world [event_reply [vote_event, vote_event, create_event 7, create_event 9]])) = Inr 7
   \<and> fst (get_multisig_tx_sequence_from_tx_hash (propose_globals True) (sample_platform ''pw'') ''h''
      (sample_world [event_reply [vote_event, vote_event]])) = Inl (PlainException ''something went wrong'')"
proof -
  have vote: "other_event vote_event"
    by (simp add: vote_event_def other_event_def eq_str_def of_option_def)
  have create: "creates (create_event 7)"
    "bindR (get_path (create_event 7) [''data'', ''sequence_number'']) py_int = Inr 7"
    by (simp_all add: create_event_def creates_def of_option_def int_of_str_of_int)
  have reply: "get_key (decoded (event_reply evs)) ''status'' = Inr (VStr ''Success'')"
    "get_path (decoded (event_reply evs)) [''output'', ''Move'', ''events''] = Inr (VList evs)" for evs
    by (simp_all add: event_reply_def of_option_def)
  have G: "propose_globals True ''base_url'' = Some ''https://rpc-testnet.supra.com/''"
    by (simp add: propose_globals_def)
  let ?P = "sample_platform ''pw''" and ?w = "\<lambda>evs. sample_world [event_reply evs]"
  have get: "http_get ?P u (env (?w evs)) = (Inr (event_reply evs), [])" for u evs by simp
  note run = sequence_of_first_create_event [where G = "propose_globals True" and P = ?P and h = "''h''", OF G get reply]
  let ?evs = "[vote_event, vote_event, create_event 7, create_event 9]"
  have "fst (get_multisig_tx_sequence_from_tx_hash (propose_globals True) ?P ''h'' (?w ?evs)) = Inr 7"
    using run [of ?evs, THEN conjunct1, rule_format, of "[vote_event, vote_event]" "create_event 7" "[create_event 9]"]
      vote create
    by (simp del: get_path.simps)
  moreover have "fst (get_multisig_tx_sequence_from_tx_hash (propose_globals True) ?P ''h'' (?w [vote_event, vote_event])) =
      Inl (PlainException ''something went wrong'')"
    using run [of "[vote_event, vote_event]", THEN conjunct2, THEN conjunct2, THEN conjunct1] vote by simp
  ultimately show ?thesis by blast
qed

text \<open>
  C23: If the blocks before were scanned without a hit and a block in the range has the target among its transactions, the scan announces it and ends the process with status 0 there.
\<close>

theorem scan_finds_the_target:
  assumes "passes (scan_block P b target) [lo..h - 1] w = Some u" and "lo \<le> h" and "h \<le> hi"
    and "http_get P (block_url b h True) (env u) = (Inr resp, s)"
    and "get_key (decoded resp) ''transactions'' = Inr (VList (pre @ tx # post))"
    and "list_all (has_other_hash target) pre" and "carries tx target"
  shows "\<exists>w'. scan_loop P b target lo hi w = (Inl (SystemExit 0), w') \<and> last (trace w') = Printed ''Found target!''"
  using scan_block_hit [OF assms(4-7)] scan_loop_hit [OF assms(1-3)] by blast

theorem scan_finds_the_target_witness:
  "\<exists>w'. scan_loop (sample_platform ''pw'') ''b'' ''t'' 3 9 scan_world = (Inl (SystemExit 0), w')
     \<and> last (trace w') = Printed ''Found target!''"
proof -
  obtain u where u: "passes (scan_block (sample_platform ''pw'') ''b'' ''t'') [3..4 - 1] scan_world = Some u"
      "env u = [block_reply [''y'', ''t'']]"
    using sample_scan_first by blast
  show ?thesis
    by (rule scan_finds_the_target [OF u(1), where resp = "block_reply [''y'', ''t'']" and s = "[]" and post = "[]"
          and pre = "[VDict [(''hash'', VStr ''y'')]]" and tx = "VDict [(''hash'', VStr ''t'')]"])
      (simp_all add: u block_reply_def has_other_hash_def eq_str_iff of_option_def carries_def)
qed

text \<open>
  C24: The scan ends the process only if the server's answer for some height in the range has a transaction with the target hash.
\<close>

theorem scan_exits_only_when_found:
  assumes "scan_loop P b target lo hi w = (Inl (SystemExit n), w')"
    and "\<forall>u s n s'. http_get P u s \<noteq> (Inl (SystemExit n), s')"
  shows "\<exists>h s resp s' v txs tx. lo \<le> h \<and> h \<le> hi \<and> http_get P (block_url b h True) s = (Inr resp, s')
    \<and> get_key (decoded resp) ''transactions'' = Inr v \<and> iterate v = Inr txs \<and> tx \<in> set txs \<and> carries tx target"
  by (rule scan_loop_exit [OF assms])

theorem scan_exits_only_when_found_witness:
  "\<exists>h s resp s' v txs tx. 3 \<le> h \<and> h \<le> 9
    \<and> http_get (sample_platform ''pw'') (block_url ''b'' h True) s = (Inr resp, s')
    \<and> get_key (decoded resp) ''transactions'' = Inr v \<and> iterate v = Inr txs \<and> tx \<in> set txs \<and> carries tx ''t''"
proof -
  obtain w' where run: "scan_loop (sample_platform ''pw'') ''b'' ''t'' 3 9 scan_world = (Inl (SystemExit 0), w')"
    using sample_scan_run by blast
  have "\<forall>u s n s'. http_get (sample_platform ''pw'') u s \<noteq> (Inl (SystemExit n), s')"
    by (auto simp: next_reply_def split: list.split)
  from scan_exits_only_when_found [OF run this] show ?thesis .
qed

text \<open>
  C25: When the ciphertext does not decrypt under the derived key, or not to UTF-8, load_mnemonic prints the error and returns the empty string instead of raising.
\<close>

theorem wrong_password_loads_nothing:
  assumes "read_password P ''Enter password to decrypt the mnemonic: '' (env w) = (Inr password, s)"
    and "open_fault P path False s = None" and "files w path = Some data"
    and "unpack_mnemonic data = ((salt, nonce), ct)"
    and "scrypt_derive C (kdf salt) (str_encode password) = Inr key" and "aesgcm_new C key = Inr ()"
    and "aesgcm_decrypt C key nonce ct = Inl e \<or> (\<exists>bs. aesgcm_decrypt C key nonce ct = Inr bs \<and> bytes_decode bs = Inl e)"
    and "is_Exception e"
  shows "load_mnemonic C P path w = (Inr '''', w\<lparr>env := s, trace := trace w @
    [AskedPassword ''Enter password to decrypt the mnemonic: '', PrintedExc ''Error decrypting mnemonic:'' e]\<rparr>)"
proof -
  have "unseal C key nonce ct = Inl e" using assms(7) by (auto simp: unseal_def)
  then show ?thesis by (simp add: load_run [OF assms(1-6)] unseal_or_empty_error assms(8))
qed

theorem wrong_password_loads_nothing_witness:
  "fst (load_mnemonic sample_crypto (sample_platform ''guess'') ''f'' (sample_stored\<lparr>env := []\<rparr>)) = Inr ''''"
proof -
  have "header_ok (replicate 16 7, replicate 12 7)" by (simp add: header_ok_def)
  note u = mnemonic_file.unpack_pack [OF this, of "str_encode ''pw'' @ str_encode ''word''"]
  have enc: "str_encode ''guess'' = [103, 117, 101, 115, 115]" "str_encode ''pw'' @ str_encode ''word'' = [112, 119, 119, 111, 114, 100]"
    by code_simp+
  show ?thesis
    by (subst wrong_password_loads_nothing [OF _ _ _ u, where password = "''guess''" and s = "[]"
          and key = "str_encode ''guess''" and e = "LibError ''InvalidTag'' ''''"])
      (simp_all add: sample_stored_file sample_crypto_def enc)
qed



text \<open>
  C27: Whatever the answer, get_transaction_status returns: the VM status of a failed transaction, the status of any other, and a message when the answer has neither.
\<close>

theorem status_is_total:
  assumes "http_get P (tx_url b h) (env w) = (Inr resp, s)"
  shows "get_transaction_status P b h w =
    (Inr (case get_key (decoded resp) ''status'' of
            Inr st \<Rightarrow>
              if st = VStr ''Fail'' then
                (case get_path (decoded resp) [''output'', ''Move'', ''vm_status''] of
                   Inr vm \<Rightarrow> vm
                 | Inl e \<Rightarrow> VStr (''Failed to get status of transaction '' @ h @ '', with response ''
                             @ py_str (obj_repr P) (decoded resp)))
              else st
          | Inl e \<Rightarrow> VStr (''Failed to get status of transaction '' @ h @ '', with response ''
                      @ py_str (obj_repr P) (decoded resp))),
     after_get (tx_url b h) resp s w)"
  unfolding status_answered [OF assms]
  by (cases "get_key (decoded resp) ''status''")
    (auto simp: status_value_def status_of_def eq_str_iff simp del: get_path.simps)

theorem status_is_total_witness:
  "fst (get_transaction_status (sample_platform ''pw'') ''b'' ''h'' (sample_world
     [json_reply (VDict [(''status'', VStr ''Fail''),
        (''output'', VDict [(''Move'', VDict [(''vm_status'', VStr ''OUT_OF_GAS'')])])])])) = Inr (VStr ''OUT_OF_GAS'')"
  by (subst status_is_total [where s = "[]" and resp = "json_reply (VDict [(''status'', VStr ''Fail''),
        (''output'', VDict [(''Move'', VDict [(''vm_status'', VStr ''OUT_OF_GAS'')])])])"])
    (simp_all add: of_option_def)

text \<open>
  C28: On a null account the balance is 0 and no second request is made; otherwise it is what the second response gives: the value of its first coin store as an integer (which may be 0 too), or the exception that reading it raises.
\<close>

theorem balance_by_responses:
  assumes "http_get P (account_url b a) (env w) = (Inr r1, s1)"
    and "reply_json r1 \<noteq> Some VNone \<longrightarrow> http_get P (resource_url b a coin_store_type) s1 = (Inr r2, s2)"
  shows "get_account_supra_coin_balance P b a w =
    (if reply_json r1 = Some VNone then (Inr 0, after_get (account_url b a) r1 s1 w)
     else (bindR (get_key (decoded r2) ''result'') (\<lambda>l. bindR (get_idx l 0)
             (\<lambda>r. bindR (get_path r [''coin'', ''value'']) py_int)),
           after_get (resource_url b a coin_store_type) r2 s2 (after_get (account_url b a) r1 s1 w)))"
  using balance_no_account [OF assms(1)] balance_account [OF assms(1)] assms(2)
  by (simp add: coin_value_def del: get_path.simps)

theorem balance_by_responses_witness:
  "fst (get_account_supra_coin_balance (sample_platform ''pw'') ''b'' ''a''
     (sample_world [json_reply (VDict []), coin_reply (10 ^ 20)])) = Inr (10 ^ 20)
   \<and> get_account_supra_coin_balance (sample_platform ''pw'') ''b'' ''a'' (sample_world [json_reply VNone]) =
     (Inr 0, after_get (account_url ''b'' ''a'') (json_reply VNone) [] (sample_world [json_reply VNone]))"
  using balance_by_responses [of "sample_platform ''pw''" "''b''" "''a''" "sample_world [json_reply (VDict []), coin_reply (10 ^ 20)]"
      "json_reply (VDict [])" "[coin_reply (10 ^ 20)]" "coin_reply (10 ^ 20)" "[]"]
    balance_by_responses [of "sample_platform ''pw''" "''b''" "''a''" "sample_world [json_reply VNone]"
      "json_reply VNone" "[]"]
  by (simp add: coin_reply_def of_option_def int_of_str_of_int)

text \<open>
  C29: If no pass sees a success, wait_for_tx makes all its requests and then returns just as it does on success: the caller is not told.
\<close>

theorem waiting_gives_up_silently:
  assumes "passes (poll P b h n) (map int [0..<nat tries]) w = Some w'"
  shows "wait_for_tx P b h tries n False w = (Inr (), w')
    \<and> requests (trace w') = requests (trace w) @ concat (replicate (nat tries) [Slept n, Got (tx_url b h)])"
  using wait_gives_up [OF assms] passes_poll_requests [OF assms] by simp

theorem waiting_gives_up_silently_witness:
  "\<exists>w'. wait_for_tx (sample_platform ''pw'') ''b'' ''h'' 1 5 False (sample_world [bad_reply]) = (Inr (), w')
    \<and> requests (trace w') = [Slept 5, Got (tx_url ''b'' ''h'')]"
proof -
  obtain u where u: "poll (sample_platform ''pw'') ''b'' ''h'' 5 0 (sample_world [bad_reply]) = (Inr False, u)"
    using poll_answered [of 5 "sample_platform ''pw''" "sample_world [bad_reply]" "[bad_reply]"
        "''b''" "''h''" bad_reply "[]" 0]
    by (auto simp: status_value_def status_of_def eq_str_def of_option_def)
  then have "passes (poll (sample_platform ''pw'') ''b'' ''h'' 5) (map int [0..<nat 1]) (sample_world [bad_reply]) = Some u"
    by simp
  from waiting_gives_up_silently [OF this] show ?thesis by auto
qed

text \<open>
  C30: The first exception while the balance is read leaves watch_balance, after the line that says it will be tried again, with the remaining passes not made.
\<close>

theorem watching_stops_at_exception:
  assumes "passes (watch_pass P b a n) (map int [0..<k]) w = Some u0" and "k < nat tries"
    and "time_sleep P n u0 = (Inr (), u)" and "print_balance P b a u = (Inl e, v)"
  shows "watch_balance P b a tries n w = (Inl e, v\<lparr>trace := trace v @ [Printed ''Try again in 5 seconds.'']\<rparr>)"
  by (rule watch_balance_error [OF assms])

theorem watching_stops_at_exception_witness:
  "fst (watch_balance (sample_platform ''pw'') ''b'' ''a'' 10 5 (sample_world [bad_reply, bad_reply, bad_reply, coin_reply 7]))
     = Inl (KeyError ''result'')"
proof -
  let ?P = "sample_platform ''pw''" and ?w = "sample_world [bad_reply, bad_reply, bad_reply, coin_reply 7]"
  have sl: "time_sleep ?P 5 ?w = (Inr (), ?w\<lparr>trace := [Slept 5]\<rparr>)"
    by (simp add: time_sleep_def env_op_def sample_world_def)
  have "fst (print_balance ?P ''b'' ''a'' (?w\<lparr>trace := [Slept 5]\<rparr>)) = Inl (KeyError ''result'')"
    using account_exists_answered [of ?P "''b''" "''a''" "?w\<lparr>trace := [Slept 5]\<rparr>" bad_reply
        "[bad_reply, bad_reply, coin_reply 7]"]
      balance_account [of ?P "''b''" "''a''" "after_get (account_url ''b'' ''a'') bad_reply
        [bad_reply, bad_reply, coin_reply 7] (?w\<lparr>trace := [Slept 5]\<rparr>)" bad_reply "[bad_reply, coin_reply 7]" bad_reply
        "[coin_reply 7]"]
    by (simp add: print_balance_def bindP_def coin_value_def of_option_def)
  then obtain v where pb: "print_balance ?P ''b'' ''a'' (?w\<lparr>trace := [Slept 5]\<rparr>) = (Inl (KeyError ''result''), v)"
    by (metis prod.collapse)
  have "passes (watch_pass ?P ''b'' ''a'' 5) (map int [0..<0]) ?w = Some ?w" by simp
  from watching_stops_at_exception [OF this _ sl pb, of 10] show ?thesis by simp
qed

text \<open>
  C31: The FIDO2 file format is read back correctly for credential ids of exactly 57 bytes and for no other length.
\<close>

theorem fido2_credential_length:
  assumes "length fsalt = 32" and "length psalt = 16" and "length nonce = 12"
  shows "unpack_fido2 (pack_fido2 (cred, fsalt, psalt, nonce) ct) = ((cred, fsalt, psalt, nonce), ct)
    \<longleftrightarrow> length cred = 57"
  using unpack_other_length [OF _ assms] fido2_file.unpack_pack [of "(cred, fsalt, psalt, nonce)" ct] assms
  by (auto simp: fido_header_ok_def)

theorem fido2_credential_length_witness:
  "unpack_fido2 (pack_fido2 (script_credential_id, replicate 32 0, replicate 16 0, replicate 12 0) [5]) =
     ((script_credential_id, replicate 32 0, replicate 16 0, replicate 12 0), [5])
   \<and> unpack_fido2 (pack_fido2 (replicate 64 1, replicate 32 0, replicate 16 0, replicate 12 0) [5]) \<noteq>
     ((replicate 64 1, replicate 32 0, replicate 16 0, replicate 12 0), [5])"
  using fido2_credential_length [of "replicate 32 0" "replicate 16 0" "replicate 12 0" script_credential_id "[5]"]
    fido2_credential_length [of "replicate 32 0" "replicate 16 0" "replicate 12 0" "replicate 64 1" "[5]"]
  by (simp add: length_script_credential_id)

text \<open>
  C32: A transaction whose type arguments hold an object (as a TypeTag is) is turned into a dictionary without complaint, but simulating or submitting it raises TypeError before any request.
\<close>

theorem type_argument_objects_unsendable:
  assumes "authenticator_law S" and "isinstance sender C_AccountAddress" and "isinstance addr C_AccountAddress"
    and "isinstance pub C_PublicKey" and "isinstance sig C_Signature" and "vars_of chain = None"
    and "ty \<in> set tys" and "vars_of ty \<noteq> None"
  shows "\<exists>d. create_tx_dict S pub sig (VObj C_RawTransaction
      (raw_attrs sender (VInt n)
         (VTransactionPayload SCRIPT_FUNCTION (VObj C_EntryFunction (entry_function_attrs addr name f tys args)))
         (VInt gas) (VInt price) (VInt expiry) chain @ [(''prehash'', bound_prehash)])) = Inr d
    \<and> simulate_tx_json P b d w = (Inl TypeError, w) \<and> submit_tx_json P b d w = (Inl TypeError, w)"
proof -
  have obj: "\<not> json_able ty" using assms(8) by (cases ty) auto
  have "payload_to_dict S (VObj C_EntryFunction (entry_function_attrs addr name f tys args)) =
    Inr (VDict [(''module'', VDict [(''address'', VStr (obj_str S addr)), (''name'', VStr name)]),
                (''function'', VStr f), (''ty_args'', VList tys), (''args'', VList (map ints_of args))])"
    using assms(3) by (rule entry_function_dict)
  note d = create_tx_dict_run [OF raw_tx_dict [OF assms(2) payload_tag_simps(1) this assms(6)] assms(1,4,5)]
  have bad: "\<not> json_able d" if "d = VDict [(''Move'', VDict [(''raw_txn'', VDict [s0, s1, (p, VDict [(t, VDict
      [m, g, (k, VList tys), a])]), g1, g2, g3, g4]), au])]" for d s0 s1 p t m g k a g1 g2 g3 g4 au
    using that assms(7) obj by fastforce
  show ?thesis
    unfolding d simulate_tx_json_def submit_tx_json_def bindP_def
    by (simp add: post_json_unencodable bad del: json_able.simps)
qed

theorem type_argument_objects_unsendable_witness:
  "\<exists>d. create_tx_dict sample_sdk (sample_object C_PublicKey ''pk'') (sample_object C_Signature ''sg'')
     (VObj C_RawTransaction (raw_attrs (sample_object C_AccountAddress ''0xa'') (VInt 4)
         (VTransactionPayload SCRIPT_FUNCTION (VObj C_EntryFunction
            (entry_function_attrs (sample_object C_AccountAddress ''0x1'') ''coin'' ''transfer''
               [VObj (C_Other ''TypeTag'') [(''value'', VStr ''SupraCoin'')]] [])))
         (VInt 10) (VInt 100) (VInt 1300) (VInt 6) @ [(''prehash'', bound_prehash)])) = Inr d
    \<and> simulate_tx_json (sample_platform ''pw'') ''b'' d (sample_world []) = (Inl TypeError, sample_world [])
    \<and> submit_tx_json (sample_platform ''pw'') ''b'' d (sample_world []) = (Inl TypeError, sample_world [])"
  by (rule type_argument_objects_unsendable [OF sample_authenticator_law, where
      ty = "VObj (C_Other ''TypeTag'') [(''value'', VStr ''SupraCoin'')]"]) simp_all

text \<open>
  C33: A signer index above 31 raises ValueError, and a negative one overflows the four bytes of the bitmap and raises OverflowError: no wrong bitmap is produced.
\<close>

theorem multisignature_bad_signers:
  assumes "(i, s) \<in> set sigs"
  shows "(31 < i \<longrightarrow> multisig_to_crypto_bytes S sigs = Inl (ValueError ''negative shift count''))
    \<and> (i < 0 \<longrightarrow> (\<forall>(j, t) \<in> set sigs. j \<le> 31) \<longrightarrow> bitmap_num_of_bytes S = 4 \<longrightarrow>
         multisig_to_crypto_bytes S sigs = Inl OverflowError)"
  using multisig_to_crypto_bytes_large [OF assms] multisig_to_crypto_bytes_negative [OF _ assms] by blast

theorem multisignature_bad_signers_witness:
  "multisig_to_crypto_bytes sample_sdk [(32, VNone)] = Inl (ValueError ''negative shift count'')
   \<and> multisig_to_crypto_bytes sample_sdk [(- 1, VNone)] = Inl OverflowError"
  using multisignature_bad_signers [of 32 VNone "[(32, VNone)]" sample_sdk]
    multisignature_bad_signers [of "- 1" VNone "[(- 1, VNone)]" sample_sdk]
  by (simp add: sample_sdk_def)

text \<open>
  C34: Bytes with any other variant are rejected before their body is read, and a payload of any other class is rejected by the constructor.
\<close>

theorem payload_decode_errors:
  "(\<forall>S inp n r. des_uleb128 S inp = Inr (n, r) \<longrightarrow> n \<noteq> SCRIPT \<longrightarrow> n \<noteq> SCRIPT_FUNCTION \<longrightarrow> n \<noteq> MULTISIG \<longrightarrow>
      TransactionPayload_deserialize S inp = Inl (PlainException ''Invalid type''))
   \<and> (\<forall>v. \<not> isinstance v C_Script \<and> \<not> isinstance v C_EntryFunction \<and> \<not> is_Multisig v \<longrightarrow>
      TransactionPayload_init v = Inl (PlainException ''Invalid type''))"
  by (simp add: TransactionPayload_deserialize_def TransactionPayload_init_def)

theorem payload_decode_errors_witness:
  "TransactionPayload_deserialize sample_sdk [1, 5] = Inl (PlainException ''Invalid type'')
   \<and> TransactionPayload_init (VStr ''x'') = Inl (PlainException ''Invalid type'')"
proof -
  have "des_uleb128 sample_sdk [1, 5] = Inr (1, [5])" by (simp add: sample_sdk_def)
  then show ?thesis
    using payload_decode_errors
    by (simp add: SCRIPT_def SCRIPT_FUNCTION_def MULTISIG_def isinstance_def is_Multisig_def)
qed

text \<open>
  C35: The variant tag of a multisig payload is not checked: bytes with any tag decode to the entry function, and are encoded again with tag 0.
\<close>

theorem multisig_tag_not_canonical:
  assumes "bcs_laws S" and "isinstance ef C_EntryFunction"
    and "ser_uleb128 S n = Inr tag" and "ser_object S ef = Inr body"
  shows "MultiSigTransactionPayload_deserialize S (tag @ body @ rest) = Inr (VMultiSigTransactionPayload ef, rest)
    \<and> MultiSigTransactionPayload_serialize S (VMultiSigTransactionPayload ef) =
        bindR (ser_uleb128 S 0) (\<lambda>zero. Inr (zero @ body))"
  using assms
  by (simp add: MultiSigTransactionPayload_deserialize_def MultiSigTransactionPayload_serialize_def bcs_lawsD)

theorem multisig_tag_not_canonical_witness:
  "MultiSigTransactionPayload_deserialize sample_sdk [7, 1, 102] =
     Inr (VMultiSigTransactionPayload (sample_object C_EntryFunction ''f''), [])
   \<and> MultiSigTransactionPayload_serialize sample_sdk
       (VMultiSigTransactionPayload (sample_object C_EntryFunction ''f'')) = Inr [0, 1, 102]"
proof -
  have ef: "isinstance (sample_object C_EntryFunction ''f'') C_EntryFunction" by (simp add: sample_object_def)
  have tag: "ser_uleb128 sample_sdk 7 = Inr [7]" "ser_uleb128 sample_sdk 0 = Inr [0]" by (simp_all add: sample_sdk_def)
  have body: "ser_object sample_sdk (sample_object C_EntryFunction ''f'') = Inr [1, 102]" by code_simp
  show ?thesis
    using multisig_tag_not_canonical [OF sample_bcs ef tag(1) body, of "[]"] tag(2) by simp
qed

text \<open>
  C36: How __eq__ compares two payloads that were decoded one after the other: scripts and entry functions by variant and contents, multisig payloads never as equal, not even when decoded from the same bytes, since Multisig defines no __eq__ and the decoder makes a new object each time. A decoded multisig payload equals itself, and another type is answered with NotImplemented.
\<close>

theorem decoded_payloads_compared:
  assumes "deserialize_object S inp H = Inr (p, rest, H1)" and "deserialize_object S inp' H1 = Inr (q, rest', H2)"
  shows "\<exists>u v. TransactionPayload_deserialize S inp = Inr (VTransactionPayload (variant_of p) u, rest)
    \<and> TransactionPayload_deserialize S inp' = Inr (VTransactionPayload (variant_of q) v, rest')
    \<and> TransactionPayload_eq S H2 p (Some q) =
        Some (variant_of p = variant_of q \<and> variant_of p \<noteq> MULTISIG \<and> obj_eq S u v)
    \<and> TransactionPayload_eq S H2 p (Some p) = Some (variant_of p = MULTISIG \<or> obj_eq S u u)
    \<and> TransactionPayload_eq S H2 p None = None"
  using assms
proof (rule deserialize_twice)
  fix u v
  assume u: "TransactionPayload_deserialize S inp = Inr (VTransactionPayload (variant_of p) u, rest)"
    and v: "TransactionPayload_deserialize S inp' = Inr (VTransactionPayload (variant_of q) v, rest')"
    and at: "object_at H2 (value_ref p) = Some u" "object_at H2 (value_ref q) = Some v"
    and ne: "value_ref p \<noteq> value_ref q"
  then show ?thesis
    by (intro exI [of _ u] exI [of _ v])
      (auto simp: TransactionPayload_eq_def value_eq_def decoded_Multisig [OF u] decoded_Multisig [OF v])
qed

theorem decoded_payloads_compared_witness:
  "\<exists>p q H1 H2. deserialize_object sample_sdk [3, 3, 48, 120, 97, 1, 0, 1, 102] \<lparr>next_ref = 0, object_at = Map.empty\<rparr> =
       Inr (p, [], H1)
   \<and> deserialize_object sample_sdk [3, 3, 48, 120, 97, 1, 0, 1, 102] H1 = Inr (q, [], H2)
   \<and> object_at H2 (value_ref p) = Some sample_multisig \<and> object_at H2 (value_ref q) = Some sample_multisig
   \<and> TransactionPayload_eq sample_sdk H2 p (Some q) = Some False
   \<and> TransactionPayload_eq sample_sdk H2 p (Some p) = Some True"
proof -
  let ?H = "\<lparr>next_ref = 0, object_at = Map.empty\<rparr> :: objects" and ?bs = "[3, 3, 48, 120, 97, 1, 0, 1, 102] :: bytes"
  have des: "TransactionPayload_deserialize sample_sdk ?bs = Inr (VTransactionPayload 3 sample_multisig, [])"
    using tx_payload.dec_enc_all [OF conjI [OF sample_bcs sample_payload_ok] sample_multisig_ser] .
  obtain p H1 where p: "deserialize_object sample_sdk ?bs ?H = Inr (p, [], H1)"
    using des by (simp add: deserialize_object_def new_object_def)
  obtain q H2 where q: "deserialize_object sample_sdk ?bs H1 = Inr (q, [], H2)"
    using des by (simp add: deserialize_object_def new_object_def)
  have "variant_of p = 3" "object_at H2 (value_ref p) = Some sample_multisig" "object_at H2 (value_ref q) = Some sample_multisig"
    using p q des by (auto simp: deserialize_object_Inr)
  with p q decoded_payloads_compared [OF p q] show ?thesis by (auto simp: MULTISIG_def)
qed

text \<open>
  C37: An account response that is not JSON makes account_exists answer that the account exists, so a transfer to it is given the gas limit 10 of an existing account. The balance then depends on the coin-store response: KeyError if that is not JSON either, otherwise what it gives.
\<close>

theorem undecodable_account_exists:
  assumes "http_get P (account_url b a) (env w) = (Inr resp, s)" and "reply_json resp = None"
  shows "account_exists P b a w = (Inr True, after_get (account_url b a) resp s w)
    \<and> (\<forall>amount ef max_gas w'. create_transfer_supra_entry_func S P b a amount w = (Inr (ef, max_gas), w') \<longrightarrow> max_gas = 10)
    \<and> (\<forall>r2 s2. http_get P (resource_url b a coin_store_type) s = (Inr r2, s2) \<longrightarrow>
         fst (get_account_supra_coin_balance P b a w) =
           (if reply_json r2 = None then Inl (KeyError ''result'')
            else bindR (get_key (decoded r2) ''result'') (\<lambda>l. bindR (get_idx l 0)
                   (\<lambda>r. bindR (get_path r [''coin'', ''value'']) py_int))))"
proof -
  have ex: "account_exists P b a w = (Inr True, after_get (account_url b a) resp s w)"
    using account_exists_answered [OF assms(1)] assms(2) by (simp add: decoded_def)
  show ?thesis
    using ex balance_account [OF assms(1)] assms(2)
    by (auto simp: create_transfer_supra_entry_func_def bindP_Inr ret_def decoded_def coin_value_def of_option_def
        simp del: get_path.simps)
qed

theorem undecodable_account_exists_witness:
  "fst (account_exists (sample_platform ''pw'') ''b'' ''a'' (sample_world [bad_reply, bad_reply])) = Inr True
   \<and> fst (get_account_supra_coin_balance (sample_platform ''pw'') ''b'' ''a'' (sample_world [bad_reply, bad_reply]))
     = Inl (KeyError ''result'')
   \<and> fst (get_account_supra_coin_balance (sample_platform ''pw'') ''b'' ''a'' (sample_world [bad_reply, coin_reply 7]))
     = Inr 7"
  using undecodable_account_exists [of "sample_platform ''pw''" "''b''" "''a''" "sample_world [bad_reply, bad_reply]"
      bad_reply "[bad_reply]"]
    undecodable_account_exists [of "sample_platform ''pw''" "''b''" "''a''" "sample_world [bad_reply, coin_reply 7]"
      bad_reply "[coin_reply 7]"]
  by (simp add: coin_reply_def of_option_def int_of_str_of_int)

text \<open>
  C38: When their modules are imported, both functions read a name that is not bound. get_multisig_tx_sequence_from_tx_hash always raises NameError. store_mnemonic_fido2 never returns normally and changes no file, whatever credential id it is passed; it raises NameError when the path is new and a device is present.
\<close>

theorem names_unbound_on_import:
  "(\<forall>r w'. store_mnemonic_fido2 (fido2_globals False) C F P m path crediential_id w = (r, w') \<longrightarrow>
       (\<exists>e. r = Inl e) \<and> files w' = files w)
   \<and> (\<forall>dev devs s. files w path = None \<longrightarrow> list_devices F (env w) = (Inr (dev # devs), s) \<longrightarrow>
       store_mnemonic_fido2 (fido2_globals False) C F P m path crediential_id w =
         (Inl (NameError ''credential_id''), w\<lparr>env := s, trace := trace w @ [Used_device ''list_devices'']\<rparr>))
   \<and> get_multisig_tx_sequence_from_tx_hash (propose_globals False) Q h w = (Inl (NameError ''base_url''), w)"
proof -
  have G: "fido2_globals False ''credential_id'' = None" by (simp add: fido2_globals_def)
  show ?thesis
  proof (intro conjI allI impI)
    fix r w' assume run: "store_mnemonic_fido2 (fido2_globals False) C F P m path crediential_id w = (r, w')"
    show "\<exists>e. r = Inl e" by (rule fido2_unbound_fails [OF G run])
    show "files w' = files w" using keepsD [OF fido2_unbound_files [where G = "fido2_globals False", OF G] run] by (simp add: files_kept_def)
  qed (rule fido2_store_unbound [where G = "fido2_globals False", OF G], assumption+, rule sequence_unbound)
qed

theorem names_unbound_on_import_witness:
  "fst (store_mnemonic_fido2 (fido2_globals False) sample_crypto sample_fido (sample_platform ''pw'') ''word'' ''f''
       script_credential_id (sample_world [])) = Inl (NameError ''credential_id'')
   \<and> files (snd (store_mnemonic_fido2 (fido2_globals False) sample_crypto sample_fido (sample_platform ''pw'') ''word'' ''f''
       script_credential_id sample_stored)) = files sample_stored
   \<and> fst (get_multisig_tx_sequence_from_tx_hash (propose_globals False) (sample_platform ''pw'') ''h'' (sample_world [event_reply
       [create_event 7]])) = Inl (NameError ''base_url'')"
proof -
  let ?P = "sample_platform ''pw'' :: reply list platform" and ?F = "sample_fido :: reply list fido"
  note unbound = names_unbound_on_import [of sample_crypto ?F ?P "''word''" "''f''" script_credential_id _ ?P "''h''"]
  obtain r w' where run: "store_mnemonic_fido2 (fido2_globals False) sample_crypto ?F ?P ''word'' ''f''
      script_credential_id sample_stored = (r, w')"
    by fastforce
  have "files w' = files sample_stored"
    using unbound [THEN conjunct1, rule_format, OF run] by blast
  moreover have "list_devices ?F (env (sample_world [])) = (Inr (''key'' # []), [])" "files (sample_world []) ''f'' = None"
    by (simp_all add: sample_fido_def)
  ultimately show ?thesis
    using unbound [THEN conjunct2, THEN conjunct1, rule_format] unbound [THEN conjunct2, THEN conjunct2] run by simp
qed

text \<open>
  C39: The scripts that create, encrypt and print mnemonics and private keys make no network request.
\<close>

theorem mnemonics_stay_offline:
  assumes "keeps (emits offline) new"
  shows "keeps (emits offline) (gen_mnemonic_main C P new) \<and> keeps (emits offline) (gen_mnemonic_fido2_main C F P new)
    \<and> keeps (emits offline) (encrypt_mnemonic_main C P) \<and> keeps (emits offline) (derive_keys_main C P)"
  using offline_scripts assms by blast

theorem mnemonics_stay_offline_witness:
  "keeps (emits offline) (gen_mnemonic_main sample_crypto (sample_platform ''pw'') (ret ''word''))
   \<and> keeps (emits offline) (gen_mnemonic_fido2_main sample_crypto sample_fido (sample_platform ''pw'') (ret ''word''))
   \<and> keeps (emits offline) (encrypt_mnemonic_main sample_crypto (sample_platform ''pw''))
   \<and> keeps (emits offline) (derive_keys_main sample_crypto (sample_platform ''pw''))"
  by (rule mnemonics_stay_offline) (rule emitting.keeps_ret)



end
